(* ===== verification/Bacnet_Prelude.thy ===== *)
theory Bacnet_Prelude
  imports Main "HOL-Library.Word"
begin

text \<open>
  The vocabulary every other theory shares: octets, the Python exceptions the modelled code
  raises or catches, results that carry an exception or a value, and the parts of Python's
  \<^verbatim>\<open>bytes\<close>, \<^verbatim>\<open>int.to_bytes\<close>, \<^verbatim>\<open>int.from_bytes\<close> and \<^verbatim>\<open>struct\<close> that the repository uses.

  A Python integer is an \<^typ>\<open>int\<close> and never overflows. A position in an octet string is a
  \<^typ>\<open>nat\<close>: every position of the modelled code starts at a literal and only grows. An octet
  is an \<^typ>\<open>8 word\<close>, so that \<^verbatim>\<open>bytes([x])\<close> has to check its argument's range, as Python does.
\<close>

unbundle bit_operations_syntax

named_theorems octet_simps \<open>big-endian encoding and octet ranges\<close>
named_theorems result_simps \<open>results: sequencing, success and failure\<close>

section \<open>Exceptions and results\<close>

datatype py_exc =
    IndexError
  | KeyError
  | TypeError
  | ValueError
  | OverflowError
  | StructError
  | UnicodeEncodeError
  | OSError

type_synonym octet = "8 word"
type_synonym octets = "octet list"
type_synonym 'a result = "py_exc + 'a"

text \<open>
  \<^verbatim>\<open>chain m f\<close> runs \<open>m\<close> and then \<open>f\<close> on its value; an exception of \<open>m\<close> skips \<open>f\<close>.
\<close>

definition chain :: "'a result \<Rightarrow> ('a \<Rightarrow> 'b result) \<Rightarrow> 'b result" where
  "chain m f = (case m of Inl e \<Rightarrow> Inl e | Inr x \<Rightarrow> f x)"

lemma chain_Inl [simp, result_simps]: "chain (Inl e) f = Inl e"
  by (simp add: chain_def)

lemma chain_Inr [simp, result_simps]: "chain (Inr x) f = f x"
  by (simp add: chain_def)

lemma chain_cong [fundef_cong]:
  "m = m' \<Longrightarrow> (\<And>x. m' = Inr x \<Longrightarrow> f x = f' x) \<Longrightarrow> chain m f = chain m' f'"
  by (auto simp: chain_def split: sum.splits)

lemma chain_assoc [result_simps]: "chain (chain m f) g = chain m (\<lambda>x. chain (f x) g)"
  by (auto simp: chain_def split: sum.splits)

lemma chain_eq_Inr [result_simps]: "chain m f = Inr y \<longleftrightarrow> (\<exists>x. m = Inr x \<and> f x = Inr y)"
  by (auto simp: chain_def split: sum.splits)

lemma chain_eq_Inl [result_simps]:
  "chain m f = Inl e \<longleftrightarrow> m = Inl e \<or> (\<exists>x. m = Inr x \<and> f x = Inl e)"
  by (auto simp: chain_def split: sum.splits)

text \<open>
  \<^verbatim>\<open>cat [a, b, c]\<close> is the Python expression \<^verbatim>\<open>a + b + c\<close> of octet strings: the operands are
  evaluated from left to right and the first exception ends the evaluation.
\<close>

fun cat :: "octets result list \<Rightarrow> octets result" where
  "cat [] = Inr []"
| "cat (m # ms) = chain m (\<lambda>x. chain (cat ms) (\<lambda>y. Inr (x @ y)))"

lemma cat_eq_Inr:
  "cat ms = Inr y \<longleftrightarrow> (\<exists>xs. ms = map Inr xs \<and> y = concat xs)"
proof (induction ms arbitrary: y)
  case Nil
  then show ?case by auto
next
  case (Cons m ms)
  then show ?case
    by (cases m) (auto simp: result_simps Cons_eq_map_conv)
qed

lemma cat_append: "cat (ms @ ns) = chain (cat ms) (\<lambda>x. chain (cat ns) (\<lambda>y. Inr (x @ y)))"
  by (induction ms) (auto simp: result_simps chain_def split: sum.splits)

text \<open>Evaluating a list of fallible expressions in order, as a comprehension does.\<close>

fun collect :: "('a \<Rightarrow> 'b result) \<Rightarrow> 'a list \<Rightarrow> 'b list result" where
  "collect f [] = Inr []"
| "collect f (x # xs) = chain (f x) (\<lambda>y. chain (collect f xs) (\<lambda>ys. Inr (y # ys)))"

lemma collect_cong [fundef_cong]:
  "xs = ys \<Longrightarrow> (\<And>x. x \<in> set ys \<Longrightarrow> f x = g x) \<Longrightarrow> collect f xs = collect g ys"
  by (induction xs arbitrary: ys) auto

lemma collect_Inr: "(\<And>x. x \<in> set xs \<Longrightarrow> f x = Inr (g x)) \<Longrightarrow> collect f xs = Inr (map g xs)"
  by (induction xs) auto

lemma cat_map: "cat (map f xs) = chain (collect f xs) (\<lambda>ys. Inr (concat ys))"
  by (induction xs) (auto simp: chain_def split: sum.splits)

definition is_ok :: "'a result \<Rightarrow> bool" where
  "is_ok m = (case m of Inl _ \<Rightarrow> False | Inr _ \<Rightarrow> True)"

lemma is_ok_simps [simp]: "is_ok (Inr x)" "\<not> is_ok (Inl e)"
  by (simp_all add: is_ok_def)

lemma is_ok_iff: "is_ok m \<longleftrightarrow> (\<exists>x. m = Inr x)"
  by (auto simp: is_ok_def split: sum.splits)

section \<open>Octets\<close>

text \<open>
  The octet of a number, as an opaque constant: the simplifier would push \<^const>\<open>word_of_int\<close> into
  the sums an encoder builds, and lose the range they were checked for.
\<close>

definition oct :: "int \<Rightarrow> octet" where
  "oct x = word_of_int x"

definition octn :: "nat \<Rightarrow> octet" where
  "octn n = of_nat n"

lemma uint_oct [octet_simps]: "0 \<le> x \<Longrightarrow> x < 256 \<Longrightarrow> uint (oct x) = x"
  by (simp add: oct_def uint_word_of_int)

lemma uint_oct_mod: "uint (oct x) = x mod 256"
  by (simp add: oct_def uint_word_of_int)

lemma oct_uint [simp]: "oct (uint b) = b"
  by (simp add: oct_def)

lemma oct_high [simp]: "oct (a * 256 + uint b) = b"
proof -
  have "(256 :: octet) = 0" by simp
  then show ?thesis
    by (simp only: oct_def of_int_add of_int_mult of_int_numeral mult_zero_right word_of_int_uint add_0)
qed

lemma unat_octn: "n < 256 \<Longrightarrow> unat (octn n) = n"
  by (simp add: octn_def unat_of_nat)

text \<open>\<^verbatim>\<open>bytes([x])\<close> raises ValueError outside 0..255.\<close>

definition byte :: "int \<Rightarrow> octets result" where
  "byte x = (if 0 \<le> x \<and> x < 256 then Inr [oct x] else Inl ValueError)"

definition bytes_of :: "int list \<Rightarrow> octets result" where
  "bytes_of xs = cat (map byte xs)"

lemma byte_ok [octet_simps]: "0 \<le> x \<Longrightarrow> x < 256 \<Longrightarrow> byte x = Inr [oct x]"
  by (simp add: byte_def)

lemma byte_eq_Inr: "byte x = Inr y \<longleftrightarrow> 0 \<le> x \<and> x < 256 \<and> y = [oct x]"
  by (auto simp: byte_def)

lemma octet_range [octet_simps]: "0 \<le> uint (w :: octet)" "uint (w :: octet) < 256"
  using uint_lt2p [of w] by simp_all

lemma bytes_of_simps [simp]:
  "bytes_of [] = Inr []"
  "bytes_of (x # xs) = chain (byte x) (\<lambda>a. chain (bytes_of xs) (\<lambda>b. Inr (a @ b)))"
  by (simp_all add: bytes_of_def)

subsection \<open>Reading: indexing and slicing\<close>

text \<open>\<^verbatim>\<open>data[i]\<close> is the octet's value, or IndexError past the end.\<close>

definition index :: "octets \<Rightarrow> nat \<Rightarrow> int result" where
  "index data i = (if i < length data then Inr (uint (data ! i)) else Inl IndexError)"

text \<open>\<^verbatim>\<open>data[a:b]\<close> never raises: it is cut at the end of the data.\<close>

definition slice :: "octets \<Rightarrow> nat \<Rightarrow> nat \<Rightarrow> octets" where
  "slice data a b = take (b - a) (drop a data)"

lemma index_eq_Inr: "index data i = Inr x \<longleftrightarrow> i < length data \<and> x = uint (data ! i)"
  by (auto simp: index_def)

lemma index_eq_Inl: "index data i = Inl e \<longleftrightarrow> length data \<le> i \<and> e = IndexError"
  by (auto simp: index_def)

lemma length_slice: "length (slice data a b) = min (b - a) (length data - a)"
  by (simp add: slice_def)

lemma index_append [octet_simps]: "index (xs @ y # ys) (length xs) = Inr (uint y)"
  by (simp add: index_def)

lemma slice_append [octet_simps]:
  "slice (xs @ ys @ zs) (length xs) (length xs + length ys) = ys"
  by (simp add: slice_def)

subsection \<open>Big-endian integers\<close>

text \<open>The octets of \<open>v\<close>, most significant first, in exactly \<open>n\<close> octets.\<close>

fun be_bytes :: "nat \<Rightarrow> int \<Rightarrow> octets" where
  "be_bytes 0 v = []"
| "be_bytes (Suc n) v = be_bytes n (v div 256) @ [oct v]"

text \<open>\<^verbatim>\<open>int.from_bytes(body, "big")\<close> and its signed form.\<close>

definition from_bytes :: "octets \<Rightarrow> int" where
  "from_bytes bs = foldl (\<lambda>a b. a * 256 + uint b) 0 bs"

definition from_bytes_signed :: "octets \<Rightarrow> int" where
  "from_bytes_signed bs =
     (let v = from_bytes bs; m = 256 ^ length bs
      in if bs \<noteq> [] \<and> m \<le> 2 * v then v - m else v)"

lemma length_be_bytes [simp]: "length (be_bytes n v) = n"
  by (induction n v rule: be_bytes.induct) auto

lemma from_bytes_simps [simp]: "from_bytes [] = 0" "from_bytes (xs @ [b]) = from_bytes xs * 256 + uint b"
  by (simp_all add: from_bytes_def)

lemma from_bytes_foldl: "foldl (\<lambda>a b. a * 256 + uint b) c bs = c * 256 ^ length bs + from_bytes bs"
proof (induction bs rule: rev_induct)
  case Nil
  then show ?case by simp
next
  case (snoc b bs)
  then show ?case by (simp add: algebra_simps)
qed

lemma from_bytes_Cons: "from_bytes (b # bs) = uint b * 256 ^ length bs + from_bytes bs"
  using from_bytes_foldl [of "uint b" bs] by (simp add: from_bytes_def)

lemma from_bytes_bounds: "0 \<le> from_bytes bs" "from_bytes bs < 256 ^ length bs"
proof (induction bs rule: rev_induct)
  case Nil
  { case 1 then show ?case by simp }
  { case 2 then show ?case by simp }
next
  case (snoc b bs)
  { case 1 with snoc.IH(1) octet_range(1) [of b] show ?case by simp }
  { case 2
    have "from_bytes bs + 1 \<le> 256 ^ length bs" using snoc.IH(2) by simp
    then have "(from_bytes bs + 1) * 256 \<le> 256 ^ length bs * 256" by (rule mult_right_mono) simp
    with octet_range(2) [of b] show ?case by (simp add: algebra_simps) }
qed

lemma from_be_bytes: "0 \<le> v \<Longrightarrow> v < 256 ^ n \<Longrightarrow> from_bytes (be_bytes n v) = v"
proof (induction n v rule: be_bytes.induct)
  case (1 v)
  then show ?case by simp
next
  case (2 n v)
  then have "from_bytes (be_bytes n (v div 256)) = v div 256" by simp
  then show ?case by (simp add: uint_oct_mod)
qed

lemma be_bytes_from_bytes: "be_bytes (length bs) (from_bytes bs) = bs"
proof (induction bs rule: rev_induct)
  case Nil
  then show ?case by simp
next
  case (snoc b bs)
  have "(from_bytes bs * 256 + uint b) div 256 = from_bytes bs"
    using octet_range [of b] by simp
  then show ?case using snoc by simp
qed

text \<open>
  \<^verbatim>\<open>int.to_bytes(n, "big")\<close> raises OverflowError for a value that does not fit;
  \<^verbatim>\<open>struct.pack\<close> of the codes B, H and I raises \<^verbatim>\<open>struct.error\<close> instead, and
  \<^verbatim>\<open>struct.unpack\<close> of H and I wants exactly two or four octets.
\<close>

definition to_bytes :: "int \<Rightarrow> nat \<Rightarrow> octets result" where
  "to_bytes v n = (if 0 \<le> v \<and> v < 256 ^ n then Inr (be_bytes n v) else Inl OverflowError)"

definition to_bytes_signed :: "int \<Rightarrow> nat \<Rightarrow> octets result" where
  "to_bytes_signed v n =
     (if - (256 ^ n) \<le> 2 * v \<and> 2 * v < 256 ^ n then Inr (be_bytes n (v mod 256 ^ n))
      else Inl OverflowError)"

definition pack_u :: "nat \<Rightarrow> int \<Rightarrow> octets result" where
  "pack_u n v = (if 0 \<le> v \<and> v < 256 ^ n then Inr (be_bytes n v) else Inl StructError)"

definition unpack_u :: "nat \<Rightarrow> octets \<Rightarrow> int result" where
  "unpack_u n bs = (if length bs = n then Inr (from_bytes bs) else Inl StructError)"

lemma pack_u_eq_Inr: "pack_u n v = Inr y \<longleftrightarrow> 0 \<le> v \<and> v < 256 ^ n \<and> y = be_bytes n v"
  by (auto simp: pack_u_def)

lemma unpack_pack: "pack_u n v = Inr y \<Longrightarrow> unpack_u n y = Inr v"
  by (auto simp: pack_u_eq_Inr unpack_u_def from_be_bytes)

lemma unpack_u_be_bytes [octet_simps]:
  "0 \<le> v \<Longrightarrow> v < 256 ^ n \<Longrightarrow> unpack_u n (be_bytes n v) = Inr v"
  by (simp add: unpack_u_def from_be_bytes)

lemma from_bytes_signed_be_bytes:
  assumes "0 < n" "- (256 ^ n) \<le> 2 * v" "2 * v < 256 ^ n"
  shows "from_bytes_signed (be_bytes n (v mod 256 ^ n)) = v"
proof -
  let ?m = "256 ^ n :: int"
  have v: "from_bytes (be_bytes n (v mod ?m)) = v mod ?m"
    by (rule from_be_bytes) simp_all
  have ne: "be_bytes n (v mod ?m) \<noteq> []" using assms(1) by (metis length_be_bytes less_numeral_extra(3) list.size(3))
  show ?thesis
  proof (cases "0 \<le> v")
    case True
    with assms have "v mod ?m = v" by simp
    with assms True v show ?thesis by (simp add: from_bytes_signed_def)
  next
    case False
    with assms have "(v + ?m) mod ?m = v + ?m" by (intro mod_pos_pos_trivial) linarith+
    then have "v mod ?m = v + ?m" by simp
    with assms False v ne show ?thesis by (simp add: from_bytes_signed_def Let_def)
  qed
qed

section \<open>Bit fields of an octet\<close>

text \<open>
  The codec assembles an octet as \<^verbatim>\<open>(tag << 4) | 0x08 | length\<close> and takes it apart with shifts
  and masks. These equations turn both into arithmetic.
\<close>

lemma or_low_field:
  assumes "0 \<le> l" "l < 2 ^ k"
  shows "push_bit k (t::int) OR l = t * 2 ^ k + l"
proof -
  have "push_bit k t AND l = 0"
  proof (rule bit_eqI)
    fix n
    have "bit l n \<Longrightarrow> n < k"
      using assms by (metis bit_take_bit_iff take_bit_int_eq_self)
    then show "bit (push_bit k t AND l) n \<longleftrightarrow> bit (0 :: int) n"
      by (auto simp: bit_simps)
  qed
  then have "push_bit k t + l = push_bit k t OR l" by (rule disjunctive_add_eq_or)
  then show ?thesis by (simp add: push_bit_eq_mult mult.commute)
qed

end
