(* ===== verification/Py_Text.thy ===== *)
theory Py_Text
  imports Bacnet_Prelude
begin

text \<open>
  Python's \<^verbatim>\<open>str\<close>: a list of code points. The repository uses \<^verbatim>\<open>text.encode("utf-8")\<close>, which
  raises UnicodeEncodeError for a lone surrogate (what an undecodable command-line byte
  becomes), and \<^verbatim>\<open>body.decode("utf-8", errors="replace")\<close>, which never raises: each maximal
  ill-formed prefix becomes one U+FFFD. Also here: the ASCII literals of the source as code
  points, \<^verbatim>\<open>str.isdigit\<close> on ASCII text and \<^verbatim>\<open>int\<close> of a decimal token.
\<close>

type_synonym pystr = "nat list"

definition lit :: "string \<Rightarrow> pystr" where
  "lit s = map of_char s"

section \<open>Encoding\<close>

definition code_point :: "nat \<Rightarrow> bool" where
  "code_point c \<longleftrightarrow> c < 0x110000"

definition surrogate :: "nat \<Rightarrow> bool" where
  "surrogate c \<longleftrightarrow> 0xD800 \<le> c \<and> c < 0xE000"

definition utf8_char :: "nat \<Rightarrow> octets result" where
  "utf8_char c =
     (if surrogate c then Inl UnicodeEncodeError
      else if c < 0x80 then Inr [octn c]
      else if c < 0x800 then Inr [octn (0xC0 + c div 64), octn (0x80 + c mod 64)]
      else if c < 0x10000 then
        Inr [octn (0xE0 + c div 4096), octn (0x80 + c div 64 mod 64), octn (0x80 + c mod 64)]
      else if code_point c then
        Inr [octn (0xF0 + c div 262144), octn (0x80 + c div 4096 mod 64),
             octn (0x80 + c div 64 mod 64), octn (0x80 + c mod 64)]
      else Inl UnicodeEncodeError)"

definition utf8_encode :: "pystr \<Rightarrow> octets result" where
  "utf8_encode s = cat (map utf8_char s)"

lemma utf8_encode_simps [simp]:
  "utf8_encode [] = Inr []"
  "utf8_encode (c # cs) = chain (utf8_char c) (\<lambda>x. chain (utf8_encode cs) (\<lambda>y. Inr (x @ y)))"
  by (simp_all add: utf8_encode_def)

section \<open>Decoding with replacement\<close>

text \<open>
  A lead octet gives the value bits it carries, the number of continuation octets and the
  range of the first of them; any other octet stands for U+FFFD by itself.
\<close>

definition utf8_lead :: "nat \<Rightarrow> nat \<times> nat \<times> nat \<times> nat" where
  "utf8_lead b =
     (if b < 0x80 then (b, 0, 0, 0)
      else if b < 0xC2 then (0xFFFD, 0, 0, 0)
      else if b < 0xE0 then (b - 0xC0, 1, 0x80, 0xBF)
      else if b < 0xF0 then
        (b - 0xE0, 2, (if b = 0xE0 then 0xA0 else 0x80), (if b = 0xED then 0x9F else 0xBF))
      else if b < 0xF5 then
        (b - 0xF0, 3, (if b = 0xF0 then 0x90 else 0x80), (if b = 0xF4 then 0x8F else 0xBF))
      else (0xFFFD, 0, 0, 0))"

fun utf8_continue :: "nat \<Rightarrow> nat \<Rightarrow> nat \<Rightarrow> nat \<Rightarrow> octets \<Rightarrow> nat \<times> octets" where
  "utf8_continue acc 0 lo hi bs = (acc, bs)"
| "utf8_continue acc (Suc n) lo hi [] = (0xFFFD, [])"
| "utf8_continue acc (Suc n) lo hi (b # bs) =
     (if lo \<le> unat b \<and> unat b \<le> hi then utf8_continue (acc * 64 + unat b mod 64) n 0x80 0xBF bs
      else (0xFFFD, b # bs))"

lemma utf8_continue_length: "length (snd (utf8_continue acc n lo hi bs)) \<le> length bs"
  by (induction acc n lo hi bs rule: utf8_continue.induct) auto

function utf8_decode :: "octets \<Rightarrow> pystr" where
  "utf8_decode [] = []"
| "utf8_decode (b # bs) =
     (case utf8_lead (unat b) of (acc, n, lo, hi) \<Rightarrow>
        fst (utf8_continue acc n lo hi bs) # utf8_decode (snd (utf8_continue acc n lo hi bs)))"
  by pat_completeness auto
termination
  by (relation "measure length") (auto simp: le_imp_less_Suc utf8_continue_length)

text \<open>A code point from its base-64 digits, as the decoder accumulates them.\<close>

lemma sextets:
  fixes c :: nat
  shows "c div 64 * 64 + c mod 64 = c"
    "c div 4096 * 64 + c div 64 mod 64 = c div 64"
    "c div 262144 * 64 + c div 4096 mod 64 = c div 4096"
proof -
  have d: "c div 4096 = c div 64 div 64" "c div 262144 = c div 4096 div 64"
    by (simp_all add: div_mult2_eq [symmetric])
  show "c div 64 * 64 + c mod 64 = c" by simp
  show "c div 4096 * 64 + c div 64 mod 64 = c div 64" unfolding d(1) by simp
  show "c div 262144 * 64 + c div 4096 mod 64 = c div 4096" unfolding d(2) by simp
qed

lemma low_sextet: "d < 64 \<Longrightarrow> (128 + d) mod 64 = (d :: nat)"
proof -
  assume "d < 64"
  moreover have "(128 + d) mod 64 = (128 mod 64 + d) mod 64" by (simp only: mod_add_left_eq)
  ultimately show ?thesis by simp
qed

lemma continuation_octet [simp]:
  fixes d :: nat
  shows "(128 + d mod 64) mod 64 = d mod 64" "d mod 64 \<le> 63"
proof -
  have "(128 + d mod 64) mod 64 = (128 mod 64 + d mod 64) mod 64" by (simp only: mod_add_eq mod_add_left_eq)
  then show "(128 + d mod 64) mod 64 = d mod 64" by simp
  have "d mod 64 < 64" by simp
  then show "d mod 64 \<le> 63" by linarith
qed

lemma utf8_decode_char:
  assumes "utf8_char c = Inr x"
  shows "utf8_decode (x @ rest) = c # utf8_decode rest"
proof -
  have s: "\<not> surrogate c" and cp: "code_point c"
    using assms by (auto simp: utf8_char_def code_point_def split: if_splits)
  consider "c < 0x80" | "0x80 \<le> c" "c < 0x800" | "0x800 \<le> c" "c < 0x10000" | "0x10000 \<le> c"
    by linarith
  then show ?thesis
  proof cases
    case 1
    with assms s have "x = [octn c]" by (simp add: utf8_char_def)
    with 1 show ?thesis by (simp add: unat_octn utf8_lead_def)
  next
    case 2
    have "c div 64 < 32" "2 \<le> c div 64" using 2 by linarith+
    with assms s 2 show ?thesis
      by (auto simp: utf8_char_def unat_octn utf8_lead_def)
  next
    case 3
    define a b d where abd: "a = c div 4096" "b = c div 64 mod 64" "d = c mod 64"
    note six = sextets [of c, folded abd]
    have r: "a < 16" "b < 64" "d < 64" using 3 by (auto simp: abd less_mult_imp_div_less)
    have lo: "a = 0 \<Longrightarrow> 32 \<le> b" using 3 six r by linarith
    have hi: "a = 13 \<Longrightarrow> b \<le> 31" using s six r unfolding surrogate_def by linarith
    have x: "x = [octn (0xE0 + a), octn (0x80 + b), octn (0x80 + d)]"
      using assms s 3 by (simp add: utf8_char_def abd)
    have "(a * 64 + b) * 64 + d = c" using six by simp
    then show ?thesis using r lo hi unfolding x by (simp add: unat_octn utf8_lead_def numeral_2_eq_2 low_sextet)
  next
    case 4
    define a b d e where abde: "a = c div 262144" "b = c div 4096 mod 64" "d = c div 64 mod 64" "e = c mod 64"
    note six = sextets [of c, folded abde]
    have r: "a < 5" "b < 64" "d < 64" "e < 64" using cp by (auto simp: abde code_point_def)
    have lo: "a = 0 \<Longrightarrow> 16 \<le> b" using 4 six r by linarith
    have hi: "a = 4 \<Longrightarrow> b \<le> 15" using cp six r unfolding code_point_def by linarith
    have x: "x = [octn (0xF0 + a), octn (0x80 + b), octn (0x80 + d), octn (0x80 + e)]"
      using assms s cp 4 by (simp add: utf8_char_def abde)
    have "((a * 64 + b) * 64 + d) * 64 + e = c" using six by simp
    then show ?thesis using r lo hi unfolding x by (simp add: unat_octn utf8_lead_def numeral_3_eq_3 low_sextet)
  qed
qed

lemma utf8_roundtrip: "utf8_encode s = Inr x \<Longrightarrow> utf8_decode x = s"
proof (induction s arbitrary: x)
  case Nil
  then show ?case by simp
next
  case (Cons c cs)
  then obtain a b where "utf8_char c = Inr a" "utf8_encode cs = Inr b" "x = a @ b"
    by (auto simp: result_simps)
  with Cons.IH show ?case by (simp add: utf8_decode_char)
qed

lemma utf8_encode_ascii: "\<forall>c \<in> set s. c < 0x80 \<Longrightarrow> utf8_encode s = Inr (map octn s)"
  by (induction s) (auto simp: utf8_char_def surrogate_def)

lemma utf8_encode_length: "utf8_encode s = Inr x \<Longrightarrow> length s \<le> length x"
proof (induction s arbitrary: x)
  case Nil
  then show ?case by simp
next
  case (Cons c cs)
  then obtain a b where "utf8_char c = Inr a" "utf8_encode cs = Inr b" "x = a @ b"
    by (auto simp: result_simps)
  moreover from this have "1 \<le> length a" by (auto simp: utf8_char_def Suc_le_eq split: if_splits)
  ultimately have "length cs \<le> length b" "1 \<le> length a" "length x = length a + length b"
    using Cons.IH [of b] by simp_all
  then show ?case by simp
qed

lemma utf8_encode_error: "utf8_encode s = Inl e \<Longrightarrow> e = UnicodeEncodeError"
proof (induction s)
  case Nil
  then show ?case by simp
next
  case (Cons c cs)
  then show ?case by (auto simp: result_simps utf8_char_def split: if_splits)
qed

section \<open>Decimal tokens\<close>

definition is_ascii_digit :: "nat \<Rightarrow> bool" where
  "is_ascii_digit c \<longleftrightarrow> 48 \<le> c \<and> c \<le> 57"

text \<open>\<^verbatim>\<open>int(text)\<close> of a token of ASCII digits.\<close>

definition decimal_value :: "pystr \<Rightarrow> int" where
  "decimal_value s = foldl (\<lambda>a c. a * 10 + (int c - 48)) 0 s"

text \<open>\<^verbatim>\<open>str(n)\<close> of a natural number.\<close>

fun decimal_text :: "nat \<Rightarrow> pystr" where
  "decimal_text n = (if n < 10 then [48 + n] else decimal_text (n div 10) @ [48 + n mod 10])"

declare decimal_text.simps [simp del]

lemma decimal_value_snoc: "decimal_value (s @ [c]) = decimal_value s * 10 + (int c - 48)"
  by (simp add: decimal_value_def)

lemma decimal_text_nonempty: "decimal_text n \<noteq> []"
  by (subst decimal_text.simps) simp

lemma decimal_text_digits: "c \<in> set (decimal_text n) \<Longrightarrow> is_ascii_digit c"
proof (induction n rule: decimal_text.induct)
  case (1 n)
  then show ?case
    by (cases "n < 10") (auto simp: decimal_text.simps [of n] is_ascii_digit_def)
qed

lemma decimal_value_text: "decimal_value (decimal_text n) = int n"
proof (induction n rule: decimal_text.induct)
  case (1 n)
  show ?case
  proof (cases "n < 10")
    case True
    then show ?thesis by (simp add: decimal_text.simps [of n] decimal_value_def)
  next
    case False
    with 1 have "decimal_value (decimal_text (n div 10)) = int (n div 10)" by simp
    moreover have "int (n div 10) * 10 + int (n mod 10) = int n"
      by (metis of_nat_add of_nat_mult of_nat_numeral div_mult_mod_eq)
    ultimately show ?thesis using False by (simp add: decimal_text.simps [of n] decimal_value_snoc)
  qed
qed

lemma decimal_value_nonneg: "\<forall>c \<in> set s. is_ascii_digit c \<Longrightarrow> 0 \<le> decimal_value s"
proof (induction s rule: rev_induct)
  case Nil
  then show ?case by (simp add: decimal_value_def)
next
  case (snoc c s)
  then show ?case by (simp add: decimal_value_snoc is_ascii_digit_def)
qed

end
