(* ===== verification/Py_Float.thy ===== *)
theory Py_Float
  imports Bacnet_Prelude
begin

text \<open>
  Python's \<^verbatim>\<open>float\<close> is an IEEE 754 binary64 number. Every finite one is a whole multiple of
  \<open>2 ^ (-1074)\<close>, so a finite float is its sign and that multiple, and arithmetic is exact integer
  arithmetic followed by one rounding to 53 significant bits, ties to even. The repository
  uses comparison, addition, multiplication by one half, \<^verbatim>\<open>struct\<close>'s \<^verbatim>\<open>">f"\<close> in both directions and
  \<^verbatim>\<open>">d"\<close> for reading.
\<close>

datatype pyfloat =
    Fin bool nat   \<comment> \<open>negative?, magnitude in units of \<open>2 ^ (-1074)\<close>\<close>
  | Inf bool
  | NaN

section \<open>Rounding\<close>

text \<open>The number of binary digits of a natural number.\<close>

fun bitlen :: "nat \<Rightarrow> nat" where
  "bitlen n = (if n = 0 then 0 else Suc (bitlen (n div 2)))"

declare bitlen.simps [simp del]

lemma bitlen_0 [simp]: "bitlen 0 = 0"
  by (simp add: bitlen.simps)

lemma bitlen_bounds: "0 < n \<Longrightarrow> 2 ^ (bitlen n - 1) \<le> n \<and> n < 2 ^ bitlen n"
proof (induction n rule: bitlen.induct)
  case (1 n)
  show ?case
  proof (cases "n div 2 = 0")
    case True
    with 1 have "n = 1" by simp
    then show ?thesis by (simp add: bitlen.simps [of "Suc 0"])
  next
    case False
    with 1 have "2 ^ (bitlen (n div 2) - 1) \<le> n div 2 \<and> n div 2 < 2 ^ bitlen (n div 2)" by simp
    moreover obtain k where k: "bitlen (n div 2) = Suc k"
      using False by (simp add: bitlen.simps [of "n div 2"])
    moreover have "bitlen n = Suc (bitlen (n div 2))" using 1 by (simp add: bitlen.simps [of n])
    ultimately have "2 ^ k \<le> n div 2" "n div 2 < 2 * 2 ^ k" "bitlen n = Suc (Suc k)" by simp_all
    moreover from this have "2 * 2 ^ k \<le> n" "n < 2 * (2 * 2 ^ k)" by linarith+
    ultimately show ?thesis by simp
  qed
qed

lemma bitlen_unique: "2 ^ k \<le> n \<Longrightarrow> n < 2 ^ Suc k \<Longrightarrow> bitlen n = Suc k"
proof -
  assume a: "2 ^ k \<le> n" "n < 2 ^ Suc k"
  then have "0 < n" by (cases n) simp_all
  from bitlen_bounds [OF this] a have "2 ^ (bitlen n - 1) < (2::nat) ^ Suc k" "(2::nat) ^ k < 2 ^ bitlen n"
    by linarith+
  then have "bitlen n - 1 < Suc k" "k < bitlen n"
    by (meson one_less_numeral_iff power_less_imp_less_exp semiring_norm(76))+
  then show ?thesis by linarith
qed

text \<open>\<open>n / 2 ^ k\<close> rounded to the nearest integer, ties to even.\<close>

definition round_shift :: "nat \<Rightarrow> nat \<Rightarrow> nat" where
  "round_shift n k =
     (let q = n div 2 ^ k; r = n mod 2 ^ k
      in if 2 * r < 2 ^ k then q
         else if 2 ^ k < 2 * r then Suc q
         else if even q then q else Suc q)"

lemma round_shift_exact [simp]: "round_shift (m * 2 ^ k) k = m"
  by (simp add: round_shift_def)

lemma round_shift_0 [simp]: "round_shift n 0 = n"
  using round_shift_exact [of n 0] by simp

text \<open>Rounding a magnitude to 53 significant bits; past the largest finite value it is infinite.\<close>

definition round64 :: "bool \<Rightarrow> nat \<Rightarrow> pyfloat" where
  "round64 s n =
     (let k = bitlen n - 53; m = round_shift n k * 2 ^ k
      in if m < 2 ^ 2098 then Fin s m else Inf s)"

text \<open>The multiples a binary64 number can be.\<close>

definition float64 :: "nat \<Rightarrow> bool" where
  "float64 n \<longleftrightarrow> n < 2 ^ 2098 \<and> 2 ^ (bitlen n - 53) dvd n"

lemma round64_exact: "float64 n \<Longrightarrow> round64 s n = Fin s n"
proof -
  let ?k = "bitlen n - 53"
  assume n: "float64 n"
  then obtain m where "n = 2 ^ ?k * m" by (auto simp: float64_def simp del: power_numeral elim: dvdE)
  then have "round_shift n ?k * 2 ^ ?k = n" by (metis mult.commute round_shift_exact)
  with n show ?thesis by (simp add: float64_def round64_def Let_def)
qed

section \<open>Arithmetic and comparison\<close>

definition signed :: "bool \<Rightarrow> nat \<Rightarrow> int" where
  "signed s n = (if s then - int n else int n)"

fun float_add :: "pyfloat \<Rightarrow> pyfloat \<Rightarrow> pyfloat" where
  "float_add (Fin s m) (Fin t n) =
     (let v = signed s m + signed t n
      in if v = 0 then Fin (s \<and> t) 0 else round64 (v < 0) (nat \<bar>v\<bar>))"
| "float_add (Inf s) (Inf t) = (if s = t then Inf s else NaN)"
| "float_add (Inf s) (Fin _ _) = Inf s"
| "float_add (Fin _ _) (Inf t) = Inf t"
| "float_add _ _ = NaN"

fun float_le :: "pyfloat \<Rightarrow> pyfloat \<Rightarrow> bool" where
  "float_le (Fin s m) (Fin t n) \<longleftrightarrow> signed s m \<le> signed t n"
| "float_le (Inf s) (Inf t) \<longleftrightarrow> s \<or> \<not> t"
| "float_le (Inf s) (Fin _ _) \<longleftrightarrow> s"
| "float_le (Fin _ _) (Inf t) \<longleftrightarrow> \<not> t"
| "float_le _ _ \<longleftrightarrow> False"

fun float_neg :: "pyfloat \<Rightarrow> pyfloat" where
  "float_neg (Fin s m) = Fin (\<not> s) m"
| "float_neg (Inf s) = Inf (\<not> s)"
| "float_neg NaN = NaN"

definition float_sub :: "pyfloat \<Rightarrow> pyfloat \<Rightarrow> pyfloat" where
  "float_sub x y = float_add x (float_neg y)"

text \<open>
  A product of two magnitudes is in units of \<open>2 ^ (-2148)\<close>: at least 1074 bits are dropped, and as
  many as leave 53.
\<close>

fun float_mul :: "pyfloat \<Rightarrow> pyfloat \<Rightarrow> pyfloat" where
  "float_mul (Fin s m) (Fin t n) =
     (let k = max 1074 (bitlen (m * n) - 53); r = round_shift (m * n) k * 2 ^ (k - 1074)
      in if r < 2 ^ 2098 then Fin (s \<noteq> t) r else Inf (s \<noteq> t))"
| "float_mul (Inf s) (Fin t n) = (if n = 0 then NaN else Inf (s \<noteq> t))"
| "float_mul (Fin s m) (Inf t) = (if m = 0 then NaN else Inf (s \<noteq> t))"
| "float_mul (Inf s) (Inf t) = Inf (s \<noteq> t)"
| "float_mul _ _ = NaN"

text \<open>\<^verbatim>\<open>int(x)\<close> cuts towards zero; an infinity raises OverflowError and a NaN ValueError.\<close>

fun float_trunc :: "pyfloat \<Rightarrow> int result" where
  "float_trunc (Fin s m) = Inr (signed s (m div 2 ^ 1074))"
| "float_trunc (Inf _) = Inl OverflowError"
| "float_trunc NaN = Inl ValueError"

subsection \<open>Halves\<close>

text \<open>The float of \<open>h / 2\<close>: every half in the range of the sensor is exact.\<close>

definition half :: "nat \<Rightarrow> pyfloat" where
  "half h = Fin False (h * 2 ^ 1073)"

lemma float64_half: "h < 2 ^ 53 \<Longrightarrow> float64 (h * 2 ^ 1073)"
proof -
  assume h: "h < 2 ^ 53"
  let ?n = "h * 2 ^ 1073 :: nat"
  have "?n < 2 ^ 53 * 2 ^ 1073" using h by (rule mult_strict_right_mono) simp
  also have "\<dots> = (2::nat) ^ 1126" by (simp flip: power_add del: power_numeral)
  finally have n: "?n < 2 ^ 1126" .
  then have "?n < 2 ^ 2098" by (rule less_le_trans) (rule power_increasing, simp_all del: power_numeral)
  moreover have "bitlen ?n - 53 \<le> 1073"
  proof (cases "h = 0")
    case False
    then have "0 < ?n" by simp
    from bitlen_bounds [OF this] n have "(2::nat) ^ (bitlen ?n - 1) < 2 ^ 1126" by linarith
    then have "bitlen ?n - 1 < 1126" by (rule power_less_imp_less_exp [rotated]) simp
    then show ?thesis by simp
  qed simp
  then have "(2::nat) ^ (bitlen ?n - 53) dvd 2 ^ 1073" by (rule le_imp_power_dvd)
  then have "2 ^ (bitlen ?n - 53) dvd ?n" by (rule dvd_mult)
  ultimately show ?thesis by (simp only: float64_def simp_thms)
qed

lemma half_le [simp]: "float_le (half g) (half h) \<longleftrightarrow> g \<le> h"
  by (simp add: half_def signed_def del: power_numeral)

lemma half_eq [simp]: "half g = half h \<longleftrightarrow> g = h"
  by (simp add: half_def del: power_numeral)

lemma half_add: "g + h < 2 ^ 53 \<Longrightarrow> float_add (half g) (half h) = half (g + h)"
proof -
  assume gh: "g + h < 2 ^ 53"
  let ?m = "g * 2 ^ 1073 :: nat" and ?n = "h * 2 ^ 1073 :: nat"
  have e: "nat \<bar>int ?m + int ?n\<bar> = (g + h) * 2 ^ 1073"
    by (simp only: abs_of_nat of_nat_add [symmetric] nat_int add_mult_distrib)
  show ?thesis
  proof (cases "int ?m + int ?n = 0")
    case True
    with e have "(g + h) * 2 ^ 1073 = 0" by (simp only: abs_zero nat_0)
    then have "g = 0" "h = 0" by (simp_all del: power_numeral)
    then show ?thesis by (simp add: half_def signed_def)
  next
    case False
    moreover have "\<not> int ?m + int ?n < 0" by simp
    ultimately show ?thesis
      unfolding half_def float_add.simps Let_def signed_def if_False
      by (simp only: if_False e round64_exact [OF float64_half [OF gh]])
  qed
qed

lemma half_sub: "h \<le> g \<Longrightarrow> g < 2 ^ 53 \<Longrightarrow> float_add (half g) (Fin True (h * 2 ^ 1073)) = half (g - h)"
proof -
  assume gh: "h \<le> g" "g < 2 ^ 53"
  let ?m = "g * 2 ^ 1073 :: nat" and ?n = "h * 2 ^ 1073 :: nat"
  have le: "?n \<le> ?m" using gh(1) by (rule mult_right_mono) simp
  then have e: "int ?m + - int ?n = int ((g - h) * 2 ^ 1073)" by (simp only: diff_mult_distrib of_nat_diff)
  show ?thesis
  proof (cases "g = h")
    case True
    then show ?thesis by (simp add: half_def signed_def)
  next
    case False
    with gh(1) have "int ((g - h) * 2 ^ 1073) \<noteq> 0" by (simp del: power_numeral)
    moreover have "\<not> int ((g - h) * 2 ^ 1073) < 0" by simp
    moreover have "float64 ((g - h) * 2 ^ 1073)" using gh(2) by (intro float64_half) simp
    ultimately show ?thesis
      unfolding half_def float_add.simps Let_def signed_def if_False if_True e
      by (simp only: if_False abs_of_nat nat_int round64_exact)
  qed
qed

lemma half_difference: "h \<le> g \<Longrightarrow> g < 2 ^ 53 \<Longrightarrow> float_sub (half g) (half h) = half (g - h)"
  using half_sub [of h g] by (simp only: float_sub_def half_def [of h] float_neg.simps not_False_eq_True)

lemma half_trunc: "float_trunc (half h) = Inr (int (h div 2))"
proof -
  have "(2::nat) ^ 1074 = 2 * 2 ^ 1073" by (simp only: power_Suc [symmetric]) simp
  then have "h * 2 ^ 1073 div 2 ^ 1074 = h div 2"
    by (simp only: mult.commute [of h] mult.commute [of 2]) (rule div_mult_mult1, simp)
  then show ?thesis by (simp only: half_def float_trunc.simps signed_def if_False)
qed

lemma half_signed_unit: "float_mul (Fin s (2 * 2 ^ 1073)) (half 1) = Fin s (1 * 2 ^ 1073)"
proof -
  have p: "2 * 2 ^ 1073 * (1 * 2 ^ 1073) = (2::nat) ^ 2147"
    by (simp only: power_add [symmetric] power_Suc [symmetric] mult_1_left) simp
  have b: "bitlen (2 ^ 2147) = Suc 2147" by (rule bitlen_unique) simp_all
  have "max 1074 (Suc 2147 - 53) = (2095::nat)" by simp
  moreover have "(2::nat) ^ 2147 = 2 ^ 52 * 2 ^ 2095" by (simp only: power_add [symmetric]) simp
  moreover have "(2::nat) ^ 52 * 2 ^ (2095 - 1074) = 1 * 2 ^ 1073" by (simp only: power_add [symmetric] mult_1_left) simp
  moreover have "(1::nat) * 2 ^ 1073 < 2 ^ 2098" by (simp only: mult_1_left) (rule power_strict_increasing, simp_all)
  ultimately show ?thesis
    unfolding half_def float_mul.simps p b Let_def by (simp only: round_shift_exact if_True simp_thms)
qed

section \<open>The four octets of a BACnet REAL\<close>

text \<open>
  \<^verbatim>\<open>struct.pack(">f", x)\<close>. In units of \<open>2 ^ (-149)\<close>, the smallest binary32 step, the magnitude is
  \<open>n / 2 ^ 925\<close>; it keeps 24 significant bits. With \<open>e\<close> the bits dropped beyond that step, the
  encoded exponent and fraction are together \<open>e * 2 ^ 23 + m\<close>, which also covers subnormals (\<open>e = 0\<close>)
  and a carry out of the fraction. A finite value that rounds past the largest binary32
  number raises OverflowError.
\<close>

definition single_bits :: "nat \<Rightarrow> nat" where
  "single_bits n = (let e = bitlen n - 949 in e * 2 ^ 23 + round_shift n (925 + e))"

fun pack_f :: "pyfloat \<Rightarrow> octets result" where
  "pack_f (Fin s n) =
     (if single_bits n < 0x7F800000
      then Inr (be_bytes 4 (int (single_bits n) + (if s then 0x80000000 else 0)))
      else Inl OverflowError)"
| "pack_f (Inf s) = Inr (be_bytes 4 (if s then 0xFF800000 else 0x7F800000))"
| "pack_f NaN = Inr (be_bytes 4 0x7FC00000)"

text \<open>A float from its sign, exponent and fraction fields, in units of \<open>2 ^ (-1074)\<close>.\<close>

definition single_of :: "bool \<Rightarrow> nat \<Rightarrow> nat \<Rightarrow> pyfloat" where
  "single_of s e f =
     (if e = 255 then (if f = 0 then Inf s else NaN)
      else if e = 0 then Fin s (f * 2 ^ 925)
      else Fin s ((f + 2 ^ 23) * 2 ^ (924 + e)))"

definition unpack_f :: "octets \<Rightarrow> pyfloat result" where
  "unpack_f bs = chain (unpack_u 4 bs) (\<lambda>v.
     let b = nat v in Inr (single_of (2 ^ 31 \<le> b) (b div 2 ^ 23 mod 256) (b mod 2 ^ 23)))"

definition double_of :: "bool \<Rightarrow> nat \<Rightarrow> nat \<Rightarrow> pyfloat" where
  "double_of s e f =
     (if e = 2047 then (if f = 0 then Inf s else NaN)
      else if e = 0 then Fin s f
      else Fin s ((f + 2 ^ 52) * 2 ^ (e - 1)))"

definition unpack_d :: "octets \<Rightarrow> pyfloat result" where
  "unpack_d bs = chain (unpack_u 8 bs) (\<lambda>v.
     let b = nat v in Inr (double_of (2 ^ 63 \<le> b) (b div 2 ^ 52 mod 2048) (b mod 2 ^ 52)))"

lemma single_bits_subnormal: "f < 2 ^ 23 \<Longrightarrow> single_bits (f * 2 ^ 925) = f"
proof (cases "f = 0")
  case False
  assume f: "f < 2 ^ 23"
  from False have "0 < f * 2 ^ 925" by simp
  from bitlen_bounds [OF this] have "2 ^ (bitlen (f * 2 ^ 925) - 1) \<le> f * 2 ^ 925" by simp
  also have "f * 2 ^ 925 < 2 ^ 23 * 2 ^ 925" using f by (rule mult_strict_right_mono) simp
  also have "\<dots> = (2::nat) ^ 948" by (simp flip: power_add)
  finally have "bitlen (f * 2 ^ 925) - 1 < 948" by (rule power_less_imp_less_exp [rotated]) simp
  then have "bitlen (f * 2 ^ 925) - 949 = 0" by simp
  then show ?thesis by (simp add: single_bits_def del: power_numeral)
qed (simp add: single_bits_def round_shift_def)

lemma single_bits_normal:
  assumes "f < 2 ^ 23" "0 < e"
  shows "single_bits ((f + 2 ^ 23) * 2 ^ (924 + e)) = e * 2 ^ 23 + f"
proof -
  let ?n = "(f + 2 ^ 23) * 2 ^ (924 + e)"
  have "bitlen ?n = Suc (947 + e)"
  proof (rule bitlen_unique)
    have "(2::nat) ^ (947 + e) = 2 ^ 23 * 2 ^ (924 + e)" by (subst power_add [symmetric], rule arg_cong [where f = "(^) 2"]) simp
    also have "\<dots> \<le> ?n" by (rule mult_right_mono) simp_all
    finally show "2 ^ (947 + e) \<le> ?n" .
    have "?n < 2 ^ 24 * 2 ^ (924 + e)" using assms(1) by (intro mult_strict_right_mono) simp_all
    also have "\<dots> = 2 ^ Suc (947 + e)" by (subst power_add [symmetric], rule arg_cong [where f = "(^) 2"]) simp
    finally show "?n < 2 ^ Suc (947 + e)" .
  qed
  then have e: "bitlen ?n - 949 = e - 1" by simp
  have "925 + (e - 1) = 924 + e" using assms(2) by simp
  then have "single_bits ?n = (e - 1) * 2 ^ 23 + (f + 2 ^ 23)"
    unfolding single_bits_def Let_def e by (simp only: round_shift_exact)
  also have "\<dots> = e * 2 ^ 23 + f" using assms(2) by (cases e) simp_all
  finally show ?thesis .
qed

subsection \<open>Binary32 values survive\<close>

text \<open>The values of the bit patterns of binary32 other than NaN, and the pattern of each.\<close>

definition float32 :: "pyfloat \<Rightarrow> bool" where
  "float32 v \<longleftrightarrow> (\<exists>s e f. e \<le> 255 \<and> f < 2 ^ 23 \<and> (e = 255 \<longrightarrow> f = 0) \<and> v = single_of s e f)"

text \<open>Halves that fit the 24 bits of a significand.\<close>

lemma float32_half:
  assumes "2 ^ 23 \<le> h * 2 ^ k" "h * 2 ^ k < 2 ^ 24" "k \<le> 23"
  shows "float32 (half h)"
proof -
  have "(2::nat) ^ 1073 = 2 ^ k * 2 ^ (924 + (149 - k))"
    using assms(3) by (simp only: power_add [symmetric]) simp
  then have "h * 2 ^ 1073 = (h * 2 ^ k - 2 ^ 23 + 2 ^ 23) * 2 ^ (924 + (149 - k))"
    using assms(1) by (simp only: mult.assoc [symmetric]) simp
  then have "half h = single_of False (149 - k) (h * 2 ^ k - 2 ^ 23)"
    using assms(3) unfolding half_def single_of_def by (simp only: if_False) simp
  moreover have "h * 2 ^ k - 2 ^ 23 < (2::nat) ^ 23" using assms(1,2) by simp
  ultimately show ?thesis
    unfolding float32_def by (intro exI [of _ False] exI [of _ "149 - k"] exI [of _ "h * 2 ^ k - 2 ^ 23"]) simp
qed

definition single_code :: "bool \<Rightarrow> nat \<Rightarrow> nat \<Rightarrow> nat" where
  "single_code s e f = (if s then 2 ^ 31 else 0) + (e * 2 ^ 23 + f)"

lemma pack_f_single:
  assumes "e \<le> 255" "f < 2 ^ 23" "e = 255 \<longrightarrow> f = 0"
  shows "pack_f (single_of s e f) = Inr (be_bytes 4 (int (single_code s e f)))"
proof -
  consider "e = 255" | "e = 0" | "0 < e" "e < 255" using assms(1) by linarith
  then show ?thesis
  proof cases
    case 1
    with assms(3) show ?thesis by (simp add: single_of_def single_code_def)
  next
    case 2
    then have x: "single_of s e f = Fin s (f * 2 ^ 925)" by (simp only: single_of_def) simp
    have "f < 0x7F800000" using assms(2) by simp
    then show ?thesis
      unfolding x pack_f.simps single_bits_subnormal [OF assms(2)] using 2 by (simp add: single_code_def add.commute)
  next
    case 3
    then have x: "single_of s e f = Fin s ((f + 2 ^ 23) * 2 ^ (924 + e))" by (simp only: single_of_def) simp
    have "e * 2 ^ 23 + f < 0x7F800000" using 3 assms(2) by simp
    then show ?thesis
      unfolding x pack_f.simps single_bits_normal [OF assms(2) 3(1)] by (simp add: single_code_def add.commute)
  qed
qed

lemma single_code_fields:
  assumes "e \<le> 255" "f < 2 ^ 23"
  shows "single_code s e f < 2 ^ 32" "2 ^ 31 \<le> single_code s e f \<longleftrightarrow> s"
    "single_code s e f div 2 ^ 23 mod 256 = e" "single_code s e f mod 2 ^ 23 = f"
proof -
  have c: "single_code s e f = f + 2 ^ 23 * ((if s then 256 else 0) + e)"
    by (simp add: single_code_def)
  show "single_code s e f < 2 ^ 32" "2 ^ 31 \<le> single_code s e f \<longleftrightarrow> s"
    using assms by (auto simp: single_code_def)
  show "single_code s e f mod 2 ^ 23 = f"
    unfolding c using assms(2) by (simp only: mod_mult_self2 mod_less)
  have "single_code s e f div 2 ^ 23 = (if s then 256 else 0) + e"
    unfolding c using assms(2) by (subst div_mult_self2) simp_all
  then show "single_code s e f div 2 ^ 23 mod 256 = e" using assms(1) by simp
qed

lemma unpack_f_single:
  assumes "e \<le> 255" "f < 2 ^ 23"
  shows "unpack_f (be_bytes 4 (int (single_code s e f))) = Inr (single_of s e f)"
proof -
  note fields = single_code_fields [OF assms, of s]
  have "int (single_code s e f) < 256 ^ 4" using fields(1) by simp
  then have "unpack_u 4 (be_bytes 4 (int (single_code s e f))) = Inr (int (single_code s e f))"
    by (intro unpack_u_be_bytes) simp_all
  then show ?thesis unfolding unpack_f_def by (simp only: chain_Inr Let_def nat_int fields)
qed

lemma float32_roundtrip:
  assumes "float32 v"
  obtains bs where "pack_f v = Inr bs" "length bs = 4" "unpack_f bs = Inr v"
  using assms pack_f_single unpack_f_single unfolding float32_def by (metis length_be_bytes)

end
