(* ===== verification/Codec_Numbers.thy ===== *)
theory Codec_Numbers
  imports Py_Text Py_Float
begin

text \<open>
  The protocol numbers of \<^verbatim>\<open>wiretest/codec.py\<close> that the modelled code uses, under the source's
  names. They are abbreviations: the simplifier sees the numbers.
\<close>

section \<open>BVLL and network layer\<close>

abbreviation (input) BVLC_TYPE :: int where "BVLC_TYPE \<equiv> 0x81"
abbreviation (input) BVLC_RESULT :: int where "BVLC_RESULT \<equiv> 0x00"
abbreviation (input) BVLC_WRITE_BROADCAST_DISTRIBUTION_TABLE :: int
  where "BVLC_WRITE_BROADCAST_DISTRIBUTION_TABLE \<equiv> 0x01"
abbreviation (input) BVLC_READ_BROADCAST_DISTRIBUTION_TABLE :: int
  where "BVLC_READ_BROADCAST_DISTRIBUTION_TABLE \<equiv> 0x02"
abbreviation (input) BVLC_READ_BROADCAST_DISTRIBUTION_TABLE_ACK :: int
  where "BVLC_READ_BROADCAST_DISTRIBUTION_TABLE_ACK \<equiv> 0x03"
abbreviation (input) BVLC_FORWARDED_NPDU :: int where "BVLC_FORWARDED_NPDU \<equiv> 0x04"
abbreviation (input) BVLC_REGISTER_FOREIGN_DEVICE :: int where "BVLC_REGISTER_FOREIGN_DEVICE \<equiv> 0x05"
abbreviation (input) BVLC_READ_FOREIGN_DEVICE_TABLE :: int where "BVLC_READ_FOREIGN_DEVICE_TABLE \<equiv> 0x06"
abbreviation (input) BVLC_READ_FOREIGN_DEVICE_TABLE_ACK :: int
  where "BVLC_READ_FOREIGN_DEVICE_TABLE_ACK \<equiv> 0x07"
abbreviation (input) BVLC_DELETE_FOREIGN_DEVICE_TABLE_ENTRY :: int
  where "BVLC_DELETE_FOREIGN_DEVICE_TABLE_ENTRY \<equiv> 0x08"
abbreviation (input) BVLC_DISTRIBUTE_BROADCAST_TO_NETWORK :: int
  where "BVLC_DISTRIBUTE_BROADCAST_TO_NETWORK \<equiv> 0x09"
abbreviation (input) BVLC_ORIGINAL_UNICAST :: int where "BVLC_ORIGINAL_UNICAST \<equiv> 0x0A"
abbreviation (input) BVLC_ORIGINAL_BROADCAST :: int where "BVLC_ORIGINAL_BROADCAST \<equiv> 0x0B"

definition BVLC_FUNCTIONS_WITH_NPDU :: "int list" where
  "BVLC_FUNCTIONS_WITH_NPDU =
     [BVLC_FORWARDED_NPDU, BVLC_DISTRIBUTE_BROADCAST_TO_NETWORK,
      BVLC_ORIGINAL_UNICAST, BVLC_ORIGINAL_BROADCAST]"

section \<open>PDU types and services\<close>

abbreviation (input) PDU_CONFIRMED_REQUEST :: int where "PDU_CONFIRMED_REQUEST \<equiv> 0x0"
abbreviation (input) PDU_UNCONFIRMED_REQUEST :: int where "PDU_UNCONFIRMED_REQUEST \<equiv> 0x1"
abbreviation (input) PDU_SIMPLE_ACK :: int where "PDU_SIMPLE_ACK \<equiv> 0x2"
abbreviation (input) PDU_COMPLEX_ACK :: int where "PDU_COMPLEX_ACK \<equiv> 0x3"
abbreviation (input) PDU_ERROR :: int where "PDU_ERROR \<equiv> 0x5"
abbreviation (input) PDU_REJECT :: int where "PDU_REJECT \<equiv> 0x6"
abbreviation (input) PDU_ABORT :: int where "PDU_ABORT \<equiv> 0x7"

abbreviation (input) SERVICE_READ_PROPERTY :: int where "SERVICE_READ_PROPERTY \<equiv> 12"
abbreviation (input) SERVICE_WRITE_PROPERTY :: int where "SERVICE_WRITE_PROPERTY \<equiv> 15"
abbreviation (input) SERVICE_READ_PROPERTY_MULTIPLE :: int where "SERVICE_READ_PROPERTY_MULTIPLE \<equiv> 14"
abbreviation (input) SERVICE_REINITIALIZE_DEVICE :: int where "SERVICE_REINITIALIZE_DEVICE \<equiv> 20"
abbreviation (input) SERVICE_I_AM :: int where "SERVICE_I_AM \<equiv> 0"
abbreviation (input) SERVICE_WHO_IS :: int where "SERVICE_WHO_IS \<equiv> 8"
abbreviation (input) SERVICE_WRITE_GROUP :: int where "SERVICE_WRITE_GROUP \<equiv> 10"

section \<open>Objects, properties and errors\<close>

abbreviation (input) OBJECT_TYPE_DEVICE :: int where "OBJECT_TYPE_DEVICE \<equiv> 8"
abbreviation (input) PROPERTY_OBJECT_IDENTIFIER :: int where "PROPERTY_OBJECT_IDENTIFIER \<equiv> 75"
abbreviation (input) PROPERTY_OBJECT_NAME :: int where "PROPERTY_OBJECT_NAME \<equiv> 77"
abbreviation (input) PROPERTY_PRESENT_VALUE :: int where "PROPERTY_PRESENT_VALUE \<equiv> 85"
abbreviation (input) ERROR_CLASS_OBJECT :: int where "ERROR_CLASS_OBJECT \<equiv> 1"
abbreviation (input) ERROR_CLASS_PROPERTY :: int where "ERROR_CLASS_PROPERTY \<equiv> 2"
abbreviation (input) ERROR_CODE_UNKNOWN_OBJECT :: int where "ERROR_CODE_UNKNOWN_OBJECT \<equiv> 31"
abbreviation (input) ERROR_CODE_UNKNOWN_PROPERTY :: int where "ERROR_CODE_UNKNOWN_PROPERTY \<equiv> 32"
abbreviation (input) ERROR_CODE_WRITE_ACCESS_DENIED :: int where "ERROR_CODE_WRITE_ACCESS_DENIED \<equiv> 40"
abbreviation (input) ERROR_CODE_INVALID_ARRAY_INDEX :: int where "ERROR_CODE_INVALID_ARRAY_INDEX \<equiv> 42"
abbreviation (input) REJECT_REASON_UNRECOGNIZED_SERVICE :: int
  where "REJECT_REASON_UNRECOGNIZED_SERVICE \<equiv> 9"
abbreviation (input) ABORT_REASON_SEGMENTATION_NOT_SUPPORTED :: int
  where "ABORT_REASON_SEGMENTATION_NOT_SUPPORTED \<equiv> 4"
abbreviation (input) MAX_INSTANCE :: int where "MAX_INSTANCE \<equiv> 0x3FFFFF"

section \<open>Application tag numbers\<close>

abbreviation (input) TAG_NULL :: int where "TAG_NULL \<equiv> 0"
abbreviation (input) TAG_BOOLEAN :: int where "TAG_BOOLEAN \<equiv> 1"
abbreviation (input) TAG_UNSIGNED :: int where "TAG_UNSIGNED \<equiv> 2"
abbreviation (input) TAG_SIGNED :: int where "TAG_SIGNED \<equiv> 3"
abbreviation (input) TAG_REAL :: int where "TAG_REAL \<equiv> 4"
abbreviation (input) TAG_DOUBLE :: int where "TAG_DOUBLE \<equiv> 5"
abbreviation (input) TAG_CHARACTER_STRING :: int where "TAG_CHARACTER_STRING \<equiv> 7"
abbreviation (input) TAG_BIT_STRING :: int where "TAG_BIT_STRING \<equiv> 8"
abbreviation (input) TAG_ENUMERATED :: int where "TAG_ENUMERATED \<equiv> 9"
abbreviation (input) TAG_OBJECT_IDENTIFIER :: int where "TAG_OBJECT_IDENTIFIER \<equiv> 12"

end
