(* ===== verification/Codec_Encode.thy ===== *)
theory Codec_Encode
  imports Codec_Numbers
begin

text \<open>
  The encoding half of \<^verbatim>\<open>wiretest/codec.py\<close>: BVLL and NPDU headers, tagged values and the APDUs
  of the services, each with every exception its Python body can raise. An optional argument
  of the source is an \<^typ>\<open>'a option\<close>; a Python \<^verbatim>\<open>+\<close> of octet strings is \<^const>\<open>cat\<close>.
\<close>

section \<open>BVLL\<close>

definition bvll :: "int \<Rightarrow> octets \<Rightarrow> octets result" where
  "bvll fn body = cat [pack_u 1 BVLC_TYPE, pack_u 1 fn, pack_u 2 (4 + int (length body)), Inr body]"

definition bvlc :: "octets \<Rightarrow> bool \<Rightarrow> octets result" where
  "bvlc npdu_octets broadcast =
     bvll (if broadcast then BVLC_ORIGINAL_BROADCAST else BVLC_ORIGINAL_UNICAST) npdu_octets"

definition forwarded_npdu :: "octets \<Rightarrow> octets \<Rightarrow> octets result" where
  "forwarded_npdu originating_mac npdu_octets = bvll BVLC_FORWARDED_NPDU (originating_mac @ npdu_octets)"

definition distribute_broadcast_to_network :: "octets \<Rightarrow> octets result" where
  "distribute_broadcast_to_network npdu_octets = bvll BVLC_DISTRIBUTE_BROADCAST_TO_NETWORK npdu_octets"

definition register_foreign_device :: "int \<Rightarrow> octets result" where
  "register_foreign_device time_to_live =
     chain (pack_u 2 time_to_live) (bvll BVLC_REGISTER_FOREIGN_DEVICE)"

definition read_broadcast_distribution_table :: "octets result" where
  "read_broadcast_distribution_table = bvll BVLC_READ_BROADCAST_DISTRIBUTION_TABLE []"

definition read_foreign_device_table :: "octets result" where
  "read_foreign_device_table = bvll BVLC_READ_FOREIGN_DEVICE_TABLE []"

definition delete_foreign_device_table_entry :: "octets \<Rightarrow> octets result" where
  "delete_foreign_device_table_entry entry_mac = bvll BVLC_DELETE_FOREIGN_DEVICE_TABLE_ENTRY entry_mac"

definition write_broadcast_distribution_table :: "(octets \<times> octets) list \<Rightarrow> octets result" where
  "write_broadcast_distribution_table entries =
     bvll BVLC_WRITE_BROADCAST_DISTRIBUTION_TABLE (concat (map (\<lambda>(address, mask). address @ mask) entries))"

section \<open>NPDU\<close>

text \<open>The keyword arguments of \<^verbatim>\<open>npdu\<close> and their defaults.\<close>

record npdu_args =
  na_network_message :: "int option"
  na_dnet :: "int option"
  na_dadr :: octets
  na_snet :: "int option"
  na_sadr :: octets
  na_expecting_reply :: bool
  na_hop_count :: int

definition npdu_defaults :: npdu_args where
  "npdu_defaults =
     \<lparr>na_network_message = None, na_dnet = None, na_dadr = [], na_snet = None, na_sadr = [],
      na_expecting_reply = False, na_hop_count = 255\<rparr>"

definition npdu_control :: "npdu_args \<Rightarrow> int" where
  "npdu_control a =
     (((0 OR (if na_network_message a \<noteq> None then 0x80 else 0))
        OR (if na_dnet a \<noteq> None then 0x20 else 0))
        OR (if na_snet a \<noteq> None then 0x08 else 0))
        OR (if na_expecting_reply a then 0x04 else 0)"

definition npdu :: "octets \<Rightarrow> npdu_args \<Rightarrow> octets result" where
  "npdu payload a = cat
     ([bytes_of [0x01, npdu_control a]]
      @ (case na_dnet a of None \<Rightarrow> []
         | Some dnet \<Rightarrow> [pack_u 2 dnet, pack_u 1 (int (length (na_dadr a))), Inr (na_dadr a)])
      @ (case na_snet a of None \<Rightarrow> []
         | Some snet \<Rightarrow> [pack_u 2 snet, pack_u 1 (int (length (na_sadr a))), Inr (na_sadr a)])
      @ (case na_dnet a of None \<Rightarrow> [] | Some _ \<Rightarrow> [byte (na_hop_count a)])
      @ (case na_network_message a of None \<Rightarrow> [] | Some m \<Rightarrow> [byte m])
      @ [Inr payload])"

section \<open>Tagged values\<close>

definition object_id :: "int \<Rightarrow> int \<Rightarrow> octets result" where
  "object_id object_type inst = pack_u 4 (push_bit 22 object_type OR inst)"

text \<open>The loop over the lengths 1 to 4: the first that holds the value, else ValueError.\<close>

fun unsigned_octets_from :: "nat list \<Rightarrow> int \<Rightarrow> octets result" where
  "unsigned_octets_from [] v = Inl ValueError"
| "unsigned_octets_from (n # ns) v =
     (if v < push_bit (8 * n) 1 then to_bytes v n else unsigned_octets_from ns v)"

definition unsigned_octets :: "int \<Rightarrow> octets result" where
  "unsigned_octets v = unsigned_octets_from [1, 2, 3, 4] v"

fun signed_octets_from :: "nat list \<Rightarrow> int \<Rightarrow> octets result" where
  "signed_octets_from [] v = Inl ValueError"
| "signed_octets_from (n # ns) v =
     (if - push_bit (8 * n - 1) 1 \<le> v \<and> v < push_bit (8 * n - 1) 1 then to_bytes_signed v n
      else signed_octets_from ns v)"

definition signed_octets :: "int \<Rightarrow> octets result" where
  "signed_octets v = signed_octets_from [1, 2, 3, 4] v"

text \<open>\<^verbatim>\<open>bytes([(tag << 4) | 0x08 | length])\<close>, the first octet of a context-tagged primitive.\<close>

abbreviation context_octet :: "int \<Rightarrow> int \<Rightarrow> octets result" where
  "context_octet tag l \<equiv> byte ((push_bit 4 tag OR 0x08) OR l)"

definition context_unsigned :: "int \<Rightarrow> int \<Rightarrow> octets result" where
  "context_unsigned tag v =
     chain (unsigned_octets v) (\<lambda>body. cat [context_octet tag (int (length body)), Inr body])"

definition context_object_id :: "int \<Rightarrow> int \<Rightarrow> int \<Rightarrow> octets result" where
  "context_object_id tag object_type inst = cat [context_octet tag 4, object_id object_type inst]"

definition context_octet_string :: "int \<Rightarrow> octets \<Rightarrow> octets result" where
  "context_octet_string tag octets =
     (if length octets < 5 then cat [context_octet tag (int (length octets)), Inr octets]
      else cat [bytes_of [(push_bit 4 tag OR 0x08) OR 5, int (length octets)], Inr octets])"

definition opening_tag :: "int \<Rightarrow> octets result" where
  "opening_tag tag = byte (push_bit 4 tag OR 0x0E)"

definition closing_tag :: "int \<Rightarrow> octets result" where
  "closing_tag tag = byte (push_bit 4 tag OR 0x0F)"

definition application_unsigned :: "int \<Rightarrow> octets result" where
  "application_unsigned v =
     chain (unsigned_octets v) (\<lambda>body. cat [byte (0x20 OR int (length body)), Inr body])"

definition application_enumerated :: "int \<Rightarrow> octets result" where
  "application_enumerated v =
     chain (unsigned_octets v) (\<lambda>body. cat [byte (0x90 OR int (length body)), Inr body])"

definition application_null :: "octets result" where
  "application_null = byte 0x00"

definition application_boolean :: "bool \<Rightarrow> octets result" where
  "application_boolean v = byte (if v then 0x11 else 0x10)"

definition application_real :: "pyfloat \<Rightarrow> octets result" where
  "application_real v = cat [byte 0x44, pack_f v]"

definition application_object_id :: "int \<Rightarrow> int \<Rightarrow> octets result" where
  "application_object_id object_type inst = cat [byte 0xC4, object_id object_type inst]"

definition application_character_string :: "pystr \<Rightarrow> octets result" where
  "application_character_string s = chain (utf8_encode s) (\<lambda>encoded.
     let body = 0 # encoded
     in if length body < 5 then cat [byte (0x70 OR int (length body)), Inr body]
        else cat [bytes_of [0x75, int (length body)], Inr body])"

definition application_signed :: "int \<Rightarrow> octets result" where
  "application_signed v =
     chain (signed_octets v) (\<lambda>body. cat [byte (0x30 OR int (length body)), Inr body])"

definition application_octet_string :: "octets \<Rightarrow> octets result" where
  "application_octet_string octets =
     (if length octets < 5 then cat [byte (0x60 OR int (length octets)), Inr octets]
      else if length octets < 254 then cat [bytes_of [0x65, int (length octets)], Inr octets]
      else cat [bytes_of [0x65, 254], pack_u 2 (int (length octets)), Inr octets])"

definition context_signed :: "int \<Rightarrow> int \<Rightarrow> octets result" where
  "context_signed tag v =
     chain (signed_octets v) (\<lambda>body. cat [context_octet tag (int (length body)), Inr body])"

definition context_real :: "int \<Rightarrow> pyfloat \<Rightarrow> octets result" where
  "context_real tag v = cat [context_octet tag 4, pack_f v]"

definition context_boolean :: "int \<Rightarrow> bool \<Rightarrow> octets result" where
  "context_boolean tag v = bytes_of [(push_bit 4 tag OR 0x08) OR 1, if v then 1 else 0]"

definition context_character_string :: "int \<Rightarrow> pystr \<Rightarrow> octets result" where
  "context_character_string tag s = chain (utf8_encode s) (\<lambda>encoded.
     let body = 0 # encoded
     in if length body < 5 then cat [context_octet tag (int (length body)), Inr body]
        else cat [bytes_of [(push_bit 4 tag OR 0x08) OR 5, int (length body)], Inr body])"

definition context_enumerated :: "int \<Rightarrow> int \<Rightarrow> octets result" where
  "context_enumerated tag v = context_unsigned tag v"

subsection \<open>Bit strings, dates and times\<close>

text \<open>The loop that sets bit \<open>index\<close> of the buffer, bit 0 the most significant of the first octet.\<close>

fun set_bits :: "nat \<Rightarrow> bool list \<Rightarrow> octets \<Rightarrow> octets" where
  "set_bits i [] buffer = buffer"
| "set_bits i (b # bs) buffer =
     set_bits (Suc i) bs
       (if b then buffer[i div 8 := buffer ! (i div 8) OR drop_bit (i mod 8) 0x80] else buffer)"

definition application_bit_string :: "bool list \<Rightarrow> octets result" where
  "application_bit_string bits =
     (let octets = set_bits 0 bits (replicate ((length bits + 7) div 8) 0)
      in chain (cat [byte (int (length octets) * 8 - int (length bits)), Inr octets]) (\<lambda>body.
           cat [byte (0x80 OR int (length body)), Inr body]))"

definition context_bit_string :: "int \<Rightarrow> bool list \<Rightarrow> octets result" where
  "context_bit_string tag bits = chain (application_bit_string bits) (\<lambda>encoded.
     let body = drop 1 encoded in cat [context_octet tag (int (length body)), Inr body])"

definition status_flags :: "bool list \<Rightarrow> octets result" where
  "status_flags bits = application_bit_string bits"

definition application_date :: "int \<Rightarrow> int \<Rightarrow> int \<Rightarrow> int \<Rightarrow> octets result" where
  "application_date year month day weekday = bytes_of [0xA4, year - 1900, month, day, weekday]"

definition application_time :: "int \<Rightarrow> int \<Rightarrow> int \<Rightarrow> int \<Rightarrow> octets result" where
  "application_time hour minute second hundredths = bytes_of [0xB4, hour, minute, second, hundredths]"

section \<open>APDUs\<close>

definition confirmed_request :: "int \<Rightarrow> int \<Rightarrow> octets \<Rightarrow> octets result" where
  "confirmed_request invoke_id service parameters =
     cat [bytes_of [0x00, 0x05, invoke_id, service], Inr parameters]"

definition read_property_request :: "int \<Rightarrow> int \<Rightarrow> int \<Rightarrow> int \<Rightarrow> int option \<Rightarrow> octets result" where
  "read_property_request invoke_id object_type inst property_identifier array_index =
     chain (cat ([context_object_id 0 object_type inst, context_unsigned 1 property_identifier]
                 @ (case array_index of None \<Rightarrow> [] | Some i \<Rightarrow> [context_unsigned 2 i])))
       (confirmed_request invoke_id SERVICE_READ_PROPERTY)"

definition write_property_request ::
  "int \<Rightarrow> int \<Rightarrow> int \<Rightarrow> int \<Rightarrow> octets \<Rightarrow> int option \<Rightarrow> int option \<Rightarrow> octets result" where
  "write_property_request invoke_id object_type inst property_identifier value_octets priority array_index =
     chain (cat ([context_object_id 0 object_type inst, context_unsigned 1 property_identifier]
                 @ (case array_index of None \<Rightarrow> [] | Some i \<Rightarrow> [context_unsigned 2 i])
                 @ [opening_tag 3, Inr value_octets, closing_tag 3]
                 @ (case priority of None \<Rightarrow> [] | Some p \<Rightarrow> [context_unsigned 4 p])))
       (confirmed_request invoke_id SERVICE_WRITE_PROPERTY)"

definition reinitialize_device_request :: "int \<Rightarrow> int \<Rightarrow> pystr option \<Rightarrow> octets result" where
  "reinitialize_device_request invoke_id state password =
     chain (cat (context_unsigned 0 state
                 # (case password of None \<Rightarrow> []
                    | Some text \<Rightarrow>
                        [chain (utf8_encode text) (\<lambda>encoded.
                           let body = 0 # encoded
                           in cat [if length body < 5 then byte (0x18 OR int (length body))
                                   else bytes_of [0x1D, int (length body)], Inr body])])))
       (confirmed_request invoke_id SERVICE_REINITIALIZE_DEVICE)"

definition read_property_ack :: "int \<Rightarrow> int \<Rightarrow> int \<Rightarrow> int \<Rightarrow> octets \<Rightarrow> octets result" where
  "read_property_ack invoke_id object_type inst property_identifier value_octets =
     cat [bytes_of [0x30, invoke_id, SERVICE_READ_PROPERTY],
          context_object_id 0 object_type inst, context_unsigned 1 property_identifier,
          opening_tag 3, Inr value_octets, closing_tag 3]"

definition error_pdu :: "int \<Rightarrow> int \<Rightarrow> int \<Rightarrow> int \<Rightarrow> octets result" where
  "error_pdu invoke_id service error_class error_code =
     cat [bytes_of [0x50, invoke_id, service], application_enumerated error_class,
          application_enumerated error_code]"

text \<open>A low limit without a high one compares None with a number: TypeError.\<close>

definition who_is :: "int option \<Rightarrow> int option \<Rightarrow> octets result" where
  "who_is low high =
     cat (bytes_of [0x10, SERVICE_WHO_IS]
          # (case low of None \<Rightarrow> []
             | Some l \<Rightarrow> [context_unsigned 0 l,
                          (case high of None \<Rightarrow> Inl TypeError | Some h \<Rightarrow> context_unsigned 1 h)]))"

definition i_am :: "int \<Rightarrow> int \<Rightarrow> int \<Rightarrow> int \<Rightarrow> octets result" where
  "i_am device_instance vendor_identifier max_apdu segmentation =
     cat [bytes_of [0x10, SERVICE_I_AM], application_object_id OBJECT_TYPE_DEVICE device_instance,
          application_unsigned max_apdu, application_enumerated segmentation,
          application_unsigned vendor_identifier]"

text \<open>A property reference is the identifier with its array index; a bare identifier has none.\<close>

definition property_reference :: "int \<times> int option \<Rightarrow> octets result" where
  "property_reference r =
     (case r of (property_identifier, array_index) \<Rightarrow>
        cat (context_unsigned 0 property_identifier
             # (case array_index of None \<Rightarrow> [] | Some i \<Rightarrow> [context_unsigned 1 i])))"

definition read_access_specification :: "int \<Rightarrow> int \<Rightarrow> (int \<times> int option) list \<Rightarrow> octets result" where
  "read_access_specification object_type inst property_identifiers =
     cat ([context_object_id 0 object_type inst, opening_tag 1]
          @ map property_reference property_identifiers @ [closing_tag 1])"

definition list_element_request ::
  "int \<Rightarrow> int \<Rightarrow> int \<Rightarrow> int \<Rightarrow> int \<Rightarrow> octets list \<Rightarrow> octets result" where
  "list_element_request invoke_id service object_type inst property_identifier elements =
     chain (cat [context_object_id 0 object_type inst, context_unsigned 1 property_identifier,
                 opening_tag 3, Inr (concat elements), closing_tag 3])
       (confirmed_request invoke_id service)"

definition simple_ack :: "int \<Rightarrow> int \<Rightarrow> octets result" where
  "simple_ack invoke_id service = bytes_of [push_bit 4 PDU_SIMPLE_ACK, invoke_id, service]"

definition reject_pdu :: "int \<Rightarrow> int \<Rightarrow> octets result" where
  "reject_pdu invoke_id reason = bytes_of [push_bit 4 PDU_REJECT, invoke_id, reason]"

definition abort_pdu :: "int \<Rightarrow> int \<Rightarrow> bool \<Rightarrow> octets result" where
  "abort_pdu invoke_id reason server =
     bytes_of [push_bit 4 PDU_ABORT OR (if server then 1 else 0), invoke_id, reason]"

text \<open>One property of a ReadPropertyMultiple-ACK: its value, or Error PROPERTY / UNKNOWN_PROPERTY.\<close>

definition read_access_result :: "int \<times> octets option \<Rightarrow> octets result" where
  "read_access_result r =
     (case r of (property_identifier, value_octets) \<Rightarrow>
        cat (context_unsigned 2 property_identifier
             # (case value_octets of
                  None \<Rightarrow> [opening_tag 5, application_enumerated ERROR_CLASS_PROPERTY,
                           application_enumerated ERROR_CODE_UNKNOWN_PROPERTY, closing_tag 5]
                | Some v \<Rightarrow> [opening_tag 4, Inr v, closing_tag 4])))"

definition read_property_multiple_ack ::
  "int \<Rightarrow> (int \<times> int \<times> (int \<times> octets option) list) list \<Rightarrow> octets result" where
  "read_property_multiple_ack invoke_id results =
     chain (cat (map (\<lambda>(object_type, inst, properties).
                    cat ([context_object_id 0 object_type inst, opening_tag 1]
                         @ map read_access_result properties @ [closing_tag 1])) results))
       (\<lambda>body. cat [bytes_of [push_bit 4 PDU_COMPLEX_ACK, invoke_id, SERVICE_READ_PROPERTY_MULTIPLE],
                    Inr body])"

definition write_group_change :: "int \<times> octets \<times> int option \<Rightarrow> octets result" where
  "write_group_change c =
     (case c of (channel, value_octets, overriding_priority) \<Rightarrow>
        cat ([context_unsigned 0 channel]
             @ (case overriding_priority of None \<Rightarrow> [] | Some p \<Rightarrow> [context_unsigned 1 p])
             @ [Inr value_octets]))"

definition write_group_request ::
  "int \<Rightarrow> int \<Rightarrow> (int \<times> octets \<times> int option) list \<Rightarrow> bool option \<Rightarrow> octets result" where
  "write_group_request group_number write_priority change_list inhibit_delay =
     chain (cat (map write_group_change change_list)) (\<lambda>change_octets.
     chain (cat ([context_unsigned 0 group_number, context_unsigned 1 write_priority,
                  opening_tag 2, Inr change_octets, closing_tag 2]
                 @ (case inhibit_delay of None \<Rightarrow> [] | Some d \<Rightarrow> [bytes_of [0x39, if d then 1 else 0]])))
       (\<lambda>parameters. cat [bytes_of [push_bit 4 PDU_UNCONFIRMED_REQUEST, SERVICE_WRITE_GROUP], Inr parameters]))"

end
