(* ===== verification/Codec_Decode.thy ===== *)
theory Codec_Decode
  imports Codec_Encode "HOL-Library.AList"
begin

text \<open>
  The decoding half of \<^verbatim>\<open>wiretest/codec.py\<close>: the tag reader, a received datagram as a
  \<^verbatim>\<open>Frame\<close>, and the parsers of APDUs and property values built on the tag reader. Every
  parser is total: each \<^verbatim>\<open>while\<close> loop ends because reading a tag moves the position forward.
\<close>

section \<open>Addresses\<close>

definition inet_ntoa :: "octets \<Rightarrow> pystr" where
  "inet_ntoa a = decimal_text (unat (a ! 0)) @ lit ''.'' @ decimal_text (unat (a ! 1)) @ lit ''.''
     @ decimal_text (unat (a ! 2)) @ lit ''.'' @ decimal_text (unat (a ! 3))"

definition hex_digit :: "nat \<Rightarrow> nat" where
  "hex_digit d = (if d < 10 then 48 + d else 87 + d)"

definition hex_text :: "octets \<Rightarrow> pystr" where
  "hex_text octets = concat (map (\<lambda>b. [hex_digit (unat b div 16), hex_digit (unat b mod 16)]) octets)"

definition mac_text :: "octets \<Rightarrow> pystr" where
  "mac_text octets =
     (if length octets = 6
      then inet_ntoa (take 4 octets) @ lit '':'' @ decimal_text (nat (from_bytes (drop 4 octets)))
      else hex_text octets)"

section \<open>Tags\<close>

datatype tag_kind = Kopen | Kclose | Kvalue

text \<open>Number, context-specific?, kind, value octets, next position.\<close>

type_synonym tag = "int \<times> bool \<times> tag_kind \<times> octets \<times> nat"

text \<open>The length in the low bits of the first octet, or in the one, two or four octets after it.\<close>

definition tag_length :: "octets \<Rightarrow> nat \<Rightarrow> int \<Rightarrow> (int \<times> nat) result" where
  "tag_length data position low =
     (if low = 5 then
        chain (index data position) (\<lambda>l.
          if l = 254 then chain (unpack_u 2 (slice data (position + 1) (position + 3)))
                            (\<lambda>v. Inr (v, position + 3))
          else if l = 255 then chain (unpack_u 4 (slice data (position + 1) (position + 5)))
                                 (\<lambda>v. Inr (v, position + 5))
          else Inr (l, position + 1))
      else Inr (low, position))"

definition tag_number :: "octets \<Rightarrow> nat \<Rightarrow> int \<Rightarrow> (int \<times> nat) result" where
  "tag_number data position number =
     (if number = 0x0F then chain (index data position) (\<lambda>n. Inr (n, position + 1))
      else Inr (number, position))"

definition read_tag :: "octets \<Rightarrow> nat \<Rightarrow> tag result" where
  "read_tag data position =
     chain (index data position) (\<lambda>first.
       let is_context = (first AND 0x08 \<noteq> 0); low = first AND 0x07
       in chain (tag_number data (position + 1) (drop_bit 4 first)) (\<lambda>(number, position).
            if is_context \<and> low = 6 then Inr (number, True, Kopen, [], position)
            else if is_context \<and> low = 7 then Inr (number, True, Kclose, [], position)
            else chain (tag_length data position low) (\<lambda>(length_value, position).
              if \<not> is_context \<and> number = 1
              then chain (byte length_value) (\<lambda>b. Inr (number, False, Kvalue, b, position))
              else Inr (number, is_context, Kvalue,
                        slice data position (position + nat length_value),
                        position + nat length_value))))"

lemma read_tag_progress:
  assumes "read_tag data p = Inr (number, ctx, kind, body, q)"
  shows "p < length data" "p < q"
  using assms
  by (auto simp: read_tag_def tag_number_def tag_length_def result_simps index_eq_Inr Let_def split: if_splits)

lemma read_tag_end: "length data \<le> p \<Longrightarrow> read_tag data p = Inl IndexError"
  by (simp add: read_tag_def index_def)

subsection \<open>Loops over tags\<close>

text \<open>
  \<^verbatim>\<open>while position < len(data): tag = read_tag(data, position); ...\<close>, the loop of every parser
  that walks a run of tags: the body gets the tag's first position, the tag and the loop's
  variables.
\<close>

function for_tags :: "octets \<Rightarrow> (nat \<Rightarrow> tag \<Rightarrow> 's \<Rightarrow> 's result) \<Rightarrow> nat \<Rightarrow> 's \<Rightarrow> 's result" where
  "for_tags data f position s =
     (if position < length data then
        chain (read_tag data position) (\<lambda>(number, is_context, kind, body, next).
        chain (f position (number, is_context, kind, body, next) s) (\<lambda>s'. for_tags data f next s'))
      else Inr s)"
  by pat_completeness auto
termination
  by (relation "measure (\<lambda>(data, f, position, s). length data - position)")
    (auto dest: read_tag_progress)

declare for_tags.simps [simp del]

text \<open>
  The inner loop \<^verbatim>\<open>while depth\<close>: from just after an opening tag, the first position of the closing
  tag that matches it and the position after it.
\<close>

function close_scan :: "octets \<Rightarrow> nat \<Rightarrow> nat \<Rightarrow> (nat \<times> nat) result" where
  "close_scan data position depth =
     chain (read_tag data position) (\<lambda>(number, is_context, kind, body, next).
       case kind of
         Kopen \<Rightarrow> close_scan data next (depth + 1)
       | Kclose \<Rightarrow> (if depth - 1 = 0 then Inr (position, next) else close_scan data next (depth - 1))
       | Kvalue \<Rightarrow> close_scan data next depth)"
  by pat_completeness auto
termination
proof (relation "measure (\<lambda>(data, position, depth). length data - position)")
qed (auto dest: read_tag_progress diff_less_mono2)

declare close_scan.simps [simp del]

section \<open>Frames\<close>

record frame =
  f_raw :: octets
  f_source :: "pystr \<times> int"
  f_bvlc_function :: "int option"
  f_bvll_data :: octets
  f_originating_mac :: octets
  f_has_npdu :: bool
  f_snet :: "int option"
  f_sadr :: octets
  f_dnet :: "int option"
  f_dadr :: octets
  f_expecting_reply :: bool
  f_network_message :: "int option"
  f_payload :: octets
  f_ok :: bool

definition new_frame :: "octets \<Rightarrow> pystr \<times> int \<Rightarrow> frame" where
  "new_frame data source =
     \<lparr>f_raw = data, f_source = source, f_bvlc_function = None, f_bvll_data = [],
      f_originating_mac = [], f_has_npdu = False, f_snet = None, f_sadr = [], f_dnet = None,
      f_dadr = [], f_expecting_reply = False, f_network_message = None, f_payload = [], f_ok = False\<rparr>"

text \<open>\<^verbatim>\<open>struct.unpack(">HB", ...)\<close> and the address of that length after it.\<close>

definition decode_address :: "octets \<Rightarrow> nat \<Rightarrow> (int \<times> octets \<times> nat) result" where
  "decode_address octets position =
     (let header = slice octets position (position + 3) in
      if length header \<noteq> 3 then Inl StructError
      else let n = unat (header ! 2) in
        Inr (from_bytes (take 2 header), slice octets (position + 3) (position + 3 + n), position + 3 + n))"

definition frame_decode :: "octets \<Rightarrow> frame \<Rightarrow> (frame \<times> bool) result" where
  "frame_decode data f =
     (if length data < 4 \<or> uint (data ! 0) \<noteq> BVLC_TYPE then Inr (f, False)
      else let bvlc_function = uint (data ! 1);
               f = f\<lparr>f_bvlc_function := Some bvlc_function, f_bvll_data := drop 4 data\<rparr> in
      if bvlc_function \<notin> set BVLC_FUNCTIONS_WITH_NPDU then Inr (f, True)
      else let forwarded = (bvlc_function = BVLC_FORWARDED_NPDU);
               f = (if forwarded then f\<lparr>f_originating_mac := slice data 4 10\<rparr> else f);
               octets = drop (if forwarded then 10 else 4) data in
      if length octets < 2 \<or> uint (octets ! 0) \<noteq> 0x01 then Inr (f, False)
      else let control = uint (octets ! 1);
               f = f\<lparr>f_has_npdu := True, f_expecting_reply := (control AND 0x04 \<noteq> 0)\<rparr> in
      chain (if control AND 0x20 \<noteq> 0
             then chain (decode_address octets 2) (\<lambda>(net, adr, position).
                    Inr (f\<lparr>f_dnet := Some net, f_dadr := adr\<rparr>, position))
             else Inr (f, 2)) (\<lambda>(f, position).
      chain (if control AND 0x08 \<noteq> 0
             then chain (decode_address octets position) (\<lambda>(net, adr, position).
                    Inr (f\<lparr>f_snet := Some net, f_sadr := adr\<rparr>, position))
             else Inr (f, position)) (\<lambda>(f, position).
      let position = (if control AND 0x20 \<noteq> 0 then position + 1 else position) in
      chain (if control AND 0x80 \<noteq> 0
             then chain (index octets position) (\<lambda>m.
                    Inr (f\<lparr>f_network_message := Some m\<rparr>,
                         if m \<ge> 0x80 then position + 3 else position + 1))
             else Inr (f, position)) (\<lambda>(f, position).
      Inr (f\<lparr>f_payload := drop position octets\<rparr>, True)))))"

text \<open>The constructor: it raises what \<^verbatim>\<open>_decode\<close> raises.\<close>

definition Frame :: "octets \<Rightarrow> pystr \<times> int \<Rightarrow> frame result" where
  "Frame data source =
     chain (frame_decode data (new_frame data source)) (\<lambda>(f, ok). Inr (f\<lparr>f_ok := ok\<rparr>))"

definition pdu_type :: "frame \<Rightarrow> int option" where
  "pdu_type f =
     (case f_payload f of
        b # _ \<Rightarrow> if f_network_message f = None then Some (drop_bit 4 (uint b)) else None
      | [] \<Rightarrow> None)"

definition frame_invoke_id :: "frame \<Rightarrow> int option result" where
  "frame_invoke_id f =
     (if pdu_type f \<in> Some ` {PDU_SIMPLE_ACK, PDU_COMPLEX_ACK, PDU_ERROR, PDU_REJECT, PDU_ABORT}
      then chain (index (f_payload f) 1) (\<lambda>x. Inr (Some x))
      else if pdu_type f = Some PDU_CONFIRMED_REQUEST \<and> length (f_payload f) > 2
      then chain (index (f_payload f) 2) (\<lambda>x. Inr (Some x))
      else Inr None)"

definition frame_service :: "frame \<Rightarrow> int option result" where
  "frame_service f =
     (if pdu_type f \<in> Some ` {PDU_SIMPLE_ACK, PDU_COMPLEX_ACK, PDU_ERROR}
      then chain (index (f_payload f) 2) (\<lambda>x. Inr (Some x))
      else if pdu_type f = Some PDU_CONFIRMED_REQUEST \<and> length (f_payload f) > 3
      then chain (index (f_payload f) 3) (\<lambda>x. Inr (Some x))
      else if pdu_type f = Some PDU_UNCONFIRMED_REQUEST \<and> length (f_payload f) > 1
      then chain (index (f_payload f) 1) (\<lambda>x. Inr (Some x))
      else Inr None)"

definition result_code :: "frame \<Rightarrow> int option" where
  "result_code f =
     (if f_bvlc_function f = Some BVLC_RESULT \<and> length (f_bvll_data f) \<ge> 2
      then Some (from_bytes (take 2 (f_bvll_data f))) else None)"

text \<open>\<^verbatim>\<open>range(0, n, step)\<close>.\<close>

definition offsets :: "nat \<Rightarrow> nat \<Rightarrow> nat list" where
  "offsets n step = map (\<lambda>k. step * k) [0 ..< (n + step - 1) div step]"

definition bdt_entries :: "frame \<Rightarrow> (pystr \<times> pystr) list option" where
  "bdt_entries f =
     (if f_bvlc_function f \<noteq> Some BVLC_READ_BROADCAST_DISTRIBUTION_TABLE_ACK then None
      else Some (map (\<lambda>offset. (mac_text (slice (f_bvll_data f) offset (offset + 6)),
                               inet_ntoa (slice (f_bvll_data f) (offset + 6) (offset + 10))))
                   (offsets (length (f_bvll_data f) - 9) 10)))"

definition fdt_entries :: "frame \<Rightarrow> (pystr \<times> int \<times> int) list option" where
  "fdt_entries f =
     (if f_bvlc_function f \<noteq> Some BVLC_READ_FOREIGN_DEVICE_TABLE_ACK then None
      else Some (map (\<lambda>offset. (mac_text (slice (f_bvll_data f) offset (offset + 6)),
                               from_bytes (slice (f_bvll_data f) (offset + 6) (offset + 8)),
                               from_bytes (slice (f_bvll_data f) (offset + 8) (offset + 10))))
                   (offsets (length (f_bvll_data f) - 9) 10)))"

definition networks :: "frame \<Rightarrow> int list" where
  "networks f = map (\<lambda>offset. from_bytes (slice (f_payload f) offset (offset + 2)))
                  (offsets (length (f_payload f) - 1) 2)"

section \<open>Values\<close>

text \<open>What the decoders return: the Python values of clause 20.2's primitives.\<close>

datatype pyval =
    PNone
  | PBool bool
  | PInt int
  | PFloat pyfloat
  | PStr pystr
  | PBits "bool list"
  | PObject int int
  | PBytes octets

text \<open>\<^verbatim>\<open>struct.unpack(">I", body)[0]\<close> split into object type and instance.\<close>

definition object_identifier :: "octets \<Rightarrow> (int \<times> int) result" where
  "object_identifier body = chain (unpack_u 4 body) (\<lambda>raw. Inr (drop_bit 22 raw, raw AND MAX_INSTANCE))"

text \<open>\<^verbatim>\<open>xs[:i]\<close>: a negative bound counts from the end.\<close>

definition slice_to :: "'a list \<Rightarrow> int \<Rightarrow> 'a list" where
  "slice_to xs i = take (nat (if i < 0 then int (length xs) + i else i)) xs"

definition octet_bits :: "octet \<Rightarrow> bool list" where
  "octet_bits b = map (\<lambda>position. b AND drop_bit position 0x80 \<noteq> 0) [0 ..< 8]"

definition bit_list :: "octets \<Rightarrow> bool list result" where
  "bit_list body = chain (index body 0) (\<lambda>unused.
     let bits = concat (map octet_bits (drop 1 body))
     in Inr (if unused \<noteq> 0 then slice_to bits (int (length bits) - unused) else bits))"

text \<open>The value of a primitive from its application tag number and its value octets.\<close>

definition decode_body :: "int \<Rightarrow> octets \<Rightarrow> pyval result" where
  "decode_body number body =
     (if number = TAG_NULL then Inr PNone
      else if number = TAG_BOOLEAN then chain (index body 0) (\<lambda>v. Inr (PBool (v \<noteq> 0)))
      else if number \<in> {TAG_UNSIGNED, TAG_ENUMERATED} then Inr (PInt (from_bytes body))
      else if number = TAG_SIGNED then Inr (PInt (from_bytes_signed body))
      else if number = TAG_REAL then chain (unpack_f body) (\<lambda>v. Inr (PFloat v))
      else if number = TAG_DOUBLE then chain (unpack_d body) (\<lambda>v. Inr (PFloat v))
      else if number = TAG_CHARACTER_STRING then Inr (PStr (utf8_decode (drop 1 body)))
      else if number = TAG_BIT_STRING then chain (bit_list body) (\<lambda>v. Inr (PBits v))
      else if number = TAG_OBJECT_IDENTIFIER
      then chain (object_identifier body) (\<lambda>(t, i). Inr (PObject t i))
      else Inr (PBytes body))"

definition decode_application :: "octets \<Rightarrow> pyval result" where
  "decode_application octets =
     (if octets = [] then Inr PNone
      else chain (read_tag octets 0) (\<lambda>(number, is_context, kind, body, _).
        if is_context \<or> kind \<noteq> Kvalue then Inr PNone else decode_body number body))"

definition application_tag :: "octets \<Rightarrow> int option result" where
  "application_tag octets =
     (if octets = [] then Inr None
      else chain (read_tag octets 0) (\<lambda>(number, is_context, _).
        Inr (if is_context then None else Some number)))"

definition character_string :: "octets \<Rightarrow> pystr option result" where
  "character_string v =
     (if v = [] then Inr None
      else chain (read_tag v 0) (\<lambda>(number, is_context, kind, body, _).
        Inr (if is_context \<or> number \<noteq> 7 \<or> body = [] then None else Some (utf8_decode (drop 1 body)))))"

subsection \<open>Runs of tags\<close>

definition application_elements :: "octets \<Rightarrow> octets list result" where
  "application_elements octets =
     for_tags octets (\<lambda>start (number, is_context, kind, body, position) elements.
       Inr (elements @ [slice octets start position])) 0 []"

definition application_values :: "octets \<Rightarrow> (int \<times> octets) list result" where
  "application_values octets =
     for_tags octets (\<lambda>_ (number, is_context, kind, body, _) values.
       Inr (if kind = Kvalue \<and> \<not> is_context then values @ [(number, body)] else values)) 0 []"

definition context_values :: "octets \<Rightarrow> (int \<times> octets) list result" where
  "context_values octets =
     for_tags octets (\<lambda>_ (number, is_context, kind, body, _) values.
       Inr (if is_context \<and> kind = Kvalue then values @ [(number, body)] else values)) 0 []"

definition decoded_values :: "octets \<Rightarrow> pyval list result" where
  "decoded_values octets =
     for_tags octets (\<lambda>start (number, is_context, kind, body, position) values.
       if kind = Kvalue \<and> \<not> is_context
       then chain (decode_application (slice octets start position)) (\<lambda>v. Inr (values @ [v]))
       else Inr values) 0 []"

definition error_class_and_code :: "octets \<Rightarrow> (int \<times> int) option result" where
  "error_class_and_code apdu = chain (application_values (drop 3 apdu)) (\<lambda>values.
     Inr (if length values < 2 then None
          else Some (from_bytes (snd (values ! 0)), from_bytes (snd (values ! 1)))))"

text \<open>
  A Python dict keeps its keys in insertion order; \<^const>\<open>AList.update\<close> replaces in place or appends.
\<close>

type_synonym specifications = "((int \<times> int) \<times> int list) list"

text \<open>The loop body: the dict so far and the object whose property list is open.\<close>

fun specification_step ::
  "nat \<Rightarrow> tag \<Rightarrow> specifications \<times> (int \<times> int) option \<Rightarrow> (specifications \<times> (int \<times> int) option) result" where
  "specification_step _ (number, is_context, kind, body, _) (members, current) =
     (if kind = Kvalue \<and> is_context \<and> number = 0 \<and> length body = 4 \<and> current = None
      then chain (object_identifier body) (\<lambda>key. Inr (AList.update key [] members, Some key))
      else if kind = Kvalue \<and> is_context \<and> number = 0 \<and> current \<noteq> None
      then (case map_of members (the current) of
              None \<Rightarrow> Inl KeyError
            | Some ids \<Rightarrow> Inr (AList.update (the current) (ids @ [from_bytes body]) members, current))
      else if kind = Kclose \<and> number = 1 then Inr (members, None)
      else Inr (members, current))"

definition read_access_specifications :: "octets \<Rightarrow> specifications result" where
  "read_access_specifications v =
     chain (for_tags v specification_step 0 ([], None)) (\<lambda>(members, _). Inr members)"

section \<open>APDUs\<close>

definition i_am_device_instance :: "octets \<Rightarrow> int option result" where
  "i_am_device_instance apdu =
     (if length apdu < 7 \<or> drop_bit 4 (uint (apdu ! 0)) \<noteq> PDU_UNCONFIRMED_REQUEST
         \<or> uint (apdu ! 1) \<noteq> SERVICE_I_AM then Inr None
      else chain (read_tag apdu 2) (\<lambda>(number, is_context, kind, body, _).
        if is_context \<or> number \<noteq> 12 \<or> length body \<noteq> 4 then Inr None
        else chain (unpack_u 4 body) (\<lambda>identifier.
          Inr (if drop_bit 22 identifier = OBJECT_TYPE_DEVICE then Some (identifier AND MAX_INSTANCE)
               else None))))"

function read_property_value_from :: "octets \<Rightarrow> nat \<Rightarrow> octets option result" where
  "read_property_value_from apdu position =
     (if position < length apdu then
        chain (read_tag apdu position) (\<lambda>(number, is_context, kind, body, next).
          if is_context \<and> number = 3 \<and> kind = Kopen
          then chain (close_scan apdu next 1) (\<lambda>(tag_start, _). Inr (Some (slice apdu next tag_start)))
          else read_property_value_from apdu next)
      else Inr None)"
  by pat_completeness auto
termination
  by (relation "measure (\<lambda>(apdu, position). length apdu - position)") (auto dest: read_tag_progress)

declare read_property_value_from.simps [simp del]

definition read_property_value :: "octets \<Rightarrow> octets option result" where
  "read_property_value apdu = read_property_value_from apdu 3"

text \<open>\<^verbatim>\<open>except (IndexError, struct.error): return None\<close>; any other exception leaves the function.\<close>

definition parse_guard :: "'a option result \<Rightarrow> 'a option result" where
  "parse_guard m = (case m of
      Inl e \<Rightarrow> if e = IndexError \<or> e = StructError then Inr None else Inl e
    | Inr x \<Rightarrow> Inr x)"

text \<open>The result without \<^verbatim>\<open>with_array_index\<close> is the source's three values, with no array index.\<close>

definition parse_read_property_request :: "octets \<Rightarrow> bool \<Rightarrow> (int \<times> int \<times> int \<times> int option) option result" where
  "parse_read_property_request apdu with_array_index = parse_guard (
     chain (read_tag apdu 4) (\<lambda>(_, _, _, body, position).
     chain (object_identifier body) (\<lambda>(object_type, inst).
     chain (read_tag apdu position) (\<lambda>(_, _, _, property_octets, position).
     let property_identifier = from_bytes property_octets in
     if \<not> with_array_index then Inr (Some (object_type, inst, property_identifier, None))
     else if position < length apdu then
       chain (read_tag apdu position) (\<lambda>(number, is_context, kind, body, _).
         Inr (Some (object_type, inst, property_identifier,
           if is_context \<and> number = 2 \<and> kind = Kvalue then Some (from_bytes body) else None)))
     else Inr (Some (object_type, inst, property_identifier, None))))))"

record write_request =
  wr_object_type :: int
  wr_instance :: int
  wr_property_identifier :: int
  wr_array_index :: "int option"
  wr_value_octets :: octets
  wr_priority :: "int option"

definition parse_write_property_request :: "octets \<Rightarrow> write_request option result" where
  "parse_write_property_request apdu = parse_guard (
     chain (index apdu 0) (\<lambda>first.
     if drop_bit 4 first \<noteq> PDU_CONFIRMED_REQUEST then Inr None else
     chain (index apdu 3) (\<lambda>service.
     if service \<noteq> SERVICE_WRITE_PROPERTY then Inr None else
     chain (read_tag apdu 4) (\<lambda>(_, _, _, body, position).
     chain (object_identifier body) (\<lambda>(object_type, inst).
     chain (read_tag apdu position) (\<lambda>(_, _, _, property_octets, position).
     chain (read_tag apdu position) (\<lambda>(number, _, kind, index_octets, after).
     let array_index = (if number = 2 \<and> kind = Kvalue then Some (from_bytes index_octets) else None);
         position = (if number = 2 \<and> kind = Kvalue then after else position) in
     chain (read_tag apdu position) (\<lambda>(_, _, _, _, start).
     chain (close_scan apdu start 1) (\<lambda>(tag_start, position).
     chain (if position < length apdu
            then chain (read_tag apdu position) (\<lambda>(_, _, _, body, _). Inr (Some (from_bytes body)))
            else Inr None) (\<lambda>priority.
     Inr (Some \<lparr>wr_object_type = object_type, wr_instance = inst,
       wr_property_identifier = from_bytes property_octets, wr_array_index = array_index,
       wr_value_octets = slice apdu start tag_start, wr_priority = priority\<rparr>)))))))))))"

end
