(* ===== verification/Codec_Laws.thy ===== *)
theory Codec_Laws
  imports Codec_Decode
begin

text \<open>
  The contract between the two halves of the codec. First, reading a tag is local: it depends
  on the tag's own octets and not on what surrounds them. Then a reference encoding of clause
  20.2.1 that the tag reader inverts, and a locale for the encoders of the source: an encoder
  that produces one readable tag is readable at any place of an APDU, and a run of such values
  splits back into its elements.
\<close>

section \<open>Reading is local\<close>

lemma index_shift: "index (pre @ data) (length pre + p) = index data p"
  by (simp add: index_def nth_append)

lemma slice_shift: "slice (pre @ data) (length pre + a) (length pre + b) = slice data a b"
  by (simp add: slice_def)

lemma tag_number_shift:
  "tag_number (pre @ data) (length pre + p) n =
     chain (tag_number data p n) (\<lambda>(m, q). Inr (m, length pre + q))"
  by (simp add: tag_number_def index_shift result_simps add.assoc)

lemma tag_length_shift:
  "tag_length (pre @ data) (length pre + p) low =
     chain (tag_length data p low) (\<lambda>(m, q). Inr (m, length pre + q))"
  using slice_shift [of pre data "p + 1" "p + 3"] slice_shift [of pre data "p + 1" "p + 5"]
  by (auto simp: tag_length_def index_shift result_simps add.assoc chain_def split: sum.splits)

lemma read_tag_shift:
  "read_tag (pre @ data) (length pre + p) =
     chain (read_tag data p) (\<lambda>(n, c, k, b, q). Inr (n, c, k, b, length pre + q))"
  unfolding read_tag_def Let_def index_shift add.assoc tag_number_shift chain_assoc
  by (auto simp: chain_def tag_length_shift slice_shift add.assoc split: sum.splits)

lemma index_extend: "index data p = Inr x \<Longrightarrow> index (data @ post) p = Inr x"
  by (simp add: index_eq_Inr nth_append)

lemma slice_extend: "b \<le> length data \<Longrightarrow> slice (data @ post) a b = slice data a b"
  by (simp add: slice_def)

lemma slice_empty [simp]: "slice data a a = []"
  by (simp add: slice_def)

lemma unpack_extend:
  "unpack_u n (slice data a (a + n)) = Inr v \<Longrightarrow> unpack_u n (slice (data @ post) a (a + n)) = Inr v"
  by (cases "a + n \<le> length data") (auto simp: slice_extend unpack_u_def length_slice split: if_splits)

lemma tag_number_extend: "tag_number data p n = Inr t \<Longrightarrow> tag_number (data @ post) p n = Inr t"
  by (auto simp: tag_number_def result_simps dest: index_extend [of _ _ _ post] split: if_splits)

lemma tag_length_extend:
  assumes "tag_length data p low = Inr t"
  shows "tag_length (data @ post) p low = Inr t"
proof (cases "low = 5")
  case True
  with assms obtain l where l: "index data p = Inr l" by (auto simp: tag_length_def result_simps)
  with assms True unpack_extend [of 2 data "p + 1" _ post] unpack_extend [of 4 data "p + 1" _ post]
  show ?thesis
    by (auto simp: tag_length_def result_simps index_extend [OF l, of post] numeral_eq_Suc split: if_splits)
next
  case False
  with assms show ?thesis by (simp add: tag_length_def)
qed

lemma read_tag_extend:
  assumes "read_tag data p = Inr (n, c, k, b, q)" "q \<le> length data"
  shows "read_tag (data @ post) p = Inr (n, c, k, b, q)"
proof -
  from assms(1) obtain first m r where f: "index data p = Inr first"
    and m: "tag_number data (p + 1) (drop_bit 4 first) = Inr (m, r)"
    by (auto simp: read_tag_def Let_def result_simps)
  note ext = index_extend [OF f, of post] tag_number_extend [OF m, of post]
  show ?thesis
  proof (cases "first AND 8 \<noteq> 0 \<and> (first AND 7 = 6 \<or> first AND 7 = 7)")
    case True
    with assms(1) ext f m show ?thesis by (auto simp: read_tag_def Let_def split: if_splits)
  next
    case False
    with assms(1) f m obtain l s where l: "tag_length data r (first AND 7) = Inr (l, s)"
      by (auto simp: read_tag_def Let_def result_simps split: if_splits)
    from assms False ext f m l tag_length_extend [OF l, of post] show ?thesis
      by (auto simp: read_tag_def Let_def slice_extend split: if_splits)
  qed
qed

text \<open>One whole tag, and nothing after it.\<close>

definition tag_of :: "octets \<Rightarrow> (int \<times> bool \<times> tag_kind \<times> octets) option" where
  "tag_of x = (case read_tag x 0 of
      Inr (n, c, k, b, q) \<Rightarrow> if q = length x then Some (n, c, k, b) else None
    | Inl _ \<Rightarrow> None)"

lemma tag_of_eq_Some:
  "tag_of x = Some (n, c, k, b) \<longleftrightarrow> read_tag x 0 = Inr (n, c, k, b, length x)"
  by (auto simp: tag_of_def split: sum.splits if_splits)

lemma tag_of_nonempty: "tag_of x = Some t \<Longrightarrow> 0 < length x"
  by (cases t) (auto simp: tag_of_eq_Some dest: read_tag_progress)

lemma read_tag_of:
  assumes "tag_of x = Some (n, c, k, b)"
  shows "read_tag (pre @ x @ post) (length pre) = Inr (n, c, k, b, length pre + length x)"
proof -
  from assms have "read_tag (x @ post) 0 = Inr (n, c, k, b, length x)"
    by (intro read_tag_extend) (simp_all add: tag_of_eq_Some)
  with read_tag_shift [of pre "x @ post" 0] show ?thesis by simp
qed

lemma read_tag_of_0: "tag_of x = Some (n, c, k, b) \<Longrightarrow> read_tag (x @ post) 0 = Inr (n, c, k, b, length x)"
  using read_tag_of [of x n c k b "[]" post] by simp

section \<open>The reference encoding of a tag\<close>

text \<open>
  Clause 20.2.1: the tag number in the high four bits or, from 15 on, in the next octet; bit 3
  the class; the length in the low three bits or, from 5 on, in one, two or four more octets.
\<close>

definition length_octets :: "nat \<Rightarrow> octets" where
  "length_octets n =
     (if n < 5 then [] else if n < 254 then [oct (int n)]
      else if n < 65536 then 254 # be_bytes 2 (int n) else 255 # be_bytes 4 (int n))"

definition tag_octets :: "int \<Rightarrow> int \<Rightarrow> octets" where
  "tag_octets num low =
     (if num < 15 then [oct (16 * num + low)] else [oct (16 * 15 + low), oct num])"

definition primitive :: "int \<Rightarrow> bool \<Rightarrow> octets \<Rightarrow> octets" where
  "primitive num ctx body =
     tag_octets num ((if ctx then 8 else 0) + (if length body < 5 then int (length body) else 5))
       @ length_octets (length body) @ body"

lemma and_7: "(a::int) AND 7 = a mod 8"
  using take_bit_eq_mask [of 3 a] by (simp add: mask_numeral take_bit_eq_mod)

lemma and_8: "(a::int) AND 8 \<noteq> 0 \<longleftrightarrow> bit a 3"
  using and_exp_eq_0_iff_not_bit [of a 3] by simp

lemma nibble_arith:
  fixes num low :: int
  shows "(16 * num + low) mod 8 = low mod 8"
    "0 \<le> low \<Longrightarrow> low < 16 \<Longrightarrow> odd ((16 * num + low) div 8) \<longleftrightarrow> 8 \<le> low"
proof -
  have s: "16 * num + low = low + 8 * (2 * num)" by simp
  show "(16 * num + low) mod 8 = low mod 8" unfolding s by (rule mod_mult_self2)
  have d: "(16 * num + low) div 8 = 2 * num + low div 8" unfolding s by (subst div_mult_self2) simp_all
  assume "0 \<le> low" "low < 16"
  then have "low div 8 = (if 8 \<le> low then 1 else 0)"
    by (cases "8 \<le> low") (simp_all add: div_pos_pos_trivial int_div_pos_eq [where r = "low - 8" and q = 1])
  then show "odd ((16 * num + low) div 8) \<longleftrightarrow> 8 \<le> low" unfolding d by simp
qed

lemma first_octet:
  fixes num low :: int
  assumes "0 \<le> num" "num < 16" "0 \<le> low" "low < 16"
  shows "drop_bit 4 (16 * num + low) = num" "(16 * num + low) AND 7 = low mod 8"
    "(16 * num + low) AND 8 \<noteq> 0 \<longleftrightarrow> 8 \<le> low"
proof -
  have "(16 * num + low) div 2 ^ 4 = num" using assms by simp
  then show "drop_bit 4 (16 * num + low) = num" by (simp only: drop_bit_eq_div)
  show "(16 * num + low) AND 7 = low mod 8" by (simp only: and_7 nibble_arith(1))
  have "bit (16 * num + low) 3 \<longleftrightarrow> odd ((16 * num + low) div 2 ^ 3)" by (rule bit_iff_odd)
  also have "\<dots> \<longleftrightarrow> 8 \<le> low" using nibble_arith(2) [OF assms(3,4), of num] by simp
  finally show "(16 * num + low) AND 8 \<noteq> 0 \<longleftrightarrow> 8 \<le> low" by (simp only: and_8)
qed

lemma unpack_be_bytes_2 [simp]:
  "0 \<le> n \<Longrightarrow> n < 65536 \<Longrightarrow> unpack_u 2 (be_bytes 2 n) = Inr n"
  "0 \<le> m \<Longrightarrow> m < 4294967296 \<Longrightarrow> unpack_u 4 (be_bytes 4 m) = Inr m"
  by (simp_all add: unpack_u_be_bytes)

text \<open>The reader's two helpers on the reference encoding, at the head of the remaining octets.\<close>

lemma tag_length_octets:
  assumes "length body < 4294967296"
  shows "tag_length (pre @ length_octets (length body) @ body @ post) (length pre)
           (if length body < 5 then int (length body) else 5)
         = Inr (int (length body), length pre + length (length_octets (length body)))"
proof -
  let ?n = "length body"
  let ?rest = "length_octets ?n @ body @ post"
  have s: "tag_length (pre @ ?rest) (length pre + 0) low =
      chain (tag_length ?rest 0 low) (\<lambda>(m, q). Inr (m, length pre + q))" for low
    by (rule tag_length_shift)
  consider "?n < 5" | "5 \<le> ?n" "?n < 254" | "254 \<le> ?n" "?n < 65536" | "65536 \<le> ?n" by linarith
  then have "tag_length ?rest 0 (if ?n < 5 then int ?n else 5) = Inr (int ?n, length (length_octets ?n))"
  proof cases
    case 1
    then show ?thesis by (simp add: tag_length_def length_octets_def)
  next
    case 2
    then show ?thesis by (simp add: tag_length_def length_octets_def index_def uint_oct)
  next
    case 3
    then have "take 2 (be_bytes 2 (int ?n) @ body @ post) = be_bytes 2 (int ?n)" by simp
    with 3 show ?thesis
      by (simp add: tag_length_def length_octets_def index_def slice_def)
  next
    case 4
    then have "take 4 (be_bytes 4 (int ?n) @ body @ post) = be_bytes 4 (int ?n)" by simp
    with 4 assms show ?thesis
      by (simp add: tag_length_def length_octets_def index_def slice_def)
  qed
  with s show ?thesis by simp
qed

lemma tag_number_octets:
  assumes "0 \<le> num" "num < 256" "0 \<le> low" "low < 16"
  shows "\<exists>first. index (tag_octets num low @ rest) 0 = Inr first
           \<and> tag_number (tag_octets num low @ rest) 1 (drop_bit 4 first) = Inr (num, length (tag_octets num low))
           \<and> first AND 7 = low mod 8 \<and> (first AND 8 \<noteq> 0 \<longleftrightarrow> 8 \<le> low)"
proof (cases "num < 15")
  case True
  with assms first_octet [of num low] show ?thesis
    by (simp add: tag_octets_def tag_number_def index_def uint_oct)
next
  case False
  with assms first_octet [of 15 low] show ?thesis
    by (simp add: tag_octets_def tag_number_def index_def uint_oct)
qed

lemma tag_of_primitive:
  assumes "0 \<le> num" "num < 256" "length body < 4294967296" "ctx \<or> num \<noteq> 1"
  shows "tag_of (primitive num ctx body) = Some (num, ctx, Kvalue, body)"
proof -
  define low where "low = (if ctx then 8 else 0 :: int) + (if length body < 5 then int (length body) else 5)"
  have low: "0 \<le> low" "low < 16" "low mod 8 = (if length body < 5 then int (length body) else 5)"
    "8 \<le> low \<longleftrightarrow> ctx" "low mod 8 \<noteq> 6" "low mod 8 \<noteq> 7"
    by (auto simp: low_def)
  define rest where "rest = length_octets (length body) @ body"
  have x: "primitive num ctx body = tag_octets num low @ rest"
    by (simp add: primitive_def low_def rest_def)
  obtain first where f: "index (tag_octets num low @ rest) 0 = Inr first"
    "tag_number (tag_octets num low @ rest) 1 (drop_bit 4 first) = Inr (num, length (tag_octets num low))"
    "first AND 7 = low mod 8" "first AND 8 \<noteq> 0 \<longleftrightarrow> 8 \<le> low"
    using tag_number_octets [OF assms(1,2) low(1,2)] by blast
  have l: "tag_length (tag_octets num low @ rest) (length (tag_octets num low)) (low mod 8)
      = Inr (int (length body), length (tag_octets num low) + length (length_octets (length body)))"
    using tag_length_octets [OF assms(3), of "tag_octets num low" "[]"] by (simp add: rest_def low(3))
  have sl: "slice (tag_octets num low @ rest) (length (tag_octets num low) + length (length_octets (length body)))
      (length (tag_octets num low) + length (length_octets (length body)) + length body) = body"
    by (simp add: slice_def rest_def)
  show ?thesis
    unfolding tag_of_eq_Some x
    using f l low assms(4) sl by (auto simp: read_tag_def Let_def rest_def)
qed

section \<open>Runs of tags\<close>

text \<open>\<^const>\<open>for_tags\<close> over a concatenation of whole tags, as a fold over the tags.\<close>

fun tags_fold :: "(nat \<Rightarrow> tag \<Rightarrow> 's \<Rightarrow> 's result) \<Rightarrow> nat \<Rightarrow> octets list \<Rightarrow> 's \<Rightarrow> 's result" where
  "tags_fold f p [] s = Inr s"
| "tags_fold f p (x # xs) s =
     (case tag_of x of
        None \<Rightarrow> Inl ValueError
      | Some (n, c, k, b) \<Rightarrow>
          chain (f p (n, c, k, b, p + length x) s) (\<lambda>s'. tags_fold f (p + length x) xs s'))"

lemma for_tags_end: "length data \<le> p \<Longrightarrow> for_tags data f p s = Inr s"
  by (simp add: for_tags.simps)

lemma for_tags_step:
  assumes "tag_of x = Some (n, c, k, b)"
  shows "for_tags (pre @ x @ post) f (length pre) s =
     chain (f (length pre) (n, c, k, b, length pre + length x) s)
       (\<lambda>s'. for_tags (pre @ x @ post) f (length pre + length x) s')"
  using read_tag_of [OF assms, of pre post] tag_of_nonempty [OF assms]
  by (subst for_tags.simps) simp

lemma for_tags_run:
  assumes "\<forall>x \<in> set xs. tag_of x \<noteq> None"
  shows "for_tags (pre @ concat xs) f (length pre) s = tags_fold f (length pre) xs s"
  using assms
proof (induction xs arbitrary: pre s)
  case Nil
  then show ?case by (simp add: for_tags_end)
next
  case (Cons x xs)
  then obtain n c k b where t: "tag_of x = Some (n, c, k, b)" by fastforce
  show ?case
    using Cons.IH [of "pre @ x"] Cons.prems for_tags_step [OF t, of pre "concat xs" f s]
    by (simp add: t cong: chain_cong)
qed

lemma for_tags_run_0:
  "\<forall>x \<in> set xs. tag_of x \<noteq> None \<Longrightarrow> for_tags (concat xs) f 0 s = tags_fold f 0 xs s"
  using for_tags_run [of xs "[]" f s] by simp

lemma elements_fold:
  assumes "\<forall>x \<in> set xs. tag_of x \<noteq> None" "data = pre @ concat xs @ post"
  shows "tags_fold (\<lambda>start (_, _, _, _, next) elements. Inr (elements @ [slice data start next]))
     (length pre) xs acc = Inr (acc @ xs)"
  using assms
proof (induction xs arbitrary: pre acc)
  case Nil
  then show ?case by simp
next
  case (Cons x xs)
  have "slice data (length pre) (length pre + length x) = x"
    using slice_append [of pre x "concat xs @ post"] Cons.prems(2) by simp
  with Cons.IH [of "pre @ x" "acc @ [x]"] Cons.prems show ?case
    by (auto split: option.splits)
qed

lemma application_elements_run:
  assumes "\<forall>x \<in> set xs. tag_of x \<noteq> None"
  shows "application_elements (concat xs) = Inr xs"
  unfolding application_elements_def for_tags_run_0 [OF assms]
  using elements_fold [OF assms, of "concat xs" "[]" "[]" "[]"] by simp

lemma values_fold:
  assumes "\<forall>x \<in> set xs. tag_of x \<noteq> None"
  shows "tags_fold (\<lambda>_ (n, c, k, b, _) vs. Inr (if P k c then vs @ [(n, b)] else vs)) p xs acc =
     Inr (acc @ concat (map (\<lambda>x. case the (tag_of x) of (n, c, k, b) \<Rightarrow> if P k c then [(n, b)] else []) xs))"
  using assms
proof (induction xs arbitrary: p acc)
  case Nil
  then show ?case by simp
next
  case (Cons x xs)
  then obtain n c k b where "tag_of x = Some (n, c, k, b)" by fastforce
  with Cons show ?case by simp
qed

lemma application_values_run:
  assumes "\<forall>x \<in> set xs. tag_of x \<noteq> None"
  shows "application_values (concat xs) = Inr (concat (map (\<lambda>x. case the (tag_of x) of
     (n, c, k, b) \<Rightarrow> if k = Kvalue \<and> \<not> c then [(n, b)] else []) xs))"
  unfolding application_values_def for_tags_run_0 [OF assms]
  using values_fold [OF assms, of "\<lambda>k c. k = Kvalue \<and> \<not> c" 0 "[]"] by simp

lemma context_values_run:
  assumes "\<forall>x \<in> set xs. tag_of x \<noteq> None"
  shows "context_values (concat xs) = Inr (concat (map (\<lambda>x. case the (tag_of x) of
     (n, c, k, b) \<Rightarrow> if c \<and> k = Kvalue then [(n, b)] else []) xs))"
  unfolding context_values_def for_tags_run_0 [OF assms]
  using values_fold [OF assms, of "\<lambda>k c. c \<and> k = Kvalue" 0 "[]"] by simp

lemma decode_application_tag:
  assumes "tag_of x = Some (n, False, Kvalue, b)"
  shows "decode_application (x @ post) = decode_body n b"
  using assms tag_of_nonempty [OF assms] read_tag_of_0 [OF assms, of post]
  by (simp add: decode_application_def)

lemma decoded_fold:
  assumes "\<forall>x \<in> set xs. \<exists>n b. tag_of x = Some (n, False, Kvalue, b) \<and> decode_body n b = Inr (val x)"
    "data = pre @ concat xs @ post"
  shows "tags_fold (\<lambda>start (n, c, k, b, q) vs. if k = Kvalue \<and> \<not> c
      then chain (decode_application (slice data start q)) (\<lambda>v. Inr (vs @ [v]))
      else Inr vs) (length pre) xs acc = Inr (acc @ map val xs)"
  using assms
proof (induction xs arbitrary: pre acc)
  case Nil
  then show ?case by simp
next
  case (Cons x xs)
  from Cons.prems(1) obtain n b where t: "tag_of x = Some (n, False, Kvalue, b)" "decode_body n b = Inr (val x)"
    by auto
  have "slice data (length pre) (length pre + length x) = x"
    using slice_append [of pre x "concat xs @ post"] Cons.prems(2) by simp
  moreover have "decode_application x = Inr (val x)"
    using decode_application_tag [OF t(1), of "[]"] t(2) by simp
  ultimately show ?case using Cons.IH [of "pre @ x" "acc @ [val x]"] Cons.prems t by simp
qed

lemma decoded_values_run:
  assumes "\<forall>x \<in> set xs. \<exists>n b. tag_of x = Some (n, False, Kvalue, b) \<and> decode_body n b = Inr (val x)"
  shows "decoded_values (concat xs) = Inr (map val xs)"
proof -
  have t: "\<forall>x \<in> set xs. tag_of x \<noteq> None" using assms by (metis option.distinct(1))
  show ?thesis
    unfolding decoded_values_def for_tags_run_0 [OF t]
    using decoded_fold [OF assms, of "concat xs" "[]" "[]" "[]"] by simp
qed

end
