(* ===== verification/Codec_Roundtrip.thy ===== *)
theory Codec_Roundtrip
  imports Codec_Laws
begin

text \<open>
  Round trips of \<^verbatim>\<open>wiretest/codec.py\<close>, encoder by encoder. Every encoder of a tagged value is an
  instance of the locale \<^verbatim>\<open>value_codec\<close>: on its domain it yields exactly one readable tag.
  The encoders of application values are instances of \<^verbatim>\<open>application_codec\<close> too, which adds that
  the value octets decode to the value.
\<close>

section \<open>Bit strings\<close>

definition octets_bits :: "octets \<Rightarrow> bool list" where
  "octets_bits bs = concat (map octet_bits bs)"

lemma length_octet_bits [simp]: "length (octet_bits b) = 8"
  by (simp add: octet_bits_def)

lemma octets_bits_simps [simp]: "octets_bits [] = []" "octets_bits (b # bs) = octet_bits b @ octets_bits bs"
  by (simp_all add: octets_bits_def)

lemma length_octets_bits [simp]: "length (octets_bits bs) = 8 * length bs"
  by (induction bs) simp_all

lemma octet_mask: "j < 8 \<Longrightarrow> drop_bit j (0x80 :: octet) = 2 ^ (7 - j)"
proof -
  assume "j < 8"
  then have "j \<in> {0, 1, 2, 3, 4, 5, 6, 7}" by auto
  then show ?thesis by (elim insertE) simp_all
qed

lemma octet_bits_nth: "j < 8 \<Longrightarrow> octet_bits b ! j \<longleftrightarrow> bit b (7 - j)"
  by (simp add: octet_bits_def octet_mask and_exp_eq_0_iff_not_bit)

lemma octet_bits_set: "k < 8 \<Longrightarrow> octet_bits (b OR drop_bit k 0x80) = (octet_bits b)[k := True]"
  by (rule nth_equalityI)
    (auto simp: octet_bits_nth octet_mask bit_or_iff bit_exp_iff nth_list_update)

lemma octet_bits_zero: "octet_bits 0 = replicate 8 False"
  by (rule nth_equalityI) (auto simp: octet_bits_nth)

lemma octets_bits_zeros: "octets_bits (replicate n 0) = replicate (8 * n) False"
  by (induction n) (simp_all add: octet_bits_zero replicate_add)

lemma octets_bits_set:
  "i < 8 * length bs \<Longrightarrow>
   octets_bits (bs[i div 8 := bs ! (i div 8) OR drop_bit (i mod 8) 0x80]) = (octets_bits bs)[i := True]"
proof (induction bs arbitrary: i)
  case Nil
  then show ?case by simp
next
  case (Cons b bs)
  show ?case
  proof (cases "i < 8")
    case True
    then show ?thesis by (simp add: octet_bits_set list_update_append)
  next
    case False
    then obtain j where i: "i = 8 + j" by (metis le_add_diff_inverse not_less)
    with Cons have "octets_bits (bs[j div 8 := bs ! (j div 8) OR drop_bit (j mod 8) 0x80]) = (octets_bits bs)[j := True]"
      by simp
    moreover have "i div 8 = Suc (j div 8)" "i mod 8 = j mod 8" using i by simp_all
    ultimately show ?thesis using i by (simp add: list_update_append)
  qed
qed

lemma set_bits_zeros:
  assumes "drop i (octets_bits buffer) = replicate m False" "length bits \<le> m"
  shows "octets_bits (set_bits i bits buffer) = take i (octets_bits buffer) @ bits @ replicate (m - length bits) False"
  using assms
proof (induction bits arbitrary: i buffer m)
  case Nil
  then show ?case by (simp flip: Nil.prems(1))
next
  case (Cons b bits)
  then obtain m' where m: "m = Suc m'" by (cases m) auto
  let ?buffer = "if b then buffer[i div 8 := buffer ! (i div 8) OR drop_bit (i mod 8) 0x80] else buffer"
  have i: "i < length (octets_bits buffer)"
    using Cons.prems(1) m by (metis drop_eq_Nil not_le replicate_Suc list.distinct(1))
  have x: "octets_bits buffer = take i (octets_bits buffer) @ False # replicate m' False"
    using Cons.prems(1) m by (metis append_take_drop_id replicate_Suc)
  have d: "drop (Suc i) (octets_bits buffer) = replicate m' False"
    using Cons.prems(1) m by (metis drop_Suc list.sel(3) replicate_Suc tl_drop)
  have "octets_bits ?buffer = (if b then (octets_bits buffer)[i := True] else octets_bits buffer)"
    using octets_bits_set [of i buffer] i by simp
  also have "\<dots> = take i (octets_bits buffer) @ b # replicate m' False"
    using x upd_conv_take_nth_drop [OF i, of True] d by simp
  finally have "octets_bits ?buffer = (take i (octets_bits buffer) @ [b]) @ replicate m' False" by simp
  then have "drop (Suc i) (octets_bits ?buffer) = replicate m' False"
    "take (Suc i) (octets_bits ?buffer) = take i (octets_bits buffer) @ [b]"
    using i by simp_all
  with Cons.IH [of "Suc i" ?buffer m'] Cons.prems(2) m show ?case by simp
qed

lemma length_set_bits [simp]: "length (set_bits i bits buffer) = length buffer"
  by (induction i bits buffer rule: set_bits.induct) auto

lemma bit_string_body:
  defines "bit_octets bits \<equiv> set_bits 0 bits (replicate ((length bits + 7) div 8) 0)"
  shows "bit_list (oct (int (8 * length (bit_octets bits)) - int (length bits)) # bit_octets bits) = Inr bits"
proof -
  define k where "k = (length bits + 7) div 8"
  define pad where "pad = 8 * k - length bits"
  have k: "8 * k = length bits + pad" "pad < 8" unfolding pad_def k_def by linarith+
  have l: "length (bit_octets bits) = k" by (simp add: bit_octets_def k_def)
  have "octets_bits (bit_octets bits) = bits @ replicate pad False"
    unfolding bit_octets_def k_def [symmetric] using set_bits_zeros [of 0 "replicate k 0" "8 * k" bits] k
    by (simp add: octets_bits_zeros)
  then have b: "concat (map octet_bits (bit_octets bits)) = bits @ replicate pad False"
    by (simp add: octets_bits_def)
  have p: "int (8 * length (bit_octets bits)) - int (length bits) = int pad" unfolding l k by simp
  have "uint (oct (int pad)) = int pad" using k(2) by (intro uint_oct) simp_all
  then show ?thesis unfolding p bit_list_def by (simp add: index_def b slice_to_def Let_def)
qed

section \<open>The encoders' octets are the reference encoding\<close>

text \<open>The octets of a successful result.\<close>

definition octets_of :: "octets result \<Rightarrow> octets" where
  "octets_of m = (case m of Inr x \<Rightarrow> x | Inl _ \<Rightarrow> [])"

lemma octets_of_Inr [simp]: "octets_of (Inr x) = x"
  by (simp add: octets_of_def)

lemma context_octet:
  assumes "0 \<le> t" "t < 15" "0 \<le> l" "l < 8"
  shows "context_octet t l = Inr [oct (16 * t + (8 + l))]" "(push_bit 4 t OR 8) OR l = 16 * t + (8 + l)"
proof -
  have "push_bit 3 (1 :: int) OR l = 8 + l" using or_low_field [of l 3 1] assms by simp
  moreover have "push_bit 3 (1 :: int) = 8" by simp
  ultimately have l: "8 OR l = 8 + l" by metis
  have "push_bit 4 t OR (8 + l) = 16 * t + (8 + l)" using or_low_field [of "8 + l" 4 t] assms by simp
  then show x: "(push_bit 4 t OR 8) OR l = 16 * t + (8 + l)" by (simp only: or.assoc l)
  show "context_octet t l = Inr [oct (16 * t + (8 + l))]"
    unfolding x by (rule byte_ok) (use assms in simp_all)
qed

lemma application_octet:
  fixes l :: int
  assumes "0 \<le> l" "l < 8"
  shows "0x20 OR l = 32 + l" "0x30 OR l = 48 + l" "0x60 OR l = 96 + l" "0x70 OR l = 112 + l"
    "0x80 OR l = 128 + l" "0x90 OR l = 144 + l"
proof -
  have x: "push_bit 4 t OR l = 16 * t + l" for t :: int using or_low_field [of l 4 t] assms by simp
  have "push_bit 4 (2 :: int) = 0x20" "push_bit 4 (3 :: int) = 0x30" "push_bit 4 (6 :: int) = 0x60"
    "push_bit 4 (7 :: int) = 0x70" "push_bit 4 (8 :: int) = 0x80" "push_bit 4 (9 :: int) = 0x90"
    by simp_all
  with x [of 2] x [of 3] x [of 6] x [of 7] x [of 8] x [of 9] show "0x20 OR l = 32 + l" "0x30 OR l = 48 + l"
    "0x60 OR l = 96 + l" "0x70 OR l = 112 + l" "0x80 OR l = 128 + l" "0x90 OR l = 144 + l"
    by simp_all
qed

lemma primitive_short: "num < 15 \<Longrightarrow> length body < 5 \<Longrightarrow>
    primitive num ctx body = oct (16 * num + ((if ctx then 8 else 0) + int (length body))) # body"
  by (simp add: primitive_def tag_octets_def length_octets_def)

lemma primitive_long: "num < 15 \<Longrightarrow> 5 \<le> length body \<Longrightarrow> length body < 254 \<Longrightarrow>
    primitive num ctx body = oct (16 * num + ((if ctx then 8 else 0) + 5)) # oct (int (length body)) # body"
  by (simp add: primitive_def tag_octets_def length_octets_def)

lemma context_primitive:
  assumes "0 \<le> t" "t < 15" "length body < 5"
  shows "cat [context_octet t (int (length body)), Inr body] = Inr (primitive t True body)"
  using context_octet [of t "int (length body)"] assms by (simp add: primitive_short)

subsection \<open>Integers\<close>

lemma unsigned_octets_body:
  assumes "0 \<le> v" "v < 2 ^ 32"
  obtains body where "unsigned_octets v = Inr body" "from_bytes body = v" "0 < length body" "length body < 5"
    "256 ^ (length body - 1) \<le> v \<or> length body = 1"
proof -
  consider "v < 256" | "256 \<le> v" "v < 65536" | "65536 \<le> v" "v < 16777216" | "16777216 \<le> v" by linarith
  then obtain n where n: "unsigned_octets v = Inr (be_bytes n v)" "v < 256 ^ n" "0 < n" "n < 5"
    "256 ^ (n - 1) \<le> v \<or> n = 1"
  proof cases
    case 1 with assms that [of 1] show thesis by (simp add: unsigned_octets_def to_bytes_def)
  next
    case 2 with assms that [of 2] show thesis by (simp add: unsigned_octets_def to_bytes_def)
  next
    case 3 with assms that [of 3] show thesis by (simp add: unsigned_octets_def to_bytes_def)
  next
    case 4 with assms that [of 4] show thesis by (simp add: unsigned_octets_def to_bytes_def)
  qed
  with that [of "be_bytes n v"] assms show thesis by (simp add: from_be_bytes)
qed

lemma signed_octets_body:
  assumes "- (2 ^ 31) \<le> v" "v < 2 ^ 31"
  obtains body where "signed_octets v = Inr body" "from_bytes_signed body = v" "0 < length body" "length body < 5"
proof -
  consider "- 128 \<le> v" "v < 128" | "- 128 > v \<or> v \<ge> 128" "- 32768 \<le> v" "v < 32768"
    | "- 32768 > v \<or> v \<ge> 32768" "- 8388608 \<le> v" "v < 8388608" | "- 8388608 > v \<or> v \<ge> 8388608"
    by linarith
  then obtain n where n: "signed_octets v = Inr (be_bytes n (v mod 256 ^ n))"
    "- (256 ^ n) \<le> 2 * v" "2 * v < 256 ^ n" "0 < n" "n < 5"
  proof cases
    case 1 with that [of 1] show thesis by (simp add: signed_octets_def to_bytes_signed_def)
  next
    case 2 with that [of 2] show thesis by (auto simp: signed_octets_def to_bytes_signed_def)
  next
    case 3 with that [of 3] show thesis by (auto simp: signed_octets_def to_bytes_signed_def)
  next
    case 4 with assms that [of 4] show thesis by (auto simp: signed_octets_def to_bytes_signed_def)
  qed
  with that [of "be_bytes n (v mod 256 ^ n)"] from_bytes_signed_be_bytes [of n v] show thesis by simp
qed

lemma unsigned_octets_range: "0 \<le> v \<Longrightarrow> unsigned_octets v = Inr body \<Longrightarrow> v < 2 ^ 32"
  by (simp add: unsigned_octets_def to_bytes_def split: if_splits)

subsection \<open>Object identifiers\<close>

lemma object_id_body:
  assumes "0 \<le> t" "t < 1024" "0 \<le> i" "i < 2 ^ 22"
  obtains body where "object_id t i = Inr body" "length body = 4" "object_identifier body = Inr (t, i)"
proof -
  define raw where "raw = t * 2 ^ 22 + i"
  have r: "push_bit 22 t OR i = raw" using or_low_field [of i 22 t] assms by (simp add: raw_def)
  have b: "0 \<le> raw" "raw < 256 ^ 4" using assms by (simp_all add: raw_def)
  have "drop_bit 22 raw = t" "raw AND 4194303 = i"
  proof -
    have "raw div 2 ^ 22 = t" using assms unfolding raw_def by simp
    then show "drop_bit 22 raw = t" by (simp only: drop_bit_eq_div)
    have "raw AND mask 22 = raw mod 2 ^ 22" by (simp only: take_bit_eq_mask [symmetric] take_bit_eq_mod)
    also have "\<dots> = i" using assms unfolding raw_def by simp
    finally show "raw AND 4194303 = i" by (simp add: mask_numeral)
  qed
  with b that [of "be_bytes 4 raw"] show thesis
    by (simp add: object_id_def pack_u_def r object_identifier_def unpack_u_be_bytes)
qed

section \<open>The contract of an encoder\<close>

locale value_codec =
  fixes enc :: "'a \<Rightarrow> octets result"
    and valid :: "'a \<Rightarrow> bool"
    and shape :: "'a \<Rightarrow> int \<times> bool \<times> tag_kind \<times> octets"
  assumes one_tag: "valid a \<Longrightarrow> \<exists>x. enc a = Inr x \<and> tag_of x = Some (shape a)"
begin

lemma encoded: "valid a \<Longrightarrow> enc a = Inr (octets_of (enc a))"
  using one_tag by fastforce

lemma shaped: "valid a \<Longrightarrow> tag_of (octets_of (enc a)) = Some (shape a)"
  using one_tag by fastforce

lemma reads_anywhere:
  "valid a \<Longrightarrow> shape a = (n, c, k, b) \<Longrightarrow>
   \<exists>x. enc a = Inr x \<and> x \<noteq> [] \<and>
     read_tag (pre @ x @ post) (length pre) = Inr (n, c, k, b, length pre + length x)"
  using one_tag [of a] read_tag_of [of _ n c k b pre post] tag_of_nonempty by fastforce

lemma collected: "\<forall>a \<in> set as. valid a \<Longrightarrow> collect enc as = Inr (map (\<lambda>a. octets_of (enc a)) as)"
  by (rule collect_Inr) (use encoded in auto)

lemma tags: "\<forall>a \<in> set as. valid a \<Longrightarrow> \<forall>x \<in> set (map (\<lambda>a. octets_of (enc a)) as). tag_of x \<noteq> None"
  by (simp add: shaped del: not_None_eq)

lemma run_elements:
  "\<forall>a \<in> set as. valid a \<Longrightarrow> \<exists>xs. collect enc as = Inr xs \<and> application_elements (concat xs) = Inr xs"
  using collected application_elements_run [OF tags] by blast

end

locale application_codec =
  value_codec enc valid "\<lambda>a. (num, False, Kvalue, body a)"
  for enc :: "'a \<Rightarrow> octets result" and valid and num and body :: "'a \<Rightarrow> octets" +
  fixes val :: "'a \<Rightarrow> pyval"
  assumes decodes: "valid a \<Longrightarrow> decode_body num (body a) = Inr (val a)"
begin

lemma decode_first:
  "valid a \<Longrightarrow> \<exists>x. enc a = Inr x \<and> decode_application (x @ post) = Inr (val a)
     \<and> application_tag (x @ post) = Inr (Some num)"
  using one_tag [of a] decode_application_tag [of _ num "body a" post] decodes
    read_tag_of_0 [of _ num False Kvalue "body a" post] tag_of_nonempty
  by (fastforce simp: application_tag_def)

lemma decode_run:
  assumes "\<forall>a \<in> set as. valid a"
  shows "\<exists>xs. collect enc as = Inr xs \<and> decoded_values (concat xs) = Inr (map val as)"
proof -
  let ?decoded = "\<lambda>x. case tag_of x of Some (n, _, _, b) \<Rightarrow> (case decode_body n b of Inr v \<Rightarrow> v)"
  have v: "?decoded (octets_of (enc a)) = val a" if "a \<in> set as" for a
    using that assms shaped decodes by auto
  have "\<forall>x \<in> set (map (\<lambda>a. octets_of (enc a)) as).
      \<exists>n b. tag_of x = Some (n, False, Kvalue, b) \<and> decode_body n b = Inr (?decoded x)"
    using assms shaped decodes v by auto
  from decoded_values_run [OF this] v collected [OF assms] show ?thesis
    by (auto intro!: exI [of _ "map (\<lambda>a. octets_of (enc a)) as"] simp: comp_def)
qed

lemma values_run:
  assumes "\<forall>a \<in> set as. valid a"
  shows "\<exists>xs. collect enc as = Inr xs \<and> application_values (concat xs) = Inr (map (\<lambda>a. (num, body a)) as)"
proof -
  have "concat (map (\<lambda>x. case the (tag_of x) of (n, c, k, b) \<Rightarrow> if k = Kvalue \<and> \<not> c then [(n, b)] else [])
      (map (\<lambda>a. octets_of (enc a)) as)) = map (\<lambda>a. (num, body a)) as"
    using assms shaped by (induction as) auto
  with application_values_run [OF tags [OF assms]] collected [OF assms] show ?thesis by auto
qed

end

locale context_codec =
  value_codec enc valid "\<lambda>a. (num a, True, Kvalue, body a)"
  for enc :: "'a \<Rightarrow> octets result" and valid and num and body :: "'a \<Rightarrow> octets"
begin

lemma values_run:
  assumes "\<forall>a \<in> set as. valid a"
  shows "\<exists>xs. collect enc as = Inr xs \<and> context_values (concat xs) = Inr (map (\<lambda>a. (num a, body a)) as)"
proof -
  have "concat (map (\<lambda>x. case the (tag_of x) of (n, c, k, b) \<Rightarrow> if c \<and> k = Kvalue then [(n, b)] else [])
      (map (\<lambda>a. octets_of (enc a)) as)) = map (\<lambda>a. (num a, body a)) as"
    using assms shaped by (induction as) auto
  with context_values_run [OF tags [OF assms]] collected [OF assms] show ?thesis by auto
qed

end

end
