(* ===== verification/Codec_Values.thy ===== *)
theory Codec_Values
  imports Codec_Roundtrip
begin

text \<open>
  The encoders of \<^verbatim>\<open>wiretest/codec.py\<close> as instances of the contract of \<^verbatim>\<open>Codec_Roundtrip\<close>: for
  each, its domain, the tag it writes and the value its octets decode to. The properties of the
  encoders are read off the instances.
\<close>

section \<open>Application values\<close>

abbreviation unsigned32 :: "int \<Rightarrow> bool" where
  "unsigned32 v \<equiv> 0 \<le> v \<and> v < 2 ^ 32"

abbreviation signed32 :: "int \<Rightarrow> bool" where
  "signed32 v \<equiv> - (2 ^ 31) \<le> v \<and> v < 2 ^ 31"

abbreviation object_range :: "int \<times> int \<Rightarrow> bool" where
  "object_range k \<equiv> 0 \<le> fst k \<and> fst k < 1024 \<and> 0 \<le> snd k \<and> snd k < 2 ^ 22"

lemma tag_of_short:
  "0 \<le> num \<Longrightarrow> num < 15 \<Longrightarrow> length body < 5 \<Longrightarrow> ctx \<or> num \<noteq> 1 \<Longrightarrow>
   tag_of (oct (16 * num + ((if ctx then 8 else 0) + int (length body))) # body) = Some (num, ctx, Kvalue, body)"
  using tag_of_primitive [of num body ctx] by (simp add: primitive_short)

lemma tag_of_long:
  "0 \<le> num \<Longrightarrow> num < 15 \<Longrightarrow> 5 \<le> length body \<Longrightarrow> length body < 254 \<Longrightarrow> ctx \<or> num \<noteq> 1 \<Longrightarrow>
   tag_of (oct (16 * num + ((if ctx then 8 else 0) + 5)) # oct (int (length body)) # body) = Some (num, ctx, Kvalue, body)"
  using tag_of_primitive [of num body ctx] by (simp add: primitive_long)

text \<open>The two shapes an application encoder's result has, with the first octet as the source writes it.\<close>

lemma application_short:
  assumes "0 \<le> num" "num < 15" "num \<noteq> 1" "length body < 5" "first = 16 * num + int (length body)"
  shows "\<exists>x. cat [byte first, Inr body] = Inr x \<and> tag_of x = Some (num, False, Kvalue, body)"
  using tag_of_short [of num body False] assms by (simp add: byte_def)

lemma application_long:
  assumes "0 \<le> num" "num < 15" "num \<noteq> 1" "5 \<le> length body" "length body < 254" "first = 16 * num + 5"
  shows "\<exists>x. cat [bytes_of [first, int (length body)], Inr body] = Inr x \<and> tag_of x = Some (num, False, Kvalue, body)"
  using tag_of_long [of num body False] assms by (simp add: byte_def)

lemmas decode_body_numbers = decode_body_def [of 2] decode_body_def [of 3] decode_body_def [of 4]
  decode_body_def [of 6] decode_body_def [of 7] decode_body_def [of 8] decode_body_def [of 9]
  decode_body_def [of 12]

interpretation unsigned: application_codec application_unsigned unsigned32 2 "\<lambda>v. octets_of (unsigned_octets v)" PInt
proof unfold_locales
  fix v :: int assume v: "unsigned32 v"
  then obtain body where b: "unsigned_octets v = Inr body" "from_bytes body = v" "length body < 5"
    using unsigned_octets_body by metis
  then show "\<exists>x. application_unsigned v = Inr x \<and> tag_of x = Some (2, False, Kvalue, octets_of (unsigned_octets v))"
    using application_octet(1) [of "int (length body)"] application_short [of 2 body]
    by (simp add: application_unsigned_def)
  show "decode_body 2 (octets_of (unsigned_octets v)) = Inr (PInt v)"
    using b by (simp add: decode_body_numbers)
qed

interpretation enumerated: application_codec application_enumerated unsigned32 9 "\<lambda>v. octets_of (unsigned_octets v)" PInt
proof unfold_locales
  fix v :: int assume v: "unsigned32 v"
  then obtain body where b: "unsigned_octets v = Inr body" "from_bytes body = v" "length body < 5"
    using unsigned_octets_body by metis
  then show "\<exists>x. application_enumerated v = Inr x \<and> tag_of x = Some (9, False, Kvalue, octets_of (unsigned_octets v))"
    using application_octet(6) [of "int (length body)"] application_short [of 9 body]
    by (simp add: application_enumerated_def)
  show "decode_body 9 (octets_of (unsigned_octets v)) = Inr (PInt v)"
    using b by (simp add: decode_body_numbers)
qed

interpretation signed: application_codec application_signed signed32 3 "\<lambda>v. octets_of (signed_octets v)" PInt
proof unfold_locales
  fix v :: int assume v: "signed32 v"
  then obtain body where b: "signed_octets v = Inr body" "from_bytes_signed body = v" "length body < 5"
    using signed_octets_body by metis
  then show "\<exists>x. application_signed v = Inr x \<and> tag_of x = Some (3, False, Kvalue, octets_of (signed_octets v))"
    using application_octet(2) [of "int (length body)"] application_short [of 3 body]
    by (simp add: application_signed_def)
  show "decode_body 3 (octets_of (signed_octets v)) = Inr (PInt v)"
    using b by (simp add: decode_body_numbers)
qed

interpretation real: application_codec application_real float32 4 "\<lambda>v. octets_of (pack_f v)" PFloat
proof unfold_locales
  fix v assume "float32 v"
  then obtain bs where b: "pack_f v = Inr bs" "length bs = 4" "unpack_f bs = Inr v"
    by (rule float32_roundtrip)
  then show "\<exists>x. application_real v = Inr x \<and> tag_of x = Some (4, False, Kvalue, octets_of (pack_f v))"
    using application_short [of 4 bs "0x44"] by (simp add: application_real_def)
  show "decode_body 4 (octets_of (pack_f v)) = Inr (PFloat v)"
    using b by (simp add: decode_body_numbers)
qed

interpretation object: application_codec "\<lambda>k. application_object_id (fst k) (snd k)" object_range 12
  "\<lambda>k. octets_of (object_id (fst k) (snd k))" "\<lambda>k. PObject (fst k) (snd k)"
proof unfold_locales
  fix k :: "int \<times> int" assume "object_range k"
  then obtain body where b: "object_id (fst k) (snd k) = Inr body" "length body = 4"
    "object_identifier body = Inr (fst k, snd k)"
    by (metis object_id_body)
  then show "\<exists>x. application_object_id (fst k) (snd k) = Inr x
      \<and> tag_of x = Some (12, False, Kvalue, octets_of (object_id (fst k) (snd k)))"
    using application_short [of 12 body "0xC4"] by (simp add: application_object_id_def)
  show "decode_body 12 (octets_of (object_id (fst k) (snd k))) = Inr (PObject (fst k) (snd k))"
    using b by (simp add: decode_body_numbers split_def)
qed

text \<open>The encoding octet 0 and the UTF-8 text: fewer than 254 octets, where the length octet means itself.\<close>

abbreviation short_text :: "pystr \<Rightarrow> bool" where
  "short_text s \<equiv> is_ok (utf8_encode s) \<and> length (octets_of (utf8_encode s)) < 253"

interpretation text_string: application_codec application_character_string short_text 7
  "\<lambda>s. 0 # octets_of (utf8_encode s)" PStr
proof unfold_locales
  fix s assume "short_text s"
  then obtain x where x: "utf8_encode s = Inr x" "length x < 253"
    by (auto simp: is_ok_iff)
  then show "\<exists>y. application_character_string s = Inr y
      \<and> tag_of y = Some (7, False, Kvalue, 0 # octets_of (utf8_encode s))"
    using application_short [of 7 "0 # x"] application_long [of 7 "0 # x" "0x75"]
      application_octet(4) [of "int (length (0 # x))"]
    by (cases "length (0 # x) < 5") (simp_all add: application_character_string_def Let_def)
  show "decode_body 7 (0 # octets_of (utf8_encode s)) = Inr (PStr s)"
    using x utf8_roundtrip by (simp add: decode_body_numbers)
qed

text \<open>Up to 24 bits, where the length of the body fits into the low bits of the first octet.\<close>

definition bit_string_octets :: "bool list \<Rightarrow> octets" where
  "bit_string_octets bits = set_bits 0 bits (replicate ((length bits + 7) div 8) 0)"

interpretation bit_string: application_codec application_bit_string "\<lambda>bits. length bits \<le> 24" 8
  "\<lambda>bits. oct (int (8 * length (bit_string_octets bits)) - int (length bits)) # bit_string_octets bits" PBits
proof unfold_locales
  fix bits :: "bool list" assume "length bits \<le> 24"
  define k where "k = (length bits + 7) div 8"
  have k: "k \<le> 3" "length bits \<le> 8 * k" "8 * k < length bits + 8" using \<open>length bits \<le> 24\<close> unfolding k_def by linarith+
  have l: "length (bit_string_octets bits) = k" by (simp add: bit_string_octets_def k_def)
  define body where "body = oct (int (8 * k) - int (length bits)) # bit_string_octets bits"
  have body: "length body = Suc k" by (simp add: body_def l)
  have "byte (int k * 8 - int (length bits)) = Inr [oct (int (8 * k) - int (length bits))]"
    using k by (simp add: byte_def mult.commute)
  then have "application_bit_string bits = cat [byte (0x80 OR int (length body)), Inr body]"
    by (simp add: application_bit_string_def bit_string_octets_def [symmetric] l body_def)
  with k body show "\<exists>x. application_bit_string bits = Inr x \<and> tag_of x = Some (8, False, Kvalue,
      oct (int (8 * length (bit_string_octets bits)) - int (length bits)) # bit_string_octets bits)"
    using application_short [of 8 body] application_octet(5) [of "int (length body)"]
    by (simp add: body_def [folded l])
  show "decode_body 8 (oct (int (8 * length (bit_string_octets bits)) - int (length bits)) # bit_string_octets bits)
      = Inr (PBits bits)"
    using bit_string_body [of bits, folded bit_string_octets_def] by (simp add: decode_body_numbers)
qed

text \<open>Octet strings, with the one- and three-octet extended lengths.\<close>

interpretation octet_string: application_codec application_octet_string "\<lambda>bs. length bs < 65536" 6 "\<lambda>bs. bs" PBytes
proof unfold_locales
  fix bs :: octets assume bs: "length bs < 65536"
  consider "length bs < 5" | "5 \<le> length bs" "length bs < 254" | "254 \<le> length bs" by linarith
  then show "\<exists>x. application_octet_string bs = Inr x \<and> tag_of x = Some (6, False, Kvalue, bs)"
  proof cases
    case 1
    then show ?thesis
      using application_short [of 6 bs] application_octet(3) [of "int (length bs)"]
      by (simp add: application_octet_string_def)
  next
    case 2
    then show ?thesis
      using application_long [of 6 bs] by (simp add: application_octet_string_def)
  next
    case 3
    then show ?thesis
      using tag_of_primitive [of 6 bs False] bs
      by (simp add: application_octet_string_def primitive_def tag_octets_def length_octets_def
          pack_u_def byte_def oct_def)
  qed
  show "decode_body 6 bs = Inr (PBytes bs)"
    by (simp add: decode_body_numbers)
qed

section \<open>Context-tagged values\<close>

text \<open>A context tag of the source is one nibble: numbers 0 to 14.\<close>

abbreviation context_number :: "int \<Rightarrow> bool" where
  "context_number t \<equiv> 0 \<le> t \<and> t < 15"

lemma context_short:
  assumes "context_number t" "length body < 5"
  shows "\<exists>x. cat [context_octet t (int (length body)), Inr body] = Inr x \<and> tag_of x = Some (t, True, Kvalue, body)"
  using context_octet(1) [of t "int (length body)"] tag_of_short [of t body True] assms by simp

lemma context_long:
  assumes "context_number t" "5 \<le> length body" "length body < 254"
  shows "\<exists>x. cat [bytes_of [(push_bit 4 t OR 8) OR 5, int (length body)], Inr body] = Inr x
    \<and> tag_of x = Some (t, True, Kvalue, body)"
  using context_octet [of t 5] tag_of_long [of t body True] assms by (simp add: byte_def)

interpretation ctx_unsigned: context_codec "\<lambda>p. context_unsigned (fst p) (snd p)"
  "\<lambda>p. context_number (fst p) \<and> unsigned32 (snd p)" fst "\<lambda>p. octets_of (unsigned_octets (snd p))"
proof unfold_locales
  fix p :: "int \<times> int" assume p: "context_number (fst p) \<and> unsigned32 (snd p)"
  then obtain body where "unsigned_octets (snd p) = Inr body" "length body < 5"
    using unsigned_octets_body by metis
  with p show "\<exists>x. context_unsigned (fst p) (snd p) = Inr x
      \<and> tag_of x = Some (fst p, True, Kvalue, octets_of (unsigned_octets (snd p)))"
    using context_short [of "fst p" body] by (simp add: context_unsigned_def)
qed

interpretation ctx_signed: context_codec "\<lambda>p. context_signed (fst p) (snd p)"
  "\<lambda>p. context_number (fst p) \<and> signed32 (snd p)" fst "\<lambda>p. octets_of (signed_octets (snd p))"
proof unfold_locales
  fix p :: "int \<times> int" assume p: "context_number (fst p) \<and> signed32 (snd p)"
  then obtain body where "signed_octets (snd p) = Inr body" "length body < 5"
    using signed_octets_body by metis
  with p show "\<exists>x. context_signed (fst p) (snd p) = Inr x
      \<and> tag_of x = Some (fst p, True, Kvalue, octets_of (signed_octets (snd p)))"
    using context_short [of "fst p" body] by (simp add: context_signed_def)
qed

interpretation ctx_real: context_codec "\<lambda>p. context_real (fst p) (snd p)"
  "\<lambda>p. context_number (fst p) \<and> float32 (snd p)" fst "\<lambda>p. octets_of (pack_f (snd p))"
proof unfold_locales
  fix p :: "int \<times> pyfloat" assume p: "context_number (fst p) \<and> float32 (snd p)"
  then obtain bs where "pack_f (snd p) = Inr bs" "length bs = 4"
    using float32_roundtrip by metis
  with p show "\<exists>x. context_real (fst p) (snd p) = Inr x
      \<and> tag_of x = Some (fst p, True, Kvalue, octets_of (pack_f (snd p)))"
    using context_short [of "fst p" bs] by (simp add: context_real_def)
qed

lemma oct_bit: "oct 0 = 0" "oct 1 = 1"
  by (simp_all add: oct_def)

interpretation ctx_boolean: context_codec "\<lambda>p. context_boolean (fst p) (snd p)"
  "\<lambda>p. context_number (fst p)" fst "\<lambda>p. [if snd p then 1 else 0]"
proof unfold_locales
  fix p :: "int \<times> bool" assume p: "context_number (fst p)"
  then show "\<exists>x. context_boolean (fst p) (snd p) = Inr x \<and> tag_of x = Some (fst p, True, Kvalue, [if snd p then 1 else 0])"
    using context_octet [of "fst p" 1] tag_of_short [of "fst p" "[if snd p then 1 else 0]" True]
    by (auto simp: context_boolean_def byte_def oct_bit)
qed

interpretation ctx_object: context_codec "\<lambda>p. context_object_id (fst p) (fst (snd p)) (snd (snd p))"
  "\<lambda>p. context_number (fst p) \<and> object_range (snd p)" fst "\<lambda>p. octets_of (object_id (fst (snd p)) (snd (snd p)))"
proof unfold_locales
  fix p :: "int \<times> int \<times> int" assume p: "context_number (fst p) \<and> object_range (snd p)"
  then obtain body where "object_id (fst (snd p)) (snd (snd p)) = Inr body" "length body = 4"
    by (metis object_id_body)
  with p show "\<exists>x. context_object_id (fst p) (fst (snd p)) (snd (snd p)) = Inr x
      \<and> tag_of x = Some (fst p, True, Kvalue, octets_of (object_id (fst (snd p)) (snd (snd p))))"
    using context_short [of "fst p" body] by (simp add: context_object_id_def)
qed

interpretation ctx_octets: context_codec "\<lambda>p. context_octet_string (fst p) (snd p)"
  "\<lambda>p. context_number (fst p) \<and> length (snd p) < 254" fst snd
proof unfold_locales
  fix p :: "int \<times> octets" assume p: "context_number (fst p) \<and> length (snd p) < 254"
  then show "\<exists>x. context_octet_string (fst p) (snd p) = Inr x \<and> tag_of x = Some (fst p, True, Kvalue, snd p)"
    using context_short [of "fst p" "snd p"] context_long [of "fst p" "snd p"]
    by (cases "length (snd p) < 5") (simp_all add: context_octet_string_def)
qed

interpretation ctx_text: context_codec "\<lambda>p. context_character_string (fst p) (snd p)"
  "\<lambda>p. context_number (fst p) \<and> short_text (snd p)" fst "\<lambda>p. 0 # octets_of (utf8_encode (snd p))"
proof unfold_locales
  fix p :: "int \<times> pystr" assume p: "context_number (fst p) \<and> short_text (snd p)"
  then obtain x where x: "utf8_encode (snd p) = Inr x" "length x < 253" by (auto simp: is_ok_iff)
  with p show "\<exists>y. context_character_string (fst p) (snd p) = Inr y
      \<and> tag_of y = Some (fst p, True, Kvalue, 0 # octets_of (utf8_encode (snd p)))"
    using context_short [of "fst p" "0 # x"] context_long [of "fst p" "0 # x"]
    by (cases "length (0 # x) < 5") (simp_all add: context_character_string_def Let_def)
qed

text \<open>The brackets of a constructed value.\<close>

interpretation open_bracket: value_codec opening_tag context_number "\<lambda>t. (t, True, Kopen, [])"
proof unfold_locales
  fix t :: int assume t: "context_number t"
  then have "opening_tag t = Inr [oct (16 * t + 14)]"
    using or_low_field [of 14 4 t] by (simp add: opening_tag_def byte_def mult.commute)
  with t first_octet [of t 14] show "\<exists>x. opening_tag t = Inr x \<and> tag_of x = Some (t, True, Kopen, [])"
    by (simp add: tag_of_eq_Some read_tag_def tag_number_def index_def uint_oct Let_def)
qed

interpretation close_bracket: value_codec closing_tag context_number "\<lambda>t. (t, True, Kclose, [])"
proof unfold_locales
  fix t :: int assume t: "context_number t"
  then have "closing_tag t = Inr [oct (16 * t + 15)]"
    using or_low_field [of 15 4 t] by (simp add: closing_tag_def byte_def mult.commute)
  with t first_octet [of t 15] show "\<exists>x. closing_tag t = Inr x \<and> tag_of x = Some (t, True, Kclose, [])"
    by (simp add: tag_of_eq_Some read_tag_def tag_number_def index_def uint_oct Let_def)
qed

section \<open>Values there and back\<close>

text \<open>
  C26. Whole numbers, object identifiers and octet strings survive encoding and decoding, with anything
  after them, on the whole domain of their encoders, and an unsigned number takes the fewest octets
  that hold it.
\<close>

theorem plain_values_roundtrip:
  assumes "unsigned32 v" "signed32 w" "object_range (t, i)" "length bs < 65536"
  shows "(\<exists>x. application_unsigned v = Inr x \<and> decode_application (x @ post) = Inr (PInt v)
      \<and> (256 ^ (length x - 2) \<le> v \<or> length x = 2)) \<and>
    (\<exists>x. application_enumerated v = Inr x \<and> decode_application (x @ post) = Inr (PInt v)) \<and>
    (\<exists>x. application_signed w = Inr x \<and> decode_application (x @ post) = Inr (PInt w)) \<and>
    (\<exists>x. application_object_id t i = Inr x \<and> decode_application (x @ post) = Inr (PObject t i)) \<and>
    (\<exists>x. application_octet_string bs = Inr x \<and> decode_application (x @ post) = Inr (PBytes bs))"
proof -
  have "\<exists>x. application_unsigned v = Inr x \<and> decode_application (x @ post) = Inr (PInt v)
      \<and> (256 ^ (length x - 2) \<le> v \<or> length x = 2)"
  proof -
    obtain body where b: "unsigned_octets v = Inr body" "0 < length body" "length body < 5"
      "256 ^ (length body - 1) \<le> v \<or> length body = 1"
      using unsigned_octets_body assms(1) by metis
    then have "\<exists>h. application_unsigned v = Inr (h # body)"
      using application_octet(1) [of "int (length body)"] by (simp add: application_unsigned_def byte_def)
    moreover have "length (h # body) - 2 = length body - 1" for h using b(2) by simp
    ultimately show ?thesis using unsigned.decode_first [OF assms(1), of post] b by (auto simp del: length_Cons)
  qed
  then show ?thesis
    using enumerated.decode_first [OF assms(1), of post] signed.decode_first [OF assms(2), of post]
      object.decode_first [OF assms(3), of post] octet_string.decode_first [OF assms(4), of post]
    by auto
qed

lemma plain_values_roundtrip_witness:
  "(\<exists>x. application_unsigned 70000 = Inr x \<and> decode_application (x @ [7]) = Inr (PInt 70000)
      \<and> (256 ^ (length x - 2) \<le> (70000 :: int) \<or> length x = 2)) \<and>
    (\<exists>x. application_enumerated 70000 = Inr x \<and> decode_application (x @ [7]) = Inr (PInt 70000)) \<and>
    (\<exists>x. application_signed (- 129) = Inr x \<and> decode_application (x @ [7]) = Inr (PInt (- 129))) \<and>
    (\<exists>x. application_object_id 8 389001 = Inr x \<and> decode_application (x @ [7]) = Inr (PObject 8 389001)) \<and>
    (\<exists>x. application_octet_string (replicate 300 5) = Inr x \<and> decode_application (x @ [7]) = Inr (PBytes (replicate 300 5)))"
  by (rule plain_values_roundtrip) simp_all

text \<open>
  C27. Every value of binary32 other than NaN, signed zeros, subnormals and infinities included, survives
  \<^verbatim>\<open>application_real\<close> and \<^verbatim>\<open>decode_application\<close>.
\<close>

theorem real_values_roundtrip:
  assumes "float32 v"
  shows "\<exists>x. application_real v = Inr x \<and> length x = 5 \<and> decode_application (x @ post) = Inr (PFloat v)"
proof -
  from assms obtain bs where "pack_f v = Inr bs" "length bs = 4" by (rule float32_roundtrip)
  with real.decode_first [OF assms, of post] show ?thesis by (auto simp: application_real_def byte_def)
qed

lemma real_values_roundtrip_witness:
  "\<exists>x. application_real (single_of True 130 (3 * 2 ^ 20)) = Inr x \<and> length x = 5
     \<and> decode_application (x @ [1, 2]) = Inr (PFloat (single_of True 130 (3 * 2 ^ 20)))"
proof -
  have "float32 (single_of True 130 (3 * 2 ^ 20))"
    unfolding float32_def by (intro exI [of _ True] exI [of _ 130] exI [of _ "3 * 2 ^ 20"]) simp
  from real_values_roundtrip [OF this] show ?thesis .
qed

text \<open>
  C28. A text of up to 252 octets of UTF-8 survives \<^verbatim>\<open>application_character_string\<close>, through
  \<^verbatim>\<open>decode_application\<close> and through \<^verbatim>\<open>character_string\<close>.
\<close>

theorem text_values_roundtrip:
  assumes "utf8_encode s = Inr encoded" "length encoded \<le> 252"
  shows "\<exists>x. application_character_string s = Inr x \<and> decode_application (x @ post) = Inr (PStr s)
    \<and> character_string (x @ post) = Inr (Some s)"
proof -
  have s: "short_text s" using assms by simp
  obtain x where x: "application_character_string s = Inr x" "tag_of x = Some (7, False, Kvalue, 0 # encoded)"
    using text_string.one_tag [OF s] assms(1) by auto
  have "character_string (x @ post) = Inr (Some s)"
    using read_tag_of_0 [OF x(2), of post] tag_of_nonempty [OF x(2)] utf8_roundtrip [OF assms(1)]
    by (simp add: character_string_def)
  with x text_string.decode_first [OF s, of post] show ?thesis by auto
qed

lemma text_values_roundtrip_witness:
  "\<exists>x. application_character_string [72, 0xE9, 0x20AC, 0x1F600] = Inr x
    \<and> decode_application (x @ [0]) = Inr (PStr [72, 0xE9, 0x20AC, 0x1F600])
    \<and> character_string (x @ [0]) = Inr (Some [72, 0xE9, 0x20AC, 0x1F600])"
proof -
  obtain x where "utf8_encode [72, 0xE9, 0x20AC, 0x1F600] = Inr x" "length x = 10"
    by (simp add: utf8_char_def surrogate_def code_point_def)
  with text_values_roundtrip [OF this(1)] show ?thesis by simp
qed

text \<open>
  A bit string of up to 24 bits survives \<^verbatim>\<open>application_bit_string\<close> and \<^verbatim>\<open>decode_application\<close>, and a
  run of them decodes to the list of them.
\<close>

lemma bit_strings_roundtrip:
  assumes "\<forall>bits \<in> set bss. length bits \<le> 24"
  shows "\<exists>xs. collect application_bit_string bss = Inr xs \<and> decoded_values (concat xs) = Inr (map PBits bss)
    \<and> application_elements (concat xs) = Inr xs"
  using bit_string.decode_run [OF assms] bit_string.run_elements [OF assms] by auto

lemma bit_strings_roundtrip_witness:
  "\<exists>xs. collect application_bit_string [[True, False, False, True], [], replicate 24 True] = Inr xs
    \<and> decoded_values (concat xs) = Inr (map PBits [[True, False, False, True], [], replicate 24 True])
    \<and> application_elements (concat xs) = Inr xs"
  by (rule bit_strings_roundtrip) simp

section \<open>Splitting a run\<close>

lemma slice_take: "a \<le> b \<Longrightarrow> take a d @ slice d a b = take b d"
  by (simp add: slice_def take_add [of a "b - a", simplified, symmetric])

lemma elements_concat:
  "for_tags d (\<lambda>start (_, _, _, _, next) elements. Inr (elements @ [slice d start next])) p acc = Inr xs \<Longrightarrow>
   concat acc = take p d \<Longrightarrow> concat xs = d"
proof (induction "length d - p" arbitrary: p acc rule: less_induct)
  case (less p acc)
  show ?case
  proof (cases "p < length d")
    case True
    with less(2) obtain n c k b q where t: "read_tag d p = Inr (n, c, k, b, q)"
      by (subst (asm) for_tags.simps) (auto simp: chain_eq_Inr)
    have pq: "p < q" using read_tag_progress [OF t] by simp
    have "concat (acc @ [slice d p q]) = take q d" using less(3) slice_take [of p q d] pq by simp
    moreover from less(2) True t have
      "for_tags d (\<lambda>start (_, _, _, _, next) elements. Inr (elements @ [slice d start next])) q (acc @ [slice d p q]) = Inr xs"
      by (subst (asm) for_tags.simps) simp
    ultimately show ?thesis using less(1) [of q] True pq by simp
  next
    case False
    with less(2,3) show ?thesis by (simp add: for_tags_end)
  qed
qed

text \<open>
  \<^verbatim>\<open>application_elements\<close> loses nothing: the elements it finds in any octets, well formed or cut short,
  concatenate to those octets, and a concatenation of whole tags is split into those tags.
\<close>

lemma elements_lossless:
  assumes "application_elements d = Inr xs" "\<forall>y \<in> set ys. tag_of y \<noteq> None"
  shows "concat xs = d \<and> application_elements (concat ys) = Inr ys"
  using elements_concat [of d 0 "[]" xs] assms application_elements_run [OF assms(2)]
  by (simp add: application_elements_def)

lemma elements_lossless_witness:
  "\<exists>xs. application_elements [0x21, 5, 0x25, 9, 1] = Inr xs \<and> concat xs = [0x21, 5, 0x25, 9, 1]
    \<and> application_elements (concat [[0x21, 5], [0x2E]]) = Inr [[0x21, 5], [0x2E]]"
proof -
  note eval = application_elements_def for_tags.simps tag_of_def read_tag_def tag_number_def tag_length_def index_def slice_def
  have "application_elements [0x21, 5, 0x25, 9, 1] = Inr [[0x21, 5], [0x25, 9, 1]]" by (simp add: eval)
  moreover have "\<forall>y \<in> set [[0x21, 5], [0x2E :: octet]]. tag_of y \<noteq> None" by (simp add: eval del: not_None_eq)
  ultimately show ?thesis using elements_lossless by blast
qed

end
