(* ===== verification/Codec_Apdu.thy ===== *)
theory Codec_Apdu
  imports Codec_Values
begin

text \<open>
  Round trips of whole messages of \<^verbatim>\<open>wiretest/codec.py\<close>: an APDU built by one function is taken
  apart by the parser of the same service, and a datagram built by \<^verbatim>\<open>npdu\<close> and \<^verbatim>\<open>bvlc\<close> is read
  back field by field by \<^verbatim>\<open>Frame\<close>.
\<close>

section \<open>Tags of known content inside an APDU\<close>

lemma read_tag_at:
  "tag_of x = Some (n, c, k, b) \<Longrightarrow> data = pre @ x @ post \<Longrightarrow> p = length pre \<Longrightarrow>
   read_tag data p = Inr (n, c, k, b, p + length x)"
  by (simp add: read_tag_of)

lemma context_object_id_tag:
  assumes "context_number n" "object_range (t, i)"
  obtains x b where "context_object_id n t i = Inr x" "tag_of x = Some (n, True, Kvalue, b)"
    "object_identifier b = Inr (t, i)" "length b = 4"
proof -
  from assms(2) obtain b where "object_id t i = Inr b" "length b = 4" "object_identifier b = Inr (t, i)"
    using object_id_body [of t i] by auto
  with ctx_object.one_tag [of "(n, t, i)"] assms that show thesis by auto
qed

lemma context_unsigned_tag:
  assumes "context_number n" "unsigned32 v"
  obtains x b where "context_unsigned n v = Inr x" "tag_of x = Some (n, True, Kvalue, b)" "from_bytes b = v"
proof -
  from assms(2) obtain b where "unsigned_octets v = Inr b" "from_bytes b = v"
    using unsigned_octets_body by metis
  with ctx_unsigned.one_tag [of "(n, v)"] assms that show thesis by auto
qed

lemma optional_context_unsigned:
  assumes "context_number n" "\<forall>a \<in> set_option v. unsigned32 a"
  obtains x where "cat (case v of None \<Rightarrow> [] | Some a \<Rightarrow> [context_unsigned n a]) = Inr x"
    "x = [] \<and> v = None \<or> (\<exists>b. tag_of x = Some (n, True, Kvalue, b) \<and> v = Some (from_bytes b))"
proof (cases v)
  case (Some a)
  with assms obtain x b where "context_unsigned n a = Inr x" "tag_of x = Some (n, True, Kvalue, b)" "from_bytes b = a"
    using context_unsigned_tag [of n a] by auto
  with that [of x] Some show thesis by simp
qed (use that in simp)

lemma brackets:
  assumes "context_number n"
  obtains x y where "opening_tag n = Inr x" "tag_of x = Some (n, True, Kopen, [])"
    "closing_tag n = Inr y" "tag_of y = Some (n, True, Kclose, [])"
  using open_bracket.one_tag close_bracket.one_tag assms that by blast

lemma confirmed_request_eq:
  assumes "0 \<le> invoke_id" "invoke_id < 256" "0 \<le> service" "service < 256"
  shows "confirmed_request invoke_id service parameters =
    Inr ([0, 5, oct invoke_id, oct service] @ parameters)"
  using assms by (simp add: confirmed_request_def byte_def oct_def)

section \<open>Well-nested runs\<close>

text \<open>
  The octets between an opening tag and its closing tag: whole tags, every bracket opened among
  them closed among them. \<^verbatim>\<open>well_nested d xs\<close> starts with \<open>d\<close> brackets of its own already open.
\<close>

fun well_nested :: "nat \<Rightarrow> octets list \<Rightarrow> bool" where
  "well_nested d [] \<longleftrightarrow> d = 0"
| "well_nested d (x # xs) \<longleftrightarrow>
     (case tag_of x of
        None \<Rightarrow> False
      | Some (n, c, k, b) \<Rightarrow>
          (case k of
             Kopen \<Rightarrow> well_nested (Suc d) xs
           | Kclose \<Rightarrow> 0 < d \<and> well_nested (d - 1) xs
           | Kvalue \<Rightarrow> well_nested d xs))"

lemma well_nested_values:
  "\<forall>x \<in> set xs. \<exists>n c b. tag_of x = Some (n, c, Kvalue, b) \<Longrightarrow> well_nested 0 xs"
  by (induction xs) auto

lemma well_nested_tags: "well_nested d xs \<Longrightarrow> \<forall>x \<in> set xs. tag_of x \<noteq> None"
  by (induction d xs rule: well_nested.induct) (auto split: option.splits prod.splits tag_kind.splits)

lemma close_scan_step:
  assumes "tag_of x = Some (n, c, k, b)"
  shows "close_scan (pre @ x @ post) (length pre) (Suc d) =
    (case k of
       Kopen \<Rightarrow> close_scan (pre @ x @ post) (length (pre @ x)) (Suc (Suc d))
     | Kclose \<Rightarrow> (if d = 0 then Inr (length pre, length (pre @ x))
                  else close_scan (pre @ x @ post) (length (pre @ x)) d)
     | Kvalue \<Rightarrow> close_scan (pre @ x @ post) (length (pre @ x)) (Suc d))"
  by (subst close_scan.simps) (simp add: read_tag_of [OF assms] split: tag_kind.split)

lemma close_scan_nested:
  assumes "well_nested d xs" "tag_of y = Some (n, c, Kclose, b)"
  shows "close_scan (pre @ concat xs @ y @ post) (length pre) (Suc d) =
    Inr (length pre + length (concat xs), length pre + length (concat xs) + length y)"
  using assms(1)
proof (induction d xs arbitrary: pre rule: well_nested.induct)
  case (1 d)
  then show ?case using close_scan_step [OF assms(2), of pre post 0] by simp
next
  case (2 d x xs)
  then obtain m e k v where t: "tag_of x = Some (m, e, k, v)" by (auto split: option.splits)
  show ?case
  proof (cases k)
    case Kopen
    with 2(1) [OF t refl refl refl Kopen, of "pre @ x"] 2(4) t close_scan_step [OF t, of pre "concat xs @ y @ post" d]
    show ?thesis by simp
  next
    case Kclose
    with 2(2) [OF t refl refl refl Kclose, of "pre @ x"] 2(4) t close_scan_step [OF t, of pre "concat xs @ y @ post" d]
    show ?thesis by simp
  next
    case Kvalue
    with 2(3) [OF t refl refl refl Kvalue, of "pre @ x"] 2(4) t close_scan_step [OF t, of pre "concat xs @ y @ post" d]
    show ?thesis by simp
  qed
qed

section \<open>ReadProperty\<close>

lemma read_request_parses:
  assumes "0 \<le> invoke_id" "invoke_id < 256" "object_range (t, i)" "unsigned32 p"
    "\<forall>a \<in> set_option array_index. unsigned32 a"
  shows "\<exists>apdu. read_property_request invoke_id t i p array_index = Inr apdu
    \<and> parse_read_property_request apdu True = Inr (Some (t, i, p, array_index))
    \<and> parse_read_property_request apdu False = Inr (Some (t, i, p, None))"
proof -
  obtain x b where x: "context_object_id 0 t i = Inr x" "tag_of x = Some (0, True, Kvalue, b)"
    "object_identifier b = Inr (t, i)" "length b = 4" using context_object_id_tag [of 0 t i] assms(3) by auto
  obtain y c where y: "context_unsigned 1 p = Inr y" "tag_of y = Some (1, True, Kvalue, c)" "from_bytes c = p"
    using context_unsigned_tag [of 1 p] assms(4) by auto
  let ?head = "[0, 5, oct invoke_id, oct SERVICE_READ_PROPERTY]"
  have rx: "read_tag (?head @ x @ y @ z) 4 = Inr (0, True, Kvalue, b, 4 + length x)" for z
    by (rule read_tag_at [OF x(2), of _ ?head "y @ z"]) simp_all
  have ry: "read_tag (?head @ x @ y @ z) (4 + length x) = Inr (1, True, Kvalue, c, 4 + length x + length y)" for z
    by (rule read_tag_at [OF y(2), of _ "?head @ x" z]) simp_all
  note parse = parse_read_property_request_def parse_guard_def
  show ?thesis
  proof (cases array_index)
    case None
    then show ?thesis
      using rx [of "[]"] ry [of "[]"] x y assms(1,2)
      by (simp add: read_property_request_def confirmed_request_eq parse)
  next
    case (Some a)
    with assms(5) obtain z d where z: "context_unsigned 2 a = Inr z" "tag_of z = Some (2, True, Kvalue, d)" "from_bytes d = a"
      using context_unsigned_tag [of 2 a] by auto
    have "read_tag (?head @ x @ y @ z) (4 + length x + length y)
        = Inr (2, True, Kvalue, d, 4 + length x + length y + length z)"
      by (rule read_tag_at [OF z(2), of _ "?head @ x @ y" "[]"]) simp_all
    then show ?thesis
      using Some rx [of z] ry [of z] x y z assms(1,2) tag_of_nonempty [OF z(2)]
      by (simp add: read_property_request_def confirmed_request_eq parse)
  qed
qed

text \<open>
  A ReadProperty request built by \<^verbatim>\<open>read_property_request\<close> is parsed back by
  \<^verbatim>\<open>parse_read_property_request\<close> to the same object, property and array index; without
  \<^verbatim>\<open>with_array_index\<close> to the object and property alone.
\<close>

lemma read_property_request_parses:
  assumes "0 \<le> invoke_id" "invoke_id < 256" "object_range (t, i)" "unsigned32 p"
    "\<forall>a \<in> set_option array_index. unsigned32 a"
  shows "\<exists>apdu. read_property_request invoke_id t i p array_index = Inr apdu
    \<and> parse_read_property_request apdu True = Inr (Some (t, i, p, array_index))
    \<and> parse_read_property_request apdu False = Inr (Some (t, i, p, None))"
  using assms by (rule read_request_parses)

lemma read_property_request_parses_witness:
  "\<exists>apdu. read_property_request 7 13 1 110 (Some 300) = Inr apdu
    \<and> parse_read_property_request apdu True = Inr (Some (13, 1, 110, Some 300))
    \<and> parse_read_property_request apdu False = Inr (Some (13, 1, 110, None))"
  by (rule read_property_request_parses) simp_all

text \<open>The loop of \<^verbatim>\<open>read_property_value\<close> passes over a tag that is not the opening tag 3.\<close>

lemma read_property_value_skip:
  assumes "tag_of x = Some (n, c, k, b)" "\<not> (c \<and> n = 3 \<and> k = Kopen)"
  shows "read_property_value_from (pre @ x @ post) (length pre) =
    read_property_value_from (pre @ x @ post) (length (pre @ x))"
  using assms(2) tag_of_nonempty [OF assms(1)]
  by (subst read_property_value_from.simps) (auto simp: read_tag_of [OF assms(1)])

lemma read_property_value_open:
  assumes "tag_of x = Some (3, True, Kopen, b)" "tag_of y = Some (n, c, Kclose, d)" "well_nested 0 vs"
  shows "read_property_value_from (pre @ x @ concat vs @ y @ post) (length pre) = Inr (Some (concat vs))"
  using tag_of_nonempty [OF assms(1)] close_scan_nested [OF assms(3,2), of "pre @ x" post]
    slice_append [of "pre @ x" "concat vs" "y @ post"]
  by (subst read_property_value_from.simps) (simp add: read_tag_of [OF assms(1)])

lemma ack_value:
  assumes "0 \<le> invoke_id" "invoke_id < 256" "object_range (t, i)" "unsigned32 p" "well_nested 0 vs"
  shows "\<exists>apdu. read_property_ack invoke_id t i p (concat vs) = Inr apdu
    \<and> read_property_value apdu = Inr (Some (concat vs))"
proof -
  obtain x b where x: "context_object_id 0 t i = Inr x" "tag_of x = Some (0, True, Kvalue, b)"
    "object_identifier b = Inr (t, i)" "length b = 4" using context_object_id_tag [of 0 t i] assms(3) by auto
  obtain y c where y: "context_unsigned 1 p = Inr y" "tag_of y = Some (1, True, Kvalue, c)" "from_bytes c = p"
    using context_unsigned_tag [of 1 p] assms(4) by auto
  obtain op cl where br: "opening_tag 3 = Inr op" "tag_of op = Some (3, True, Kopen, [])"
    "closing_tag 3 = Inr cl" "tag_of cl = Some (3, True, Kclose, [])"
    using brackets [of 3] by auto
  let ?head = "[oct 0x30, oct invoke_id, oct SERVICE_READ_PROPERTY]"
  let ?apdu = "?head @ x @ y @ op @ concat vs @ cl"
  have "read_property_ack invoke_id t i p (concat vs) = Inr ?apdu"
    using x y br assms(1,2) by (simp add: read_property_ack_def byte_def)
  moreover have "read_property_value_from ?apdu (length ?head) = Inr (Some (concat vs))"
    using read_property_value_skip [OF x(2), of ?head "y @ op @ concat vs @ cl"]
      read_property_value_skip [OF y(2), of "?head @ x" "op @ concat vs @ cl"]
      read_property_value_open [OF br(2,4) assms(5), of "?head @ x @ y" "[]"]
    by simp
  ultimately show ?thesis by (simp add: read_property_value_def numeral_3_eq_3)
qed

text \<open>
  C13. The value octets of a ReadProperty-ACK built by \<^verbatim>\<open>read_property_ack\<close> come back from
  \<^verbatim>\<open>read_property_value\<close> unchanged, also when the value is constructed: brackets inside it do not
  end it. \<^verbatim>\<open>application_elements\<close> then splits them into the tags they were made of.
\<close>

theorem read_property_ack_value:
  assumes "0 \<le> invoke_id" "invoke_id < 256" "object_range (t, i)" "unsigned32 p" "well_nested 0 vs"
  shows "\<exists>apdu. read_property_ack invoke_id t i p (concat vs) = Inr apdu
    \<and> read_property_value apdu = Inr (Some (concat vs)) \<and> application_elements (concat vs) = Inr vs"
  using ack_value [OF assms] application_elements_run [OF well_nested_tags [OF assms(5)]] by blast

lemmas evaluate_tags = tag_of_def read_tag_def tag_number_def tag_length_def index_def slice_def

lemma read_property_ack_value_witness:
  "well_nested 0 [[0x2E], [0x21, 5], [0x2F]] \<and>
   (\<exists>apdu. read_property_ack 7 8 389001 76 (concat [[0x2E], [0x21, 5], [0x2F]]) = Inr apdu
     \<and> read_property_value apdu = Inr (Some (concat [[0x2E], [0x21, 5], [0x2F]]))
     \<and> application_elements (concat [[0x2E], [0x21, 5], [0x2F]]) = Inr [[0x2E], [0x21, 5], [0x2F]])"
proof -
  have "well_nested 0 [[0x2E], [0x21, 5], [0x2F]]" by (simp add: evaluate_tags)
  with read_property_ack_value [of 7 8 389001 76 "[[0x2E], [0x21, 5], [0x2F]]"] show ?thesis by simp
qed

section \<open>WriteProperty\<close>

lemma write_request_parses:
  assumes "0 \<le> invoke_id" "invoke_id < 256" "object_range (t, i)" "unsigned32 p" "well_nested 0 vs"
    "\<forall>a \<in> set_option array_index. unsigned32 a" "\<forall>a \<in> set_option priority. unsigned32 a"
  shows "\<exists>apdu. write_property_request invoke_id t i p (concat vs) priority array_index = Inr apdu
    \<and> parse_write_property_request apdu = Inr (Some
        \<lparr>wr_object_type = t, wr_instance = i, wr_property_identifier = p, wr_array_index = array_index,
         wr_value_octets = concat vs, wr_priority = priority\<rparr>)"
proof -
  obtain x b where x: "context_object_id 0 t i = Inr x" "tag_of x = Some (0, True, Kvalue, b)"
    "object_identifier b = Inr (t, i)" "length b = 4" using context_object_id_tag [of 0 t i] assms(3) by auto
  obtain y c where y: "context_unsigned 1 p = Inr y" "tag_of y = Some (1, True, Kvalue, c)" "from_bytes c = p"
    using context_unsigned_tag [of 1 p] assms(4) by auto
  obtain op cl where br: "opening_tag 3 = Inr op" "tag_of op = Some (3, True, Kopen, [])"
    "closing_tag 3 = Inr cl" "tag_of cl = Some (3, True, Kclose, [])"
    using brackets [of 3] by auto
  obtain w where w: "cat (case array_index of None \<Rightarrow> [] | Some a \<Rightarrow> [context_unsigned 2 a]) = Inr w"
    "w = [] \<and> array_index = None \<or> (\<exists>d. tag_of w = Some (2, True, Kvalue, d) \<and> array_index = Some (from_bytes d))"
    using optional_context_unsigned [of 2 array_index] assms(6) by auto
  obtain z where z: "cat (case priority of None \<Rightarrow> [] | Some a \<Rightarrow> [context_unsigned 4 a]) = Inr z"
    "z = [] \<and> priority = None \<or> (\<exists>d. tag_of z = Some (4, True, Kvalue, d) \<and> priority = Some (from_bytes d))"
    using optional_context_unsigned [of 4 priority] assms(7) by auto
  let ?head = "[0, 5, oct invoke_id, oct SERVICE_WRITE_PROPERTY]"
  let ?tail = "op @ concat vs @ cl @ z"
  let ?apdu = "?head @ x @ y @ w @ ?tail"
  let ?p = "4 + length x + length y"
  let ?q = "?p + length w"
  have "write_property_request invoke_id t i p (concat vs) priority array_index = Inr ?apdu"
    using x y br w(1) z(1) assms(1,2) by (simp add: write_property_request_def confirmed_request_eq cat_append)
  moreover have "index ?apdu 0 = Inr 0" "index ?apdu 3 = Inr SERVICE_WRITE_PROPERTY"
    by (simp_all add: index_def uint_oct)
  moreover have "read_tag ?apdu 4 = Inr (0, True, Kvalue, b, 4 + length x)"
    by (rule read_tag_at [OF x(2), of _ ?head "y @ w @ ?tail"]) simp_all
  moreover have "read_tag ?apdu (4 + length x) = Inr (1, True, Kvalue, c, ?p)"
    by (rule read_tag_at [OF y(2), of _ "?head @ x" "w @ ?tail"]) simp_all
  moreover have op: "read_tag ?apdu ?q = Inr (3, True, Kopen, [], ?q + length op)"
    by (rule read_tag_at [OF br(2), of _ "?head @ x @ y @ w" "concat vs @ cl @ z"]) simp_all
  moreover have "\<exists>n k d q. read_tag ?apdu ?p = Inr (n, True, k, d, q)
      \<and> (if n = 2 \<and> k = Kvalue then q = ?q \<and> array_index = Some (from_bytes d) else w = [] \<and> array_index = None)"
    using w(2)
  proof
    assume "w = [] \<and> array_index = None"
    with op show ?thesis by simp
  next
    assume "\<exists>d. tag_of w = Some (2, True, Kvalue, d) \<and> array_index = Some (from_bytes d)"
    then obtain d where d: "tag_of w = Some (2, True, Kvalue, d)" "array_index = Some (from_bytes d)" by blast
    have "read_tag ?apdu ?p = Inr (2, True, Kvalue, d, ?p + length w)"
      by (rule read_tag_at [OF d(1), of _ "?head @ x @ y" ?tail]) simp_all
    with d show ?thesis by simp
  qed
  moreover have "close_scan ?apdu (?q + length op) 1
      = Inr (?q + length op + length (concat vs), ?q + length op + length (concat vs) + length cl)"
    using close_scan_nested [OF assms(5) br(4), of "?head @ x @ y @ w @ op" z]
    by (simp add: add.assoc eval_nat_numeral)
  moreover have "slice ?apdu (?q + length op) (?q + length op + length (concat vs)) = concat vs"
    using slice_append [of "?head @ x @ y @ w @ op" "concat vs" "cl @ z"]
    by (simp add: add.assoc eval_nat_numeral)
  moreover have "(if ?q + length op + length (concat vs) + length cl < length ?apdu
      then chain (read_tag ?apdu (?q + length op + length (concat vs) + length cl))
             (\<lambda>(_, _, _, body, _). Inr (Some (from_bytes body)))
      else Inr None) = Inr priority"
    using z(2)
  proof
    assume "\<exists>d. tag_of z = Some (4, True, Kvalue, d) \<and> priority = Some (from_bytes d)"
    then obtain d where d: "tag_of z = Some (4, True, Kvalue, d)" "priority = Some (from_bytes d)" by blast
    have "read_tag ?apdu (?q + length op + length (concat vs) + length cl)
        = Inr (4, True, Kvalue, d, ?q + length op + length (concat vs) + length cl + length z)"
      by (rule read_tag_at [OF d(1), of _ "?head @ x @ y @ w @ op @ concat vs @ cl" "[]"]) simp_all
    with d tag_of_nonempty [OF d(1)] show ?thesis by simp
  qed simp
  ultimately show ?thesis
    using x(3) y(3)
    by (intro exI [of _ ?apdu]) (fastforce simp: parse_write_property_request_def parse_guard_def Let_def split: if_splits)
qed

text \<open>
  C11. A WriteProperty request built by \<^verbatim>\<open>write_property_request\<close> is parsed back by
  \<^verbatim>\<open>parse_write_property_request\<close> to the same object, property, array index, value octets and
  priority, whether the optional parts are there or not and however the value is nested.
\<close>

theorem write_property_request_parses:
  assumes "0 \<le> invoke_id" "invoke_id < 256" "object_range (t, i)" "unsigned32 p" "well_nested 0 vs"
    "\<forall>a \<in> set_option array_index. unsigned32 a" "\<forall>a \<in> set_option priority. unsigned32 a"
  shows "\<exists>apdu. write_property_request invoke_id t i p (concat vs) priority array_index = Inr apdu
    \<and> parse_write_property_request apdu = Inr (Some
        \<lparr>wr_object_type = t, wr_instance = i, wr_property_identifier = p, wr_array_index = array_index,
         wr_value_octets = concat vs, wr_priority = priority\<rparr>)"
  using assms by (rule write_request_parses)

lemma write_property_request_parses_witness:
  "\<exists>apdu. write_property_request 7 2 1 85 (concat [[0x2E], [0x21, 5], [0x2F]]) (Some 8) (Some 3) = Inr apdu
    \<and> parse_write_property_request apdu = Inr (Some
        \<lparr>wr_object_type = 2, wr_instance = 1, wr_property_identifier = 85, wr_array_index = Some 3,
         wr_value_octets = concat [[0x2E], [0x21, 5], [0x2F]], wr_priority = Some 8\<rparr>)"
  by (rule write_property_request_parses) (simp_all add: evaluate_tags)

section \<open>I-Am and Error\<close>

text \<open>
  The device instance of an I-Am built by \<^verbatim>\<open>i_am\<close> is what \<^verbatim>\<open>i_am_device_instance\<close> finds in it.
\<close>

lemma i_am_instance:
  assumes "0 \<le> n" "n < 2 ^ 22" "unsigned32 vendor" "unsigned32 max_apdu" "unsigned32 segmentation"
  shows "\<exists>apdu. i_am n vendor max_apdu segmentation = Inr apdu \<and> i_am_device_instance apdu = Inr (Some n)"
proof -
  obtain b where b: "object_id OBJECT_TYPE_DEVICE n = Inr b" "length b = 4"
    "object_identifier b = Inr (OBJECT_TYPE_DEVICE, n)"
    using object_id_body [of OBJECT_TYPE_DEVICE n] assms(1,2) by auto
  with object.one_tag [of "(OBJECT_TYPE_DEVICE, n)"] assms(1,2) obtain x where
    x: "application_object_id OBJECT_TYPE_DEVICE n = Inr x" "tag_of x = Some (12, False, Kvalue, b)"
    by auto
  have l: "length x = 5" using x(1) b(1,2) by (auto simp: application_object_id_def byte_def)
  obtain y where y: "cat [application_unsigned max_apdu, application_enumerated segmentation,
      application_unsigned vendor] = Inr y"
    using unsigned.encoded [OF assms(3)] unsigned.encoded [OF assms(4)] enumerated.encoded [OF assms(5)]
    by (metis (no_types, lifting) cat.simps chain_Inr)
  let ?apdu = "[oct 0x10, oct SERVICE_I_AM] @ x @ y"
  have "i_am n vendor max_apdu segmentation = Inr ?apdu"
    using x(1) y by (auto simp: i_am_def byte_def result_simps)
  moreover have "read_tag ?apdu 2 = Inr (12, False, Kvalue, b, 2 + length x)"
    by (rule read_tag_at [OF x(2), of _ "[oct 0x10, oct SERVICE_I_AM]" y]) simp_all
  ultimately show ?thesis
    using b l by (auto simp: i_am_device_instance_def uint_oct object_identifier_def result_simps)
qed

lemma i_am_instance_witness:
  "\<exists>apdu. i_am 389001 389 1476 3 = Inr apdu \<and> i_am_device_instance apdu = Inr (Some 389001)"
  by (rule i_am_instance) simp_all

text \<open>
  The error class and code of an Error-PDU built by \<^verbatim>\<open>error_pdu\<close> are what
  \<^verbatim>\<open>error_class_and_code\<close> finds in it.
\<close>

lemma error_pdu_class_and_code:
  assumes "0 \<le> invoke_id" "invoke_id < 256" "0 \<le> service" "service < 256" "unsigned32 c" "unsigned32 d"
  shows "\<exists>apdu. error_pdu invoke_id service c d = Inr apdu \<and> error_class_and_code apdu = Inr (Some (c, d))"
proof -
  obtain xs where xs: "collect application_enumerated [c, d] = Inr xs"
    "application_values (concat xs) = Inr [(9, octets_of (unsigned_octets c)), (9, octets_of (unsigned_octets d))]"
    using enumerated.values_run [of "[c, d]"] assms(5,6) by auto
  then obtain x y where xy: "application_enumerated c = Inr x" "application_enumerated d = Inr y" "xs = [x, y]"
    by (auto simp: result_simps)
  have "error_pdu invoke_id service c d = Inr ([oct 0x50, oct invoke_id, oct service] @ concat xs)"
    using xy assms by (simp add: error_pdu_def byte_def)
  moreover have "from_bytes (octets_of (unsigned_octets v)) = v" if "unsigned32 v" for v
    using that by (auto intro: unsigned_octets_body [of v])
  ultimately show ?thesis using xs(2) assms(5,6) by (simp add: error_class_and_code_def)
qed

lemma error_pdu_class_and_code_witness:
  "\<exists>apdu. error_pdu 7 12 2 32 = Inr apdu \<and> error_class_and_code apdu = Inr (Some (2, 32))"
  by (rule error_pdu_class_and_code) simp_all

section \<open>ReadAccessSpecification\<close>

lemma specification_references:
  assumes "\<forall>(p, a) \<in> set refs. unsigned32 p \<and> (\<forall>i \<in> set_option a. unsigned32 i)"
  shows "\<exists>xs. collect property_reference refs = Inr xs \<and>
    (\<forall>pre post ids. for_tags (pre @ concat xs @ post) specification_step (length pre)
        (AList.update k ids m, Some k)
      = for_tags (pre @ concat xs @ post) specification_step (length (pre @ concat xs))
          (AList.update k (ids @ map fst refs) m, Some k))"
  using assms
proof (induction refs)
  case Nil
  then show ?case by simp
next
  case (Cons r refs)
  obtain p a where r: "r = (p, a)" by fastforce
  with Cons obtain xs where xs: "collect property_reference refs = Inr xs"
    "\<And>pre post ids. for_tags (pre @ concat xs @ post) specification_step (length pre) (AList.update k ids m, Some k)
      = for_tags (pre @ concat xs @ post) specification_step (length (pre @ concat xs))
          (AList.update k (ids @ map fst refs) m, Some k)"
    by auto
  obtain x b where x: "context_unsigned 0 p = Inr x" "tag_of x = Some (0, True, Kvalue, b)" "from_bytes b = p"
    using context_unsigned_tag [of 0 p] Cons.prems r by auto
  obtain y where y: "cat (case a of None \<Rightarrow> [] | Some i \<Rightarrow> [context_unsigned 1 i]) = Inr y"
    "y = [] \<and> a = None \<or> (\<exists>d. tag_of y = Some (1, True, Kvalue, d) \<and> a = Some (from_bytes d))"
    using optional_context_unsigned [of 1 a] Cons.prems r by auto
  have "for_tags (pre @ x @ y @ post) specification_step (length pre) (AList.update k ids m, Some k)
      = for_tags (pre @ x @ y @ post) specification_step (length (pre @ x @ y)) (AList.update k (ids @ [p]) m, Some k)"
    for pre post ids
    using y(2)
  proof
    assume "y = [] \<and> a = None"
    then show ?thesis
      using for_tags_step [OF x(2), of pre post specification_step "(AList.update k ids m, Some k)"] x(3)
      by (simp add: update_conv' update_last)
  next
    assume "\<exists>d. tag_of y = Some (1, True, Kvalue, d) \<and> a = Some (from_bytes d)"
    then obtain d where "tag_of y = Some (1, True, Kvalue, d)" by blast
    from for_tags_step [OF this, of "pre @ x" post specification_step]
      for_tags_step [OF x(2), of pre "y @ post" specification_step "(AList.update k ids m, Some k)"] x(3)
    show ?thesis by (simp add: update_conv' update_last add.assoc)
  qed
  note step = this
  have "collect property_reference (r # refs) = Inr ((x @ y) # xs)"
    using x(1) y(1) xs(1) r by (simp add: property_reference_def [of "(p, a)"])
  with step xs(2) [of "pre @ x @ y" for pre] r show ?case
    by (intro exI [of _ "(x @ y) # xs"]) simp
qed

abbreviation references_range :: "(int \<times> int option) list \<Rightarrow> bool" where
  "references_range refs \<equiv> \<forall>(p, a) \<in> set refs. unsigned32 p \<and> (\<forall>i \<in> set_option a. unsigned32 i)"

lemma specification_octets:
  assumes "object_range (t, i)" "references_range refs"
  shows "\<exists>x. read_access_specification t i refs = Inr x \<and>
    (\<forall>pre post m. for_tags (pre @ x @ post) specification_step (length pre) (m, None)
      = for_tags (pre @ x @ post) specification_step (length (pre @ x)) (AList.update (t, i) (map fst refs) m, None))"
proof -
  obtain x b where x: "context_object_id 0 t i = Inr x" "tag_of x = Some (0, True, Kvalue, b)"
    "object_identifier b = Inr (t, i)" "length b = 4" using context_object_id_tag [of 0 t i] assms(1) by auto
  obtain op cl where br: "opening_tag 1 = Inr op" "tag_of op = Some (1, True, Kopen, [])"
    "closing_tag 1 = Inr cl" "tag_of cl = Some (1, True, Kclose, [])"
    using brackets [of 1] by auto
  from specification_references [OF assms(2), of "(t, i)"] obtain xs where xs:
    "collect property_reference refs = Inr xs" by blast
  have refs: "for_tags (pre @ concat xs @ post) specification_step (length pre) (AList.update (t, i) ids m, Some (t, i))
      = for_tags (pre @ concat xs @ post) specification_step (length (pre @ concat xs))
          (AList.update (t, i) (ids @ map fst refs) m, Some (t, i))" for pre post ids m
    using specification_references [OF assms(2), of "(t, i)" m] xs by auto
  let ?x = "x @ op @ concat xs @ cl"
  have "read_access_specification t i refs = Inr ?x"
    using x br xs by (simp add: read_access_specification_def cat_append cat_map)
  moreover have "for_tags (pre @ ?x @ post) specification_step (length pre) (m, None)
      = for_tags (pre @ ?x @ post) specification_step (length (pre @ ?x)) (AList.update (t, i) (map fst refs) m, None)"
    for pre post m
    using for_tags_step [OF x(2), of pre "op @ concat xs @ cl @ post" specification_step "(m, None)"] x(3,4)
      for_tags_step [OF br(2), of "pre @ x" "concat xs @ cl @ post" specification_step
        "(AList.update (t, i) [] m, Some (t, i))"]
      refs [of "pre @ x @ op" "cl @ post" "[]" m]
      for_tags_step [OF br(4), of "pre @ x @ op @ concat xs" post specification_step
        "(AList.update (t, i) (map fst refs) m, Some (t, i))"]
    by (simp add: add.assoc)
  ultimately show ?thesis by blast
qed

text \<open>A list of specifications parses to the dict that its objects build up in order.\<close>

lemma specifications_fold:
  assumes "\<forall>(t, i, refs) \<in> set specs. object_range (t, i) \<and> references_range refs"
  shows "\<exists>xs. collect (\<lambda>(t, i, refs). read_access_specification t i refs) specs = Inr xs \<and>
    (\<forall>pre m. for_tags (pre @ concat xs) specification_step (length pre) (m, None)
      = Inr (fold (\<lambda>(t, i, refs). AList.update (t, i) (map fst refs)) specs m, None))"
  using assms
proof (induction specs)
  case Nil
  then show ?case by (simp add: for_tags_end)
next
  case (Cons s specs)
  obtain t i refs where s: "s = (t, i, refs)" by (metis prod_cases3)
  from Cons obtain xs where xs: "collect (\<lambda>(t, i, refs). read_access_specification t i refs) specs = Inr xs"
    "\<And>pre m. for_tags (pre @ concat xs) specification_step (length pre) (m, None)
      = Inr (fold (\<lambda>(t, i, refs). AList.update (t, i) (map fst refs)) specs m, None)"
    by auto
  have "object_range (t, i)" "references_range refs" using Cons.prems s by auto
  from specification_octets [OF this] obtain x where x: "read_access_specification t i refs = Inr x"
    "\<And>pre post m. for_tags (pre @ x @ post) specification_step (length pre) (m, None)
      = for_tags (pre @ x @ post) specification_step (length (pre @ x)) (AList.update (t, i) (map fst refs) m, None)"
    by blast
  show ?case
    using x(2) [of _ "concat xs"] xs(2) [of "pre @ x" for pre] x(1) xs(1) s
    by (intro exI [of _ "x # xs"]) simp
qed

lemma update_new_key: "k \<notin> fst ` set m \<Longrightarrow> AList.update k v m = m @ [(k, v)]"
  by (induction m) auto

lemma fold_update_distinct:
  "distinct (map fst kvs) \<Longrightarrow> set (map fst kvs) \<inter> fst ` set m = {} \<Longrightarrow>
   fold (\<lambda>(k, v). AList.update k v) kvs m = m @ kvs"
proof (induction kvs arbitrary: m)
  case (Cons kv kvs)
  then have "AList.update (fst kv) (snd kv) m = m @ [kv]"
    by (intro trans [OF update_new_key]) auto
  with Cons.IH [of "m @ [kv]"] Cons.prems show ?case by (auto simp: split_def)
qed simp

lemma specifications_roundtrip:
  assumes "\<forall>(t, i, refs) \<in> set specs. object_range (t, i) \<and> references_range refs"
    "distinct (map (\<lambda>(t, i, refs). (t, i)) specs)"
  shows "\<exists>xs. collect (\<lambda>(t, i, refs). read_access_specification t i refs) specs = Inr xs \<and>
    read_access_specifications (concat xs) = Inr (map (\<lambda>(t, i, refs). ((t, i), map fst refs)) specs)"
proof -
  have "fold (\<lambda>(t, i, refs). AList.update (t, i) (map fst refs)) specs m =
      fold (\<lambda>(k, v). AList.update k v) (map (\<lambda>(t, i, refs). ((t, i), map fst refs)) specs) m" for m
    by (induction specs arbitrary: m) auto
  with fold_update_distinct [of "map (\<lambda>(t, i, refs). ((t, i), map fst refs)) specs" "[]"] assms(2)
    specifications_fold [OF assms(1)]
  show ?thesis
    by (fastforce simp: read_access_specifications_def comp_def split_def dest: spec [of _ "[]"])
qed

text \<open>
  A run of ReadAccessSpecifications of distinct objects, built one by one by
  \<^verbatim>\<open>read_access_specification\<close>, is parsed by \<^verbatim>\<open>read_access_specifications\<close> to exactly those
  objects with their property identifiers, in order; array indexes are dropped.
\<close>

lemma specifications_parse:
  assumes "\<forall>(t, i, refs) \<in> set specs. object_range (t, i) \<and> references_range refs"
    "distinct (map (\<lambda>(t, i, refs). (t, i)) specs)"
  shows "\<exists>xs. collect (\<lambda>(t, i, refs). read_access_specification t i refs) specs = Inr xs \<and>
    read_access_specifications (concat xs) = Inr (map (\<lambda>(t, i, refs). ((t, i), map fst refs)) specs)"
  using assms by (rule specifications_roundtrip)

lemma specifications_parse_witness:
  "\<exists>xs. collect (\<lambda>(t, i, refs). read_access_specification t i refs)
      [(0, 1, [(85, None), (103, None)]), (13, 1, [(110, Some 2)])] = Inr xs \<and>
    read_access_specifications (concat xs) = Inr [((0, 1), [85, 103]), ((13, 1), [110])]"
  using specifications_parse [of "[(0, 1, [(85, None), (103, None)]), (13, 1, [(110, Some 2)])]"] by simp

end
