(* ===== verification/Codec_Frame.thy ===== *)
theory Codec_Frame
  imports Codec_Apdu
begin

text \<open>
  Datagrams: the BVLL header of \<^verbatim>\<open>bvll\<close>, the NPDU header of \<^verbatim>\<open>npdu\<close>, and what the constructor
  \<^verbatim>\<open>Frame\<close> reads from them.
\<close>

section \<open>The BVLL header\<close>

lemma bvll_eq_Inr:
  "bvll fn body = Inr d \<longleftrightarrow> 0 \<le> fn \<and> fn < 256 \<and> length body < 65532 \<and>
     d = [oct 0x81, oct fn] @ be_bytes 2 (4 + int (length body)) @ body"
  by (auto simp: bvll_def pack_u_def result_simps numeral_2_eq_2)

text \<open>
  The length field of every BVLL message is the length of the whole datagram, header included.
\<close>

lemma bvll_length:
  assumes "bvll fn body = Inr d"
  shows "length d = 4 + length body \<and> from_bytes (slice d 2 4) = int (length d)"
  using assms from_be_bytes [of "4 + int (length body)" 2]
  by (auto simp: bvll_eq_Inr slice_def numeral_2_eq_2)

lemma bvll_length_witness:
  "\<exists>d. bvll BVLC_DISTRIBUTE_BROADCAST_TO_NETWORK [1, 0] = Inr d \<and> length d = 4 + length [1, 0 :: octet]
    \<and> from_bytes (slice d 2 4) = int (length d)"
proof -
  obtain d where "bvll BVLC_DISTRIBUTE_BROADCAST_TO_NETWORK [1, 0] = Inr d" by (simp add: bvll_eq_Inr)
  with bvll_length [OF this] show ?thesis by blast
qed

lemma bvll_frame:
  assumes "bvll fn body = Inr d" "fn \<notin> set BVLC_FUNCTIONS_WITH_NPDU"
  shows "Frame d source =
    Inr ((new_frame d source)\<lparr>f_bvlc_function := Some fn, f_bvll_data := body, f_ok := True\<rparr>)"
proof -
  from assms(1) have d: "0 \<le> fn" "fn < 256" "d = [oct 0x81, oct fn] @ be_bytes 2 (4 + int (length body)) @ body"
    by (simp_all add: bvll_eq_Inr)
  then have "\<not> length d < 4" "uint (d ! 0) = BVLC_TYPE" "uint (d ! 1) = fn" "drop 4 d = body"
    by (simp_all add: uint_oct)
  with assms(2) show ?thesis by (simp add: Frame_def frame_decode_def Let_def)
qed

section \<open>The NPDU header\<close>

definition npdu_valid :: "npdu_args \<Rightarrow> bool" where
  "npdu_valid a \<longleftrightarrow>
     (\<forall>n \<in> set_option (na_dnet a). 0 \<le> n \<and> n < 65536) \<and> length (na_dadr a) < 256 \<and>
     (\<forall>n \<in> set_option (na_snet a). 0 \<le> n \<and> n < 65536) \<and> length (na_sadr a) < 256 \<and>
     0 \<le> na_hop_count a \<and> na_hop_count a < 256 \<and>
     (\<forall>m \<in> set_option (na_network_message a). 0 \<le> m \<and> m < 256)"

text \<open>A network layer message of type 0x80 or more is proprietary; the first two octets after it are a vendor id.\<close>

definition vendor_octets :: "int option \<Rightarrow> nat" where
  "vendor_octets message = (case message of None \<Rightarrow> 0 | Some m \<Rightarrow> if m < 0x80 then 0 else 2)"

lemma npdu_control_bits:
  "0 \<le> npdu_control a" "npdu_control a < 256"
  "npdu_control a AND 0x80 \<noteq> 0 \<longleftrightarrow> na_network_message a \<noteq> None"
  "npdu_control a AND 0x20 \<noteq> 0 \<longleftrightarrow> na_dnet a \<noteq> None"
  "npdu_control a AND 0x08 \<noteq> 0 \<longleftrightarrow> na_snet a \<noteq> None"
  "npdu_control a AND 0x04 \<noteq> 0 \<longleftrightarrow> na_expecting_reply a"
  by (cases "na_network_message a"; cases "na_dnet a"; cases "na_snet a"; cases "na_expecting_reply a";
      simp add: npdu_control_def)+

text \<open>A network number with its address, as the header holds it.\<close>

definition address_octets :: "int option \<Rightarrow> octets \<Rightarrow> octets" where
  "address_octets net adr =
     (case net of None \<Rightarrow> [] | Some n \<Rightarrow> be_bytes 2 n @ [octn (length adr)] @ adr)"

definition npdu_octets :: "octets \<Rightarrow> npdu_args \<Rightarrow> octets" where
  "npdu_octets payload a =
     [1, oct (npdu_control a)] @ address_octets (na_dnet a) (na_dadr a) @ address_octets (na_snet a) (na_sadr a)
     @ (if na_dnet a = None then [] else [oct (na_hop_count a)])
     @ (case na_network_message a of None \<Rightarrow> [] | Some m \<Rightarrow> [oct m]) @ payload"

lemma be_bytes_1: "be_bytes 1 (int n) = [octn n]"
  by (simp add: oct_def octn_def)

lemma npdu_eq: "npdu_valid a \<Longrightarrow> npdu payload a = Inr (npdu_octets payload a)"
  using npdu_control_bits(1,2) [of a] be_bytes_1
  by (cases "na_dnet a"; cases "na_snet a"; cases "na_network_message a")
    (simp_all add: npdu_valid_def npdu_def npdu_octets_def address_octets_def byte_def oct_bit pack_u_def)

lemma decode_address_at:
  assumes "0 \<le> n" "n < 65536" "length adr < 256"
  shows "decode_address (pre @ address_octets (Some n) adr @ post) (length pre) =
    Inr (n, adr, length pre + length (address_octets (Some n) adr))"
proof -
  have "slice (pre @ address_octets (Some n) adr @ post) (length pre) (length pre + 3) = be_bytes 2 n @ [octn (length adr)]"
    using slice_append [of pre "be_bytes 2 n @ [octn (length adr)]" "adr @ post"] by (simp add: address_octets_def)
  moreover have "slice (pre @ address_octets (Some n) adr @ post) (length pre + 3) (length pre + 3 + length adr) = adr"
    using slice_append [of "pre @ be_bytes 2 n @ [octn (length adr)]" adr post]
    by (simp add: address_octets_def eval_nat_numeral)
  moreover have "from_bytes (be_bytes 2 n) = n" using from_be_bytes [of n 2] assms by simp
  ultimately show ?thesis using unat_octn [OF assms(3)]
    by (simp add: decode_address_def nth_append) (simp add: address_octets_def)
qed

section \<open>A frame read back\<close>

lemma drop_add3: "drop (p + 3) n = drop (Suc (Suc (Suc p))) n" and drop_add4: "drop (4 + p) n = drop (Suc (Suc (Suc (Suc p)))) n"
  by (simp_all add: eval_nat_numeral)

text \<open>The decoder's steps, from what it finds at each position of the NPDU.\<close>

lemma frame_decode_steps:
  assumes "4 \<le> length d" "uint (d ! 0) = BVLC_TYPE" "uint (d ! 1) = fn" "drop 4 d = n"
    "fn \<in> set BVLC_FUNCTIONS_WITH_NPDU" "fn \<noteq> BVLC_FORWARDED_NPDU"
    "2 \<le> length n" "uint (n ! 0) = 1" "uint (n ! 1) = c"
    "c AND 0x20 \<noteq> 0 \<longleftrightarrow> dnet \<noteq> None" "c AND 0x08 \<noteq> 0 \<longleftrightarrow> snet \<noteq> None"
    "c AND 0x80 \<noteq> 0 \<longleftrightarrow> msg \<noteq> None" "c AND 0x04 \<noteq> 0 \<longleftrightarrow> reply"
    "\<And>v. dnet = Some v \<Longrightarrow> decode_address n 2 = Inr (v, dadr, p1)" "dnet = None \<Longrightarrow> p1 = 2"
    "\<And>v. snet = Some v \<Longrightarrow> decode_address n p1 = Inr (v, sadr, p2)" "snet = None \<Longrightarrow> p2 = p1"
    "p3 = (if dnet = None then p2 else p2 + 1)"
    "\<And>m. msg = Some m \<Longrightarrow> index n p3 = Inr m"
    "p4 = (if msg = None then p3 else p3 + 1) + vendor_octets msg"
  shows "Frame d source = Inr ((new_frame d source)
    \<lparr>f_bvlc_function := Some fn, f_bvll_data := n, f_has_npdu := True,
     f_dnet := dnet, f_dadr := (if dnet = None then [] else dadr),
     f_snet := snet, f_sadr := (if snet = None then [] else sadr),
     f_expecting_reply := reply, f_network_message := msg, f_payload := drop p4 n, f_ok := True\<rparr>)"
proof -
  have "\<not> length d < 4" "\<not> length n < 2" using assms(1,7) by simp_all
  moreover have "\<not> length d - 4 < 2" using assms(4,7) by auto
  ultimately show ?thesis using assms
    by (cases dnet; cases snet; cases msg)
      (simp_all add: vendor_octets_def Frame_def frame_decode_def Let_def new_frame_def drop_add3 drop_add4)
qed

definition expected_frame :: "octets \<Rightarrow> pystr \<times> int \<Rightarrow> bool \<Rightarrow> octets \<Rightarrow> npdu_args \<Rightarrow> octets \<Rightarrow> frame" where
  "expected_frame data source broadcast npdu_part a payload =
     (new_frame data source)
       \<lparr>f_bvlc_function := Some (if broadcast then BVLC_ORIGINAL_BROADCAST else BVLC_ORIGINAL_UNICAST),
        f_bvll_data := npdu_part, f_has_npdu := True,
        f_dnet := na_dnet a, f_dadr := (if na_dnet a = None then [] else na_dadr a),
        f_snet := na_snet a, f_sadr := (if na_snet a = None then [] else na_sadr a),
        f_expecting_reply := na_expecting_reply a, f_network_message := na_network_message a,
        f_payload := payload, f_ok := True\<rparr>"

lemma frame_of_npdu_octets:
  assumes "npdu_valid a" "length (npdu_octets payload a) < 65532"
  shows "\<exists>d. bvlc (npdu_octets payload a) broadcast = Inr d \<and>
    Frame d source = Inr (expected_frame d source broadcast (npdu_octets payload a) a
      (drop (vendor_octets (na_network_message a)) payload))"
proof -
  let ?n = "npdu_octets payload a"
  let ?fn = "if broadcast then BVLC_ORIGINAL_BROADCAST else BVLC_ORIGINAL_UNICAST :: int"
  let ?d = "[oct 0x81, oct ?fn] @ be_bytes 2 (4 + int (length ?n)) @ ?n"
  let ?c = "npdu_control a"
  let ?D = "address_octets (na_dnet a) (na_dadr a)"
  let ?S = "address_octets (na_snet a) (na_sadr a)"
  let ?H = "if na_dnet a = None then [] else [oct (na_hop_count a)]"
  let ?M = "case na_network_message a of None \<Rightarrow> [] | Some m \<Rightarrow> [oct m]"
  have d: "bvlc ?n broadcast = Inr ?d" using assms(2) by (simp add: bvlc_def bvll_eq_Inr)
  have head: "4 \<le> length ?d" "uint (?d ! 0) = BVLC_TYPE" "uint (?d ! 1) = ?fn" "drop 4 ?d = ?n"
    "?fn \<in> set BVLC_FUNCTIONS_WITH_NPDU" "?fn \<noteq> BVLC_FORWARDED_NPDU"
    by (simp_all add: uint_oct BVLC_FUNCTIONS_WITH_NPDU_def)
  have n: "?n = [1, oct ?c] @ ?D @ ?S @ ?H @ ?M @ payload" by (simp add: npdu_octets_def)
  then have ctl: "2 \<le> length ?n" "uint (?n ! 0) = 1" "uint (?n ! 1) = ?c"
    using npdu_control_bits(1,2) [of a] by (simp_all add: uint_oct)
  have dnet: "decode_address ?n 2 = Inr (v, na_dadr a, 2 + length ?D)" if "na_dnet a = Some v" for v
    using decode_address_at [of v "na_dadr a" "[1, oct ?c]" "?S @ ?H @ ?M @ payload"] assms(1) that n
    by (simp add: npdu_valid_def numeral_2_eq_2)
  have snet: "decode_address ?n (2 + length ?D) = Inr (v, na_sadr a, 2 + length ?D + length ?S)"
    if "na_snet a = Some v" for v
    using decode_address_at [of v "na_sadr a" "[1, oct ?c] @ ?D" "?H @ ?M @ payload"] assms(1) that n
    by (simp add: npdu_valid_def numeral_2_eq_2)
  let ?p = "2 + length ?D + length ?S + length ?H"
  have msg: "index ?n ?p = Inr m" if "na_network_message a = Some m" for m
  proof -
    have "uint (oct m) = m" using assms(1) that by (intro uint_oct) (simp_all add: npdu_valid_def)
    then show ?thesis
      using index_append [of "[1, oct ?c] @ ?D @ ?S @ ?H" "oct m" payload] n that by (simp add: numeral_2_eq_2 add.assoc)
  qed
  let ?v = "vendor_octets (na_network_message a)"
  have payload: "drop (?p + length ?M + ?v) ?n = drop ?v payload" unfolding n by simp
  have empty: "na_dnet a = None \<Longrightarrow> ?D = []" "na_snet a = None \<Longrightarrow> ?S = []"
    by (simp_all add: address_octets_def)
  have "Frame ?d source = Inr ((new_frame ?d source)
    \<lparr>f_bvlc_function := Some ?fn, f_bvll_data := ?n, f_has_npdu := True,
     f_dnet := na_dnet a, f_dadr := (if na_dnet a = None then [] else na_dadr a),
     f_snet := na_snet a, f_sadr := (if na_snet a = None then [] else na_sadr a),
     f_expecting_reply := na_expecting_reply a, f_network_message := na_network_message a,
     f_payload := drop (?p + length ?M + ?v) ?n, f_ok := True\<rparr>)"
  proof (rule frame_decode_steps [OF head ctl npdu_control_bits(4,5,3,6) dnet _ snet])
    show "na_dnet a = None \<Longrightarrow> 2 + length ?D = 2" using empty(1) by simp
    show "na_snet a = None \<Longrightarrow> 2 + length ?D + length ?S = 2 + length ?D" using empty(2) by simp
    show "?p = (if na_dnet a = None then 2 + length ?D + length ?S else 2 + length ?D + length ?S + 1)" by simp
    show "index ?n ?p = Inr m" if "na_network_message a = Some m" for m
      using msg [OF that] .
    show "?p + length ?M + ?v = (if na_network_message a = None then ?p else ?p + 1) + ?v" by (auto split: option.split)
  qed
  with d payload show ?thesis by (simp only: expected_frame_def simp_thms) blast
qed

text \<open>
  C10. A datagram built by \<^verbatim>\<open>npdu\<close> and \<^verbatim>\<open>bvlc\<close>, unicast or broadcast, with any choice of destination
  and source network, network layer message and reply flag, is read back by \<^verbatim>\<open>Frame\<close> field by
  field. Its payload is the payload, less the two octets of the vendor id after a proprietary message
  (types 0x80 to 0xFF).
\<close>

theorem frame_reads_back:
  assumes "npdu_valid a" "npdu payload a = Inr n" "length n < 65532"
  shows "\<exists>d. bvlc n broadcast = Inr d \<and> Frame d source = Inr (expected_frame d source broadcast n a
    (drop (vendor_octets (na_network_message a)) payload))"
  using frame_of_npdu_octets [of a payload broadcast source] npdu_eq [OF assms(1), of payload] assms by simp

lemma frame_reads_back_witness:
  "\<exists>n d. npdu [0x10, 8] (npdu_defaults\<lparr>na_dnet := Some 65535, na_snet := Some 5, na_sadr := [1, 2]\<rparr>) = Inr n
    \<and> bvlc n True = Inr d \<and> Frame d (lit ''10.0.0.1'', 47808) = Inr (expected_frame d (lit ''10.0.0.1'', 47808) True n
        (npdu_defaults\<lparr>na_dnet := Some 65535, na_snet := Some 5, na_sadr := [1, 2]\<rparr>) [0x10, 8])"
proof -
  let ?a = "npdu_defaults\<lparr>na_dnet := Some 65535, na_snet := Some 5, na_sadr := [1, 2]\<rparr>"
  have v: "npdu_valid ?a" by (simp add: npdu_valid_def npdu_defaults_def)
  have "length (npdu_octets [0x10, 8] ?a) < 65532"
    by (simp add: npdu_octets_def address_octets_def npdu_defaults_def)
  moreover have "vendor_octets (na_network_message ?a) = 0" by (simp add: vendor_octets_def npdu_defaults_def)
  ultimately show ?thesis
    using frame_reads_back [OF v npdu_eq [OF v, of "[0x10, 8]"], of True "(lit ''10.0.0.1'', 47808)"] npdu_eq [OF v, of "[0x10, 8]"]
    by (metis drop_0)
qed

end
