(* ===== verification/Codec_Errors.thy ===== *)
theory Codec_Errors
  imports Codec_Frame
begin

text \<open>
  What the decoders of \<^verbatim>\<open>wiretest/codec.py\<close> raise on octets no encoder wrote: the errors of the
  tag reader, of the parsers that catch some of them and of the frame constructor, and the
  encoders' own limits.
\<close>

section \<open>The tag reader\<close>

lemma unpack_u_nonneg: "unpack_u n bs = Inr v \<Longrightarrow> 0 \<le> v"
  using from_bytes_bounds(1) [of bs] by (auto simp: unpack_u_def split: if_splits)

lemma unpack_u_error: "unpack_u n bs = Inl e \<Longrightarrow> e = StructError"
  by (simp add: unpack_u_def split: if_splits)

lemma tag_length_nonneg:
  assumes "tag_length data p low = Inr (l, q)" "0 \<le> low"
  shows "0 \<le> l"
  using assms octet_range(1) unpack_u_nonneg
  by (fastforce simp: tag_length_def index_def result_simps split: if_splits)

lemma tag_length_error: "tag_length data p low = Inl e \<Longrightarrow> e = IndexError \<or> e = StructError"
  by (auto simp: tag_length_def result_simps index_eq_Inl dest: unpack_u_error split: if_splits)

lemma tag_number_error: "tag_number data p n = Inl e \<Longrightarrow> e = IndexError"
  by (auto simp: tag_number_def result_simps index_eq_Inl split: if_splits)

lemma read_tag_error:
  assumes "read_tag data p = Inl e"
  shows "e = IndexError \<or> e = StructError \<or> e = ValueError"
  using assms tag_length_error tag_number_error
  by (fastforce simp: read_tag_def Let_def result_simps index_eq_Inl byte_def split: if_splits)

text \<open>ValueError has one cause: an application BOOLEAN whose extended length is more than 255.\<close>

definition long_boolean :: "octets \<Rightarrow> nat \<Rightarrow> bool" where
  "long_boolean data p = (case index data p of
       Inl _ \<Rightarrow> False
     | Inr first \<Rightarrow>
         first AND 8 = 0 \<and>
         (case tag_number data (p + 1) (drop_bit 4 first) of
            Inl _ \<Rightarrow> False
          | Inr (number, q) \<Rightarrow>
              number = 1 \<and> (case tag_length data q (first AND 7) of Inl _ \<Rightarrow> False | Inr (l, _) \<Rightarrow> 255 < l)))"

lemma and_7_nonneg: "0 \<le> (a :: int) AND 7"
  unfolding and_7 by simp

lemma read_tag_value_error: "read_tag data p = Inl ValueError \<longleftrightarrow> long_boolean data p"
proof (cases "index data p")
  case (Inl e)
  moreover from this have "e = IndexError" by (simp only: index_eq_Inl)
  ultimately show ?thesis by (simp add: read_tag_def long_boolean_def)
next
  case (Inr first)
  show ?thesis
  proof (cases "tag_number data (p + 1) (drop_bit 4 first)")
    case (Inl e)
    with Inr tag_number_error [OF Inl] show ?thesis by (simp add: read_tag_def long_boolean_def)
  next
    case n: (Inr t)
    obtain number q where t: "t = (number, q)" by fastforce
    show ?thesis
    proof (cases "tag_length data q (first AND 7)")
      case (Inl e)
      with Inr n t tag_length_error [OF Inl] show ?thesis by (auto simp: read_tag_def long_boolean_def Let_def)
    next
      case l: (Inr u)
      obtain v r where u: "u = (v, r)" by fastforce
      have "0 \<le> v" using tag_length_nonneg [of data q "first AND 7" v r] l u and_7_nonneg by simp
      with Inr n t l u show ?thesis by (auto simp: read_tag_def long_boolean_def Let_def byte_def)
    qed
  qed
qed

lemma tag_steps_inside:
  "tag_number data p n = Inr (m, q) \<Longrightarrow> p \<le> length data \<Longrightarrow> p \<le> q \<and> q \<le> length data"
  "tag_length data p low = Inr (l, q) \<Longrightarrow> p \<le> length data \<Longrightarrow> p \<le> q \<and> q \<le> length data"
  by (auto simp: tag_number_def tag_length_def result_simps index_eq_Inr unpack_u_def slice_def split: if_splits)

lemma read_tag_cut:
  assumes "read_tag data p = Inr (number, ctx, kind, body, q)" "length data < q"
  shows "\<exists>k > p. k \<le> length data \<and> body = drop k data"
proof -
  from assms(1) obtain first where p: "p < length data" and first: "first = uint (data ! p)" "index data p = Inr first"
    by (cases "index data p") (auto simp: read_tag_def index_eq_Inr)
  from assms(1) first(2) obtain n a where n: "tag_number data (p + 1) (drop_bit 4 first) = Inr (n, a)"
    by (cases "tag_number data (p + 1) (drop_bit 4 first)") (auto simp: read_tag_def Let_def)
  have a: "p < a" "a \<le> length data" using tag_steps_inside(1) [OF n] p by simp_all
  show ?thesis
  proof (cases "first AND 8 \<noteq> 0 \<and> first AND 7 \<in> {6, 7}")
    case True
    with assms first(2) n a show ?thesis by (auto simp: read_tag_def Let_def)
  next
    case False
    with assms(1) first(2) n obtain l b where l: "tag_length data a (first AND 7) = Inr (l, b)"
      by (cases "tag_length data a (first AND 7)") (auto simp: read_tag_def Let_def split: if_splits)
    have b: "a \<le> b" "b \<le> length data" using tag_steps_inside(2) [OF l] a by simp_all
    with assms False first(2) n l a show ?thesis
      by (auto simp: read_tag_def Let_def slice_def result_simps split: if_splits intro!: exI [of _ b])
  qed
qed

section \<open>Parsers\<close>

lemma object_identifier_error: "object_identifier body = Inl e \<Longrightarrow> e = StructError"
  by (auto simp: object_identifier_def result_simps dest: unpack_u_error)

lemma close_scan_error: "close_scan data p d = Inl e \<Longrightarrow> e = IndexError \<or> e = StructError \<or> e = ValueError"
proof (induction data p d rule: close_scan.induct)
  case (1 data p d)
  show ?case
  proof (cases "read_tag data p")
    case (Inl x)
    with 1 read_tag_error [OF Inl] show ?thesis by (auto simp: close_scan.simps [of data p d])
  next
    case (Inr t)
    obtain n c k b q where t: "t = (n, c, k, b, q)" by (metis prod_cases5)
    from 1(4) Inr t have "(case k of
         Kopen \<Rightarrow> close_scan data q (d + 1)
       | Kclose \<Rightarrow> (if d - 1 = 0 then Inr (p, q) else close_scan data q (d - 1))
       | Kvalue \<Rightarrow> close_scan data q d) = Inl e"
      by (subst (asm) close_scan.simps) simp
    then show ?thesis by (cases k) (use 1(1-3) Inr t in \<open>auto split: if_splits\<close>)
  qed
qed

lemma parse_guard_error:
  "parse_guard m = Inl e \<Longrightarrow> (\<And>x. m = Inl x \<Longrightarrow> x = IndexError \<or> x = StructError \<or> x = ValueError) \<Longrightarrow> e = ValueError"
  by (auto simp: parse_guard_def split: sum.splits if_splits)

text \<open>
  C32. The tag reader is safe on any octets. A tag it returns starts inside the data, and the position
  after it is greater than the one before; that position may lie past the data, when the body
  is cut short, and then the octets of the body are all that is left. The reader
  raises only IndexError, struct.error or ValueError, the last exactly for an application BOOLEAN
  whose extended length is more than 255.
\<close>

theorem read_tag_safe:
  "(case read_tag data p of
      Inr (_, _, _, body, q) \<Rightarrow> p < length data \<and> p < q
        \<and> (length data < q \<longrightarrow> (\<exists>k > p. k \<le> length data \<and> body = drop k data))
    | Inl e \<Rightarrow> e \<in> {IndexError, StructError, ValueError} \<and> (e = ValueError \<longleftrightarrow> long_boolean data p))"
proof (cases "read_tag data p")
  case (Inl e)
  with read_tag_error [OF Inl] read_tag_value_error [of data p] show ?thesis by auto
next
  case (Inr t)
  then obtain n c k b q where t: "read_tag data p = Inr (n, c, k, b, q)" by (metis prod_cases5)
  from read_tag_progress [OF t] read_tag_cut [OF t] t show ?thesis by simp
qed

lemma read_tag_safe_witness:
  "read_tag [0x24, 1] 0 = Inr (2, False, Kvalue, [1], 5) \<and> (\<exists>k > 0. k \<le> 2 \<and> [1] = drop k [0x24, 1 :: octet])"
proof -
  have t: "read_tag [0x24, 1] 0 = Inr (2, False, Kvalue, [1], 5)"
    by (simp add: read_tag_def tag_number_def tag_length_def index_def slice_def)
  from read_tag_safe [of "[0x24, 1]" 0] have "\<exists>k > 0. k \<le> 2 \<and> [1] = drop k [0x24, 1 :: octet]"
    unfolding t by (simp add: numeral_2_eq_2)
  with t show ?thesis by blast
qed

lemma read_request_error:
  "parse_read_property_request apdu flag = Inl e \<Longrightarrow> e = ValueError"
  unfolding parse_read_property_request_def
  by (erule parse_guard_error)
    (auto simp: chain_eq_Inl Let_def split: if_splits dest: read_tag_error object_identifier_error)

lemma write_request_error:
  "parse_write_property_request apdu = Inl e \<Longrightarrow> e = ValueError"
  unfolding parse_write_property_request_def
  by (erule parse_guard_error)
    (auto simp: chain_eq_Inl index_eq_Inl Let_def split: if_splits
      dest: read_tag_error object_identifier_error close_scan_error)

text \<open>
  C33. On octets no client should send, the request parsers return None or raise ValueError, nothing else;
  and ValueError does escape them: an eight-octet ReadProperty request whose object identifier is an
  application BOOLEAN with a two-octet length raises it, though every other malformed tag is caught.
\<close>

theorem request_parsers_raise:
  "(\<forall>apdu flag e. parse_read_property_request apdu flag = Inl e \<longrightarrow> e = ValueError) \<and>
   (\<forall>apdu e. parse_write_property_request apdu = Inl e \<longrightarrow> e = ValueError) \<and>
   parse_read_property_request [0, 5, 1, 12, 0x15, 0xFE, 1, 0] False = Inl ValueError \<and>
   parse_write_property_request [0, 5, 1, 15, 0x15, 0xFE, 1, 0] = Inl ValueError"
proof -
  have t: "read_tag [0, 5, 1, s, 0x15, 0xFE, 1, 0] 4 = Inl ValueError" for s
    by (simp add: read_tag_def tag_number_def tag_length_def index_def slice_def unpack_u_def from_bytes_def byte_def)
  have "parse_read_property_request [0, 5, 1, 12, 0x15, 0xFE, 1, 0] False = Inl ValueError"
    "parse_write_property_request [0, 5, 1, 15, 0x15, 0xFE, 1, 0] = Inl ValueError"
    unfolding parse_read_property_request_def parse_write_property_request_def t
    by (simp_all add: parse_guard_def index_def t)
  then show ?thesis using read_request_error write_request_error by blast
qed

lemma request_parsers_raise_witness:
  "parse_read_property_request [0, 5, 1, 12, 0x15, 0xFE, 1, 0] False = Inl ValueError
   \<and> parse_write_property_request [0, 5, 1, 15, 0x15, 0xFE, 1, 0] = Inl ValueError"
  using request_parsers_raise by blast

section \<open>Frames\<close>

lemma decode_address_error: "decode_address octets p = Inl e \<Longrightarrow> e = StructError"
  by (auto simp: decode_address_def Let_def split: if_splits)

lemma frame_error:
  assumes "Frame d source = Inl e"
  shows "(e = IndexError \<or> e = StructError) \<and> 4 \<le> length d \<and> uint (d ! 0) = BVLC_TYPE
    \<and> uint (d ! 1) \<in> set BVLC_FUNCTIONS_WITH_NPDU"
  using assms
  by (auto simp: Frame_def frame_decode_def Let_def chain_eq_Inl chain_eq_Inr index_eq_Inl split: if_splits
      dest!: decode_address_error)

text \<open>
  C34. The frame constructor raises only struct.error or IndexError and only for a BVLL function that carries
  an NPDU; it does raise, instead of leaving \<^verbatim>\<open>ok\<close> False, when the datagram ends inside an address
  or before the message type that its control octet announces.
\<close>

theorem frame_raises:
  "(\<forall>d source e. Frame d source = Inl e \<longrightarrow> (e = IndexError \<or> e = StructError) \<and> 4 \<le> length d
      \<and> uint (d ! 0) = BVLC_TYPE \<and> uint (d ! 1) \<in> set BVLC_FUNCTIONS_WITH_NPDU) \<and>
   Frame [0x81, 0x0A, 0, 6, 1, 0x20] source = Inl StructError \<and>
   Frame [0x81, 0x0A, 0, 6, 1, 0x80] source = Inl IndexError"
proof -
  have "Frame [0x81, 0x0A, 0, 6, 1, 0x20] source = Inl StructError"
    "Frame [0x81, 0x0A, 0, 6, 1, 0x80] source = Inl IndexError"
    by (simp_all add: Frame_def frame_decode_def new_frame_def Let_def BVLC_FUNCTIONS_WITH_NPDU_def
        decode_address_def slice_def index_def)
  then show ?thesis using frame_error by blast
qed

lemma frame_raises_witness:
  "Frame [0x81, 0x0A, 0, 6, 1, 0x20] (lit ''10.0.0.1'', 47808) = Inl StructError
   \<and> Frame [0x81, 0x0A, 0, 6, 1, 0x80] (lit ''10.0.0.1'', 47808) = Inl IndexError"
  using frame_raises by blast

section \<open>Lengths the encoders do not extend\<close>

lemma long_text_octets:
  assumes "utf8_encode s = Inr encoded" "4 \<le> length encoded"
  shows "application_character_string s =
    (if length encoded < 255 then Inr (0x75 # oct (int (length encoded) + 1) # 0 # encoded) else Inl ValueError)"
  using assms by (auto simp: application_character_string_def Let_def byte_def oct_def)

lemma cut_text:
  assumes "utf8_encode s = Inr encoded" "length encoded = 253 \<or> length encoded = 254"
  shows "\<exists>x. application_character_string s = Inr x
    \<and> decode_application x = (let n = (if length encoded = 253 then 1 else 3) in
        Inr (PStr (utf8_decode (drop 1 (take (nat (from_bytes (take n encoded))) (drop n encoded))))))"
proof -
  have "3 \<le> length encoded" using assms(2) by auto
  then obtain a b c rest where e: "encoded = a # b # c # rest" by (auto simp: Suc_le_length_iff numeral_3_eq_3)
  have x: "application_character_string s = Inr (0x75 # oct (int (length encoded) + 1) # 0 # encoded)"
    using long_text_octets [OF assms(1)] assms(2) by auto
  moreover have "from_bytes (0 # bs) = from_bytes bs" for bs by (simp add: from_bytes_def)
  ultimately show ?thesis
    using assms(2) e
    by (auto simp: decode_application_def decode_body_def read_tag_def tag_number_def tag_length_def index_def
        slice_def unpack_u_def uint_oct)
qed

lemma replicate_one: "replicate (Suc 0) x = [x]"
  by simp

lemma four_octets: "length (xs :: octets) = 4 \<Longrightarrow> \<exists>a b c d. xs = [a, b, c, d]"
  by (auto simp: eval_nat_numeral length_Suc_conv)

lemma bits_32: "length bits = 32 \<Longrightarrow>
  \<exists>a b c d. application_bit_string bits = Inr [0x85, 0, a, b, c, d]"
proof -
  assume "length bits = 32"
  then have "length (set_bits 0 bits (replicate ((length bits + 7) div 8) 0)) = 4" by simp
  from four_octets [OF this] obtain a b c d where four: "set_bits 0 bits (replicate ((length bits + 7) div 8) 0) = [a, b, c, d]"
    by blast
  have "application_bit_string bits = Inr [0x85, 0, a, b, c, d]"
    unfolding application_bit_string_def Let_def four by (simp add: \<open>length bits = 32\<close> byte_def oct_def)
  then show ?thesis by blast
qed

text \<open>
  C35. The encoders put lengths into the length octet that mean something else there. Every character string of 253
  or 254 octets is encoded with the length octet 254 or 255, which announces a length of two or four octets: its own first
  octet, or first three, are decoded as the length and the next is dropped as the character set, so that at most 251
  of its octets come back; 253 letters A decode to 64 of them. From 255 octets on, the
  length of an Object_Name that the command line accepts, the encoder raises ValueError. No bit string of 32 bits decodes
  at all, because its length 5 means an extended length.
\<close>

theorem encoders_overflow_length:
  "(\<forall>s encoded. utf8_encode s = Inr encoded \<and> (length encoded = 253 \<or> length encoded = 254)
      \<longrightarrow> (\<exists>x. application_character_string s = Inr x
        \<and> decode_application x = (let n = (if length encoded = 253 then 1 else 3) in
            Inr (PStr (utf8_decode (drop 1 (take (nat (from_bytes (take n encoded))) (drop n encoded)))))))) \<and>
   (\<exists>x. application_character_string (replicate 253 65) = Inr x
      \<and> decode_application x = Inr (PStr (replicate 64 65))) \<and>
   (\<forall>s encoded. utf8_encode s = Inr encoded \<and> 255 \<le> length encoded
      \<longrightarrow> application_character_string s = Inl ValueError) \<and>
   (\<forall>bits. length bits = 32 \<longrightarrow> (\<exists>x. application_bit_string bits = Inr x \<and> decode_application x = Inl IndexError))"
proof (intro conjI)
  show "\<forall>s encoded. utf8_encode s = Inr encoded \<and> (length encoded = 253 \<or> length encoded = 254)
      \<longrightarrow> (\<exists>x. application_character_string s = Inr x
        \<and> decode_application x = (let n = (if length encoded = 253 then 1 else 3) in
            Inr (PStr (utf8_decode (drop 1 (take (nat (from_bytes (take n encoded))) (drop n encoded)))))))"
    using cut_text by blast
  have a: "utf8_encode (replicate 253 65) = Inr (replicate 253 (octn 65))"
    using utf8_encode_ascii [of "replicate 253 65"] by simp
  have "from_bytes (take 1 (replicate 253 (octn 65))) = 65"
    by (simp add: take_replicate replicate_one from_bytes_def octn_def del: replicate.simps)
  then have "drop 1 (take (nat (from_bytes (take 1 (replicate 253 (octn 65))))) (drop 1 (replicate 253 (octn 65)))) = replicate 64 (octn 65)"
    by (simp only:) (simp add: take_replicate drop_replicate del: replicate.simps)
  moreover have "utf8_decode (replicate 64 (octn 65)) = replicate 64 65"
    using utf8_roundtrip [of "replicate 64 65"] utf8_encode_ascii [of "replicate 64 65"] by simp
  ultimately show "\<exists>x. application_character_string (replicate 253 65) = Inr x
      \<and> decode_application x = Inr (PStr (replicate 64 65))"
    using cut_text [OF a] unfolding length_replicate Let_def simp_thms if_True by (simp only:)
  show "\<forall>s encoded. utf8_encode s = Inr encoded \<and> 255 \<le> length encoded
      \<longrightarrow> application_character_string s = Inl ValueError"
    using long_text_octets by fastforce
  show "\<forall>bits. length bits = 32 \<longrightarrow> (\<exists>x. application_bit_string bits = Inr x \<and> decode_application x = Inl IndexError)"
  proof (intro allI impI)
    fix bits :: "bool list"
    assume "length bits = 32"
    then obtain a b c d where "application_bit_string bits = Inr [0x85, 0, a, b, c, d]" using bits_32 by blast
    then show "\<exists>x. application_bit_string bits = Inr x \<and> decode_application x = Inl IndexError"
      by (simp add: decode_application_def read_tag_def tag_number_def tag_length_def index_def slice_def decode_body_def
          bit_list_def)
  qed
qed

lemma encoders_overflow_length_witness: "application_character_string (replicate 300 65) = Inl ValueError"
proof -
  have "utf8_encode (replicate 300 65) = Inr (replicate 300 (octn 65))"
    using utf8_encode_ascii [of "replicate 300 65"] by simp
  then show ?thesis using conjunct1 [OF conjunct2 [OF conjunct2 [OF encoders_overflow_length]]] by fastforce
qed

end
