(* ===== verification/Wire_Endpoint.thy ===== *)
theory Wire_Endpoint
  imports Codec_Errors
begin

text \<open>
  The UDP socket of the wire tests, \<^verbatim>\<open>wiretest/endpoint.py\<close>, and what one answer says,
  \<^verbatim>\<open>Answer\<close> of \<^verbatim>\<open>wiretest/client.py\<close>.

  What the outside decides is an \<open>air\<close>: the readings of \<^verbatim>\<open>time.monotonic()\<close> in the order they are
  taken, and the outcome of every receive. A loop that waits is a \<open>partial_function\<close>: None is a
  wait that never ends, and \<^verbatim>\<open>wait_for_returns\<close> says when it does end. Instants are whole numbers
  of clock ticks.
\<close>

section \<open>Receiving\<close>

datatype receipt = Timed_out | Connection_reset | Datagram octets "pystr \<times> int"

record air =
  clock :: "nat \<Rightarrow> int"
  receipts :: "nat \<Rightarrow> receipt"

text \<open>
  \<^verbatim>\<open>_receive\<close>: whether to go on, and the frames kept. The constructor of \<^verbatim>\<open>Frame\<close> may raise.
\<close>

definition receive :: "receipt \<Rightarrow> frame list \<Rightarrow> (bool \<times> frame list) result" where
  "receive r frames = (case r of
     Timed_out \<Rightarrow> Inr (False, frames)
   | Connection_reset \<Rightarrow> Inr (True, frames)
   | Datagram data source \<Rightarrow> chain (Frame data source) (\<lambda>f. Inr (True, frames @ [f])))"

text \<open>The first kept frame, from \<open>seen\<close> on, that is decoded and matches.\<close>

fun first_match :: "(frame \<Rightarrow> bool result) \<Rightarrow> frame list \<Rightarrow> frame option result" where
  "first_match predicate [] = Inr None"
| "first_match predicate (f # fs) =
     (if f_ok f then chain (predicate f) (\<lambda>matches. if matches then Inr (Some f) else first_match predicate fs)
      else first_match predicate fs)"

partial_function (option) wait_loop ::
  "air \<Rightarrow> (frame \<Rightarrow> bool result) \<Rightarrow> int \<Rightarrow> nat \<Rightarrow> nat \<Rightarrow> frame list
   \<Rightarrow> (frame list \<times> frame option result) option" where
  "wait_loop a predicate deadline k seen frames =
     (case first_match predicate (drop seen frames) of
        Inl e \<Rightarrow> Some (frames, Inl e)
      | Inr (Some f) \<Rightarrow> Some (frames, Inr (Some f))
      | Inr None \<Rightarrow>
          let seen = length frames in
          if deadline - clock a (Suc k) \<le> 0 then Some (frames, first_match predicate (drop seen frames))
          else case receive (receipts a k) frames of
            Inl e \<Rightarrow> Some (frames, Inl e)
          | Inr (go_on, frames) \<Rightarrow>
              if go_on then wait_loop a predicate deadline (Suc k) seen frames
              else Some (frames, first_match predicate (drop seen frames)))"

definition wait_for ::
  "air \<Rightarrow> (frame \<Rightarrow> bool result) \<Rightarrow> int \<Rightarrow> frame list \<Rightarrow> (frame list \<times> frame option result) option" where
  "wait_for a predicate seconds frames = wait_loop a predicate (clock a 0 + seconds) 0 0 frames"

partial_function (option) collect_loop ::
  "air \<Rightarrow> int \<Rightarrow> nat \<Rightarrow> frame list \<Rightarrow> (frame list \<times> unit result) option" where
  "collect_loop a deadline k frames =
     (if deadline - clock a (Suc k) \<le> 0 then Some (frames, Inr ())
      else case receive (receipts a k) frames of
        Inl e \<Rightarrow> Some (frames, Inl e)
      | Inr (go_on, frames) \<Rightarrow>
          if go_on then collect_loop a deadline (Suc k) frames else Some (frames, Inr ()))"

definition collect_frames :: "air \<Rightarrow> int \<Rightarrow> frame list \<Rightarrow> (frame list \<times> unit result) option" where
  "collect_frames a seconds frames = collect_loop a (clock a 0 + seconds) 0 frames"

section \<open>Answers\<close>

record answer =
  an_frame :: "frame option"

definition answered :: "answer \<Rightarrow> bool" where
  "answered an \<longleftrightarrow> an_frame an \<noteq> None"

definition answer_ok :: "answer \<Rightarrow> bool" where
  "answer_ok an = (case an_frame an of None \<Rightarrow> False
     | Some f \<Rightarrow> pdu_type f \<in> {Some PDU_COMPLEX_ACK, Some PDU_SIMPLE_ACK})"

definition answer_acked :: "answer \<Rightarrow> bool" where
  "answer_acked an = (case an_frame an of None \<Rightarrow> False | Some f \<Rightarrow> pdu_type f = Some PDU_SIMPLE_ACK)"

definition answer_value_octets :: "answer \<Rightarrow> octets option result" where
  "answer_value_octets an = (case an_frame an of None \<Rightarrow> Inr None
     | Some f \<Rightarrow> if pdu_type f \<noteq> Some PDU_COMPLEX_ACK then Inr None else read_property_value (f_payload f))"

definition answer_value :: "answer \<Rightarrow> pyval result" where
  "answer_value an = chain (answer_value_octets an) (\<lambda>octets.
     case octets of Some x \<Rightarrow> decode_application x | None \<Rightarrow> Inr PNone)"

definition answer_error :: "answer \<Rightarrow> (int \<times> int) option result" where
  "answer_error an = (case an_frame an of None \<Rightarrow> Inr None
     | Some f \<Rightarrow> if pdu_type f \<noteq> Some PDU_ERROR then Inr None else error_class_and_code (f_payload f))"

definition third_octet :: "int \<Rightarrow> answer \<Rightarrow> int option" where
  "third_octet kind an = (case an_frame an of None \<Rightarrow> None
     | Some f \<Rightarrow> if pdu_type f \<noteq> Some kind \<or> length (f_payload f) < 3 then None
                 else Some (uint (f_payload f ! 2)))"

definition reject_reason :: "answer \<Rightarrow> int option" where
  "reject_reason an = third_octet PDU_REJECT an"

definition abort_reason :: "answer \<Rightarrow> int option" where
  "abort_reason an = third_octet PDU_ABORT an"

section \<open>Waiting ends\<close>

lemma wait_loop_returns:
  "k < n \<Longrightarrow> deadline \<le> clock a n \<Longrightarrow> wait_loop a predicate deadline k seen frames \<noteq> None"
proof (induction "n - k" arbitrary: k seen frames)
  case 0
  then show ?case by simp
next
  case (Suc d)
  show ?case
  proof (cases "Suc k = n")
    case True
    with Suc.prems show ?thesis
      by (subst wait_loop.simps) (auto split: sum.split option.split)
  next
    case False
    with Suc have "wait_loop a predicate deadline (Suc k) s fs \<noteq> None" for s fs by simp
    then show ?thesis
      by (subst wait_loop.simps) (auto simp: Let_def split: sum.split option.split)
  qed
qed

lemma collect_loop_returns:
  "k < n \<Longrightarrow> deadline \<le> clock a n \<Longrightarrow> collect_loop a deadline k frames \<noteq> None"
proof (induction "n - k" arbitrary: k frames)
  case 0
  then show ?case by simp
next
  case (Suc d)
  show ?case
  proof (cases "Suc k = n")
    case True
    with Suc.prems show ?thesis by (subst collect_loop.simps) simp
  next
    case False
    with Suc have "collect_loop a deadline (Suc k) fs \<noteq> None" for fs by simp
    then show ?thesis by (subst collect_loop.simps) (auto split: sum.split)
  qed
qed

section \<open>What a wait finds\<close>

lemma first_match_append:
  "first_match p (xs @ ys) = (case first_match p xs of
     Inl e \<Rightarrow> Inl e | Inr (Some f) \<Rightarrow> Inr (Some f) | Inr None \<Rightarrow> first_match p ys)"
  by (induction xs) (auto simp: chain_def split: sum.splits option.splits)

lemma first_match_Some:
  "first_match p fs = Inr (Some f) \<Longrightarrow> f \<in> set fs \<and> f_ok f \<and> p f = Inr True"
  by (induction fs) (auto simp: chain_eq_Inr split: if_splits)

lemma first_match_seen:
  "first_match p (take seen frames) = Inr None \<Longrightarrow> first_match p frames = first_match p (drop seen frames)"
  using first_match_append [of p "take seen frames" "drop seen frames"] by simp

lemma receive_extends: "receive r frames = Inr (b, fs) \<Longrightarrow> \<exists>new. fs = frames @ new \<and> length new \<le> 1"
  by (auto simp: receive_def chain_eq_Inr split: receipt.splits)

lemma wait_loop_result:
  assumes "wait_loop a p deadline k seen frames = Some (fs, r)" "first_match p (take seen frames) = Inr None"
  shows "(\<exists>new. fs = frames @ new) \<and> (\<forall>x. r = Inr x \<longrightarrow> first_match p fs = Inr x)"
proof -
  let ?Q = "\<lambda>a p (deadline :: int) k seen frames (y :: frame list \<times> frame option result).
    first_match p (take seen frames) = Inr None \<longrightarrow>
    (\<exists>new. fst y = frames @ new) \<and> (\<forall>x. snd y = Inr x \<longrightarrow> first_match p (fst y) = Inr x)"
  have "?Q a p deadline k seen frames (fs, r)"
  proof (rule wait_loop.raw_induct [where P = ?Q, OF _ assms(1)], rule impI)
    fix loop a p deadline k seen frames and y :: "frame list \<times> frame option result"
    assume IH: "\<And>a p deadline k seen frames y. loop a p deadline k seen frames = Some y \<Longrightarrow> ?Q a p deadline k seen frames y"
      and step: "(case first_match p (drop seen frames) of
          Inl e \<Rightarrow> Some (frames, Inl e)
        | Inr (Some f) \<Rightarrow> Some (frames, Inr (Some f))
        | Inr None \<Rightarrow>
            let seen = length frames in
            if deadline - clock a (Suc k) \<le> 0 then Some (frames, first_match p (drop seen frames))
            else case receive (receipts a k) frames of
              Inl e \<Rightarrow> Some (frames, Inl e)
            | Inr (go_on, frames) \<Rightarrow>
                if go_on then loop a p deadline (Suc k) seen frames
                else Some (frames, first_match p (drop seen frames))) = Some y"
      and seen: "first_match p (take seen frames) = Inr None"
    note all = first_match_seen [OF seen]
    show "(\<exists>new. fst y = frames @ new) \<and> (\<forall>x. snd y = Inr x \<longrightarrow> first_match p (fst y) = Inr x)"
    proof (cases "first_match p (drop seen frames) = Inr None \<and> \<not> deadline - clock a (Suc k) \<le> 0")
      case False
      with step all show ?thesis by (auto simp: Let_def split: sum.splits option.splits if_splits)
    next
      case True
      with step all have step: "(case receive (receipts a k) frames of
            Inl e \<Rightarrow> Some (frames, Inl e)
          | Inr (go_on, fs) \<Rightarrow>
              if go_on then loop a p deadline (Suc k) (length frames) fs
              else Some (fs, first_match p (drop (length frames) fs))) = Some y"
        and none: "first_match p frames = Inr None" by (simp_all add: Let_def)
      show ?thesis
      proof (cases "receive (receipts a k) frames")
        case (Inl e)
        with step show ?thesis by auto
      next
        case (Inr t)
        obtain go_on fs where t: "t = (go_on, fs)" by fastforce
        with receive_extends Inr obtain new where new: "fs = frames @ new" by blast
        show ?thesis
        proof (cases go_on)
          case True
          with step Inr t have "loop a p deadline (Suc k) (length frames) fs = Some y" by simp
          from IH [OF this] none new show ?thesis by auto
        next
          case False
          with step Inr t new none show ?thesis by (auto simp: first_match_append)
        qed
      qed
    qed
  qed
  with assms(2) show ?thesis by simp
qed

lemma wait_for_result:
  assumes "wait_for a p seconds frames = Some (fs, r)"
  shows "\<exists>new. fs = frames @ new" "r = Inr x \<Longrightarrow> first_match p fs = Inr x"
  using wait_loop_result [OF assms [unfolded wait_for_def]] by simp_all

lemma wait_for_ends:
  assumes "\<exists>n > 0. clock a 0 + seconds \<le> clock a n"
  shows "\<exists>fs r. wait_for a p seconds frames = Some (fs, r)"
  using assms wait_loop_returns [of 0 _ "clock a 0 + seconds" a p 0 frames] by (auto simp: wait_for_def)

text \<open>
  \<^verbatim>\<open>wait_for\<close> returns whatever arrives, one datagram after another or nothing at all, as soon as the
  clock passes its deadline. It drops no frame it was given; what it returns is the first matching one among
  the kept and the received frames, and None only when none of them matches.
\<close>

lemma wait_for_returns:
  assumes "\<exists>n > 0. clock a 0 + seconds \<le> clock a n"
  shows "\<exists>new r. wait_for a p seconds frames = Some (frames @ new, r) \<and>
    (\<forall>x. r = Inr x \<longrightarrow> first_match p (frames @ new) = Inr x)"
proof -
  obtain fs r where w: "wait_for a p seconds frames = Some (fs, r)" using wait_for_ends [OF assms] by blast
  from wait_for_result [OF w] w show ?thesis by blast
qed

text \<open>A clock that ticks once per reading, and a flood of datagrams that are not BACnet/IP.\<close>

lemma wait_for_returns_witness:
  "\<exists>new r. wait_for \<lparr>clock = int, receipts = (\<lambda>_. Datagram [1, 2, 3, 4] (lit ''10.0.0.9'', 1))\<rparr> (\<lambda>f. Inr True) 5 []
      = Some ([] @ new, r) \<and> (\<forall>x. r = Inr x \<longrightarrow> first_match (\<lambda>f. Inr True) ([] @ new) = Inr x)"
proof (rule wait_for_returns)
  show "\<exists>n > 0. clock \<lparr>clock = int, receipts = (\<lambda>_. Datagram [1, 2, 3, 4] (lit ''10.0.0.9'', 1))\<rparr> 0 + 5
      \<le> clock \<lparr>clock = int, receipts = (\<lambda>_. Datagram [1, 2, 3, 4] (lit ''10.0.0.9'', 1))\<rparr> n"
    by (intro exI [of _ 5]) simp
qed

end
