(* ===== verification/Wire_Services.thy ===== *)
theory Wire_Services
  imports Wire_Endpoint
begin

text \<open>
  \<^verbatim>\<open>wiretest/services.py\<close>: the request builders and ACK parsers beyond ReadProperty and
  WriteProperty, and the constructed values of lifts and lights. \<^verbatim>\<open>walk_tags\<close> is the loop its
  parsers share: it steps over single tags and may look inside a constructed one.
\<close>

section \<open>Numbers\<close>

abbreviation (input) SERVICE_ATOMIC_READ_FILE :: int where "SERVICE_ATOMIC_READ_FILE \<equiv> 6"
abbreviation (input) SERVICE_ATOMIC_WRITE_FILE :: int where "SERVICE_ATOMIC_WRITE_FILE \<equiv> 7"
abbreviation (input) SERVICE_CREATE_OBJECT :: int where "SERVICE_CREATE_OBJECT \<equiv> 10"
abbreviation (input) SERVICE_DELETE_OBJECT :: int where "SERVICE_DELETE_OBJECT \<equiv> 11"
abbreviation (input) SERVICE_READ_RANGE :: int where "SERVICE_READ_RANGE \<equiv> 26"
abbreviation (input) SERVICE_LIFE_SAFETY_OPERATION :: int where "SERVICE_LIFE_SAFETY_OPERATION \<equiv> 27"
abbreviation (input) SERVICE_SUBSCRIBE_COV_PROPERTY_MULTIPLE :: int
  where "SERVICE_SUBSCRIBE_COV_PROPERTY_MULTIPLE \<equiv> 30"
abbreviation (input) SERVICE_CONFIRMED_COV_NOTIFICATION_MULTIPLE :: int
  where "SERVICE_CONFIRMED_COV_NOTIFICATION_MULTIPLE \<equiv> 31"
abbreviation (input) SERVICE_UNCONFIRMED_COV_NOTIFICATION_MULTIPLE :: int
  where "SERVICE_UNCONFIRMED_COV_NOTIFICATION_MULTIPLE \<equiv> 11"
abbreviation (input) OBJECT_TYPE_FILE :: int where "OBJECT_TYPE_FILE \<equiv> 10"

section \<open>Walking over tags\<close>

text \<open>
  \<^verbatim>\<open>_constructed_end\<close> and \<^verbatim>\<open>_constructed_body\<close>: from just after an opening tag, the position after
  its closing tag, and the octets in between.
\<close>

definition constructed_end :: "octets \<Rightarrow> nat \<Rightarrow> nat result" where
  "constructed_end octets position = chain (close_scan octets position 1) (\<lambda>(_, after). Inr after)"

definition constructed_body :: "octets \<Rightarrow> nat \<Rightarrow> (octets \<times> nat) result" where
  "constructed_body octets position =
     chain (close_scan octets position 1) (\<lambda>(tag_start, after). Inr (slice octets position tag_start, after))"

lemma close_scan_progress: "close_scan data p d = Inr (s, q) \<Longrightarrow> p \<le> s \<and> p < q"
proof (induction "length data - p" arbitrary: p d rule: less_induct)
  case less
  from less.prems obtain n c k b r where t: "read_tag data p = Inr (n, c, k, b, r)"
    by (subst (asm) close_scan.simps) (auto simp: chain_eq_Inr)
  have r: "p < r" "length data - r < length data - p" using read_tag_progress [OF t] by simp_all
  have IH: "close_scan data r e = Inr (s, q) \<Longrightarrow> r \<le> s \<and> r < q" for e by (rule less.hyps [OF r(2)])
  have step: "(case k of
       Kopen \<Rightarrow> close_scan data r (d + 1)
     | Kclose \<Rightarrow> (if d - 1 = 0 then Inr (p, r) else close_scan data r (d - 1))
     | Kvalue \<Rightarrow> close_scan data r d) = Inr (s, q)"
    using less.prems t by (subst (asm) close_scan.simps) simp
  show ?case
  proof (cases k)
    case Kopen
    with step have "close_scan data r (d + 1) = Inr (s, q)" by (simp only: tag_kind.simps)
    from IH [OF this] r(1) show ?thesis by simp
  next
    case Kvalue
    with step have "close_scan data r d = Inr (s, q)" by (simp only: tag_kind.simps)
    from IH [OF this] r(1) show ?thesis by simp
  next
    case Kclose
    with step have c: "(if d - 1 = 0 then Inr (p, r) else close_scan data r (d - 1)) = Inr (s, q)"
      by (simp only: tag_kind.simps)
    show ?thesis
    proof (cases "d - 1 = 0")
      case True
      with c r(1) show ?thesis by simp
    next
      case False
      with c have "close_scan data r (d - 1) = Inr (s, q)" by (simp only: if_False)
      from IH [OF this] r(1) show ?thesis by simp
    qed
  qed
qed

lemma constructed_progress:
  "constructed_end data p = Inr q \<Longrightarrow> p < q"
  "constructed_body data p = Inr (x, q) \<Longrightarrow> p < q"
  by (auto simp: constructed_end_def constructed_body_def chain_eq_Inr dest: close_scan_progress)

text \<open>What the body of a loop does with a tag: go on after it, or after the constructed data it opens.\<close>

datatype 's step = Next 's | Inside "octets \<Rightarrow> 's result"

function walk_tags :: "octets \<Rightarrow> (tag \<Rightarrow> 's \<Rightarrow> 's step result) \<Rightarrow> nat \<Rightarrow> 's \<Rightarrow> 's result" where
  "walk_tags data f position s =
     (if position < length data then
        chain (read_tag data position) (\<lambda>(number, is_context, kind, body, next).
        chain (f (number, is_context, kind, body, next) s) (\<lambda>step.
        case step of
          Next s \<Rightarrow> walk_tags data f next s
        | Inside g \<Rightarrow> chain (constructed_body data next) (\<lambda>(inner, after).
            chain (g inner) (\<lambda>s. walk_tags data f after s))))
      else Inr s)"
  by pat_completeness auto
termination
  by (relation "measure (\<lambda>(data, f, position, s). length data - position)")
    (auto dest!: read_tag_progress constructed_progress)

declare walk_tags.simps [simp del]

definition complex_ack :: "answer option \<Rightarrow> int option \<Rightarrow> octets option result" where
  "complex_ack an service =
     (case (case an of None \<Rightarrow> None | Some a \<Rightarrow> an_frame a) of
        None \<Rightarrow> Inr None
      | Some f \<Rightarrow>
          if pdu_type f \<noteq> Some PDU_COMPLEX_ACK then Inr None
          else if service = None then Inr (Some (f_payload f))
          else chain (frame_service f) (\<lambda>s. Inr (if s \<noteq> service then None else Some (f_payload f))))"

text \<open>A parser of an answer's ComplexACK: None for every other answer.\<close>

definition parse_ack :: "answer option \<Rightarrow> int option \<Rightarrow> (octets \<Rightarrow> 'a option result) \<Rightarrow> 'a option result" where
  "parse_ack an service parse = chain (complex_ack an service) (\<lambda>apdu.
     case apdu of None \<Rightarrow> Inr None | Some x \<Rightarrow> parse x)"

section \<open>ReadPropertyMultiple\<close>

definition read_property_multiple_request ::
  "int \<Rightarrow> (int \<times> int \<times> (int \<times> int option) list) list \<Rightarrow> octets result" where
  "read_property_multiple_request invoke_id specifications =
     chain (cat (map (\<lambda>(object_type, inst, references). read_access_specification object_type inst references)
                  specifications))
       (confirmed_request invoke_id SERVICE_READ_PROPERTY_MULTIPLE)"

text \<open>
  A result is the value octets or the error's class and code. Its reference is the property
  identifier, with the array index when the result carried one.
\<close>

datatype access_result = Access_value octets | Access_error "int list"

type_synonym reference = "int option \<times> int option"
type_synonym read_results = "((int \<times> int) \<times> (reference \<times> access_result) list) list"

definition set_default :: "int \<times> int \<Rightarrow> read_results \<Rightarrow> read_results" where
  "set_default key results = (if map_of results key = None then results @ [(key, [])] else results)"

definition put_result :: "int \<times> int \<Rightarrow> reference \<Rightarrow> access_result \<Rightarrow> read_results \<Rightarrow> read_results" where
  "put_result key reference r results =
     AList.update key (AList.update reference r (case map_of results key of None \<Rightarrow> [] | Some c \<Rightarrow> c)) results"

text \<open>The loop's variables: the dict, the object whose dict is \<^verbatim>\<open>current\<close>, property and array index.\<close>

type_synonym rpm_state = "read_results \<times> (int \<times> int) option \<times> int option \<times> int option"

fun rpm_step :: "tag \<Rightarrow> rpm_state \<Rightarrow> rpm_state step result" where
  "rpm_step (number, is_context, kind, body, _) (results, current, property_identifier, array_index) =
     (if kind = Kvalue \<and> is_context \<and> number = 0
      then chain (object_identifier body) (\<lambda>key.
             Inr (Next (set_default key results, Some key, property_identifier, array_index)))
      else if kind = Kvalue \<and> is_context \<and> number = 2
      then Inr (Next (results, current, Some (from_bytes body), None))
      else if kind = Kvalue \<and> is_context \<and> number = 3
      then Inr (Next (results, current, property_identifier, Some (from_bytes body)))
      else if kind = Kopen \<and> number \<in> {4, 5} \<and> current \<noteq> None
      then Inr (Inside (\<lambda>inner.
             let put = (\<lambda>r. (put_result (the current) (property_identifier, array_index) r results,
                              current, property_identifier, array_index)) in
             if number = 4 then Inr (put (Access_value inner))
             else chain (application_values inner) (\<lambda>values.
                    Inr (put (Access_error (map (\<lambda>(_, v). from_bytes v) (take 2 values)))))))
      else Inr (Next (results, current, property_identifier, array_index)))"

definition parse_read_property_multiple_ack :: "answer option \<Rightarrow> read_results option result" where
  "parse_read_property_multiple_ack an = parse_ack an (Some SERVICE_READ_PROPERTY_MULTIPLE) (\<lambda>apdu.
     parse_guard (chain (walk_tags apdu rpm_step 3 ([], None, None, None)) (\<lambda>(results, _). Inr (Some results))))"

datatype decoded_result = Not_in_ack | Denied "int list" | Decoded pyval

definition decode_result :: "access_result option \<Rightarrow> decoded_result result" where
  "decode_result r = (case r of
     None \<Rightarrow> Inr Not_in_ack
   | Some (Access_error codes) \<Rightarrow> Inr (Denied codes)
   | Some (Access_value octets) \<Rightarrow> chain (decode_application octets) (\<lambda>v. Inr (Decoded v)))"

section \<open>ReadRange and event logs\<close>

definition read_range_request :: "int \<Rightarrow> int \<Rightarrow> int \<Rightarrow> int \<Rightarrow> int option \<Rightarrow> int option \<Rightarrow> octets result" where
  "read_range_request invoke_id object_type inst property_identifier reference_index count =
     chain (cat ([context_object_id 0 object_type inst, context_unsigned 1 property_identifier]
                 @ (case reference_index of None \<Rightarrow> []
                    | Some i \<Rightarrow> [opening_tag 3, application_unsigned i,
                                (case count of None \<Rightarrow> Inl TypeError | Some c \<Rightarrow> application_signed c),
                                closing_tag 3])))
       (confirmed_request invoke_id SERVICE_READ_RANGE)"

record range_result =
  rr_result_flags :: pyval
  rr_item_count :: "int option"
  rr_item_data :: octets

fun range_step :: "tag \<Rightarrow> range_result \<Rightarrow> range_result step result" where
  "range_step (number, is_context, kind, body, _) r =
     (if is_context \<and> kind = Kvalue \<and> number = 3
      then chain (chain (byte (0x80 OR int (length body))) (\<lambda>first. decode_application (first @ body)))
             (\<lambda>flags. Inr (Next (r\<lparr>rr_result_flags := flags\<rparr>)))
      else if is_context \<and> kind = Kvalue \<and> number = 4
      then Inr (Next (r\<lparr>rr_item_count := Some (from_bytes body)\<rparr>))
      else if is_context \<and> kind = Kopen \<and> number = 5 then Inr (Inside (\<lambda>inner. Inr (r\<lparr>rr_item_data := inner\<rparr>)))
      else if kind = Kopen then Inr (Inside (\<lambda>_. Inr r))
      else Inr (Next r))"

definition parse_read_range_ack :: "answer option \<Rightarrow> range_result option result" where
  "parse_read_range_ack an = parse_ack an (Some SERVICE_READ_RANGE) (\<lambda>apdu.
     parse_guard (chain (walk_tags apdu range_step 3
       \<lparr>rr_result_flags = PNone, rr_item_count = None, rr_item_data = []\<rparr>) (\<lambda>r. Inr (Some r))))"

fun field_step :: "tag \<Rightarrow> (int \<Rightarrow> octets option) \<Rightarrow> (int \<Rightarrow> octets option) step result" where
  "field_step (number, is_context, kind, body, _) found =
     (if kind = Kopen then Inr (Inside (\<lambda>_. Inr found))
      else if is_context \<and> kind = Kvalue then Inr (Next (found(number := Some body)))
      else Inr (Next found))"

definition notification_fields :: "octets \<Rightarrow> (int \<Rightarrow> octets option) result" where
  "notification_fields octets = walk_tags octets field_step 0 (\<lambda>_. None)"

text \<open>The three choices of a log datum; a notification's fields are absent when its octets lack them.\<close>

record log_notification =
  ln_notification :: octets
  ln_process_identifier :: int
  ln_initiating_device :: "(int \<times> int) option"
  ln_event_object :: "(int \<times> int) option"
  ln_from_state :: "int option"
  ln_to_state :: "int option"

datatype log_datum = Log_status octets | Log_event log_notification | Log_time_change

record event_log_record =
  el_timestamp :: octets
  el_datum :: log_datum

definition optional_identifier :: "octets option \<Rightarrow> (int \<times> int) option result" where
  "optional_identifier v = (case v of None \<Rightarrow> Inr None
     | Some body \<Rightarrow> chain (object_identifier body) (\<lambda>k. Inr (Some k)))"

definition log_notification_of :: "octets \<Rightarrow> log_notification result" where
  "log_notification_of notification =
     chain (notification_fields notification) (\<lambda>found.
     chain (optional_identifier (found 1)) (\<lambda>device.
     chain (optional_identifier (found 2)) (\<lambda>object.
     Inr \<lparr>ln_notification = notification,
          ln_process_identifier = from_bytes (case found 0 of None \<Rightarrow> [0] | Some v \<Rightarrow> v),
          ln_initiating_device = device, ln_event_object = object,
          ln_from_state = map_option from_bytes (found 10), ln_to_state = map_option from_bytes (found 11)\<rparr>)))"

definition log_datum_at :: "octets \<Rightarrow> tag \<Rightarrow> (log_datum \<times> nat) result" where
  "log_datum_at data t = (case t of (number, _, kind, body, inner) \<Rightarrow>
     if number = 0 \<and> kind = Kvalue then Inr (Log_status body, inner)
     else if number = 1 \<and> kind = Kopen
     then chain (constructed_end data inner) (\<lambda>stop.
            chain (log_notification_of (slice data inner stop)) (\<lambda>n. Inr (Log_event n, stop)))
     else Inr (Log_time_change, inner))"

lemma log_datum_progress: "log_datum_at data (n, c, k, b, p) = Inr (d, q) \<Longrightarrow> p \<le> q"
  by (auto simp: log_datum_at_def chain_eq_Inr dest: constructed_progress split: if_splits)

function event_log_from :: "octets \<Rightarrow> nat \<Rightarrow> event_log_record list \<Rightarrow> event_log_record list result" where
  "event_log_from data position records =
     (if position < length data then
        chain (read_tag data position) (\<lambda>(number, is_context, kind, _, timestamp_start).
        if \<not> (is_context \<and> number = 0 \<and> kind = Kopen) then Inr records else
        chain (constructed_end data timestamp_start) (\<lambda>stamp_end.
        chain (read_tag data stamp_end) (\<lambda>(_, _, _, _, datum_start).
        chain (read_tag data datum_start) (\<lambda>choice.
        chain (log_datum_at data choice) (\<lambda>(datum, datum_end).
        chain (read_tag data datum_end) (\<lambda>(_, _, _, _, next).
        event_log_from data next (records @
          [\<lparr>el_timestamp = slice data timestamp_start stamp_end, el_datum = datum\<rparr>])))))))
      else Inr records)"
  by pat_completeness auto
termination
  by (relation "measure (\<lambda>(data, position, records). length data - position)")
    (auto dest!: read_tag_progress constructed_progress log_datum_progress)

declare event_log_from.simps [simp del]

definition event_log_records :: "octets \<Rightarrow> event_log_record list result" where
  "event_log_records item_data = event_log_from item_data 0 []"

section \<open>Creating and deleting objects\<close>

definition initial_value :: "int \<times> octets \<Rightarrow> octets result" where
  "initial_value v = (case v of (property_identifier, value_octets) \<Rightarrow>
     cat [context_unsigned 0 property_identifier, opening_tag 2, Inr value_octets, closing_tag 2])"

definition create_object_request :: "int \<Rightarrow> int \<Rightarrow> int option \<Rightarrow> (int \<times> octets) list \<Rightarrow> octets result" where
  "create_object_request invoke_id object_type inst initial_values =
     chain (case inst of None \<Rightarrow> context_unsigned 0 object_type
            | Some i \<Rightarrow> context_object_id 1 object_type i) (\<lambda>specifier.
     chain (cat ([opening_tag 0, Inr specifier, closing_tag 0]
                 @ (if initial_values = [] then []
                    else [opening_tag 1] @ map initial_value initial_values @ [closing_tag 1])))
       (confirmed_request invoke_id SERVICE_CREATE_OBJECT))"

definition created_object_identifier :: "answer option \<Rightarrow> (int \<times> int) option result" where
  "created_object_identifier an = parse_ack an None (\<lambda>apdu.
     chain (decode_application (drop 3 apdu)) (\<lambda>v. Inr (case v of PObject t i \<Rightarrow> Some (t, i) | _ \<Rightarrow> None)))"

definition delete_object_request :: "int \<Rightarrow> int \<Rightarrow> int \<Rightarrow> octets result" where
  "delete_object_request invoke_id object_type inst =
     chain (application_object_id object_type inst) (confirmed_request invoke_id SERVICE_DELETE_OBJECT)"

section \<open>Files\<close>

definition atomic_read_file_request :: "int \<Rightarrow> int \<Rightarrow> int \<Rightarrow> int \<Rightarrow> octets result" where
  "atomic_read_file_request invoke_id file_instance start requested_count =
     chain (cat [application_object_id OBJECT_TYPE_FILE file_instance, opening_tag 0,
                 application_signed start, application_unsigned requested_count, closing_tag 0])
       (confirmed_request invoke_id SERVICE_ATOMIC_READ_FILE)"

definition parse_atomic_read_file_ack :: "answer option \<Rightarrow> (bool \<times> int \<times> octets) option result" where
  "parse_atomic_read_file_ack an = parse_ack an None (\<lambda>apdu. parse_guard (
     chain (read_tag apdu 3) (\<lambda>(_, _, _, eof_body, position).
     chain (read_tag apdu position) (\<lambda>(number, is_context, kind, _, position).
     if \<not> (is_context \<and> number = 0 \<and> kind = Kopen) then Inr None else
     chain (read_tag apdu position) (\<lambda>(_, _, _, start_body, position).
     chain (read_tag apdu position) (\<lambda>(_, _, _, data, position).
     chain (index eof_body 0) (\<lambda>eof. Inr (Some (eof \<noteq> 0, from_bytes_signed start_body, data)))))))))"

definition atomic_write_file_request :: "int \<Rightarrow> int \<Rightarrow> int \<Rightarrow> octets \<Rightarrow> octets result" where
  "atomic_write_file_request invoke_id file_instance start data =
     chain (cat [application_object_id OBJECT_TYPE_FILE file_instance, opening_tag 0,
                 application_signed start, application_octet_string data, closing_tag 0])
       (confirmed_request invoke_id SERVICE_ATOMIC_WRITE_FILE)"

text \<open>Unlike the other parsers, this one catches nothing.\<close>

definition parse_atomic_write_file_ack :: "answer option \<Rightarrow> int option result" where
  "parse_atomic_write_file_ack an = parse_ack an None (\<lambda>apdu.
     chain (read_tag apdu 3) (\<lambda>(number, is_context, kind, body, _).
     Inr (if \<not> (is_context \<and> number = 0 \<and> kind = Kvalue) then None else Some (from_bytes_signed body))))"

section \<open>Change of value, several properties\<close>

definition cov_reference :: "int \<Rightarrow> octets result" where
  "cov_reference property_identifier =
     cat [opening_tag 0, context_unsigned 0 property_identifier, closing_tag 0, context_boolean 2 False]"

definition cov_specification :: "int \<times> int \<times> int list \<Rightarrow> octets result" where
  "cov_specification spec = (case spec of (object_type, inst, properties) \<Rightarrow>
     cat ([context_object_id 0 object_type inst, opening_tag 1] @ map cov_reference properties @ [closing_tag 1]))"

definition subscribe_cov_property_multiple_request ::
  "int \<Rightarrow> int \<Rightarrow> bool \<Rightarrow> int option \<Rightarrow> (int \<times> int \<times> int list) list \<Rightarrow> int \<Rightarrow> octets result" where
  "subscribe_cov_property_multiple_request invoke_id process_identifier confirmed lifetime specifications
     max_notification_delay =
     chain (cat ([context_unsigned 0 process_identifier, context_boolean 1 confirmed]
                 @ (case lifetime of None \<Rightarrow> []
                    | Some l \<Rightarrow> [context_unsigned 2 l, context_unsigned 3 max_notification_delay])
                 @ [opening_tag 4] @ map cov_specification specifications @ [closing_tag 4]))
       (confirmed_request invoke_id SERVICE_SUBSCRIBE_COV_PROPERTY_MULTIPLE)"

text \<open>A request of one of two services, confirmed or not.\<close>

definition is_request_of :: "int \<Rightarrow> int \<Rightarrow> frame \<Rightarrow> bool result" where
  "is_request_of confirmed_service unconfirmed_service f =
     (if pdu_type f = Some PDU_UNCONFIRMED_REQUEST
      then chain (frame_service f) (\<lambda>s. Inr (s = Some unconfirmed_service))
      else if pdu_type f = Some PDU_CONFIRMED_REQUEST
      then chain (frame_service f) (\<lambda>s. Inr (s = Some confirmed_service))
      else Inr False)"

definition is_cov_notification_multiple :: "frame \<Rightarrow> bool result" where
  "is_cov_notification_multiple f =
     is_request_of SERVICE_CONFIRMED_COV_NOTIFICATION_MULTIPLE SERVICE_UNCONFIRMED_COV_NOTIFICATION_MULTIPLE f"

record cov_multiple =
  cm_confirmed :: bool
  cm_process_identifier :: "int option"
  cm_initiating_device :: "(int \<times> int) option"
  cm_time_remaining :: "int option"
  cm_values :: "((int \<times> int) option \<times> int option \<times> int option \<times> octets) list"

text \<open>The loop's variables beside the object: depth, monitored object, property and array index.\<close>

type_synonym cov_state = "cov_multiple \<times> int \<times> (int \<times> int) option \<times> int option \<times> int option"

fun cov_step :: "tag \<Rightarrow> cov_state \<Rightarrow> cov_state step result" where
  "cov_step (number, is_context, kind, body, _) (c, depth, monitored, property_identifier, array_index) =
     (if kind = Kopen \<and> depth = 2 \<and> number = 2
      then Inr (Inside (\<lambda>v. Inr (c\<lparr>cm_values := cm_values c @ [(monitored, property_identifier, array_index, v)]\<rparr>,
                                   depth, monitored, property_identifier, None)))
      else if kind = Kopen then Inr (Next (c, depth + 1, monitored, property_identifier, array_index))
      else if kind = Kclose then Inr (Next (c, depth - 1, monitored, property_identifier, array_index))
      else if \<not> is_context then Inr (Next (c, depth, monitored, property_identifier, array_index))
      else if depth = 0 \<and> number = 0
      then Inr (Next (c\<lparr>cm_process_identifier := Some (from_bytes body)\<rparr>, depth, monitored, property_identifier, array_index))
      else if depth = 0 \<and> number = 1
      then chain (object_identifier body) (\<lambda>k.
             Inr (Next (c\<lparr>cm_initiating_device := Some k\<rparr>, depth, monitored, property_identifier, array_index)))
      else if depth = 0 \<and> number = 2
      then Inr (Next (c\<lparr>cm_time_remaining := Some (from_bytes body)\<rparr>, depth, monitored, property_identifier, array_index))
      else if depth = 1 \<and> number = 0
      then chain (object_identifier body) (\<lambda>k. Inr (Next (c, depth, Some k, property_identifier, array_index)))
      else if depth = 2 \<and> number = 0
      then Inr (Next (c, depth, monitored, Some (from_bytes body), array_index))
      else if depth = 2 \<and> number = 1
      then Inr (Next (c, depth, monitored, property_identifier, Some (from_bytes body)))
      else Inr (Next (c, depth, monitored, property_identifier, array_index)))"

text \<open>The service parameters of a confirmed or an unconfirmed request.\<close>

definition service_parameters :: "frame \<Rightarrow> octets" where
  "service_parameters f = drop (if pdu_type f = Some PDU_CONFIRMED_REQUEST then 4 else 2) (f_payload f)"

definition CovNotificationMultiple :: "frame \<Rightarrow> cov_multiple result" where
  "CovNotificationMultiple f =
     chain (walk_tags (service_parameters f) cov_step 0
       (\<lparr>cm_confirmed = (pdu_type f = Some PDU_CONFIRMED_REQUEST), cm_process_identifier = None,
         cm_initiating_device = None, cm_time_remaining = None, cm_values = []\<rparr>, 0, None, None, None))
       (\<lambda>(c, _). Inr c)"

definition cov_value :: "cov_multiple \<Rightarrow> int \<times> int \<Rightarrow> int \<Rightarrow> pyval result" where
  "cov_value c object_key property_identifier =
     (case filter (\<lambda>(monitored, identifier, _, _).
                     monitored = Some object_key \<and> identifier = Some property_identifier) (cm_values c) of
        (_, _, _, octets) # _ \<Rightarrow> decode_application octets
      | [] \<Rightarrow> Inr PNone)"

section \<open>Life safety, landing calls and lighting commands\<close>

definition life_safety_operation_request ::
  "int \<Rightarrow> int \<Rightarrow> pystr \<Rightarrow> int \<Rightarrow> (int \<times> int) option \<Rightarrow> octets result" where
  "life_safety_operation_request invoke_id process_identifier source operation object_reference =
     chain (cat ([context_unsigned 0 process_identifier, context_character_string 1 source,
                  context_enumerated 2 operation]
                 @ (case object_reference of None \<Rightarrow> [] | Some (t, i) \<Rightarrow> [context_object_id 3 t i])))
       (confirmed_request invoke_id SERVICE_LIFE_SAFETY_OPERATION)"

definition landing_call_status :: "int \<Rightarrow> int option \<Rightarrow> int option \<Rightarrow> pystr option \<Rightarrow> octets result" where
  "landing_call_status floor direction destination floor_text =
     (if (direction = None) = (destination = None) then Inl ValueError
      else cat ([context_unsigned 0 floor]
                @ (case direction of Some d \<Rightarrow> [context_enumerated 1 d]
                   | None \<Rightarrow> [context_unsigned 2 (the destination)])
                @ (case floor_text of None \<Rightarrow> [] | Some text \<Rightarrow> [context_character_string 3 text])))"

record landing_call =
  lc_floor :: int
  lc_direction :: "int option"
  lc_destination :: "int option"
  lc_floor_text :: "pystr option"

text \<open>\<^verbatim>\<open>calls and ...: calls[-1][...] = ...\<close>\<close>

definition update_last :: "('a \<Rightarrow> 'a) \<Rightarrow> 'a list \<Rightarrow> 'a list" where
  "update_last g xs = (if xs = [] then [] else butlast xs @ [g (last xs)])"

fun landing_step :: "tag \<Rightarrow> landing_call list \<Rightarrow> landing_call list step result" where
  "landing_step (number, is_context, kind, body, _) calls =
     Inr (Next (
       if kind \<noteq> Kvalue \<or> \<not> is_context then calls
       else if number = 0
       then calls @ [\<lparr>lc_floor = from_bytes body, lc_direction = None, lc_destination = None, lc_floor_text = None\<rparr>]
       else if number = 1 then update_last (\<lambda>c. c\<lparr>lc_direction := Some (from_bytes body)\<rparr>) calls
       else if number = 2 then update_last (\<lambda>c. c\<lparr>lc_destination := Some (from_bytes body)\<rparr>) calls
       else if number = 3 then update_last (\<lambda>c. c\<lparr>lc_floor_text := Some (utf8_decode (drop 1 body))\<rparr>) calls
       else calls))"

definition decode_landing_calls :: "octets \<Rightarrow> landing_call list result" where
  "decode_landing_calls octets = walk_tags octets landing_step 0 []"

record lighting =
  li_operation :: "int option"
  li_target_level :: "pyfloat option"
  li_ramp_rate :: "pyfloat option"
  li_step_increment :: "pyfloat option"
  li_fade_time :: "int option"
  li_priority :: "int option"

definition lighting_command ::
  "int \<Rightarrow> pyfloat option \<Rightarrow> pyfloat option \<Rightarrow> pyfloat option \<Rightarrow> int option \<Rightarrow> int option \<Rightarrow> octets result" where
  "lighting_command operation target_level ramp_rate step_increment fade_time priority =
     cat ([context_enumerated 0 operation]
          @ (case target_level of None \<Rightarrow> [] | Some v \<Rightarrow> [context_real 1 v])
          @ (case ramp_rate of None \<Rightarrow> [] | Some v \<Rightarrow> [context_real 2 v])
          @ (case step_increment of None \<Rightarrow> [] | Some v \<Rightarrow> [context_real 3 v])
          @ (case fade_time of None \<Rightarrow> [] | Some v \<Rightarrow> [context_unsigned 4 v])
          @ (case priority of None \<Rightarrow> [] | Some v \<Rightarrow> [context_unsigned 5 v]))"

text \<open>One field of the dict: the last tag of a number wins.\<close>

definition lighting_field :: "int \<times> octets \<Rightarrow> lighting \<Rightarrow> lighting result" where
  "lighting_field v l = (case v of (tag, body) \<Rightarrow>
     if tag = 1 then chain (unpack_f body) (\<lambda>x. Inr (l\<lparr>li_target_level := Some x\<rparr>))
     else if tag = 2 then chain (unpack_f body) (\<lambda>x. Inr (l\<lparr>li_ramp_rate := Some x\<rparr>))
     else if tag = 3 then chain (unpack_f body) (\<lambda>x. Inr (l\<lparr>li_step_increment := Some x\<rparr>))
     else if tag = 0 then Inr (l\<lparr>li_operation := Some (from_bytes body)\<rparr>)
     else if tag = 4 then Inr (l\<lparr>li_fade_time := Some (from_bytes body)\<rparr>)
     else if tag = 5 then Inr (l\<lparr>li_priority := Some (from_bytes body)\<rparr>)
     else Inr l)"

definition decode_lighting_command :: "octets \<Rightarrow> lighting option result" where
  "decode_lighting_command octets =
     (if octets = [] then Inr None
      else chain (context_values octets) (\<lambda>values.
        chain (foldl (\<lambda>m v. chain m (lighting_field v))
                (Inr \<lparr>li_operation = None, li_target_level = None, li_ramp_rate = None,
                      li_step_increment = None, li_fade_time = None, li_priority = None\<rparr>) values)
          (\<lambda>l. Inr (Some l))))"

end
