(* ===== verification/Wire_Alarm.thy ===== *)
theory Wire_Alarm
  imports Wire_Services
begin

text \<open>
  \<^verbatim>\<open>wiretest/alarm.py\<close>: the alarm, event and device-management services. An event notification is
  decoded into the record \<^verbatim>\<open>event_notification_data\<close>, a GetEventInformation-ACK into a list of
  \<^verbatim>\<open>event_summary\<close>.
\<close>

section \<open>Numbers\<close>

abbreviation (input) SERVICE_ACKNOWLEDGE_ALARM :: int where "SERVICE_ACKNOWLEDGE_ALARM \<equiv> 0"
abbreviation (input) SERVICE_CONFIRMED_EVENT_NOTIFICATION :: int where "SERVICE_CONFIRMED_EVENT_NOTIFICATION \<equiv> 2"
abbreviation (input) SERVICE_DEVICE_COMMUNICATION_CONTROL :: int where "SERVICE_DEVICE_COMMUNICATION_CONTROL \<equiv> 17"
abbreviation (input) SERVICE_GET_EVENT_INFORMATION :: int where "SERVICE_GET_EVENT_INFORMATION \<equiv> 29"
abbreviation (input) SERVICE_UNCONFIRMED_EVENT_NOTIFICATION :: int
  where "SERVICE_UNCONFIRMED_EVENT_NOTIFICATION \<equiv> 3"
abbreviation (input) SERVICE_TIME_SYNCHRONIZATION :: int where "SERVICE_TIME_SYNCHRONIZATION \<equiv> 6"
abbreviation (input) EVENT_STATE_NORMAL :: int where "EVENT_STATE_NORMAL \<equiv> 0"
abbreviation (input) NOTIFY_TYPE_ALARM :: int where "NOTIFY_TYPE_ALARM \<equiv> 0"
abbreviation (input) NOTIFY_TYPE_ACK_NOTIFICATION :: int where "NOTIFY_TYPE_ACK_NOTIFICATION \<equiv> 2"
abbreviation (input) EVENT_TYPE_OUT_OF_RANGE :: int where "EVENT_TYPE_OUT_OF_RANGE \<equiv> 5"

section \<open>Values\<close>

definition context_date_time :: "int \<Rightarrow> octets \<times> octets \<Rightarrow> octets result" where
  "context_date_time tag date_time = (case date_time of (date_octets, time_octets) \<Rightarrow>
     cat [opening_tag tag, opening_tag 2, byte 0xA4, Inr date_octets, byte 0xB4, Inr time_octets,
          closing_tag 2, closing_tag tag])"

text \<open>The defaults of the source are all days, from 0:00:00.00 to 23:59:59.99.\<close>

type_synonym time_of_day = "int \<times> int \<times> int \<times> int"

definition time_octets :: "time_of_day \<Rightarrow> octets result" where
  "time_octets t = (case t of (hour, minute, second, hundredths) \<Rightarrow> application_time hour minute second hundredths)"

definition destination ::
  "octets \<Rightarrow> int \<Rightarrow> bool \<Rightarrow> bool list \<Rightarrow> int \<Rightarrow> bool list \<Rightarrow> time_of_day \<Rightarrow> time_of_day \<Rightarrow> octets result" where
  "destination mac process_identifier confirmed transitions network_number valid_days from_time to_time =
     chain (cat [if length mac < 5 then byte (0x60 OR int (length mac))
                 else bytes_of [0x65, int (length mac)], Inr mac]) (\<lambda>mac_body.
     cat [application_bit_string valid_days, time_octets from_time, time_octets to_time,
          opening_tag 1, application_unsigned network_number, Inr mac_body, closing_tag 1,
          application_unsigned process_identifier, application_boolean confirmed,
          application_bit_string transitions])"

section \<open>Requests\<close>

definition acknowledge_alarm_request ::
  "int \<Rightarrow> int \<Rightarrow> int \<Rightarrow> int \<Rightarrow> int \<Rightarrow> octets \<times> octets \<Rightarrow> pystr \<Rightarrow> octets \<times> octets \<Rightarrow> octets result" where
  "acknowledge_alarm_request invoke_id process_identifier object_type inst event_state_acknowledged
     time_stamp source time_of_acknowledgment =
     chain (cat [context_unsigned 0 process_identifier, context_object_id 1 object_type inst,
                 context_enumerated 2 event_state_acknowledged, context_date_time 3 time_stamp,
                 context_character_string 4 source, context_date_time 5 time_of_acknowledgment])
       (confirmed_request invoke_id SERVICE_ACKNOWLEDGE_ALARM)"

definition get_event_information_request :: "int \<Rightarrow> (int \<times> int) option \<Rightarrow> octets result" where
  "get_event_information_request invoke_id last_received =
     chain (case last_received of None \<Rightarrow> Inr [] | Some (t, i) \<Rightarrow> context_object_id 0 t i)
       (confirmed_request invoke_id SERVICE_GET_EVENT_INFORMATION)"

definition device_communication_control_request ::
  "int \<Rightarrow> int \<Rightarrow> pystr option \<Rightarrow> int option \<Rightarrow> octets result" where
  "device_communication_control_request invoke_id enable_disable password minutes =
     chain (cat ((case minutes of None \<Rightarrow> [] | Some m \<Rightarrow> [context_unsigned 0 m])
                 @ [context_enumerated 1 enable_disable]
                 @ (case password of None \<Rightarrow> [] | Some text \<Rightarrow> [context_character_string 2 text])))
       (confirmed_request invoke_id SERVICE_DEVICE_COMMUNICATION_CONTROL)"

definition time_synchronization ::
  "int \<Rightarrow> int \<Rightarrow> int \<Rightarrow> int \<Rightarrow> int \<Rightarrow> int \<Rightarrow> int \<Rightarrow> octets result" where
  "time_synchronization year month day weekday hour minute second =
     cat [bytes_of [0x10, SERVICE_TIME_SYNCHRONIZATION], application_date year month day weekday,
          application_time hour minute second 0]"

text \<open>The arguments of \<^verbatim>\<open>event_notification\<close> that have defaults.\<close>

record event_args =
  ev_from_state :: int
  ev_confirmed :: bool
  ev_invoke_id :: int
  ev_process_identifier :: int
  ev_notification_class :: int
  ev_priority :: int
  ev_notify_type :: int
  ev_ack_required :: bool
  ev_message_text :: "pystr option"
  ev_date :: "int \<times> int \<times> int \<times> int"
  ev_time :: "int \<times> int \<times> int"
  ev_exceeding_value :: pyfloat
  ev_exceeded_limit :: pyfloat

definition event_defaults :: event_args where
  "event_defaults =
     \<lparr>ev_from_state = EVENT_STATE_NORMAL, ev_confirmed = False, ev_invoke_id = 0, ev_process_identifier = 1,
      ev_notification_class = 1, ev_priority = 100, ev_notify_type = NOTIFY_TYPE_ALARM, ev_ack_required = True,
      ev_message_text = None, ev_date = (2026, 10, 15, 4), ev_time = (12, 30, 0),
      ev_exceeding_value = half 190, ev_exceeded_limit = half 180\<rparr>"

text \<open>The date and time octets, each without its application tag.\<close>

definition event_stamp :: "event_args \<Rightarrow> (octets \<times> octets) result" where
  "event_stamp a = (case (ev_date a, ev_time a) of ((year, month, day, weekday), (hour, minute, second)) \<Rightarrow>
     chain (application_date year month day weekday) (\<lambda>date.
     chain (application_time hour minute second 0) (\<lambda>time. Inr (drop 1 date, drop 1 time))))"

definition event_parameters :: "int \<Rightarrow> int \<times> int \<Rightarrow> int \<Rightarrow> event_args \<Rightarrow> octets \<times> octets \<Rightarrow> octets result" where
  "event_parameters initiating_device event_object to_state a stamp =
     cat ([context_unsigned 0 (ev_process_identifier a),
           context_object_id 1 OBJECT_TYPE_DEVICE initiating_device,
           context_object_id 2 (fst event_object) (snd event_object),
           context_date_time 3 stamp,
           context_unsigned 4 (ev_notification_class a),
           context_unsigned 5 (ev_priority a),
           context_enumerated 6 EVENT_TYPE_OUT_OF_RANGE]
          @ (case ev_message_text a of None \<Rightarrow> [] | Some text \<Rightarrow> [context_character_string 7 text])
          @ [context_enumerated 8 (ev_notify_type a)]
          @ (if ev_notify_type a \<noteq> NOTIFY_TYPE_ACK_NOTIFICATION
             then [context_boolean 9 (ev_ack_required a), context_enumerated 10 (ev_from_state a),
                   context_enumerated 11 to_state,
                   opening_tag 12, opening_tag 5, context_real 0 (ev_exceeding_value a),
                   context_bit_string 1 [to_state \<noteq> EVENT_STATE_NORMAL, False, False, False],
                   context_real 2 (half 2), context_real 3 (ev_exceeded_limit a), closing_tag 5, closing_tag 12]
             else [context_enumerated 11 to_state]))"

definition event_notification :: "int \<Rightarrow> int \<times> int \<Rightarrow> int \<Rightarrow> event_args \<Rightarrow> octets result" where
  "event_notification initiating_device event_object to_state a =
     chain (event_stamp a) (\<lambda>stamp.
     chain (event_parameters initiating_device event_object to_state a stamp) (\<lambda>parameters.
     if ev_confirmed a
     then confirmed_request (ev_invoke_id a) SERVICE_CONFIRMED_EVENT_NOTIFICATION parameters
     else cat [bytes_of [push_bit 4 PDU_UNCONFIRMED_REQUEST, SERVICE_UNCONFIRMED_EVENT_NOTIFICATION],
               Inr parameters]))"

section \<open>Decoding an event notification\<close>

text \<open>
  \<^verbatim>\<open>_skip_constructed\<close>: the loop counts the brackets that are open. It finds the same end as
  \<^verbatim>\<open>_constructed_end\<close> of \<^verbatim>\<open>services.py\<close>, on any octets.
\<close>

function skip_loop :: "octets \<Rightarrow> nat \<Rightarrow> nat \<Rightarrow> nat result" where
  "skip_loop octets depth position =
     (if depth = 0 then Inr position
      else chain (read_tag octets position) (\<lambda>(number, is_context, kind, body, next).
        skip_loop octets (case kind of Kopen \<Rightarrow> depth + 1 | Kclose \<Rightarrow> depth - 1 | Kvalue \<Rightarrow> depth) next))"
  by pat_completeness auto
termination
proof (relation "measure (\<lambda>(octets, depth, position). length octets - position)")
qed (auto intro!: diff_less_mono2 dest: read_tag_progress)

declare skip_loop.simps [simp del]

definition skip_constructed :: "octets \<Rightarrow> nat \<Rightarrow> nat result" where
  "skip_constructed octets position = skip_loop octets 1 position"

lemma skip_loop_close:
  "skip_loop data (Suc d) p = chain (close_scan data p (Suc d)) (\<lambda>(_, after). Inr after)"
proof (induction "length data - p" arbitrary: d p rule: less_induct)
  case less
  show ?case
  proof (cases "read_tag data p")
    case (Inl e)
    then show ?thesis by (subst skip_loop.simps, subst close_scan.simps) simp
  next
    case (Inr t)
    obtain n c k b q where t: "t = (n, c, k, b, q)" by (cases t)
    with Inr have "length data - q < length data - p" by (auto dest: read_tag_progress diff_less_mono2)
    note IH = less [OF this]
    show ?thesis
      using Inr t IH [of d] IH [of "Suc d"] IH [of "d - 1"]
      by (subst skip_loop.simps, subst close_scan.simps)
        (cases d; auto simp: skip_loop.simps [of data 0] split: tag_kind.split)
  qed
qed

lemma skip_constructed_end [simp]: "skip_constructed = constructed_end"
  using skip_loop_close [of _ 0] by (simp add: fun_eq_iff skip_constructed_def constructed_end_def)

definition read_time_stamp_choice :: "octets \<Rightarrow> nat \<Rightarrow> ((octets \<times> octets) option \<times> nat) result" where
  "read_time_stamp_choice octets position =
     chain (read_tag octets position) (\<lambda>(number, is_context, kind, body, inner).
     if kind = Kopen \<and> number = 2
     then chain (read_tag octets inner) (\<lambda>(_, _, _, date_octets, after_date).
          chain (read_tag octets after_date) (\<lambda>(_, _, _, time_octets, after_time).
          chain (read_tag octets after_time) (\<lambda>(_, _, _, _, next). Inr (Some (date_octets, time_octets), next))))
     else if kind = Kopen then chain (skip_constructed octets inner) (\<lambda>next. Inr (None, next))
     else Inr (None, inner))"

definition read_time_stamp :: "octets \<Rightarrow> nat \<Rightarrow> ((octets \<times> octets) option \<times> nat) result" where
  "read_time_stamp octets position =
     chain (read_time_stamp_choice octets position) (\<lambda>(stamp, position).
     chain (read_tag octets position) (\<lambda>(_, _, _, _, next). Inr (stamp, next)))"

lemma time_stamp_choice_progress:
  assumes "read_time_stamp_choice data p = Inr (stamp, q)"
  shows "p < q"
proof -
  from assms obtain n c k b i where t: "read_tag data p = Inr (n, c, k, b, i)"
    by (auto simp: read_time_stamp_choice_def chain_eq_Inr)
  have "i \<le> q"
    using assms t
    by (auto simp: read_time_stamp_choice_def chain_eq_Inr split: if_splits
        dest!: read_tag_progress(2) constructed_progress(1))
  with read_tag_progress(2) [OF t] show ?thesis by simp
qed

lemma time_stamp_progress: "read_time_stamp data p = Inr (stamp, q) \<Longrightarrow> p < q"
  by (auto simp: read_time_stamp_def chain_eq_Inr dest!: read_tag_progress(2) time_stamp_choice_progress)

record event_notification_data =
  en_confirmed :: bool
  en_invoke_id :: "int option"
  en_process_identifier :: "int option"
  en_initiating_device :: "(int \<times> int) option"
  en_event_object :: "(int \<times> int) option"
  en_time_stamp :: "(octets \<times> octets) option"
  en_notification_class :: "int option"
  en_priority :: "int option"
  en_event_type :: "int option"
  en_notify_type :: "int option"
  en_ack_required :: "bool option"
  en_from_state :: "int option"
  en_to_state :: "int option"

definition new_event :: "bool \<Rightarrow> int option \<Rightarrow> event_notification_data" where
  "new_event confirmed invoke_id =
     \<lparr>en_confirmed = confirmed, en_invoke_id = invoke_id, en_process_identifier = None,
      en_initiating_device = None, en_event_object = None, en_time_stamp = None, en_notification_class = None,
      en_priority = None, en_event_type = None, en_notify_type = None, en_ack_required = None,
      en_from_state = None, en_to_state = None\<rparr>"

text \<open>The field a context-tagged primitive sets.\<close>

definition event_field :: "int \<Rightarrow> octets \<Rightarrow> event_notification_data \<Rightarrow> event_notification_data result" where
  "event_field number body n =
     (let integer = from_bytes body in
      if number = 0 then Inr (n\<lparr>en_process_identifier := Some integer\<rparr>)
      else if number = 1 then chain (object_identifier body) (\<lambda>k. Inr (n\<lparr>en_initiating_device := Some k\<rparr>))
      else if number = 2 then chain (object_identifier body) (\<lambda>k. Inr (n\<lparr>en_event_object := Some k\<rparr>))
      else if number = 4 then Inr (n\<lparr>en_notification_class := Some integer\<rparr>)
      else if number = 5 then Inr (n\<lparr>en_priority := Some integer\<rparr>)
      else if number = 6 then Inr (n\<lparr>en_event_type := Some integer\<rparr>)
      else if number = 8 then Inr (n\<lparr>en_notify_type := Some integer\<rparr>)
      else if number = 9 then Inr (n\<lparr>en_ack_required := Some (integer \<noteq> 0)\<rparr>)
      else if number = 10 then Inr (n\<lparr>en_from_state := Some integer\<rparr>)
      else if number = 11 then Inr (n\<lparr>en_to_state := Some integer\<rparr>)
      else Inr n)"

definition event_item ::
  "octets \<Rightarrow> tag \<Rightarrow> event_notification_data \<Rightarrow> (event_notification_data \<times> nat) result" where
  "event_item octets t n = (case t of (number, is_context, kind, body, position) \<Rightarrow>
     if kind = Kopen then
       (if number = 3
        then chain (read_time_stamp octets position) (\<lambda>(stamp, next). Inr (n\<lparr>en_time_stamp := stamp\<rparr>, next))
        else chain (skip_constructed octets position) (\<lambda>next. Inr (n, next)))
     else if kind \<noteq> Kvalue \<or> \<not> is_context then Inr (n, position)
     else chain (event_field number body n) (\<lambda>n. Inr (n, position)))"

lemma event_item_progress: "event_item data (m, c, k, b, p) n = Inr (n', q) \<Longrightarrow> p \<le> q"
  by (auto simp: event_item_def chain_eq_Inr dest!: time_stamp_progress constructed_progress(1) split: if_splits)

function event_from :: "octets \<Rightarrow> nat \<Rightarrow> event_notification_data \<Rightarrow> event_notification_data result" where
  "event_from octets position n =
     (if position < length octets then
        chain (read_tag octets position) (\<lambda>t.
        chain (event_item octets t n) (\<lambda>(n, next). event_from octets next n))
      else Inr n)"
  by pat_completeness auto
termination
  by (relation "measure (\<lambda>(octets, position, n). length octets - position)")
    (auto dest!: read_tag_progress event_item_progress)

declare event_from.simps [simp del]

definition EventNotification :: "frame \<Rightarrow> event_notification_data result" where
  "EventNotification f =
     (let confirmed = (pdu_type f = Some PDU_CONFIRMED_REQUEST) in
      chain (if confirmed then frame_invoke_id f else Inr None) (\<lambda>invoke_id.
      event_from (service_parameters f) 0 (new_event confirmed invoke_id)))"

definition is_event_notification :: "frame \<Rightarrow> bool result" where
  "is_event_notification f =
     (if f_network_message f = None
      then is_request_of SERVICE_CONFIRMED_EVENT_NOTIFICATION SERVICE_UNCONFIRMED_EVENT_NOTIFICATION f
      else Inr False)"

section \<open>Decoding event summaries\<close>

record event_summary =
  es_object :: "int \<times> int"
  es_event_state :: "int option"
  es_acked_transitions :: "bool list option"
  es_time_stamps :: "(octets \<times> octets) option list option"
  es_notify_type :: "int option"
  es_event_enable :: "bool list option"
  es_priorities :: "int list option"

text \<open>\<^verbatim>\<open>_bits\<close> repeats the bit string case of \<^verbatim>\<open>decode_application\<close>.\<close>

definition event_bits :: "octets \<Rightarrow> bool list result" where
  "event_bits body = bit_list body"

fun stamps_from :: "octets \<Rightarrow> nat \<Rightarrow> nat \<Rightarrow> (octets \<times> octets) option list
   \<Rightarrow> ((octets \<times> octets) option list \<times> nat) result" where
  "stamps_from octets 0 position stamps = Inr (stamps, position)"
| "stamps_from octets (Suc n) position stamps =
     chain (read_time_stamp_choice octets position) (\<lambda>(stamp, next). stamps_from octets n next (stamps @ [stamp]))"

lemma stamps_progress: "stamps_from data n p ss = Inr (ss', q) \<Longrightarrow> p \<le> q"
proof (induction n arbitrary: p ss)
  case (Suc n)
  then obtain st r where "read_time_stamp_choice data p = Inr (st, r)" "stamps_from data n r (ss @ [st]) = Inr (ss', q)"
    by (auto simp: chain_eq_Inr)
  with Suc.IH time_stamp_choice_progress show ?case by (meson le_trans less_imp_le)
qed simp

function priorities_from :: "octets \<Rightarrow> nat \<Rightarrow> int list \<Rightarrow> (int list \<times> nat) result" where
  "priorities_from octets position priorities =
     chain (read_tag octets position) (\<lambda>(number, is_context, kind, body, next).
     if kind = Kclose then Inr (priorities, next)
     else priorities_from octets next (priorities @ [from_bytes body]))"
  by pat_completeness auto
termination
proof (relation "measure (\<lambda>(octets, position, priorities). length octets - position)")
qed (auto dest: read_tag_progress diff_less_mono2)

declare priorities_from.simps [simp del]

lemma priorities_progress: "priorities_from data p ps = Inr (ps', q) \<Longrightarrow> p < q"
proof (induction data p ps rule: priorities_from.induct)
  case (1 data p ps)
  from 1(2) obtain n c k b r where t: "read_tag data p = Inr (n, c, k, b, r)"
    by (subst (asm) priorities_from.simps) (auto simp: chain_eq_Inr)
  have r: "p < r" using read_tag_progress [OF t] by simp
  show ?case
  proof (cases "k = Kclose")
    case True
    with 1(2) t r show ?thesis by (subst (asm) priorities_from.simps) simp
  next
    case False
    with 1(2) t have "priorities_from data r (ps @ [from_bytes b]) = Inr (ps', q)"
      by (subst (asm) priorities_from.simps) simp
    with 1(1) [OF t refl refl refl refl False] r show ?thesis by simp
  qed
qed

text \<open>
  \<^verbatim>\<open>current\<close> is always the last summary, or None, where assigning to it is a TypeError.
\<close>

record summaries =
  su_summaries :: "event_summary list"
  su_more_events :: "bool option"
  su_in_list :: bool

definition set_current :: "(event_summary \<Rightarrow> event_summary) \<Rightarrow> summaries \<Rightarrow> summaries result" where
  "set_current g u = (if su_summaries u = [] then Inl TypeError
     else Inr (u\<lparr>su_summaries := update_last g (su_summaries u)\<rparr>))"

definition new_summary :: "int \<times> int \<Rightarrow> event_summary" where
  "new_summary object =
     \<lparr>es_object = object, es_event_state = None, es_acked_transitions = None, es_time_stamps = None,
      es_notify_type = None, es_event_enable = None, es_priorities = None\<rparr>"

definition summary_item :: "octets \<Rightarrow> tag \<Rightarrow> summaries \<Rightarrow> (summaries \<times> nat) result" where
  "summary_item octets t u = (case t of (number, is_context, kind, body, after) \<Rightarrow>
     let at_next = (\<lambda>m. chain m (\<lambda>u. Inr (u, after))); primitive_number = (\<lambda>n. kind = Kvalue \<and> is_context \<and> number = n) in
     if \<not> su_in_list u then
       at_next (Inr (if kind = Kopen \<and> number = 0 then u\<lparr>su_in_list := True\<rparr>
                     else if primitive_number 1 then u\<lparr>su_more_events := Some (from_bytes body \<noteq> 0)\<rparr>
                     else u))
     else if kind = Kclose \<and> number = 0 then at_next (Inr (u\<lparr>su_in_list := False\<rparr>))
     else if primitive_number 0
     then at_next (chain (object_identifier body) (\<lambda>k. Inr (u\<lparr>su_summaries := su_summaries u @ [new_summary k]\<rparr>)))
     else if primitive_number 1 then at_next (set_current (\<lambda>c. c\<lparr>es_event_state := Some (from_bytes body)\<rparr>) u)
     else if primitive_number 2
     then at_next (chain (event_bits body) (\<lambda>bits. set_current (\<lambda>c. c\<lparr>es_acked_transitions := Some bits\<rparr>) u))
     else if primitive_number 5
     then at_next (chain (event_bits body) (\<lambda>bits. set_current (\<lambda>c. c\<lparr>es_event_enable := Some bits\<rparr>) u))
     else if kind = Kopen \<and> number = 3
     then chain (stamps_from octets 3 after []) (\<lambda>(stamps, position).
          chain (set_current (\<lambda>c. c\<lparr>es_time_stamps := Some stamps\<rparr>) u) (\<lambda>u.
          chain (read_tag octets position) (\<lambda>(_, _, _, _, next). Inr (u, next))))
     else if primitive_number 4 then at_next (set_current (\<lambda>c. c\<lparr>es_notify_type := Some (from_bytes body)\<rparr>) u)
     else if kind = Kopen \<and> number = 6
     then chain (priorities_from octets after []) (\<lambda>(priorities, next).
          chain (set_current (\<lambda>c. c\<lparr>es_priorities := Some priorities\<rparr>) u) (\<lambda>u. Inr (u, next)))
     else Inr (u, after))"

lemma summary_item_progress: "summary_item data (n, c, k, b, p) u = Inr (u', q) \<Longrightarrow> p \<le> q"
  by (auto simp: summary_item_def chain_eq_Inr Let_def split: if_splits
      dest!: stamps_progress read_tag_progress(2) priorities_progress)

function summaries_from :: "octets \<Rightarrow> nat \<Rightarrow> summaries \<Rightarrow> summaries result" where
  "summaries_from octets position u =
     (if position < length octets then
        chain (read_tag octets position) (\<lambda>t.
        chain (summary_item octets t u) (\<lambda>(u, next). summaries_from octets next u))
      else Inr u)"
  by pat_completeness auto
termination
  by (relation "measure (\<lambda>(octets, position, u). length octets - position)")
    (auto dest!: read_tag_progress summary_item_progress)

declare summaries_from.simps [simp del]

definition parse_event_summaries :: "octets \<Rightarrow> (event_summary list \<times> bool option) result" where
  "parse_event_summaries apdu =
     chain (summaries_from (drop 3 apdu) 0 \<lparr>su_summaries = [], su_more_events = None, su_in_list = False\<rparr>)
       (\<lambda>u. Inr (su_summaries u, su_more_events u))"

section \<open>Text\<close>

definition two_digits :: "nat \<Rightarrow> pystr" where
  "two_digits n = (if n < 10 then lit ''0'' else []) @ decimal_text n"

text \<open>One part of the f-string: an octet, formatted, and the separator after it.\<close>

definition text_part :: "octets \<Rightarrow> nat \<Rightarrow> (nat \<Rightarrow> pystr) \<Rightarrow> pystr \<Rightarrow> pystr result" where
  "text_part octets i form separator = chain (index octets i) (\<lambda>v. Inr (form (nat v) @ separator))"

definition date_time_text :: "(octets \<times> octets) option \<Rightarrow> pystr result" where
  "date_time_text date_time = (case date_time of
     None \<Rightarrow> Inr (lit ''none'')
   | Some (date, time) \<Rightarrow>
       if set (date @ time) = {0xFF} then Inr (lit ''unspecified'')
       else chain (collect (\<lambda>(octets, i, form, separator). text_part octets i form separator)
         [(date, 0, \<lambda>v. decimal_text (1900 + v), lit ''-''), (date, 1, two_digits, lit ''-''),
          (date, 2, two_digits, lit '' ''), (time, 0, two_digits, lit '':''), (time, 1, two_digits, lit '':''),
          (time, 2, two_digits, lit ''.''), (time, 3, two_digits, [])]) (\<lambda>parts. Inr (concat parts)))"

end
