(* ===== verification/Tag_Loops.thy ===== *)
theory Tag_Loops
  imports Wire_Alarm Codec_Apdu
begin

text \<open>
  How the parsers that walk over tags act on octets an encoder wrote: each piece of the octets
  takes the loop from one state to the next, wherever the piece stands, and pieces compose.
\<close>

section \<open>Pieces\<close>

definition loop_step :: "(octets \<Rightarrow> nat \<Rightarrow> 's \<Rightarrow> 's result) \<Rightarrow> octets \<Rightarrow> 's \<Rightarrow> 's \<Rightarrow> bool" where
  "loop_step loop x s t \<longleftrightarrow>
     (\<forall>pre post. loop (pre @ x @ post) (length pre) s = loop (pre @ x @ post) (length (pre @ x)) t)"

lemma loop_step_nil [simp]: "loop_step loop [] s s"
  by (simp add: loop_step_def)

lemma loop_step_append:
  assumes "loop_step loop x s t" "loop_step loop y t u"
  shows "loop_step loop (x @ y) s u"
  unfolding loop_step_def
proof (intro allI)
  fix pre post
  show "loop (pre @ (x @ y) @ post) (length pre) s = loop (pre @ (x @ y) @ post) (length (pre @ x @ y)) u"
    using assms(1) [unfolded loop_step_def, rule_format, of pre "y @ post"]
      assms(2) [unfolded loop_step_def, rule_format, of "pre @ x" post] by simp
qed

lemma loop_steps_concat:
  assumes "\<And>i. i < length xs \<Longrightarrow> loop_step loop (xs ! i) (s i) (s (Suc i))"
  shows "loop_step loop (concat xs) (s 0) (s (length xs))"
  using assms
proof (induction xs arbitrary: s)
  case (Cons x xs)
  have "loop_step loop x (s 0) (s 1)" using Cons.prems [of 0] by simp
  moreover have "loop_step loop (concat xs) (s 1) (s (Suc (length xs)))"
    using Cons.IH [of "\<lambda>i. s (Suc i)"] Cons.prems by force
  ultimately show ?case using loop_step_append by fastforce
qed simp

text \<open>A loop that stops at the end of its data returns the state its pieces lead to.\<close>

lemma loop_step_result:
  assumes "loop_step loop x s t" "\<And>data u. loop data (length data) u = Inr u"
  shows "loop (pre @ x) (length pre) s = Inr t"
  using assms(1) [unfolded loop_step_def, rule_format, of pre "[]"] assms(2) [of "pre @ x" t] by simp

section \<open>Pieces of tags\<close>

lemma walk_step:
  assumes "tag_of x = Some (n, c, k, b)" "\<And>p. f (n, c, k, b, p) s = Inr (Next t)"
  shows "loop_step (\<lambda>data. walk_tags data f) x s t"
  unfolding loop_step_def
proof (intro allI)
  fix pre post
  show "walk_tags (pre @ x @ post) f (length pre) s = walk_tags (pre @ x @ post) f (length (pre @ x)) t"
    using tag_of_nonempty [OF assms(1)]
    by (subst walk_tags.simps) (simp add: read_tag_of [OF assms(1)] assms(2) del: length_greater_0_conv)
qed

lemma constructed_body_nested:
  assumes "well_nested 0 vs" "tag_of y = Some (n, c, Kclose, b)"
  shows "constructed_body (pre @ concat vs @ y @ post) (length pre)
    = Inr (concat vs, length pre + length (concat vs) + length y)"
    "constructed_end (pre @ concat vs @ y @ post) (length pre) = Inr (length pre + length (concat vs) + length y)"
  using close_scan_nested [OF assms, of pre post] slice_append [of pre "concat vs" "y @ post"]
  by (simp_all add: constructed_body_def constructed_end_def)

lemma walk_inside:
  assumes "tag_of x = Some (n, c, Kopen, b)" "well_nested 0 vs" "tag_of y = Some (n', c', Kclose, b')"
    "\<And>p. f (n, c, Kopen, b, p) s = Inr (Inside g)" "g (concat vs) = Inr t"
  shows "loop_step (\<lambda>data. walk_tags data f) (x @ concat vs @ y) s t"
  unfolding loop_step_def
proof (intro allI)
  fix pre post
  let ?d = "pre @ (x @ concat vs @ y) @ post"
  have "read_tag ?d (length pre) = Inr (n, c, Kopen, b, length pre + length x)"
    using read_tag_of [OF assms(1), of pre "concat vs @ y @ post"] by simp
  moreover have "constructed_body ?d (length pre + length x)
      = Inr (concat vs, length pre + length x + length (concat vs) + length y)"
    using constructed_body_nested(1) [OF assms(2,3), of "pre @ x" post] by simp
  ultimately show "walk_tags ?d f (length pre) s = walk_tags ?d f (length (pre @ x @ concat vs @ y)) t"
    using tag_of_nonempty [OF assms(1)]
    by (subst walk_tags.simps) (simp add: assms(4,5) add.assoc del: length_greater_0_conv)
qed

lemma walk_end: "walk_tags data f (length data) s = Inr s"
  by (subst walk_tags.simps) simp

section \<open>Pieces of an event notification\<close>

lemma event_step_of:
  assumes "tag_of x = Some (n, c, k, b)"
    "\<And>pre post. event_item (pre @ (x @ y) @ post) (n, c, k, b, length (pre @ x)) s = Inr (t, length (pre @ x @ y))"
  shows "loop_step event_from (x @ y) s t"
  unfolding loop_step_def
proof (intro allI)
  fix pre post
  have "read_tag (pre @ (x @ y) @ post) (length pre) = Inr (n, c, k, b, length (pre @ x))"
    using read_tag_of [OF assms(1), of pre "y @ post"] by simp
  then show "event_from (pre @ (x @ y) @ post) (length pre) s = event_from (pre @ (x @ y) @ post) (length (pre @ x @ y)) t"
    using tag_of_nonempty [OF assms(1)] assms(2) [of pre post]
    by (subst event_from.simps) (simp del: length_greater_0_conv)
qed

lemma event_value_step:
  assumes "tag_of x = Some (n, True, Kvalue, b)" "event_field n b s = Inr t"
  shows "loop_step event_from x s t"
  using event_step_of [OF assms(1), of "[]" s t] assms(2) by (simp add: event_item_def)

lemma event_skip_step:
  assumes "tag_of x = Some (n, c, Kopen, b)" "n \<noteq> 3" "well_nested 0 vs" "tag_of y = Some (n', c', Kclose, b')"
  shows "loop_step event_from (x @ concat vs @ y) s s"
proof (rule event_step_of [OF assms(1)])
  fix pre post
  show "event_item (pre @ (x @ concat vs @ y) @ post) (n, c, Kopen, b, length (pre @ x)) s
      = Inr (s, length (pre @ x @ concat vs @ y))"
    using constructed_body_nested(2) [OF assms(3,4), of "pre @ x" post] assms(2) by (simp add: event_item_def)
qed

lemma event_from_end: "event_from data (length data) s = Inr s"
  by (subst event_from.simps) simp

text \<open>The dateTime form of a time stamp, as \<^verbatim>\<open>context_date_time\<close> writes it inside context tag 3.\<close>

lemma date_time_tags:
  fixes date time :: octets
  assumes "length date = 4" "length time = 4"
  shows "tag_of (0xA4 # date) = Some (10, False, Kvalue, date)" "tag_of (0xB4 # time) = Some (11, False, Kvalue, time)"
  using assms by (simp_all add: evaluate_tags)

lemma event_stamp_step:
  assumes "length date = 4" "length time = 4"
  shows "\<exists>x. context_date_time 3 (date, time) = Inr x
    \<and> loop_step event_from x s (s\<lparr>en_time_stamp := Some (date, time)\<rparr>)"
proof -
  obtain o3 c3 where b3: "opening_tag 3 = Inr o3" "tag_of o3 = Some (3, True, Kopen, [])"
    "closing_tag 3 = Inr c3" "tag_of c3 = Some (3, True, Kclose, [])" using brackets [of 3] by auto
  obtain o2 c2 where b2: "opening_tag 2 = Inr o2" "tag_of o2 = Some (2, True, Kopen, [])"
    "closing_tag 2 = Inr c2" "tag_of c2 = Some (2, True, Kclose, [])" using brackets [of 2] by auto
  let ?date = "0xA4 # date" and ?time = "0xB4 # time"
  note t = date_time_tags [OF assms]
  let ?y = "o2 @ ?date @ ?time @ c2 @ c3"
  have "context_date_time 3 (date, time) = Inr (o3 @ ?y)"
    by (simp add: context_date_time_def b2 b3 byte_def oct_def)
  moreover have "loop_step event_from (o3 @ ?y) s (s\<lparr>en_time_stamp := Some (date, time)\<rparr>)"
  proof (rule event_step_of [OF b3(2)])
    fix pre post
    let ?d = "pre @ (o3 @ ?y) @ post"
    have "read_tag ?d (length pre + length o3) = Inr (2, True, Kopen, [], length pre + length o3 + length o2)"
      by (rule read_tag_at [OF b2(2), of _ "pre @ o3" "?date @ ?time @ c2 @ c3 @ post"]) simp_all
    moreover have "read_tag ?d (length pre + length o3 + length o2)
        = Inr (10, False, Kvalue, date, length pre + length o3 + length o2 + length ?date)"
      by (rule read_tag_at [OF t(1), of _ "pre @ o3 @ o2" "?time @ c2 @ c3 @ post"]) simp_all
    moreover have "read_tag ?d (length pre + length o3 + length o2 + length ?date)
        = Inr (11, False, Kvalue, time, length pre + length o3 + length o2 + length ?date + length ?time)"
      by (rule read_tag_at [OF t(2), of _ "pre @ o3 @ o2 @ ?date" "c2 @ c3 @ post"]) simp_all
    moreover have "read_tag ?d (length pre + length o3 + length o2 + length ?date + length ?time)
        = Inr (2, True, Kclose, [], length pre + length o3 + length o2 + length ?date + length ?time + length c2)"
      by (rule read_tag_at [OF b2(4), of _ "pre @ o3 @ o2 @ ?date @ ?time" "c3 @ post"]) simp_all
    moreover have "read_tag ?d (length pre + length o3 + length o2 + length ?date + length ?time + length c2)
        = Inr (3, True, Kclose, [], length pre + length o3 + length o2 + length ?date + length ?time + length c2 + length c3)"
      by (rule read_tag_at [OF b3(4), of _ "pre @ o3 @ o2 @ ?date @ ?time @ c2" post]) simp_all
    ultimately show "event_item ?d (3, True, Kopen, [], length (pre @ o3)) s
        = Inr (s\<lparr>en_time_stamp := Some (date, time)\<rparr>, length (pre @ o3 @ ?y))"
      by (simp add: event_item_def read_time_stamp_def read_time_stamp_choice_def add.assoc)
  qed
  ultimately show ?thesis by blast
qed

end
