(* ===== verification/Wire_Client.thy ===== *)
theory Wire_Client
  imports Wire_Alarm
begin

text \<open>
  The confirmed-request client of the wire tests, \<^verbatim>\<open>wiretest/client.py\<close>: invoke identifiers, the
  retry loop it shares with \<^verbatim>\<open>workstation.py\<close>, the requests of \<^verbatim>\<open>ConfirmedServices\<close>, and \<^verbatim>\<open>who_is\<close>.
  Each attempt has an \<open>air\<close> of its own. The outermost None of a result is a wait that never ends;
  an exception is inside, beside the client it left behind.
\<close>

section \<open>The client\<close>

record client =
  cl_frames :: "frame list"
  cl_invoke_id :: int
  cl_retries :: int
  cl_timeout :: int
  cl_sent :: "(octets \<times> pystr \<times> int) list"

definition new_client :: "int \<Rightarrow> int \<Rightarrow> client" where
  "new_client retries timeout =
     \<lparr>cl_frames = [], cl_invoke_id = 0, cl_retries = retries, cl_timeout = timeout, cl_sent = []\<rparr>"

definition next_invoke_id :: "client \<Rightarrow> client" where
  "next_invoke_id c = c\<lparr>cl_invoke_id := (cl_invoke_id c + 1) mod 256\<rparr>"

definition client_send :: "octets \<Rightarrow> pystr \<times> int \<Rightarrow> client \<Rightarrow> client" where
  "client_send octets dest c = c\<lparr>cl_sent := cl_sent c @ [(octets, dest)]\<rparr>"

definition client_wait :: "air \<Rightarrow> (frame \<Rightarrow> bool result) \<Rightarrow> int \<Rightarrow> client \<Rightarrow> (client \<times> frame option result) option" where
  "client_wait a predicate seconds c =
     map_option (\<lambda>(frames, r). (c\<lparr>cl_frames := frames\<rparr>, r)) (wait_for a predicate seconds (cl_frames c))"

section \<open>The retry loop\<close>

text \<open>
  \<^verbatim>\<open>for attempt_number in range(...)\<close>: the number of \<^verbatim>\<open>[RETRY]\<close> lines grows with every attempt but
  the first, and the first frame ends the loop.
\<close>

fun attempts_loop ::
  "(nat \<Rightarrow> 's \<Rightarrow> ('s \<times> frame option result) option) \<Rightarrow> nat list \<Rightarrow> nat \<Rightarrow> 's
   \<Rightarrow> ('s \<times> nat \<times> frame option result) option" where
  "attempts_loop one [] lines s = Some (s, lines, Inr None)"
| "attempts_loop one (n # ns) lines s =
     (let lines = (if n \<noteq> 0 then Suc lines else lines) in
      case one n s of
        None \<Rightarrow> None
      | Some (s, Inl e) \<Rightarrow> Some (s, lines, Inl e)
      | Some (s, Inr (Some f)) \<Rightarrow> Some (s, lines, Inr (Some f))
      | Some (s, Inr None) \<Rightarrow> attempts_loop one ns lines s)"

definition send_with_retries ::
  "(nat \<Rightarrow> 's \<Rightarrow> ('s \<times> frame option result) option) \<Rightarrow> int \<Rightarrow> 's \<Rightarrow> ('s \<times> nat \<times> answer result) option" where
  "send_with_retries one retries s =
     map_option (\<lambda>(s, lines, r). (s, lines, chain r (\<lambda>f. Inr \<lparr>an_frame = f\<rparr>)))
       (attempts_loop one [0 ..< nat (1 + retries)] 0 s)"

section \<open>Requests\<close>

text \<open>Where a request goes: the address, and DNET and DADR when a router is to relay it.\<close>

record route =
  ro_ip :: pystr
  ro_port :: int
  ro_dnet :: "int option"
  ro_dadr :: octets

definition request_datagram :: "octets \<Rightarrow> route \<Rightarrow> octets result" where
  "request_datagram apdu r =
     chain (npdu apdu (npdu_defaults\<lparr>na_dnet := ro_dnet r, na_dadr := ro_dadr r, na_expecting_reply := True\<rparr>))
       (\<lambda>n. bvlc n False)"

text \<open>The frames \<^verbatim>\<open>wait_for\<close> takes as the answer to an invoke identifier.\<close>

definition answers_request :: "int \<Rightarrow> frame \<Rightarrow> bool result" where
  "answers_request invoke_id f =
     (if f_network_message f = None
         \<and> pdu_type f \<in> Some ` {PDU_COMPLEX_ACK, PDU_SIMPLE_ACK, PDU_ERROR, PDU_REJECT, PDU_ABORT}
      then chain (frame_invoke_id f) (\<lambda>i. Inr (i = Some invoke_id))
      else Inr False)"

definition request_attempt ::
  "octets \<Rightarrow> route \<Rightarrow> int \<Rightarrow> int \<Rightarrow> (nat \<Rightarrow> air) \<Rightarrow> nat \<Rightarrow> client \<Rightarrow> (client \<times> frame option result) option" where
  "request_attempt octets r invoke_id seconds airs n c =
     client_wait (airs n) (answers_request invoke_id) seconds (client_send octets (ro_ip r, ro_port r) c)"

definition seconds_for :: "int option \<Rightarrow> client \<Rightarrow> int" where
  "seconds_for timeout c = (case timeout of None \<Rightarrow> cl_timeout c | Some t \<Rightarrow> t)"

definition client_request ::
  "(int \<Rightarrow> octets result) \<Rightarrow> route \<Rightarrow> int option \<Rightarrow> (nat \<Rightarrow> air) \<Rightarrow> client
   \<Rightarrow> (client \<times> nat \<times> answer result) option" where
  "client_request build_apdu r timeout airs c =
     (let c = (next_invoke_id c)\<lparr>cl_frames := []\<rparr>; invoke_id = cl_invoke_id c in
      case chain (build_apdu invoke_id) (\<lambda>apdu. request_datagram apdu r) of
        Inl e \<Rightarrow> Some (c, 0, Inl e)
      | Inr octets \<Rightarrow>
          send_with_retries (request_attempt octets r invoke_id (seconds_for timeout c) airs) (cl_retries c) c)"

text \<open>The calls \<^verbatim>\<open>Client\<close> and \<^verbatim>\<open>Workstation\<close> share: each is a request with the APDU it builds.\<close>

type_synonym 's requester = "(int \<Rightarrow> octets result) \<Rightarrow> 's"

definition client_read_property :: "'s requester \<Rightarrow> int \<Rightarrow> int \<Rightarrow> int \<Rightarrow> int option \<Rightarrow> 's" where
  "client_read_property request object_type inst property_identifier array_index =
     request (\<lambda>invoke_id. read_property_request invoke_id object_type inst property_identifier array_index)"

definition client_write_property ::
  "'s requester \<Rightarrow> int \<Rightarrow> int \<Rightarrow> int \<Rightarrow> octets \<Rightarrow> int option \<Rightarrow> int option \<Rightarrow> 's" where
  "client_write_property request object_type inst property_identifier value_octets priority array_index =
     request (\<lambda>invoke_id. write_property_request invoke_id object_type inst property_identifier value_octets
                priority array_index)"

definition client_read_property_multiple :: "'s requester \<Rightarrow> (int \<times> int \<times> (int \<times> int option) list) list \<Rightarrow> 's" where
  "client_read_property_multiple request specifications =
     request (\<lambda>invoke_id. read_property_multiple_request invoke_id specifications)"

definition client_device_communication_control :: "'s requester \<Rightarrow> int \<Rightarrow> pystr option \<Rightarrow> int option \<Rightarrow> 's" where
  "client_device_communication_control request enable_disable password minutes =
     request (\<lambda>invoke_id. device_communication_control_request invoke_id enable_disable password minutes)"

section \<open>Who-Is\<close>

definition announces :: "int \<Rightarrow> frame \<Rightarrow> bool result" where
  "announces device_instance f =
     chain (i_am_device_instance (f_payload f)) (\<lambda>i. Inr (i = Some device_instance))"

definition who_is_attempt ::
  "int \<Rightarrow> pystr \<times> int \<Rightarrow> int \<Rightarrow> (nat \<Rightarrow> air) \<Rightarrow> nat \<Rightarrow> client \<Rightarrow> (client \<times> frame option result) option" where
  "who_is_attempt device_instance dest seconds airs n c =
     (let c = c\<lparr>cl_frames := []\<rparr> in
      case chain (who_is (Some device_instance) (Some device_instance)) (\<lambda>apdu.
             chain (npdu apdu npdu_defaults) (\<lambda>n. bvlc n False)) of
        Inl e \<Rightarrow> Some (c, Inl e)
      | Inr octets \<Rightarrow> client_wait (airs n) (announces device_instance) seconds (client_send octets dest c))"

definition client_who_is ::
  "int \<Rightarrow> pystr \<times> int \<Rightarrow> int option \<Rightarrow> int option \<Rightarrow> (nat \<Rightarrow> air) \<Rightarrow> client
   \<Rightarrow> (client \<times> nat \<times> frame option result) option" where
  "client_who_is device_instance dest attempts timeout airs c =
     (let attempts = (case attempts of None \<Rightarrow> 1 + cl_retries c | Some n \<Rightarrow> n) in
      attempts_loop (who_is_attempt device_instance dest (seconds_for timeout c) airs) [0 ..< nat attempts] 0 c)"

section \<open>The retry loop sends until it is answered\<close>

text \<open>Attempts that all return make a loop that returns.\<close>

lemma attempts_return:
  assumes "\<And>n s. \<exists>t r. one n s = Some (t, r)"
  shows "\<exists>t lines r. attempts_loop one ns k s = Some (t, lines, r)"
proof (induction ns arbitrary: k s)
  case (Cons n ns)
  obtain t r where "one n s = Some (t, r)" using assms by blast
  with Cons.IH show ?case by (auto simp: Let_def split: sum.split option.split)
qed simp

text \<open>
  Attempts that each send the datagram \<open>x\<close> once: the loop sends it as often as it prints, and once
  more, and stops early only for an answer or an exception.
\<close>

lemma attempts_send:
  assumes "\<And>n s t r. one n s = Some (t, r) \<Longrightarrow> cl_sent t = cl_sent s @ [x] \<and> cl_invoke_id t = cl_invoke_id s
      \<and> (\<forall>f. r = Inr (Some f) \<longrightarrow> Q f)"
    and "attempts_loop one [k ..< k + m] lines s = Some (t, lines', r)"
  shows "\<exists>j \<le> m. cl_sent t = cl_sent s @ replicate j x \<and> lines' = lines + (if k = 0 then j - 1 else j)
    \<and> cl_invoke_id t = cl_invoke_id s \<and> (r = Inr None \<longrightarrow> j = m) \<and> (\<forall>f. r = Inr (Some f) \<longrightarrow> Q f)"
  using assms(2)
proof (induction m arbitrary: k lines s)
  case 0
  then show ?case by auto
next
  case (Suc m)
  define ns where "ns = [Suc k ..< Suc k + m]"
  have "[k ..< k + Suc m] = k # ns" unfolding ns_def by (simp add: upt_rec)
  with Suc.prems have loop: "attempts_loop one (k # ns) lines s = Some (t, lines', r)" by simp
  then obtain u q where u: "one k s = Some (u, q)"
    by (cases "one k s") (auto simp: Let_def)
  note step = assms(1) [OF u]
  show ?case
  proof (cases "q = Inr None")
    case True
    with loop u have "attempts_loop one ns (if k \<noteq> 0 then Suc lines else lines) u = Some (t, lines', r)"
      by (simp add: Let_def)
    from Suc.IH [OF this [unfolded ns_def]] step obtain j where j: "j \<le> m" "cl_sent t = cl_sent u @ replicate j x"
      "lines' = (if k \<noteq> 0 then Suc lines else lines) + j" "cl_invoke_id t = cl_invoke_id u" "r = Inr None \<longrightarrow> j = m"
      "\<forall>f. r = Inr (Some f) \<longrightarrow> Q f" by auto
    with step show ?thesis by (intro exI [of _ "Suc j"]) simp
  next
    case False
    with loop u have "t = u" "r = q" "lines' = (if k \<noteq> 0 then Suc lines else lines)"
      by (auto simp: Let_def split: sum.splits option.splits)
    with step False show ?thesis by (intro exI [of _ 1]) simp
  qed
qed

lemma request_attempt_sends:
  assumes "request_attempt octets r invoke_id seconds airs n c = Some (d, x)"
  shows "cl_sent d = cl_sent c @ [(octets, ro_ip r, ro_port r)] \<and> cl_invoke_id d = cl_invoke_id c
    \<and> (\<forall>f. x = Inr (Some f) \<longrightarrow> f_ok f \<and> answers_request invoke_id f = Inr True)"
proof -
  from assms obtain fs where w: "wait_for (airs n) (answers_request invoke_id) seconds (cl_frames c) = Some (fs, x)"
    "d = (client_send octets (ro_ip r, ro_port r) c)\<lparr>cl_frames := fs\<rparr>"
    by (auto simp: request_attempt_def client_wait_def client_send_def)
  with wait_for_result(2) [OF w(1)] first_match_Some show ?thesis by (fastforce simp: client_send_def)
qed

text \<open>
  C19. A confirmed request ends: when the clock of every attempt reaches its deadline, \<^verbatim>\<open>request\<close> returns.
  It advances the invoke identifier by one modulo 256, sends the same datagram to the same address at most
  \<open>1 + retries\<close> times, prints one \<^verbatim>\<open>[RETRY]\<close> line less than it sends, gives up only after all of them, and
  returns as answered only a decoded frame with its own invoke identifier.
\<close>

theorem request_terminates:
  assumes "\<forall>n. \<exists>k > 0. clock (airs n) 0 + seconds_for timeout c \<le> clock (airs n) k"
    "build_apdu ((cl_invoke_id c + 1) mod 256) = Inr apdu" "request_datagram apdu r = Inr octets"
  shows "\<exists>d lines x m. client_request build_apdu r timeout airs c = Some (d, lines, x)
    \<and> cl_invoke_id d = (cl_invoke_id c + 1) mod 256 \<and> m \<le> nat (1 + cl_retries c)
    \<and> cl_sent d = cl_sent c @ replicate m (octets, ro_ip r, ro_port r) \<and> lines = m - 1
    \<and> (x = Inr \<lparr>an_frame = None\<rparr> \<longrightarrow> m = nat (1 + cl_retries c))
    \<and> (\<forall>f. x = Inr \<lparr>an_frame = Some f\<rparr> \<longrightarrow>
         f_ok f \<and> answers_request ((cl_invoke_id c + 1) mod 256) f = Inr True)"
proof -
  let ?i = "(cl_invoke_id c + 1) mod 256"
  let ?c = "(next_invoke_id c)\<lparr>cl_frames := []\<rparr>"
  let ?one = "request_attempt octets r ?i (seconds_for timeout c) airs"
  have c: "cl_invoke_id ?c = ?i" "cl_sent ?c = cl_sent c" "cl_retries ?c = cl_retries c"
    "seconds_for timeout ?c = seconds_for timeout c"
    by (simp_all add: next_invoke_id_def seconds_for_def split: option.split)
  have "\<And>n s. \<exists>t q. ?one n s = Some (t, q)"
  proof -
    fix n s
    obtain fs q where "wait_for (airs n) (answers_request ?i) (seconds_for timeout c)
        (cl_frames (client_send octets (ro_ip r, ro_port r) s)) = Some (fs, q)"
      using wait_for_ends assms(1) by blast
    then show "\<exists>t q. ?one n s = Some (t, q)" by (simp add: request_attempt_def client_wait_def)
  qed
  from attempts_return [of ?one, OF this] obtain d lines q where
    loop: "attempts_loop ?one [0 ..< 0 + nat (1 + cl_retries c)] 0 ?c = Some (d, lines, q)" by blast
  have result: "client_request build_apdu r timeout airs c = Some (d, lines, chain q (\<lambda>f. Inr \<lparr>an_frame = f\<rparr>))"
    using loop assms(2,3) c by (simp add: client_request_def Let_def send_with_retries_def)
  from attempts_send [OF _ loop, of "(octets, ro_ip r, ro_port r)" "\<lambda>f. f_ok f \<and> answers_request ?i f = Inr True"]
    request_attempt_sends obtain m where m: "m \<le> nat (1 + cl_retries c)"
    "cl_sent d = cl_sent c @ replicate m (octets, ro_ip r, ro_port r)" "lines = m - 1" "cl_invoke_id d = ?i"
    "q = Inr None \<longrightarrow> m = nat (1 + cl_retries c)"
    "\<forall>f. q = Inr (Some f) \<longrightarrow> f_ok f \<and> answers_request ?i f = Inr True"
    using c by fastforce
  have "chain q (\<lambda>f. Inr \<lparr>an_frame = f\<rparr>) = Inr \<lparr>an_frame = z\<rparr> \<longleftrightarrow> q = Inr z" for z
    by (auto simp: chain_eq_Inr)
  with result m show ?thesis by blast
qed

lemma request_terminates_witness:
  "\<exists>octets d lines x m. client_request (\<lambda>n. read_property_request n 8 389001 77 None)
      \<lparr>ro_ip = lit ''127.0.0.1'', ro_port = 47808, ro_dnet = None, ro_dadr = []\<rparr> None
      (\<lambda>_. \<lparr>clock = int, receipts = (\<lambda>_. Timed_out)\<rparr>) (new_client 2 3) = Some (d, lines, x)
    \<and> cl_invoke_id d = 1 \<and> m \<le> 3 \<and> lines = m - 1
    \<and> cl_sent d = replicate m (octets, lit ''127.0.0.1'', 47808)"
proof -
  let ?r = "\<lparr>ro_ip = lit ''127.0.0.1'', ro_port = 47808, ro_dnet = None, ro_dadr = []\<rparr>"
  have four: "(4 :: nat) = Suc (Suc (Suc (Suc 0)))" by simp
  have device: "be_bytes 4 33943433 = [2, 5, 239, 137]" by (subst four) (simp add: oct_def)
  have build: "read_property_request 1 8 389001 77 None = Inr
      [0, 5, 1, 12, 0x0C, 0x02, 0x05, 0xEF, 0x89, 0x19, 0x4D]"
    by (simp add: read_property_request_def confirmed_request_def byte_def bytes_of_def context_object_id_def
        object_id_def pack_u_def context_unsigned_def unsigned_octets_def to_bytes_def oct_def device)
  let ?a = "npdu_defaults\<lparr>na_dnet := None, na_dadr := [], na_expecting_reply := True\<rparr>"
  have a: "npdu_valid ?a" by (simp add: npdu_valid_def npdu_defaults_def)
  let ?n = "npdu_octets [0, 5, 1, 12, 0x0C, 0x02, 0x05, 0xEF, 0x89, 0x19, 0x4D] ?a"
  have "length ?n < 65532" by (simp add: npdu_octets_def npdu_defaults_def address_octets_def)
  from frame_of_npdu_octets [OF a this, of False] obtain octets where "bvlc ?n False = Inr octets" by blast
  then have octets: "request_datagram [0, 5, 1, 12, 0x0C, 0x02, 0x05, 0xEF, 0x89, 0x19, 0x4D] ?r = Inr octets"
    by (simp add: request_datagram_def npdu_eq [OF a])
  have "\<forall>n. \<exists>k > 0. clock ((\<lambda>_. \<lparr>clock = int, receipts = (\<lambda>_. Timed_out)\<rparr>) n) 0 + seconds_for None (new_client 2 3)
      \<le> clock ((\<lambda>_. \<lparr>clock = int, receipts = (\<lambda>_. Timed_out)\<rparr>) n) k"
    by (intro allI exI [of _ 3]) (simp add: seconds_for_def new_client_def)
  from request_terminates [OF this, of "\<lambda>n. read_property_request n 8 389001 77 None", OF _ octets]
  show ?thesis using build by (fastforce simp: new_client_def)
qed

end
