(* ===== verification/Wire_Workstation.thy ===== *)
theory Wire_Workstation
  imports Wire_Client
begin

text \<open>
  \<^verbatim>\<open>wiretest/workstation.py\<close>: a client whose background thread keeps the event notifications it
  receives, acknowledges the confirmed ones, and hands the other answers to the request that waits
  for their invoke identifier.

  The thread and a waiting request share the state. An interleaving of the two is what the thread
  receives before each look of the request at \<^verbatim>\<open>_responses\<close>, beside the clock readings (\<open>shift\<close>).
  An exception that leaves \<^verbatim>\<open>_serve\<close> ends the thread (\<open>ws_serving\<close>).
\<close>

section \<open>The serving thread\<close>

record workstation =
  ws_answer_notifications :: bool
  ws_retries :: int
  ws_timeout :: int
  ws_notifications :: "event_notification_data list"
  ws_responses :: "frame list"
  ws_invoke_id :: int
  ws_serving :: bool
  ws_sent :: "(octets \<times> pystr \<times> int) list"

definition new_workstation :: "bool \<Rightarrow> int \<Rightarrow> int \<Rightarrow> workstation" where
  "new_workstation answer_notifications retries timeout =
     \<lparr>ws_answer_notifications = answer_notifications, ws_retries = retries, ws_timeout = timeout,
      ws_notifications = [], ws_responses = [], ws_invoke_id = 0, ws_serving = True, ws_sent = []\<rparr>"

abbreviation RESPONSE_TYPES :: "int set" where
  "RESPONSE_TYPES \<equiv> {PDU_SIMPLE_ACK, PDU_COMPLEX_ACK, PDU_ERROR, PDU_REJECT, PDU_ABORT}"

definition ws_send :: "octets \<Rightarrow> pystr \<times> int \<Rightarrow> workstation \<Rightarrow> workstation" where
  "ws_send octets dest w = w\<lparr>ws_sent := ws_sent w @ [(octets, dest)]\<rparr>"

definition keep_notification :: "event_notification_data \<Rightarrow> workstation \<Rightarrow> workstation" where
  "keep_notification n w = w\<lparr>ws_notifications := ws_notifications w @ [n]\<rparr>"

text \<open>The acknowledgement of a notification: None as an invoke identifier is a TypeError.\<close>

definition notification_ack :: "int option \<Rightarrow> octets result" where
  "notification_ack invoke_id = (case invoke_id of None \<Rightarrow> Inl TypeError
     | Some i \<Rightarrow> chain (simple_ack i SERVICE_CONFIRMED_EVENT_NOTIFICATION) (\<lambda>apdu.
         chain (npdu apdu npdu_defaults) (\<lambda>n. bvlc n False)))"

text \<open>One round of \<^verbatim>\<open>_serve\<close>: the state it leaves, and the exception that ends the thread.\<close>

definition ws_receive :: "octets \<times> pystr \<times> int \<Rightarrow> workstation \<Rightarrow> workstation \<times> unit result" where
  "ws_receive datagram w =
     (case datagram of (data, source) \<Rightarrow>
      case Frame data source of
        Inl e \<Rightarrow> (w, Inl e)
      | Inr f \<Rightarrow>
          if \<not> f_ok f \<or> f_network_message f \<noteq> None then (w, Inr ())
          else case is_event_notification f of
            Inl e \<Rightarrow> (w, Inl e)
          | Inr True \<Rightarrow>
              (case EventNotification f of
                 Inl e \<Rightarrow> (w, Inl e)
               | Inr n \<Rightarrow>
                   let w = keep_notification n w in
                   if en_confirmed n \<and> ws_answer_notifications w
                   then (case chain (frame_invoke_id f) notification_ack of
                           Inl e \<Rightarrow> (w, Inl e)
                         | Inr octets \<Rightarrow> (ws_send octets source w, Inr ()))
                   else (w, Inr ()))
          | Inr False \<Rightarrow>
              if pdu_type f \<in> Some ` RESPONSE_TYPES
              then (w\<lparr>ws_responses := ws_responses w @ [f]\<rparr>, Inr ()) else (w, Inr ()))"

fun ws_serve :: "(octets \<times> pystr \<times> int) list \<Rightarrow> workstation \<Rightarrow> workstation" where
  "ws_serve [] w = w"
| "ws_serve (d # ds) w =
     (if \<not> ws_serving w then w
      else case ws_receive d w of
        (w, Inl e) \<Rightarrow> w\<lparr>ws_serving := False\<rparr>
      | (w, Inr _) \<Rightarrow> ws_serve ds w)"

definition notifications_since :: "nat \<Rightarrow> workstation \<Rightarrow> event_notification_data list" where
  "notifications_since after w = drop after (ws_notifications w)"

definition mark :: "workstation \<Rightarrow> nat" where
  "mark w = length (ws_notifications w)"

section \<open>Waiting\<close>

record shift =
  sh_clock :: "nat \<Rightarrow> int"
  sh_arrivals :: "nat \<Rightarrow> (octets \<times> pystr \<times> int) list"

fun first_such :: "('a \<Rightarrow> bool result) \<Rightarrow> 'a list \<Rightarrow> 'a option result" where
  "first_such predicate [] = Inr None"
| "first_such predicate (x # xs) =
     chain (predicate x) (\<lambda>matches. if matches then Inr (Some x) else first_such predicate xs)"

text \<open>Looking until something is there or the time is up; the k-th look finds what the thread has kept by then.\<close>

partial_function (option) look_loop ::
  "shift \<Rightarrow> (workstation \<Rightarrow> 'a option result) \<Rightarrow> int \<Rightarrow> nat \<Rightarrow> workstation \<Rightarrow> (workstation \<times> 'a option result) option" where
  "look_loop sh look deadline k w =
     (let w = ws_serve (sh_arrivals sh k) w in
      case look w of
        Inl e \<Rightarrow> Some (w, Inl e)
      | Inr (Some x) \<Rightarrow> Some (w, Inr (Some x))
      | Inr None \<Rightarrow>
          if deadline - sh_clock sh (Suc k) \<le> 0 then Some (w, Inr None)
          else look_loop sh look deadline (Suc k) w)"

definition wait_for_notification ::
  "shift \<Rightarrow> (event_notification_data \<Rightarrow> bool result) \<Rightarrow> int \<Rightarrow> nat \<Rightarrow> workstation
   \<Rightarrow> (workstation \<times> event_notification_data option result) option" where
  "wait_for_notification sh predicate seconds after w =
     look_loop sh (\<lambda>w. first_such predicate (notifications_since after w)) (sh_clock sh 0 + seconds) 0 w"

section \<open>Requests\<close>

definition response_to :: "int \<Rightarrow> frame \<Rightarrow> bool result" where
  "response_to invoke_id f = chain (frame_invoke_id f) (\<lambda>i. Inr (i = Some invoke_id))"

text \<open>The invoke identifier is taken and its old responses are dropped.\<close>

definition ws_next_invoke_id :: "workstation \<Rightarrow> workstation \<times> unit result" where
  "ws_next_invoke_id w =
     (let w = w\<lparr>ws_invoke_id := (ws_invoke_id w + 1) mod 256\<rparr> in
      case collect (\<lambda>f. chain (response_to (ws_invoke_id w) f) (\<lambda>b. Inr (if b then [] else [f]))) (ws_responses w) of
        Inl e \<Rightarrow> (w, Inl e)
      | Inr kept \<Rightarrow> (w\<lparr>ws_responses := concat kept\<rparr>, Inr ()))"

definition ws_attempt ::
  "octets \<Rightarrow> pystr \<times> int \<Rightarrow> int \<Rightarrow> int \<Rightarrow> (nat \<Rightarrow> shift) \<Rightarrow> nat \<Rightarrow> workstation
   \<Rightarrow> (workstation \<times> frame option result) option" where
  "ws_attempt octets dest invoke_id seconds shifts n w =
     map_option (\<lambda>(w, found). case found of
         Inr (Some f) \<Rightarrow> (w\<lparr>ws_responses := remove1 f (ws_responses w)\<rparr>, found)
       | _ \<Rightarrow> (w, found))
       (look_loop (shifts n) (\<lambda>w. first_such (response_to invoke_id) (ws_responses w))
          (sh_clock (shifts n) 0 + seconds) 0 (ws_send octets dest w))"

definition ws_request ::
  "(int \<Rightarrow> octets result) \<Rightarrow> pystr \<times> int \<Rightarrow> int option \<Rightarrow> (nat \<Rightarrow> shift) \<Rightarrow> workstation
   \<Rightarrow> (workstation \<times> nat \<times> answer result) option" where
  "ws_request build_apdu dest timeout shifts w =
     (case ws_next_invoke_id w of
        (w, Inl e) \<Rightarrow> Some (w, 0, Inl e)
      | (w, Inr _) \<Rightarrow>
          let invoke_id = ws_invoke_id w; seconds = (case timeout of None \<Rightarrow> ws_timeout w | Some t \<Rightarrow> t) in
          case chain (build_apdu invoke_id) (\<lambda>apdu.
                 chain (npdu apdu (npdu_defaults\<lparr>na_expecting_reply := True\<rparr>)) (\<lambda>n. bvlc n False)) of
            Inl e \<Rightarrow> Some (w, 0, Inl e)
          | Inr octets \<Rightarrow> send_with_retries (ws_attempt octets dest invoke_id seconds shifts) (ws_retries w) w)"

definition ws_send_unconfirmed :: "octets \<Rightarrow> pystr \<times> int \<Rightarrow> workstation \<Rightarrow> workstation \<times> unit result" where
  "ws_send_unconfirmed apdu dest w =
     (case chain (npdu apdu npdu_defaults) (\<lambda>n. bvlc n False) of
        Inl e \<Rightarrow> (w, Inl e) | Inr octets \<Rightarrow> (ws_send octets dest w, Inr ()))"

definition ws_announce :: "int \<Rightarrow> int \<Rightarrow> pystr \<times> int \<Rightarrow> workstation \<Rightarrow> workstation \<times> unit result" where
  "ws_announce device_instance vendor_identifier dest w =
     (case i_am device_instance vendor_identifier 1476 3 of
        Inl e \<Rightarrow> (w, Inl e) | Inr apdu \<Rightarrow> ws_send_unconfirmed apdu dest w)"

section \<open>Every wait ends\<close>

lemma look_loop_returns:
  assumes "k < m" "deadline \<le> sh_clock sh m"
  shows "\<exists>v x. look_loop sh look deadline k w = Some (v, x)"
  using assms
proof (induction "m - k" arbitrary: k w)
  case (Suc n)
  show ?case
  proof (cases "m = Suc k")
    case True
    with Suc.prems show ?thesis
      by (subst look_loop.simps) (simp add: Let_def split: sum.split option.split)
  next
    case False
    then have "n = m - Suc k" "Suc k < m" using Suc by simp_all
    from Suc.hyps(1) [OF this(1,2) Suc.prems(2)] show ?thesis
      by (subst look_loop.simps) (simp add: Let_def split: sum.split option.split)
  qed
qed simp

end
