(* ===== verification/Wire_Peer.thy ===== *)
theory Wire_Peer
  imports Codec_Errors
begin

text \<open>
  The simulated peers of the wire tests, \<^verbatim>\<open>wiretest/peer.py\<close>: \<^verbatim>\<open>SimulatedDevice\<close>, which answers
  ReadProperty of its Device object and Who-Is, and \<^verbatim>\<open>SimulatedServer\<close>, which adds objects a test
  controls, ReadPropertyMultiple, WriteProperty with a priority array, and planned failures. The
  subclass is a record extension, and \<^verbatim>\<open>self._answer\<close>, which the serving thread calls through the
  object, is an argument of \<^verbatim>\<open>serve_datagram\<close>.

  A handler returns the state with its result, because what it has written down before an exception
  stays written down. An exception that leaves \<^verbatim>\<open>_serve\<close> ends the thread (\<^verbatim>\<open>serve\<close>).
\<close>

section \<open>Effects\<close>

text \<open>A computation that does not change the state, in a handler that does.\<close>

definition attempt :: "'a result \<Rightarrow> 's \<Rightarrow> ('a \<Rightarrow> 's \<times> 'b result) \<Rightarrow> 's \<times> 'b result" where
  "attempt m s k = (case m of Inl e \<Rightarrow> (s, Inl e) | Inr x \<Rightarrow> k x)"

lemma attempt_simps [simp]: "attempt (Inl e) s k = (s, Inl e)" "attempt (Inr x) s k = k x"
  by (simp_all add: attempt_def)

definition respond :: "octets result \<Rightarrow> octets option result" where
  "respond m = chain m (\<lambda>apdu. Inr (Some apdu))"

lemma respond_simps [simp]: "respond (Inr x) = Inr (Some x)" "respond (Inl e) = Inl e"
  by (simp_all add: respond_def)

text \<open>The invoke identifier as an element of \<^verbatim>\<open>bytes([...])\<close>, where None is a TypeError.\<close>

definition request_invoke_id :: "frame \<Rightarrow> int result" where
  "request_invoke_id f = chain (frame_invoke_id f) (\<lambda>i.
     case i of None \<Rightarrow> Inl TypeError | Some n \<Rightarrow> Inr n)"

section \<open>SimulatedDevice\<close>

record simulated_device =
  sd_device_instance :: int
  sd_object_name :: pystr
  sd_vendor_identifier :: int
  sd_received :: "frame list"
  sd_received_on_broadcast :: "frame list"

definition new_device :: "int \<Rightarrow> pystr \<Rightarrow> int \<Rightarrow> simulated_device" where
  "new_device device_instance name vendor_identifier =
     \<lparr>sd_device_instance = device_instance, sd_object_name = name, sd_vendor_identifier = vendor_identifier,
      sd_received = [], sd_received_on_broadcast = []\<rparr>"

definition send_apdu :: "octets \<Rightarrow> octets result" where
  "send_apdu apdu = chain (npdu apdu npdu_defaults) (\<lambda>n. bvlc n False)"

definition simple_acks :: "'a simulated_device_scheme \<Rightarrow> int \<Rightarrow> (int option \<times> pystr \<times> int) list result" where
  "simple_acks d service = chain (collect (\<lambda>f.
       if f_ok f \<and> pdu_type f = Some PDU_SIMPLE_ACK
       then chain (frame_service f) (\<lambda>s.
              if s = Some service then chain (frame_invoke_id f) (\<lambda>i. Inr [(i, f_source f)]) else Inr [])
       else Inr []) (sd_received d)) (\<lambda>found. Inr (concat found))"

definition device_read_property :: "'a simulated_device_scheme \<Rightarrow> frame \<Rightarrow> octets option result" where
  "device_read_property d f =
     chain (parse_read_property_request (f_payload f) False) (\<lambda>request.
     case request of
       None \<Rightarrow> Inr None
     | Some (object_type, inst, property_identifier, _) \<Rightarrow>
         chain (request_invoke_id f) (\<lambda>invoke_id.
         if object_type \<noteq> OBJECT_TYPE_DEVICE \<or> inst \<notin> {sd_device_instance d, MAX_INSTANCE}
         then respond (error_pdu invoke_id SERVICE_READ_PROPERTY ERROR_CLASS_OBJECT ERROR_CODE_UNKNOWN_OBJECT)
         else if property_identifier = PROPERTY_OBJECT_NAME
         then respond (chain (application_character_string (sd_object_name d))
                (read_property_ack invoke_id OBJECT_TYPE_DEVICE (sd_device_instance d) property_identifier))
         else if property_identifier = PROPERTY_OBJECT_IDENTIFIER
         then respond (chain (application_object_id OBJECT_TYPE_DEVICE (sd_device_instance d))
                (read_property_ack invoke_id OBJECT_TYPE_DEVICE (sd_device_instance d) property_identifier))
         else respond (error_pdu invoke_id SERVICE_READ_PROPERTY ERROR_CLASS_PROPERTY ERROR_CODE_UNKNOWN_PROPERTY)))"

definition who_is_limits :: "octets \<Rightarrow> int list result" where
  "who_is_limits octets =
     for_tags octets (\<lambda>_ (number, is_context, kind, body, _) limits.
       Inr (if kind = Kvalue then limits @ [from_bytes body] else limits)) 0 []"

definition device_who_is :: "'a simulated_device_scheme \<Rightarrow> frame \<Rightarrow> octets option result" where
  "device_who_is d f = chain (who_is_limits (drop 2 (f_payload f))) (\<lambda>limits.
     if length limits = 2 \<and> \<not> (limits ! 0 \<le> sd_device_instance d \<and> sd_device_instance d \<le> limits ! 1)
     then Inr None
     else respond (i_am (sd_device_instance d) (sd_vendor_identifier d) 1476 3))"

definition device_answer :: "'a simulated_device_scheme \<Rightarrow> frame \<Rightarrow> octets option result" where
  "device_answer d f =
     (if pdu_type f = Some PDU_CONFIRMED_REQUEST
      then chain (frame_service f) (\<lambda>service.
             if service = Some SERVICE_READ_PROPERTY then device_read_property d f else Inr None)
      else if pdu_type f = Some PDU_UNCONFIRMED_REQUEST
      then chain (frame_service f) (\<lambda>service.
             if service = Some SERVICE_WHO_IS then device_who_is d f else Inr None)
      else Inr None)"

text \<open>
  \<^verbatim>\<open>_reply\<close>: back to the sender, and through the router that relayed the request to the network
  address it came from.
\<close>

definition reply_npdu :: "frame \<Rightarrow> npdu_args" where
  "reply_npdu request =
     (case f_snet request of
        None \<Rightarrow> npdu_defaults
      | Some snet \<Rightarrow> npdu_defaults\<lparr>na_dnet := Some snet, na_dadr := f_sadr request\<rparr>)"

definition device_reply :: "frame \<Rightarrow> octets \<Rightarrow> (octets \<times> pystr \<times> int) result" where
  "device_reply request apdu =
     chain (npdu apdu (reply_npdu request)) (\<lambda>npdu_octets.
     chain (bvlc npdu_octets False) (\<lambda>datagram. Inr (datagram, f_source request)))"

text \<open>A datagram with its source and whether it arrived on the broadcast socket.\<close>

type_synonym arrival = "octets \<times> (pystr \<times> int) \<times> bool"

definition keep_frame :: "frame \<Rightarrow> bool \<Rightarrow> 'a simulated_device_scheme \<Rightarrow> 'a simulated_device_scheme" where
  "keep_frame f on_broadcast d =
     (let d = d\<lparr>sd_received := sd_received d @ [f]\<rparr>
      in if on_broadcast then d\<lparr>sd_received_on_broadcast := sd_received_on_broadcast d @ [f]\<rparr> else d)"

definition serve_datagram ::
  "('a simulated_device_scheme \<Rightarrow> frame \<Rightarrow> 'a simulated_device_scheme \<times> octets option result)
   \<Rightarrow> 'a simulated_device_scheme \<Rightarrow> arrival
   \<Rightarrow> 'a simulated_device_scheme \<times> (octets \<times> pystr \<times> int) option result" where
  "serve_datagram answer d arrival =
     (case arrival of (data, source, on_broadcast) \<Rightarrow>
        attempt (Frame data source) d (\<lambda>frame.
        let d = keep_frame frame on_broadcast d in
        if f_ok frame \<and> f_network_message frame = None
        then (case answer d frame of (d, result) \<Rightarrow>
                (d, chain result (\<lambda>apdu. case apdu of
                      None \<Rightarrow> Inr None
                    | Some apdu \<Rightarrow> chain (device_reply frame apdu) (\<lambda>sent. Inr (Some sent)))))
        else (d, Inr None)))"

text \<open>The serving thread over the datagrams that arrive: what it sends, and the exception that ends it.\<close>

fun serve ::
  "('a simulated_device_scheme \<Rightarrow> frame \<Rightarrow> 'a simulated_device_scheme \<times> octets option result)
   \<Rightarrow> 'a simulated_device_scheme \<Rightarrow> arrival list
   \<Rightarrow> 'a simulated_device_scheme \<times> (octets \<times> pystr \<times> int) list \<times> py_exc option" where
  "serve answer d [] = (d, [], None)"
| "serve answer d (a # arrivals) =
     (case serve_datagram answer d a of
        (d, Inl e) \<Rightarrow> (d, [], Some e)
      | (d, Inr sent) \<Rightarrow>
          (case serve answer d arrivals of (d, rest, e) \<Rightarrow>
             (d, (case sent of None \<Rightarrow> rest | Some x \<Rightarrow> x # rest), e)))"

definition plain_answer :: "simulated_device \<Rightarrow> frame \<Rightarrow> simulated_device \<times> octets option result" where
  "plain_answer d f = (d, device_answer d f)"

section \<open>SimulatedServer\<close>

text \<open>
  A served value is octets, or a callable that computes them from something the test changes,
  the environment of type \<open>'e\<close>.
\<close>

datatype 'e served = Octets octets | Callable "'e \<Rightarrow> octets"

datatype server_mode = Online | Offline | Refusing

datatype failure = Fail_reject | Fail_abort | Fail_silent | Fail_malformed

type_synonym object_key = "int \<times> int"
type_synonym read_log = "(int \<times> (int \<times> int \<times> int list) list) list"

record 'e simulated_server = simulated_device +
  ss_objects :: "object_key \<Rightarrow> (int \<Rightarrow> 'e served option) option"
  ss_writable :: "(int \<times> int \<times> int) set option"
  ss_mode :: server_mode
  ss_read_requests :: read_log
  ss_write_requests :: "write_request list"
  ss_requests_while_offline :: nat
  ss_commandable :: "object_key set option"
  ss_relinquish_defaults :: "object_key \<Rightarrow> 'e served option"
  ss_priority_arrays :: "object_key \<Rightarrow> octets option list option"
  ss_array_elements :: bool
  ss_array_reads :: "(int \<times> int \<times> int \<times> int) list"
  ss_failures :: "(object_key \<times> failure) list"
  ss_whole_arrays_refused :: "(int \<times> int \<times> int) set"
  ss_silent_requests :: nat

definition PRIORITY_DEFAULT :: int where
  "PRIORITY_DEFAULT = 16"

definition object_property ::
  "(object_key \<Rightarrow> (int \<Rightarrow> 'e served option) option) \<Rightarrow> object_key \<Rightarrow> int \<Rightarrow> 'e served option" where
  "object_property objects key property_identifier =
     (case objects key of None \<Rightarrow> None | Some properties \<Rightarrow> properties property_identifier)"

text \<open>\<^verbatim>\<open>__init__\<close>: a commandable object without a Present_Value is a KeyError.\<close>

definition new_server ::
  "int \<Rightarrow> pystr \<Rightarrow> int \<Rightarrow> (object_key \<Rightarrow> (int \<Rightarrow> 'e served option) option)
   \<Rightarrow> (int \<times> int \<times> int) set option \<Rightarrow> object_key list option \<Rightarrow> bool \<Rightarrow> 'e simulated_server result" where
  "new_server device_instance name vendor_identifier objects writable commandable array_elements =
     (let keys = (case commandable of None \<Rightarrow> [] | Some ks \<Rightarrow> ks);
          start_value = (\<lambda>key. object_property objects key PROPERTY_PRESENT_VALUE) in
      if \<exists>key \<in> set keys. start_value key = None then Inl KeyError
      else Inr
        \<lparr>sd_device_instance = device_instance, sd_object_name = name, sd_vendor_identifier = vendor_identifier,
         sd_received = [], sd_received_on_broadcast = [],
         ss_objects = objects, ss_writable = writable, ss_mode = Online, ss_read_requests = [],
         ss_write_requests = [], ss_requests_while_offline = 0, ss_commandable = map_option set commandable,
         ss_relinquish_defaults = (\<lambda>key. if key \<in> set keys then start_value key else None),
         ss_priority_arrays = (\<lambda>key. if key \<in> set keys then Some (replicate 16 None) else None),
         ss_array_elements = array_elements, ss_array_reads = [], ss_failures = [],
         ss_whole_arrays_refused = {}, ss_silent_requests = 0\<rparr>)"

definition announce :: "'a simulated_device_scheme \<Rightarrow> int \<Rightarrow> octets list result" where
  "announce d count =
     chain (i_am (sd_device_instance d) (sd_vendor_identifier d) 1476 3) (\<lambda>apdu.
     chain (send_apdu apdu) (\<lambda>frame. Inr (replicate (nat count) frame)))"

fun served_octets :: "'e \<Rightarrow> 'e served \<Rightarrow> octets" where
  "served_octets e (Octets x) = x"
| "served_octets e (Callable g) = g e"

definition server_value :: "'e \<Rightarrow> 'e simulated_server \<Rightarrow> object_key \<Rightarrow> int \<Rightarrow> octets option" where
  "server_value e s key property_identifier =
     map_option (served_octets e) (object_property (ss_objects s) key property_identifier)"

definition server_reads :: "'e simulated_server \<Rightarrow> int \<Rightarrow> (int \<times> int \<times> int list) list list" where
  "server_reads s service = map snd (filter (\<lambda>(kind, _). kind = service) (ss_read_requests s))"

definition writes_matching :: "'e simulated_server \<Rightarrow> int \<Rightarrow> int \<Rightarrow> int \<Rightarrow> write_request list" where
  "writes_matching s object_type inst property_identifier =
     filter (\<lambda>w. (wr_object_type w, wr_instance w, wr_property_identifier w)
                 = (object_type, inst, property_identifier)) (ss_write_requests s)"

text \<open>The two hooks a subclass may override, as the class has them.\<close>

definition check_write :: "write_request \<Rightarrow> (int \<times> int) option" where
  "check_write request = None"

definition on_write :: "'e simulated_server \<Rightarrow> write_request \<Rightarrow> 'e simulated_server" where
  "on_write s request = s"

subsection \<open>Reading\<close>

definition log_read :: "int \<Rightarrow> (int \<times> int \<times> int list) list \<Rightarrow> 'e simulated_server \<Rightarrow> 'e simulated_server" where
  "log_read service reads s = s\<lparr>ss_read_requests := ss_read_requests s @ [(service, reads)]\<rparr>"

definition element_ack :: "int \<Rightarrow> int \<Rightarrow> int \<Rightarrow> int \<Rightarrow> int \<Rightarrow> octets \<Rightarrow> octets result" where
  "element_ack invoke_id object_type inst property_identifier array_index v =
     cat [bytes_of [push_bit 4 PDU_COMPLEX_ACK, invoke_id, SERVICE_READ_PROPERTY],
          context_object_id 0 object_type inst, context_unsigned 1 property_identifier,
          context_unsigned 2 array_index, opening_tag 3, Inr v, closing_tag 3]"

definition server_read_special ::
  "'e \<Rightarrow> 'e simulated_server \<Rightarrow> frame \<Rightarrow> int \<times> int \<times> int \<times> int option \<Rightarrow> failure option
   \<Rightarrow> 'e simulated_server \<times> octets option result" where
  "server_read_special e s f parsed failure =
     (case parsed of (object_type, inst, property_identifier, array_index) \<Rightarrow>
      let logged = log_read SERVICE_READ_PROPERTY [(object_type, inst, [property_identifier])] s in
      if failure = Some Fail_malformed
      then (s, respond (chain (request_invoke_id f) (\<lambda>n. chain application_null
                 (read_property_ack n object_type inst property_identifier))))
      else case array_index of
        None \<Rightarrow>
          if (object_type, inst, property_identifier) \<in> ss_whole_arrays_refused s
          then (logged, respond (chain (request_invoke_id f) (\<lambda>n.
                          abort_pdu n ABORT_REASON_SEGMENTATION_NOT_SUPPORTED True)))
          else (s, Inr None)
      | Some i \<Rightarrow>
          if \<not> ss_array_elements s then (s, Inr None)
          else case server_value e s (object_type, inst) property_identifier of
            None \<Rightarrow> (s, Inr None)
          | Some served \<Rightarrow>
              let s = logged\<lparr>ss_array_reads := ss_array_reads s @ [(object_type, inst, property_identifier, i)]\<rparr> in
              attempt (application_elements served) s (\<lambda>elements.
                (s, respond (chain (request_invoke_id f) (\<lambda>n.
                  if i = 0
                  then chain (application_unsigned (int (length elements)))
                         (element_ack n object_type inst property_identifier i)
                  else if i \<le> int (length elements)
                  then element_ack n object_type inst property_identifier i (elements ! (nat i - 1))
                  else error_pdu n SERVICE_READ_PROPERTY ERROR_CLASS_PROPERTY ERROR_CODE_INVALID_ARRAY_INDEX)))))"

definition server_read_property ::
  "'e \<Rightarrow> 'e simulated_server \<Rightarrow> frame \<Rightarrow> int \<times> int \<times> int \<times> int option \<Rightarrow> failure option
   \<Rightarrow> 'e simulated_server \<times> octets option result" where
  "server_read_property e s f parsed failure =
     (case server_read_special e s f parsed failure of
        (s, Inl e) \<Rightarrow> (s, Inl e)
      | (s, Inr (Some special)) \<Rightarrow> (s, Inr (Some special))
      | (s, Inr None) \<Rightarrow>
          (case parsed of (object_type, inst, property_identifier, _) \<Rightarrow>
             (log_read SERVICE_READ_PROPERTY [(object_type, inst, [property_identifier])] s,
              respond (chain (request_invoke_id f) (\<lambda>n.
                case server_value e s (object_type, inst) property_identifier of
                  None \<Rightarrow> error_pdu n SERVICE_READ_PROPERTY ERROR_CLASS_PROPERTY ERROR_CODE_UNKNOWN_PROPERTY
                | Some served \<Rightarrow> read_property_ack n object_type inst property_identifier served)))))"

definition server_read_multiple ::
  "'e \<Rightarrow> 'e simulated_server \<Rightarrow> frame \<Rightarrow> 'e simulated_server \<times> octets option result" where
  "server_read_multiple e s f =
     attempt (read_access_specifications (drop 4 (f_payload f))) s (\<lambda>specifications.
       (log_read SERVICE_READ_PROPERTY_MULTIPLE
          (map (\<lambda>((object_type, inst), properties). (object_type, inst, properties)) specifications) s,
        respond (chain (request_invoke_id f) (\<lambda>n. read_property_multiple_ack n
          (map (\<lambda>((object_type, inst), properties).
                  (object_type, inst, map (\<lambda>p. (p, server_value e s (object_type, inst) p)) properties))
             specifications)))))"

subsection \<open>Writing\<close>

definition store_property :: "object_key \<Rightarrow> int \<Rightarrow> 'e served \<Rightarrow> 'e simulated_server \<Rightarrow> 'e simulated_server" where
  "store_property key property_identifier v s =
     s\<lparr>ss_objects := (ss_objects s)(key := map_option (\<lambda>properties. properties(property_identifier := Some v))
                                            (ss_objects s key))\<rparr>"

text \<open>\<^verbatim>\<open>(request["priority"] or self.PRIORITY_DEFAULT)\<close>: no priority, or 0, is 16.\<close>

definition effective_priority :: "write_request \<Rightarrow> int" where
  "effective_priority request =
     (case wr_priority request of None \<Rightarrow> PRIORITY_DEFAULT
      | Some p \<Rightarrow> if p = 0 then PRIORITY_DEFAULT else p)"

text \<open>The slot of the write, then the value of the first slot that has one, else the default.\<close>

definition command_object ::
  "object_key \<Rightarrow> write_request \<Rightarrow> bool \<Rightarrow> 'e simulated_server \<Rightarrow> 'e simulated_server \<times> unit result" where
  "command_object key request is_null s =
     (case ss_priority_arrays s key of
        None \<Rightarrow> (s, Inl KeyError)
      | Some slots \<Rightarrow>
          let slot = nat (effective_priority request - 1) in
          if slot \<ge> length slots then (s, Inl IndexError)
          else
            let slots = slots[slot := if is_null then None else Some (wr_value_octets request)];
                s = s\<lparr>ss_priority_arrays := (ss_priority_arrays s)(key := Some slots)\<rparr> in
            case filter (\<lambda>v. v \<noteq> None) slots of
              Some v # _ \<Rightarrow> (store_property key (wr_property_identifier request) (Octets v) s, Inr ())
            | _ \<Rightarrow> (case ss_relinquish_defaults s key of
                     None \<Rightarrow> (s, Inl KeyError)
                   | Some d \<Rightarrow> (store_property key (wr_property_identifier request) d s, Inr ())))"

definition is_commanded :: "'e simulated_server \<Rightarrow> write_request \<Rightarrow> bool" where
  "is_commanded s request \<longleftrightarrow>
     (case ss_commandable s of None \<Rightarrow> False
      | Some keys \<Rightarrow> (wr_object_type request, wr_instance request) \<in> keys)
     \<and> wr_property_identifier request = PROPERTY_PRESENT_VALUE"

definition write_refusal ::
  "'e simulated_server \<Rightarrow> (int \<Rightarrow> 'e served option) \<Rightarrow> write_request \<Rightarrow> (int \<times> int) option" where
  "write_refusal s properties request =
     (let allowed = (case ss_writable s of
            None \<Rightarrow> properties (wr_property_identifier request) \<noteq> None
          | Some writable \<Rightarrow>
              (wr_object_type request, wr_instance request, wr_property_identifier request) \<in> writable)
      in if ss_mode s = Refusing \<or> \<not> allowed
         then Some (ERROR_CLASS_PROPERTY, ERROR_CODE_WRITE_ACCESS_DENIED)
         else check_write request)"

definition server_write ::
  "'e simulated_server \<Rightarrow> frame \<Rightarrow> write_request option \<Rightarrow> 'e simulated_server \<times> octets option result" where
  "server_write s f request =
     (case request of
        None \<Rightarrow> (s, Inr None)
      | Some request \<Rightarrow>
          let key = (wr_object_type request, wr_instance request);
              property_identifier = wr_property_identifier request;
              acknowledge = respond (chain (request_invoke_id f) (\<lambda>n. simple_ack n SERVICE_WRITE_PROPERTY));
              refuse = (\<lambda>(error_class, error_code). respond (chain (request_invoke_id f) (\<lambda>n.
                          error_pdu n SERVICE_WRITE_PROPERTY error_class error_code))) in
          attempt (application_tag (wr_value_octets request)) s (\<lambda>tag.
          let is_null = (tag = Some TAG_NULL); commanded = is_commanded s request in
          if ss_commandable s \<noteq> None \<and> is_null \<and> \<not> commanded \<and> ss_mode s = Online
             \<and> object_property (ss_objects s) key property_identifier \<noteq> None
          then (s, acknowledge)
          else case ss_objects s key of
            None \<Rightarrow> (s, refuse (ERROR_CLASS_OBJECT, ERROR_CODE_UNKNOWN_OBJECT))
          | Some properties \<Rightarrow>
              (case write_refusal s properties request of
                 Some refusal \<Rightarrow> (s, refuse refusal)
               | None \<Rightarrow>
                   let s = store_property key property_identifier (Octets (wr_value_octets request)) s in
                   (case (if commanded then command_object key request is_null s else (s, Inr ())) of
                      (s, Inl e) \<Rightarrow> (s, Inl e)
                    | (s, Inr _) \<Rightarrow> (on_write s request, acknowledge)))))"

subsection \<open>Answering\<close>

definition requested_object :: "frame \<Rightarrow> object_key option result" where
  "requested_object f =
     chain (frame_service f) (\<lambda>service.
     if service = Some SERVICE_READ_PROPERTY
     then chain (parse_read_property_request (f_payload f) False) (\<lambda>parsed.
            Inr (map_option (\<lambda>(object_type, inst, _). (object_type, inst)) parsed))
     else if service = Some SERVICE_WRITE_PROPERTY
     then chain (parse_write_property_request (f_payload f)) (\<lambda>parsed.
            Inr (map_option (\<lambda>r. (wr_object_type r, wr_instance r)) parsed))
     else Inr None)"

definition planned_failure :: "'e simulated_server \<Rightarrow> frame \<Rightarrow> failure option result" where
  "planned_failure s f =
     (if pdu_type f = Some PDU_CONFIRMED_REQUEST \<and> ss_mode s = Online \<and> ss_failures s \<noteq> []
      then chain (requested_object f) (\<lambda>key.
             Inr (case key of None \<Rightarrow> None | Some k \<Rightarrow> map_of (ss_failures s) k))
      else Inr None)"

text \<open>What \<^verbatim>\<open>_answer\<close> does when no failure has answered already.\<close>

definition server_handle ::
  "'e \<Rightarrow> 'e simulated_server \<Rightarrow> frame \<Rightarrow> failure option \<Rightarrow> 'e simulated_server \<times> octets option result" where
  "server_handle e s f failure =
     (let confirmed = (pdu_type f = Some PDU_CONFIRMED_REQUEST) in
      attempt (if confirmed then frame_service f else Inr None) s (\<lambda>service.
      attempt (if service = Some SERVICE_WRITE_PROPERTY then parse_write_property_request (f_payload f)
               else Inr None) s (\<lambda>request.
      let s = (case request of None \<Rightarrow> s | Some r \<Rightarrow> s\<lparr>ss_write_requests := ss_write_requests s @ [r]\<rparr>) in
      if ss_mode s = Offline
      then (if service \<in> Some ` {SERVICE_READ_PROPERTY, SERVICE_READ_PROPERTY_MULTIPLE, SERVICE_WRITE_PROPERTY}
            then s\<lparr>ss_requests_while_offline := ss_requests_while_offline s + 1\<rparr> else s, Inr None)
      else if service = Some SERVICE_WRITE_PROPERTY then server_write s f request
      else if service = Some SERVICE_READ_PROPERTY_MULTIPLE then server_read_multiple e s f
      else if service = Some SERVICE_READ_PROPERTY
      then attempt (parse_read_property_request (f_payload f) True) s (\<lambda>parsed.
             case parsed of
               None \<Rightarrow> (s, device_answer s f)
             | Some (object_type, inst, property_identifier, array_index) \<Rightarrow>
                 if ss_objects s (object_type, inst) \<noteq> None
                 then server_read_property e s f (object_type, inst, property_identifier, array_index) failure
                 else (s, device_answer s f))
      else (s, device_answer s f))))"

definition server_answer ::
  "'e \<Rightarrow> 'e simulated_server \<Rightarrow> frame \<Rightarrow> 'e simulated_server \<times> octets option result" where
  "server_answer e s f =
     attempt (planned_failure s f) s (\<lambda>failure.
       if failure = Some Fail_reject
       then (s, respond (chain (request_invoke_id f) (\<lambda>n. reject_pdu n REJECT_REASON_UNRECOGNIZED_SERVICE)))
       else if failure = Some Fail_abort
       then (s, respond (chain (request_invoke_id f) (\<lambda>n.
               abort_pdu n ABORT_REASON_SEGMENTATION_NOT_SUPPORTED True)))
       else if failure = Some Fail_silent
       then (s\<lparr>ss_silent_requests := ss_silent_requests s + 1\<rparr>, Inr None)
       else server_handle e s f failure)"

section \<open>The contract of a peer\<close>

text \<open>
  What a class has to promise of its \<^verbatim>\<open>_answer\<close> so that its serving thread keeps a property of the
  state, whatever datagrams arrive and whether or not one of them ends the thread.
\<close>

locale peer_invariant =
  fixes answer :: "'a simulated_device_scheme \<Rightarrow> frame \<Rightarrow> 'a simulated_device_scheme \<times> octets option result"
    and inv :: "'a simulated_device_scheme \<Rightarrow> bool"
  assumes keeps: "inv s \<Longrightarrow> inv (keep_frame f b s)"
    and answers: "inv s \<Longrightarrow> inv (fst (answer s f))"
begin

lemma serves:
  assumes "inv s"
  shows "inv (fst (serve_datagram answer s arrival))"
proof (cases arrival)
  case (fields data source b)
  show ?thesis
  proof (cases "Frame data source")
    case (Inr f)
    obtain t r where "answer (keep_frame f b s) f = (t, r)" by fastforce
    with answers [OF keeps [OF assms], of f b f] keeps [OF assms, of f b] Inr fields show ?thesis
      by (simp add: serve_datagram_def Let_def)
  qed (use assms fields in \<open>simp add: serve_datagram_def\<close>)
qed

lemma serves_all: "inv s \<Longrightarrow> inv (fst (serve answer s arrivals))"
proof (induction arrivals arbitrary: s)
  case (Cons a arrivals)
  obtain t r where t: "serve_datagram answer s a = (t, r)" by fastforce
  with serves [OF Cons.prems, of a] have "inv t" by simp
  with Cons.IH [of t] t show ?case by (cases r) (auto split: prod.splits)
qed simp

end

text \<open>A SimulatedDevice keeps its identity.\<close>

interpretation plain: peer_invariant plain_answer
  "\<lambda>d. (sd_device_instance d, sd_object_name d, sd_vendor_identifier d) = identity" for identity
  by unfold_locales (simp_all add: plain_answer_def keep_frame_def Let_def)

end
