(* ===== verification/Server_Refinement.thy ===== *)
theory Server_Refinement
  imports Server_Laws
begin

text \<open>
  The abstract specification of \<^verbatim>\<open>SimulatedServer\<close>: values by object and property, and for each
  commandable object a table of commands by priority, of which the numerically least priority wins
  (clause 19.2). The slots, the stored Present_Value and the bookkeeping of the code implement it.
\<close>

section \<open>The specification\<close>

record 'e command_spec =
  cs_commandable :: "object_key set option"
  cs_defaults :: "object_key \<Rightarrow> 'e served option"
  cs_values :: "object_key \<Rightarrow> int \<Rightarrow> 'e served option"
  cs_commands :: "object_key \<Rightarrow> nat \<Rightarrow> octets option"

definition commands_property :: "object_key set option \<Rightarrow> object_key \<Rightarrow> int \<Rightarrow> bool" where
  "commands_property commandable key property_identifier \<longleftrightarrow>
     (case commandable of None \<Rightarrow> False | Some keys \<Rightarrow> key \<in> keys)
     \<and> property_identifier = PROPERTY_PRESENT_VALUE"

definition winning_command :: "(nat \<Rightarrow> octets option) \<Rightarrow> octets option" where
  "winning_command commands = (if \<exists>p. commands p \<noteq> None then commands (LEAST p. commands p \<noteq> None) else None)"

definition spec_value :: "'e command_spec \<Rightarrow> object_key \<Rightarrow> int \<Rightarrow> 'e served option" where
  "spec_value a key property_identifier =
     (if commands_property (cs_commandable a) key property_identifier
      then (case winning_command (cs_commands a key) of
              Some v \<Rightarrow> Some (Octets v) | None \<Rightarrow> cs_defaults a key)
      else cs_values a key property_identifier)"

definition spec_write :: "'e command_spec \<Rightarrow> write_request \<Rightarrow> 'e command_spec" where
  "spec_write a r =
     (let key = (wr_object_type r, wr_instance r); p = wr_property_identifier r; v = wr_value_octets r in
      if commands_property (cs_commandable a) key p
      then a\<lparr>cs_commands := (cs_commands a)(key := (cs_commands a key)
               (nat (effective_priority r) := if null_octets v then None else Some v))\<rparr>
      else if cs_commandable a \<noteq> None \<and> null_octets v \<and> cs_values a key p \<noteq> None then a
      else a\<lparr>cs_values := (cs_values a)(key := (cs_values a key)(p := Some (Octets v)))\<rparr>)"

section \<open>The abstraction\<close>

definition slot_of :: "octets option list option \<Rightarrow> nat \<Rightarrow> octets option" where
  "slot_of slots p = (case slots of None \<Rightarrow> None
     | Some slots \<Rightarrow> if 1 \<le> p \<and> p \<le> length slots then slots ! (p - 1) else None)"

definition abstract_server :: "'e simulated_server \<Rightarrow> 'e command_spec" where
  "abstract_server s =
     \<lparr>cs_commandable = ss_commandable s, cs_defaults = ss_relinquish_defaults s,
      cs_values = (\<lambda>key p. if commands_property (ss_commandable s) key p then None
                           else object_property (ss_objects s) key p),
      cs_commands = (\<lambda>key. slot_of (ss_priority_arrays s key))\<rparr>"

lemma abstract_fields [simp]:
  "cs_commandable (abstract_server s) = ss_commandable s"
  "cs_defaults (abstract_server s) = ss_relinquish_defaults s"
  "cs_commands (abstract_server s) key = slot_of (ss_priority_arrays s key)"
  "\<not> commands_property (ss_commandable s) key p \<Longrightarrow>
     cs_values (abstract_server s) key p = object_property (ss_objects s) key p"
  by (simp_all add: abstract_server_def)

text \<open>The stored Present_Value of a commandable object is the one its slots command.\<close>

definition commands_served :: "'e simulated_server \<Rightarrow> bool" where
  "commands_served s \<longleftrightarrow> (\<forall>key \<in> commandable_keys s.
     object_property (ss_objects s) key PROPERTY_PRESENT_VALUE
       = spec_value (abstract_server s) key PROPERTY_PRESENT_VALUE)"

lemma abstract_same: "same_values s t \<Longrightarrow> abstract_server t = abstract_server s"
  by (simp add: same_values_def abstract_server_def cong: if_cong)

lemma commands_served_same: "same_values s t \<Longrightarrow> commands_served t = commands_served s"
  using abstract_same [of s t] by (simp add: commands_served_def same_values_def)

lemma commands_property_keys:
  "commands_property (ss_commandable s) key p \<longleftrightarrow> key \<in> commandable_keys s \<and> p = PROPERTY_PRESENT_VALUE"
  by (auto simp: commands_property_def split: option.splits)

lemma is_commanded_keys:
  "is_commanded s r \<longleftrightarrow> commands_property (ss_commandable s) (wr_object_type r, wr_instance r) (wr_property_identifier r)"
  by (simp add: is_commanded_def commands_property_def)

lemma stored_value:
  assumes "commands_served s"
  shows "object_property (ss_objects s) key p = spec_value (abstract_server s) key p"
proof (cases "commands_property (ss_commandable s) key p")
  case True
  then have "key \<in> commandable_keys s" "p = PROPERTY_PRESENT_VALUE" by (simp_all only: commands_property_keys)
  with assms show ?thesis by (simp add: commands_served_def)
next
  case False
  then show ?thesis by (simp add: spec_value_def abstract_server_def)
qed

lemma served_value:
  "commands_served s \<Longrightarrow>
   server_value e s key p = map_option (served_octets e) (spec_value (abstract_server s) key p)"
  by (simp add: server_value_def stored_value)

section \<open>The first occupied slot\<close>

lemma winning_nothing: "filter (\<lambda>v. v \<noteq> None) slots = [] \<Longrightarrow> winning_command (slot_of (Some slots)) = None"
  by (auto simp: winning_command_def slot_of_def filter_empty_conv)

lemma winning_slot:
  assumes "filter (\<lambda>v. v \<noteq> None) slots = v # vs"
  shows "winning_command (slot_of (Some slots)) = v"
proof -
  from assms obtain us ws where s: "slots = us @ v # ws" "\<forall>u \<in> set us. u = None" "v \<noteq> None"
    by (auto simp: filter_eq_Cons_iff)
  let ?c = "slot_of (Some slots)"
  have v: "?c (Suc (length us)) = v" by (simp add: slot_of_def s(1))
  have "?c p = None" if "p < Suc (length us)" for p
    using that s(2) by (cases p) (auto simp: slot_of_def s(1) nth_append)
  then have "(LEAST p. ?c p \<noteq> None) = Suc (length us)"
    using v s(3) by (intro Least_equality) (auto simp: not_less [symmetric])
  with v s(3) show ?thesis unfolding winning_command_def by metis
qed

text \<open>Filling or emptying a slot is a change of the command table.\<close>

lemma slot_of_update:
  assumes "slot < length slots"
  shows "slot_of (Some (slots[slot := v])) = (slot_of (Some slots))(Suc slot := v)"
  using assms by (auto simp: slot_of_def fun_eq_iff nth_list_update)

section \<open>Every write refines the specification\<close>

definition acknowledges :: "octets option \<Rightarrow> bool" where
  "acknowledges answer = (case answer of Some (b # _) \<Rightarrow> b = oct (push_bit 4 PDU_SIMPLE_ACK) | _ \<Rightarrow> False)"

lemma respond_eq_Inr: "respond m = Inr a \<longleftrightarrow> (\<exists>x. m = Inr x \<and> a = Some x)"
  by (auto simp: respond_def result_simps)

lemma simple_ack_acknowledges:
  "respond (chain m (\<lambda>n. simple_ack n service)) = Inr answer \<Longrightarrow> acknowledges answer"
  by (auto simp: respond_eq_Inr result_simps simple_ack_def byte_eq_Inr acknowledges_def)

lemma oct_0x50: "oct 80 \<noteq> oct 32" "oct 96 \<noteq> oct 32" "oct 112 \<noteq> oct 32" "oct 113 \<noteq> oct 32"
  by (simp_all add: oct_def)

lemma error_acknowledges:
  "respond (chain m (\<lambda>n. error_pdu n service c d)) = Inr answer \<Longrightarrow> \<not> acknowledges answer"
  by (auto simp: respond_eq_Inr result_simps error_pdu_def byte_eq_Inr acknowledges_def oct_0x50)

lemma abstract_store:
  assumes "ss_objects s key \<noteq> None" "\<not> commands_property (ss_commandable s) key p"
  shows "abstract_server (store_property key p v s) =
    (abstract_server s)\<lparr>cs_values := (cs_values (abstract_server s))
       (key := (cs_values (abstract_server s) key)(p := Some v))\<rparr>"
  using assms by (auto simp: abstract_server_def object_property_store fun_eq_iff)

lemma commands_served_store:
  assumes "commands_served s" "\<not> commands_property (ss_commandable s) key p"
  shows "commands_served (store_property key p v s)"
proof -
  have "spec_value (abstract_server (store_property key p v s)) k PROPERTY_PRESENT_VALUE
      = spec_value (abstract_server s) k PROPERTY_PRESENT_VALUE" if "k \<in> commandable_keys s" for k
    using that by (simp add: spec_value_def commands_property_keys abstract_server_def commands_property_def split: option.splits)
  with assms show ?thesis
    by (auto simp: commands_served_def object_property_store commands_property_keys)
qed

text \<open>
  A commanded write: the state after it differs from the one before in the slots of its object and
  in that object's Present_Value, which is the winning command again.
\<close>

definition commanded_state ::
  "object_key \<Rightarrow> octets option list \<Rightarrow> 'e served \<Rightarrow> 'e served \<Rightarrow> 'e simulated_server \<Rightarrow> 'e simulated_server" where
  "commanded_state key slots u w s = store_property key PROPERTY_PRESENT_VALUE w
     ((store_property key PROPERTY_PRESENT_VALUE u s)
        \<lparr>ss_priority_arrays := (ss_priority_arrays s)(key := Some slots)\<rparr>)"

lemma commanded_state_abstract:
  assumes "key \<in> commandable_keys s"
  shows "abstract_server (commanded_state key slots u w s) =
    (abstract_server s)\<lparr>cs_commands := (cs_commands (abstract_server s))(key := slot_of (Some slots))\<rparr>"
proof -
  have p: "object_property (ss_objects (commanded_state key slots u w s)) k q = object_property (ss_objects s) k q"
    if "\<not> commands_property (ss_commandable s) k q" for k q
    using that assms object_property_store
    by (auto simp: commanded_state_def object_property_store commands_property_keys object_property_def
        store_property_def split: option.splits)
  have "ss_commandable (commanded_state key slots u w s) = ss_commandable s"
    "ss_relinquish_defaults (commanded_state key slots u w s) = ss_relinquish_defaults s"
    "ss_priority_arrays (commanded_state key slots u w s) = (ss_priority_arrays s)(key := Some slots)"
    by (simp_all add: commanded_state_def)
  with p show ?thesis by (auto simp: abstract_server_def fun_eq_iff)
qed

lemma commanded_state_served:
  assumes "server_typed s" "commands_served s" "key \<in> commandable_keys s"
    "spec_value (abstract_server (commanded_state key slots u w s)) key PROPERTY_PRESENT_VALUE = Some w"
  shows "commands_served (commanded_state key slots u w s)"
proof -
  let ?t = "commanded_state key slots u w s"
  have c: "ss_commandable ?t = ss_commandable s" by (simp add: commanded_state_def)
  have "object_property (ss_objects s) key PROPERTY_PRESENT_VALUE \<noteq> None"
    using assms(1,3) by (rule server_typedD)
  then have "ss_objects s key \<noteq> None" by (auto simp: object_property_def split: option.splits)
  then have o: "object_property (ss_objects ?t) k PROPERTY_PRESENT_VALUE =
      (if k = key then Some w else object_property (ss_objects s) k PROPERTY_PRESENT_VALUE)" for k
    by (auto simp: commanded_state_def object_property_def store_property_def split: option.splits)
  have "spec_value (abstract_server ?t) k PROPERTY_PRESENT_VALUE = spec_value (abstract_server s) k PROPERTY_PRESENT_VALUE"
    if "k \<noteq> key" for k
    using that by (simp add: commanded_state_abstract [OF assms(3)] spec_value_def split: option.split)
  with assms(2,4) o c show ?thesis unfolding commands_served_def by simp
qed

lemma command_object_state:
  assumes "server_typed s" "key \<in> commandable_keys s" "wr_property_identifier r = PROPERTY_PRESENT_VALUE"
    "command_object key r is_null (store_property key PROPERTY_PRESENT_VALUE u s) = (t, Inr x)"
  obtains slots slots' w where "ss_priority_arrays s key = Some slots"
    "nat (effective_priority r - 1) < length slots"
    "slots' = slots[nat (effective_priority r - 1) := if is_null then None else Some (wr_value_octets r)]"
    "t = commanded_state key slots' u w s"
    "Some w = (case winning_command (slot_of (Some slots')) of
                 Some v \<Rightarrow> Some (Octets v) | None \<Rightarrow> ss_relinquish_defaults s key)"
proof -
  from server_typedD [OF assms(1,2)] obtain slots d where s: "ss_priority_arrays s key = Some slots"
    "ss_relinquish_defaults s key = Some d" by metis
  let ?slot = "nat (effective_priority r - 1)"
  let ?slots = "slots[?slot := if is_null then None else Some (wr_value_octets r)]"
  have l: "?slot < length slots" using assms(4) s(1) by (auto simp: command_object_def Let_def split: if_splits)
  show thesis
  proof (cases "filter (\<lambda>v. v \<noteq> None) ?slots")
    case Nil
    with assms(3,4) s l have "t = commanded_state key ?slots u d s"
      by (auto simp: command_object_def Let_def commanded_state_def)
    with that [OF s(1) l refl this] winning_nothing [OF Nil] s(2) show thesis by simp
  next
    case (Cons v vs)
    then have "v \<in> set (filter (\<lambda>v. v \<noteq> None) ?slots)" by (simp only: list.set_intros)
    then obtain y where y: "v = Some y" by auto
    with Cons assms(3,4) s l have "t = commanded_state key ?slots u (Octets y) s"
      by (auto simp: command_object_def Let_def commanded_state_def)
    with that [OF s(1) l refl this] winning_slot [OF Cons] y show thesis by simp
  qed
qed

lemma server_write_refines:
  assumes "server_typed s" "commands_served s" "server_write s f (Some r) = (t, Inr answer)"
    "\<forall>p \<in> set_option (wr_priority r). 0 \<le> p" "ss_mode s \<noteq> Offline"
  shows "abstract_server t = (if acknowledges answer then spec_write (abstract_server s) r else abstract_server s)
    \<and> commands_served t"
proof -
  let ?key = "(wr_object_type r, wr_instance r)"
  let ?p = "wr_property_identifier r"
  let ?v = "wr_value_octets r"
  let ?c = "commands_property (ss_commandable s) ?key ?p"
  let ?s = "store_property ?key ?p (Octets ?v) s"
  from assms(3) obtain tag where tag: "application_tag ?v = Inr tag"
    by (cases "application_tag ?v") (auto simp: server_write_def Let_def)
  have null: "tag = Some TAG_NULL \<longleftrightarrow> null_octets ?v" by (simp add: null_octets_def tag)
  have com: "is_commanded s r \<longleftrightarrow> ?c" by (simp only: is_commanded_keys)
  show ?thesis
  proof (cases "ss_commandable s \<noteq> None \<and> null_octets ?v \<and> \<not> ?c \<and> ss_mode s = Online
      \<and> object_property (ss_objects s) ?key ?p \<noteq> None")
    case True
    with assms(3) tag null com have "t = s" "acknowledges answer"
      by (auto simp: server_write_def Let_def intro: simple_ack_acknowledges)
    moreover have "spec_write (abstract_server s) r = abstract_server s"
      using True by (simp add: spec_write_def Let_def)
    ultimately show ?thesis using assms(2) by simp
  next
    case notnull: False
    show ?thesis
    proof (cases "ss_objects s ?key")
      case None
      with assms(3) tag null com notnull have "t = s" "\<not> acknowledges answer"
        by (auto simp: server_write_def Let_def dest: error_acknowledges split: if_splits)
      with assms(2) show ?thesis by simp
    next
      case (Some properties)
      show ?thesis
      proof (cases "write_refusal s properties r")
        case refused: (Some refusal)
        with assms(3) tag null com notnull Some have "t = s" "\<not> acknowledges answer"
          by (auto simp: server_write_def Let_def dest: error_acknowledges split: if_splits prod.splits)
        with assms(2) show ?thesis by simp
      next
        case allowed: None
        then have online: "ss_mode s = Online"
          using assms(5) by (cases "ss_mode s") (auto simp: write_refusal_def Let_def)
        have step: "server_write s f (Some r) =
          (case (if ?c then command_object ?key r (null_octets ?v) ?s else (?s, Inr ())) of
             (s, Inl e) \<Rightarrow> (s, Inl e)
           | (s, Inr _) \<Rightarrow> (s, respond (chain (request_invoke_id f) (\<lambda>n. simple_ack n SERVICE_WRITE_PROPERTY))))"
          using tag null com notnull Some allowed
          by (auto simp: server_write_def Let_def on_write_def)
        show ?thesis
        proof (cases ?c)
          case False
          then have "t = ?s" "acknowledges answer" using step assms(3) by (auto intro: simple_ack_acknowledges)
          moreover have "spec_write (abstract_server s) r = abstract_server ?s"
            using abstract_store [of s ?key ?p "Octets ?v"] Some False notnull online
            by (auto simp: spec_write_def Let_def)
          ultimately show ?thesis using commands_served_store [OF assms(2) False] by simp
        next
          case True
          then have key: "?key \<in> commandable_keys s" and p: "?p = PROPERTY_PRESENT_VALUE"
            by (simp_all only: commands_property_keys)
          from step True assms(3) have cmd: "command_object ?key r (null_octets ?v) ?s = (t, Inr ())"
            and ack: "acknowledges answer"
            by (auto split: prod.splits sum.splits intro: simple_ack_acknowledges)
          from command_object_state [OF assms(1) key p cmd [unfolded p]] obtain slots slots' w where c:
            "ss_priority_arrays s ?key = Some slots" "nat (effective_priority r - 1) < length slots"
            "slots' = slots[nat (effective_priority r - 1) := if null_octets ?v then None else Some ?v]"
            "t = commanded_state ?key slots' (Octets ?v) w s"
            "Some w = (case winning_command (slot_of (Some slots')) of
               Some v \<Rightarrow> Some (Octets v) | None \<Rightarrow> ss_relinquish_defaults s ?key)" .
          have "1 \<le> effective_priority r"
            using assms(4) by (auto simp: effective_priority_def PRIORITY_DEFAULT_def split: option.splits)
          then have slot: "Suc (nat (effective_priority r - 1)) = nat (effective_priority r)" by simp
          have a: "abstract_server t = (abstract_server s)
              \<lparr>cs_commands := (cs_commands (abstract_server s))(?key := slot_of (Some slots'))\<rparr>"
            unfolding c(4) by (rule commanded_state_abstract [OF key])
          moreover have "slot_of (Some slots') = (cs_commands (abstract_server s) ?key)
              (nat (effective_priority r) := if null_octets ?v then None else Some ?v)"
            using slot_of_update [OF c(2)] c(1,3) slot by simp
          ultimately have "abstract_server t = spec_write (abstract_server s) r"
            using True by (simp add: spec_write_def Let_def)
          moreover have "spec_value (abstract_server t) ?key PROPERTY_PRESENT_VALUE = Some w"
            using key c(5) unfolding a
            by (simp add: spec_value_def commands_property_keys split: option.split)
          ultimately show ?thesis
            using commanded_state_served [OF assms(1,2) key] ack c(4) by simp
        qed
      qed
    qed
  qed
qed

section \<open>Every frame refines the specification\<close>

lemma write_priority_nonneg:
  "parse_write_property_request apdu = Inr (Some r) \<Longrightarrow> \<forall>p \<in> set_option (wr_priority r). 0 \<le> p"
  by (auto simp: parse_write_property_request_def parse_guard_def result_simps Let_def from_bytes_bounds(1)
      split: sum.splits if_splits)

text \<open>The write that a frame asks for and its answer acknowledges.\<close>

definition acknowledged_write :: "frame \<Rightarrow> octets option \<Rightarrow> write_request option" where
  "acknowledged_write f answer =
     (if pdu_type f = Some PDU_CONFIRMED_REQUEST \<and> frame_service f = Inr (Some SERVICE_WRITE_PROPERTY)
         \<and> acknowledges answer
      then (case parse_write_property_request (f_payload f) of Inr request \<Rightarrow> request | Inl _ \<Rightarrow> None)
      else None)"

definition spec_step :: "'e command_spec \<Rightarrow> write_request option \<Rightarrow> 'e command_spec" where
  "spec_step a w = (case w of None \<Rightarrow> a | Some r \<Rightarrow> spec_write a r)"

lemma server_write_none: "server_write s f None = (s, Inr None)"
  by (simp add: server_write_def)

lemma handle_refines:
  assumes "server_typed s" "commands_served s" "server_handle e s f failure = (t, Inr answer)"
  shows "abstract_server t = spec_step (abstract_server s) (acknowledged_write f answer) \<and> commands_served t"
proof (cases "pdu_type f = Some PDU_CONFIRMED_REQUEST \<and> frame_service f = Inr (Some SERVICE_WRITE_PROPERTY)")
  case False
  have "same_values s t" using handle_cases [OF False, of s e failure] assms(3) by simp
  with False assms(2) show ?thesis
    by (auto simp: abstract_same commands_served_same acknowledged_write_def spec_step_def)
next
  case True
  with assms(3) obtain request where q: "parse_write_property_request (f_payload f) = Inr request"
    by (cases "parse_write_property_request (f_payload f)") (auto simp: server_handle_def)
  with True handle_write [of f request s e failure] obtain u where u: "same_values s u" "ss_mode u = ss_mode s"
    "server_handle e s f failure =
      (if ss_mode s = Offline
       then (u\<lparr>ss_requests_while_offline := ss_requests_while_offline u + 1\<rparr>, Inr None)
       else server_write u f request)" by blast
  show ?thesis
  proof (cases "ss_mode s = Offline \<or> request = None")
    case True
    with u assms(3) have "same_values s t" "answer = None"
      by (auto simp: server_write_none split: if_splits)
    with assms(2) show ?thesis
      by (simp add: abstract_same commands_served_same acknowledged_write_def acknowledges_def spec_step_def)
  next
    case False
    then obtain r where r: "request = Some r" by blast
    with False u assms(3) have w: "server_write u f (Some r) = (t, Inr answer)" "ss_mode u \<noteq> Offline" by auto
    have "server_typed u" "commands_served u"
      using assms(1,2) u(1) by (simp_all add: server_typed_same commands_served_same)
    from server_write_refines [OF this w(1) _ w(2)] write_priority_nonneg [of "f_payload f" r] q r True
    show ?thesis by (simp add: acknowledged_write_def spec_step_def abstract_same [OF u(1)])
  qed
qed

lemma answer_refines:
  assumes "server_typed s" "commands_served s" "server_answer e s f = (t, Inr answer)"
  shows "abstract_server t = spec_step (abstract_server s) (acknowledged_write f answer) \<and> commands_served t"
proof (cases "planned_failure s f")
  case (Inl x)
  with assms(3) show ?thesis by (simp add: server_answer_def)
next
  case (Inr failure)
  show ?thesis
  proof (cases "failure \<in> {Some Fail_reject, Some Fail_abort, Some Fail_silent}")
    case True
    with Inr assms(3) have "same_values s t" "\<not> acknowledges answer"
      by (auto simp: server_answer_def respond_eq_Inr result_simps reject_pdu_def abort_pdu_def byte_eq_Inr
          acknowledges_def oct_0x50)
    with assms(2) show ?thesis
      by (simp add: abstract_same commands_served_same acknowledged_write_def spec_step_def)
  next
    case False
    with Inr assms(3) have "server_handle e s f failure = (t, Inr answer)" by (auto simp: server_answer_def)
    with assms(1,2) show ?thesis by (rule handle_refines)
  qed
qed

section \<open>Runs of a server\<close>

text \<open>
  The states a server can be in after \<open>s0\<close>: datagrams arrive while the serving thread is alive, which
  the third argument says, and the test changes the mode, the planned failures and the refused
  arrays. The environment of the callables may be another one at every step.
\<close>

inductive server_runs :: "'e simulated_server \<Rightarrow> 'e simulated_server \<Rightarrow> bool \<Rightarrow> bool" for s0 where
  start: "server_runs s0 s0 True"
| receive: "server_runs s0 s True \<Longrightarrow> serve_datagram (server_answer e) s arrival = (t, result) \<Longrightarrow>
     server_runs s0 t (is_ok result)"
| set_mode: "server_runs s0 s alive \<Longrightarrow> server_runs s0 (s\<lparr>ss_mode := m\<rparr>) alive"
| set_failures: "server_runs s0 s alive \<Longrightarrow> server_runs s0 (s\<lparr>ss_failures := g\<rparr>) alive"
| set_refused: "server_runs s0 s alive \<Longrightarrow> server_runs s0 (s\<lparr>ss_whole_arrays_refused := r\<rparr>) alive"

lemma new_server_served:
  assumes "new_server n name vendor objects writable commandable elements = Inr s"
  shows "commands_served s"
proof -
  define keys where "keys = (case commandable of None \<Rightarrow> [] | Some ks \<Rightarrow> ks)"
  from assms have s: "ss_objects s = objects" "ss_commandable s = map_option set commandable"
    "ss_relinquish_defaults s = (\<lambda>key. if key \<in> set keys then object_property objects key PROPERTY_PRESENT_VALUE else None)"
    "ss_priority_arrays s = (\<lambda>key. if key \<in> set keys then Some (replicate 16 None) else None)"
    by (auto simp: new_server_def Let_def keys_def split: if_splits)
  have k: "commandable_keys s = set keys" using s(2) by (cases commandable) (simp_all add: keys_def)
  have "winning_command (slot_of (Some (replicate 16 None))) = None" by (rule winning_nothing) simp
  with s k show ?thesis
    by (simp add: commands_served_def spec_value_def commands_property_keys)
qed

lemma serve_refines:
  assumes "server_typed s" "commands_served s" "serve_datagram (server_answer e) s arrival = (t, Inr sent)"
  shows "commands_served t"
proof -
  obtain data source b where a: "arrival = (data, source, b)" by (metis prod_cases3)
  from assms(3) a obtain f where f: "Frame data source = Inr f"
    by (cases "Frame data source") (auto simp: serve_datagram_def)
  have k: "same_values s (keep_frame f b s)" by simp
  have typed: "server_typed (keep_frame f b s)" "commands_served (keep_frame f b s)"
    using assms(1,2) server_typed_same [OF k] commands_served_same [OF k] by simp_all
  show ?thesis
  proof (cases "f_ok f \<and> f_network_message f = None")
    case True
    obtain u r where u: "server_answer e (keep_frame f b s) f = (u, r)" by fastforce
    with True a f assms(3) have "t = u" "\<exists>answer. r = Inr answer"
      by (auto simp: serve_datagram_def Let_def result_simps)
    with answer_refines [OF typed] u show ?thesis by blast
  next
    case False
    with a f assms(3) have "t = keep_frame f b s" by (auto simp: serve_datagram_def Let_def)
    with assms(2) commands_served_same [OF k] show ?thesis by simp
  qed
qed

text \<open>An invariant of the values is an invariant of the runs.\<close>

context value_invariant
begin

lemma runs: "server_runs s0 s alive \<Longrightarrow> inv s0 \<Longrightarrow> inv s"
proof (induction rule: server_runs.induct)
  case (receive s e arrival t result)
  with thread.serves [of s e arrival] show ?case by simp
next
  case (set_mode s alive m)
  then show ?case using same [of s "s\<lparr>ss_mode := m\<rparr>"] by simp
next
  case (set_failures s alive g)
  then show ?case using same [of s "s\<lparr>ss_failures := g\<rparr>"] by simp
next
  case (set_refused s alive r)
  then show ?case using same [of s "s\<lparr>ss_whole_arrays_refused := r\<rparr>"] by simp
qed simp

end

lemma runs_served: "server_runs s0 s alive \<Longrightarrow> server_typed s0 \<Longrightarrow> commands_served s0 \<Longrightarrow> alive \<Longrightarrow> commands_served s"
proof (induction rule: server_runs.induct)
  case (receive s e arrival t result)
  then obtain sent where "result = Inr sent" by (auto simp: is_ok_iff)
  with receive typed.runs [OF receive.hyps(1)] show ?case by (auto intro: serve_refines)
next
  case (set_mode s alive m)
  then show ?case using commands_served_same [of s "s\<lparr>ss_mode := m\<rparr>"] by simp
next
  case (set_failures s alive g)
  then show ?case using commands_served_same [of s "s\<lparr>ss_failures := g\<rparr>"] by simp
next
  case (set_refused s alive r)
  then show ?case using commands_served_same [of s "s\<lparr>ss_whole_arrays_refused := r\<rparr>"] by simp
qed simp

end
