(* ===== verification/Wire_Exchange.thy ===== *)
theory Wire_Exchange
  imports Wire_Client Server_Refinement
begin

text \<open>
  A client and a server on one network: the datagram \<^verbatim>\<open>Client.request\<close> sends goes through
  \<^verbatim>\<open>SimulatedServer\<close>'s serving thread, and its reply is the first thing the client receives.
\<close>

section \<open>Datagrams of requests and replies\<close>

lemma confirmed_frame:
  assumes "f_payload f = [0, 5, oct invoke_id, oct service] @ parameters" "f_network_message f = None"
    "0 \<le> invoke_id" "invoke_id < 256" "0 \<le> service" "service < 256"
  shows "pdu_type f = Some PDU_CONFIRMED_REQUEST" "frame_service f = Inr (Some service)"
    "request_invoke_id f = Inr invoke_id"
  using assms
  by (simp_all add: pdu_type_def frame_service_def frame_invoke_id_def request_invoke_id_def index_def uint_oct)

text \<open>A datagram that \<^verbatim>\<open>npdu\<close> and \<^verbatim>\<open>bvlc\<close> make of an APDU is decoded to a frame with that APDU.\<close>

lemma datagram_frame:
  assumes "npdu_valid a" "na_network_message a = None" "length apdu < 60000"
  obtains n d f where "npdu apdu a = Inr n" "bvlc n False = Inr d" "Frame d source = Inr f" "f_ok f"
    "f_network_message f = None" "f_payload f = apdu" "f_source f = source"
    "f_snet f = na_snet a" "f_sadr f = (if na_snet a = None then [] else na_sadr a)"
    "f_dnet f = na_dnet a" "f_dadr f = (if na_dnet a = None then [] else na_dadr a)"
    "length d = length apdu + 6 + (if na_dnet a = None then 0 else 4 + length (na_dadr a))
      + (if na_snet a = None then 0 else 3 + length (na_sadr a))"
proof -
  have len: "length (npdu_octets apdu a) = length apdu + 2 + (if na_dnet a = None then 0 else 4 + length (na_dadr a))
      + (if na_snet a = None then 0 else 3 + length (na_sadr a))"
    using assms(2) by (auto simp: npdu_octets_def address_octets_def split: option.splits)
  then have "length (npdu_octets apdu a) < 65532" using assms(1,3) by (auto simp: npdu_valid_def)
  from frame_of_npdu_octets [OF assms(1) this, of False source] obtain d where d:
    "bvlc (npdu_octets apdu a) False = Inr d"
    "Frame d source = Inr (expected_frame d source False (npdu_octets apdu a) a apdu)"
    using assms(2) by (auto simp: vendor_octets_def)
  have "length d = 4 + length (npdu_octets apdu a)" using d(1) by (auto simp: bvlc_def bvll_eq_Inr)
  with that [OF npdu_eq [OF assms(1)] d] assms(2) len show thesis
    by (simp add: expected_frame_def new_frame_def)
qed

text \<open>With the default header nothing comes between BVLL, NPDU and APDU.\<close>

lemma plain_datagram_frame:
  assumes "length apdu < 60000"
  obtains n d f where "npdu apdu npdu_defaults = Inr n" "bvlc n False = Inr d" "Frame d source = Inr f" "f_ok f"
    "f_network_message f = None" "f_payload f = apdu" "f_source f = source" "f_snet f = None" "length d = length apdu + 6"
proof -
  have a: "npdu_valid npdu_defaults" "na_network_message npdu_defaults = None" "na_dnet npdu_defaults = None"
    "na_snet npdu_defaults = None" by (simp_all add: npdu_valid_def npdu_defaults_def)
  show thesis
    by (rule datagram_frame [OF a(1,2) assms, of source], rule that) (simp_all add: a(3,4))
qed

abbreviation route_valid :: "route \<Rightarrow> bool" where
  "route_valid r \<equiv> (\<forall>n \<in> set_option (ro_dnet r). 0 \<le> n \<and> n < 65536) \<and> length (ro_dadr r) < 256"

lemma request_frame:
  assumes "route_valid r" "length apdu < 60000"
  obtains d f where "request_datagram apdu r = Inr d" "Frame d source = Inr f" "f_ok f"
    "f_network_message f = None" "f_payload f = apdu" "f_source f = source" "f_snet f = None"
    "length d \<le> length apdu + length (ro_dadr r) + 10"
proof -
  let ?a = "npdu_defaults\<lparr>na_dnet := ro_dnet r, na_dadr := ro_dadr r, na_expecting_reply := True\<rparr>"
  have a: "npdu_valid ?a" "na_network_message ?a = None" "na_snet ?a = None" "na_dadr ?a = ro_dadr r"
    using assms(1) by (auto simp: npdu_valid_def npdu_defaults_def)
  obtain n d f where "npdu apdu ?a = Inr n" "bvlc n False = Inr d" "Frame d source = Inr f" "f_ok f"
    "f_network_message f = None" "f_payload f = apdu" "f_source f = source" "f_snet f = na_snet ?a"
    "length d = length apdu + 6 + (if na_dnet ?a = None then 0 else 4 + length (na_dadr ?a))
      + (if na_snet ?a = None then 0 else 3 + length (na_sadr ?a))"
    using datagram_frame [OF a(1,2) assms(2)] by metis
  with that [of d f] a(3,4) show thesis by (simp add: request_datagram_def split: if_splits)
qed

lemma reply_frame:
  assumes "npdu_valid (reply_npdu f)" "length apdu < 60000"
  obtains d g where "device_reply f apdu = Inr (d, f_source f)" "Frame d source = Inr g" "f_ok g"
    "f_network_message g = None" "f_payload g = apdu" "f_dnet g = f_snet f"
    "f_dadr g = (if f_snet f = None then [] else f_sadr f)"
    "f_snet f = None \<Longrightarrow> length d = length apdu + 6"
proof -
  have a: "na_network_message (reply_npdu f) = None" "na_dnet (reply_npdu f) = f_snet f"
    "na_dnet (reply_npdu f) \<noteq> None \<longrightarrow> na_dadr (reply_npdu f) = f_sadr f" "na_snet (reply_npdu f) = None"
    by (auto simp: reply_npdu_def npdu_defaults_def split: option.splits)
  obtain n d g where "npdu apdu (reply_npdu f) = Inr n" "bvlc n False = Inr d" "Frame d source = Inr g" "f_ok g"
    "f_network_message g = None" "f_payload g = apdu" "f_dnet g = na_dnet (reply_npdu f)"
    "f_dadr g = (if na_dnet (reply_npdu f) = None then [] else na_dadr (reply_npdu f))"
    "length d = length apdu + 6 + (if na_dnet (reply_npdu f) = None then 0 else 4 + length (na_dadr (reply_npdu f)))
      + (if na_snet (reply_npdu f) = None then 0 else 3 + length (na_sadr (reply_npdu f)))"
    using datagram_frame [OF assms(1) a(1) assms(2)] by metis
  with that [of d g] a(2-4) show thesis by (simp add: device_reply_def)
qed

section \<open>One exchange\<close>

text \<open>
  \<^verbatim>\<open>recvfrom(2048)\<close>: what a client, a workstation or a peer gets of a datagram. The rest of a longer one is lost.
\<close>

definition received_octets :: "octets \<Rightarrow> octets" where
  "received_octets datagram = take 2048 datagram"

lemma received_whole [simp]: "length d \<le> 2048 \<Longrightarrow> received_octets d = d"
  by (simp add: received_octets_def)

text \<open>
  The air of an attempt in which the reply arrives at once, or nothing does. No time passes before
  the first receive; the second one times out.
\<close>

definition reply_air :: "(octets \<times> pystr \<times> int) option result \<Rightarrow> pystr \<times> int \<Rightarrow> air" where
  "reply_air reply server_address =
     \<lparr>clock = (\<lambda>_. 0), receipts = (\<lambda>n. case reply of
        Inr (Some (d, _)) \<Rightarrow> if n = 0 then Datagram (received_octets d) server_address else Timed_out
      | _ \<Rightarrow> Timed_out)\<rparr>"

definition exchange ::
  "'e \<Rightarrow> route \<Rightarrow> pystr \<times> int \<Rightarrow> (int \<Rightarrow> octets result) \<Rightarrow> client \<times> 'e simulated_server
   \<Rightarrow> (client \<times> nat \<times> answer result) option \<times> 'e simulated_server" where
  "exchange e r client_address build_apdu state = (case state of (c, s) \<Rightarrow>
     let ask = (\<lambda>reply. client_request build_apdu r None (\<lambda>_. reply_air reply (ro_ip r, ro_port r)) c) in
     case chain (build_apdu (cl_invoke_id (next_invoke_id c))) (\<lambda>apdu. request_datagram apdu r) of
       Inl x \<Rightarrow> (ask (Inr None), s)
     | Inr d \<Rightarrow> (case serve_datagram (server_answer e) s (received_octets d, client_address, False) of
         (t, reply) \<Rightarrow> (ask reply, t)))"

lemma wait_receives:
  assumes "Frame (received_octets d) server_address = Inr f" "f_ok f" "p f = Inr True" "0 < seconds"
  shows "wait_for (reply_air (Inr (Some (d, x))) server_address) p seconds [] = Some ([f], Inr (Some f))"
  unfolding wait_for_def
  using assms(4)
  by (subst wait_loop.simps, simp add: reply_air_def receive_def assms(1))
    (subst wait_loop.simps, simp add: reply_air_def assms(2,3))

text \<open>A reply with the client's invoke identifier, received in time, is the answer of the request.\<close>

lemma client_receives:
  assumes "build_apdu ((cl_invoke_id c + 1) mod 256) = Inr apdu" "request_datagram apdu r = Inr octets"
    "Frame (received_octets d) server_address = Inr f" "f_ok f" "answers_request ((cl_invoke_id c + 1) mod 256) f = Inr True"
    "0 \<le> cl_retries c" "0 < cl_timeout c"
  shows "\<exists>c'. client_request build_apdu r None (\<lambda>_. reply_air (Inr (Some (d, x))) server_address) c
      = Some (c', 0, Inr \<lparr>an_frame = Some f\<rparr>)
    \<and> cl_invoke_id c' = (cl_invoke_id c + 1) mod 256 \<and> cl_retries c' = cl_retries c \<and> cl_timeout c' = cl_timeout c"
proof -
  let ?i = "(cl_invoke_id c + 1) mod 256"
  let ?air = "reply_air (Inr (Some (d, x))) server_address"
  let ?c = "(next_invoke_id c)\<lparr>cl_frames := []\<rparr>"
  have w: "wait_for ?air (answers_request ?i) (cl_timeout c) [] = Some ([f], Inr (Some f))"
    by (rule wait_receives [where p = "answers_request ?i", OF assms(3-5,7)])
  let ?d = "(client_send octets (ro_ip r, ro_port r) ?c)\<lparr>cl_frames := [f]\<rparr>"
  have "request_attempt octets r ?i (cl_timeout c) (\<lambda>_. ?air) 0 ?c = Some (?d, Inr (Some f))"
    using w by (simp add: request_attempt_def client_wait_def client_send_def)
  moreover have "[0 ..< nat (1 + cl_retries c)] = 0 # [1 ..< nat (1 + cl_retries c)]"
    using assms(6) by (simp add: upt_rec)
  ultimately have "attempts_loop (request_attempt octets r ?i (cl_timeout c) (\<lambda>_. ?air))
      [0 ..< nat (1 + cl_retries c)] 0 ?c = Some (?d, 0, Inr (Some f))"
    by (simp add: Let_def)
  then have "client_request build_apdu r None (\<lambda>_. ?air) c = Some (?d, 0, Inr \<lparr>an_frame = Some f\<rparr>)"
    using assms(1,2)
    by (simp add: client_request_def Let_def send_with_retries_def next_invoke_id_def seconds_for_def)
  then show ?thesis by (simp add: client_send_def next_invoke_id_def)
qed

lemma exchange_answered:
  assumes "build_apdu ((cl_invoke_id c + 1) mod 256) = Inr apdu" "route_valid r"
    "length apdu + length (ro_dadr r) \<le> 2038" "0 \<le> cl_retries c" "0 < cl_timeout c"
    "\<And>f. f_payload f = apdu \<Longrightarrow> f_network_message f = None \<Longrightarrow> f_snet f = None \<Longrightarrow>
      \<exists>t. server_answer e (keep_frame f False s) f = (t, Inr (Some ans)) \<and> P t"
    "length ans \<le> 2042"
    "\<And>g. f_payload g = ans \<Longrightarrow> f_network_message g = None \<Longrightarrow>
      answers_request ((cl_invoke_id c + 1) mod 256) g = Inr True"
  shows "\<exists>c' t g. exchange e r here build_apdu (c, s) = (Some (c', 0, Inr \<lparr>an_frame = Some g\<rparr>), t) \<and> P t
    \<and> f_payload g = ans \<and> f_network_message g = None \<and> cl_retries c' = cl_retries c
    \<and> cl_timeout c' = cl_timeout c \<and> cl_invoke_id c' = (cl_invoke_id c + 1) mod 256"
proof -
  have "length apdu < 60000" using assms(3) by simp
  then obtain d f where f: "request_datagram apdu r = Inr d" "Frame d here = Inr f" "f_ok f"
    "f_network_message f = None" "f_payload f = apdu" "f_source f = here" "f_snet f = None"
    and d: "length d \<le> length apdu + length (ro_dadr r) + 10"
    using request_frame [OF assms(2)] by metis
  have d: "received_octets d = d" using d assms(3) by simp
  from assms(6) [OF f(5,4,7)] obtain t where t: "server_answer e (keep_frame f False s) f = (t, Inr (Some ans))" "P t"
    by blast
  have "npdu_valid (reply_npdu f)" by (simp add: reply_npdu_def f(7) npdu_valid_def npdu_defaults_def)
  moreover have "length ans < 60000" using assms(7) by simp
  ultimately obtain d' g where
    g: "device_reply f ans = Inr (d', here)" "Frame d' (ro_ip r, ro_port r) = Inr g" "f_ok g"
    "f_network_message g = None" "f_payload g = ans" and "length d' = length ans + 6"
    using reply_frame [of f ans "(ro_ip r, ro_port r)"] f(6,7) by metis
  then have d': "Frame (received_octets d') (ro_ip r, ro_port r) = Inr g" using assms(7) by simp
  have "serve_datagram (server_answer e) s (d, here, False) = (t, Inr (Some (d', here)))"
    by (simp add: serve_datagram_def Let_def f t g)
  then have "exchange e r here build_apdu (c, s) = (client_request build_apdu r None
      (\<lambda>_. reply_air (Inr (Some (d', here))) (ro_ip r, ro_port r)) c, t)"
    using assms(1) f(1) d by (simp add: exchange_def next_invoke_id_def)
  with client_receives [of build_apdu c apdu r d d' "(ro_ip r, ro_port r)" g here,
      OF assms(1) f(1) d' g(3) assms(8) [OF g(5,4)] assms(4,5)] t(2) g(4,5)
  show ?thesis by auto
qed

section \<open>A settled server answers\<close>

text \<open>What a test sets and no request changes.\<close>

definition settings :: "'e simulated_server
   \<Rightarrow> server_mode \<times> (object_key \<times> failure) list \<times> (int \<times> int \<times> int) set \<times> (int \<times> int \<times> int) set option" where
  "settings s = (ss_mode s, ss_failures s, ss_whole_arrays_refused s, ss_writable s)"

lemma settings_updates [simp]:
  "settings (s\<lparr>ss_read_requests := a\<rparr>) = settings s" "settings (s\<lparr>ss_write_requests := b\<rparr>) = settings s"
  "settings (s\<lparr>ss_priority_arrays := x\<rparr>) = settings s" "settings (store_property key p v s) = settings s"
  "settings (log_read service reads s) = settings s" "settings (keep_frame f bc s) = settings s"
  by (simp_all add: settings_def store_property_def log_read_def keep_frame_def Let_def)

lemma command_object_settings: "settings (fst (command_object key r is_null s)) = settings s"
  by (auto simp: command_object_def Let_def split: option.splits list.splits)

lemma no_failure:
  assumes "parse_read_property_request (f_payload f) False = Inr (Some (t, i, p, None))
      \<and> frame_service f = Inr (Some SERVICE_READ_PROPERTY) \<or>
    parse_write_property_request (f_payload f) = Inr (Some r) \<and> wr_object_type r = t \<and> wr_instance r = i
      \<and> frame_service f = Inr (Some SERVICE_WRITE_PROPERTY)"
    "map_of (ss_failures s) (t, i) = None"
  shows "planned_failure s f = Inr None"
  using assms by (auto simp: planned_failure_def requested_object_def)

text \<open>Writing a value to a commandable object's Present_Value.\<close>

lemma write_answered:
  assumes "server_typed s" "(t, i) \<in> commandable_keys s" "ss_mode s = Online"
    "map_of (ss_failures s) (t, i) = None" "\<forall>w. ss_writable s = Some w \<longrightarrow> (t, i, PROPERTY_PRESENT_VALUE) \<in> w"
    "f_payload f = [0, 5, oct n, oct SERVICE_WRITE_PROPERTY] @ parameters" "f_network_message f = None"
    "0 \<le> n" "n < 256"
    "parse_write_property_request (f_payload f) = Inr (Some r)" "wr_object_type r = t" "wr_instance r = i"
    "wr_property_identifier r = PROPERTY_PRESENT_VALUE" "effective_priority r \<le> 16"
    "application_tag (wr_value_octets r) = Inr tag"
  shows "\<exists>u. server_answer e s f = (u, Inr (Some [oct 32, oct n, oct SERVICE_WRITE_PROPERTY])) \<and> settings u = settings s"
proof -
  note f = confirmed_frame [OF assms(6,7,8,9), simplified]
  let ?s = "s\<lparr>ss_write_requests := ss_write_requests s @ [r]\<rparr>"
  let ?u = "store_property (t, i) PROPERTY_PRESENT_VALUE (Octets (wr_value_octets r)) ?s"
  have "planned_failure s f = Inr None" using no_failure [of f t i _ r s] f(2) assms(4,10-12) by simp
  then have a: "server_answer e s f = server_write ?s f (Some r)"
    using f(1,2) assms(3,10) by (simp add: server_answer_def server_handle_def Let_def)
  obtain slots d where c: "ss_priority_arrays s (t, i) = Some slots" "slots_typed slots"
    "ss_relinquish_defaults s (t, i) = Some d" "object_property (ss_objects s) (t, i) PROPERTY_PRESENT_VALUE \<noteq> None"
    using server_typedD [OF assms(1,2)] by metis
  then obtain properties where o: "ss_objects s (t, i) = Some properties" "properties PROPERTY_PRESENT_VALUE \<noteq> None"
    by (auto simp: object_property_def split: option.splits)
  have com: "is_commanded ?s r" using assms(2,11-13) by (simp add: is_commanded_def split: option.splits)
  have ref: "write_refusal ?s properties r = None"
    using assms(3,5,11-13) o(2) by (auto simp: write_refusal_def Let_def check_write_def split: option.splits)
  have "nat (effective_priority r - 1) < length slots" using assms(14) c(2) by (simp add: slots_typed_def)
  then have "\<exists>v. command_object (t, i) r (tag = Some TAG_NULL) ?u = (v, Inr ())"
    using c(1,3) by (auto simp: command_object_def Let_def split: list.split option.split)
  then obtain v where v: "command_object (t, i) r (tag = Some TAG_NULL) ?u = (v, Inr ())" by blast
  have "settings v = settings s" using command_object_settings [of "(t, i)" r "tag = Some TAG_NULL" ?u] v by simp
  moreover have "server_write ?s f (Some r) = (v, Inr (Some [oct 32, oct n, oct SERVICE_WRITE_PROPERTY]))"
    using com ref o(1) v f(3) assms(8,9,11-13,15)
    by (simp add: server_write_def Let_def on_write_def simple_ack_def byte_def)
  ultimately show ?thesis using a by simp
qed

text \<open>Reading a property of a listed object.\<close>

lemma read_answered:
  assumes "ss_mode s = Online" "map_of (ss_failures s) (t, i) = None" "(t, i, p) \<notin> ss_whole_arrays_refused s"
    "f_payload f = [0, 5, oct n, oct SERVICE_READ_PROPERTY] @ parameters" "f_network_message f = None"
    "0 \<le> n" "n < 256"
    "parse_read_property_request (f_payload f) True = Inr (Some (t, i, p, None))"
    "parse_read_property_request (f_payload f) False = Inr (Some (t, i, p, None))"
    "server_value e s (t, i) p = Some v" "read_property_ack n t i p v = Inr ack"
  shows "\<exists>u. server_answer e s f = (u, Inr (Some ack)) \<and> same_values s u \<and> settings u = settings s"
proof -
  note f = confirmed_frame [OF assms(4-7), simplified]
  have "planned_failure s f = Inr None" using no_failure [of f t i p _ s] f(2) assms(2,9) by simp
  moreover have "ss_objects s (t, i) \<noteq> None"
    using assms(10) by (auto simp: server_value_def object_property_def split: option.splits)
  ultimately have "server_answer e s f = server_read_property e s f (t, i, p, None) None"
    using f(1,2) assms(1,8) by (auto simp: server_answer_def server_handle_def Let_def)
  also have "\<dots> = (log_read SERVICE_READ_PROPERTY [(t, i, [p])] s, Inr (Some ack))"
    using assms(3,10,11) f(3) by (simp add: server_read_property_def server_read_special_def)
  finally show ?thesis by simp
qed

end
