(* ===== verification/Command_Exchange.thy ===== *)
theory Command_Exchange
  imports Wire_Exchange
begin

text \<open>
  A client commands an object of the simulated server and reads it back: the octets of both
  requests and both replies, the serving thread, the priority array and the retry loop together.
\<close>

section \<open>The octets of requests and acknowledgements\<close>

lemma be_bytes_length: "to_bytes v n = Inr x \<Longrightarrow> length x = n" "pack_u n v = Inr x \<Longrightarrow> length x = n"
  by (auto simp: to_bytes_def pack_u_def split: if_splits)

lemma unsigned_octets_length: "unsigned_octets v = Inr x \<Longrightarrow> length x \<le> 4"
  by (auto simp: unsigned_octets_def dest: be_bytes_length split: if_splits)

lemma tag_octets_length:
  "context_unsigned n v = Inr x \<Longrightarrow> length x \<le> 5"
  "context_object_id n t i = Inr x \<Longrightarrow> length x \<le> 5"
  "opening_tag n = Inr x \<Longrightarrow> length x \<le> 1" "closing_tag n = Inr x \<Longrightarrow> length x \<le> 1"
  by (auto simp: context_unsigned_def context_object_id_def object_id_def opening_tag_def closing_tag_def
      result_simps byte_eq_Inr dest!: unsigned_octets_length be_bytes_length)

lemma optional_length:
  "cat (case a of None \<Rightarrow> [] | Some v \<Rightarrow> [context_unsigned n v]) = Inr x \<Longrightarrow> length x \<le> 5"
  by (auto simp: result_simps dest: tag_octets_length split: option.splits)

lemma write_request_octets:
  assumes "write_property_request n t i p v priority array_index = Inr apdu"
  obtains parameters where "apdu = [0, 5, oct n, oct SERVICE_WRITE_PROPERTY] @ parameters" "length apdu \<le> length v + 26"
proof -
  from assms obtain x y w op cl z where o:
    "context_object_id 0 t i = Inr x" "context_unsigned 1 p = Inr y"
    "cat (case array_index of None \<Rightarrow> [] | Some v \<Rightarrow> [context_unsigned 2 v]) = Inr w"
    "opening_tag 3 = Inr op" "closing_tag 3 = Inr cl"
    "cat (case priority of None \<Rightarrow> [] | Some v \<Rightarrow> [context_unsigned 4 v]) = Inr z"
    "confirmed_request n SERVICE_WRITE_PROPERTY (x @ y @ w @ op @ v @ cl @ z) = Inr apdu"
    by (auto simp: write_property_request_def cat_append result_simps)
  from o(7) have "apdu = [0, 5, oct n, oct SERVICE_WRITE_PROPERTY] @ x @ y @ w @ op @ v @ cl @ z"
    by (auto simp: confirmed_request_def bytes_of_def result_simps byte_eq_Inr oct_def)
  moreover from this o(1-6) have "length apdu \<le> length v + 26"
    by (auto dest!: tag_octets_length optional_length)
  ultimately show thesis using that by blast
qed

lemma read_request_octets:
  assumes "read_property_request n t i p array_index = Inr apdu"
  obtains parameters where "apdu = [0, 5, oct n, oct SERVICE_READ_PROPERTY] @ parameters" "length apdu \<le> 19"
proof -
  from assms obtain x y w where o:
    "context_object_id 0 t i = Inr x" "context_unsigned 1 p = Inr y"
    "cat (case array_index of None \<Rightarrow> [] | Some v \<Rightarrow> [context_unsigned 2 v]) = Inr w"
    "confirmed_request n SERVICE_READ_PROPERTY (x @ y @ w) = Inr apdu"
    by (auto simp: read_property_request_def cat_append result_simps)
  from o(4) have "apdu = [0, 5, oct n, oct SERVICE_READ_PROPERTY] @ x @ y @ w"
    by (auto simp: confirmed_request_def bytes_of_def result_simps byte_eq_Inr oct_def)
  moreover from this o(1-3) have "length apdu \<le> 19"
    by (auto dest!: tag_octets_length optional_length)
  ultimately show thesis using that by blast
qed

lemma read_ack_octets:
  assumes "read_property_ack n t i p v = Inr ack"
  obtains rest where "ack = [oct 0x30, oct n, oct SERVICE_READ_PROPERTY] @ rest" "length ack \<le> length v + 15"
proof -
  from assms obtain x y op cl where o:
    "context_object_id 0 t i = Inr x" "context_unsigned 1 p = Inr y"
    "opening_tag 3 = Inr op" "closing_tag 3 = Inr cl"
    "ack = [oct 0x30, oct n, oct SERVICE_READ_PROPERTY] @ x @ y @ op @ v @ cl"
    by (auto simp: read_property_ack_def bytes_of_def result_simps byte_eq_Inr)
  moreover from this have "length ack \<le> length v + 15" by (auto dest!: tag_octets_length)
  ultimately show thesis using that by blast
qed

text \<open>A frame with one of these payloads answers the request of its invoke identifier.\<close>

lemma ack_answers:
  assumes "f_payload g = [oct b, oct n] @ rest" "b = 0x20 \<or> b = 0x30" "f_network_message g = None"
    "0 \<le> n" "n < 256"
  shows "answers_request n g = Inr True"
    "pdu_type g = Some (if b = 0x20 then PDU_SIMPLE_ACK else PDU_COMPLEX_ACK)"
  using assms
  by (auto simp: answers_request_def pdu_type_def frame_invoke_id_def index_def uint_oct)

text \<open>Encoded values have an application tag or none; reading it does not fail.\<close>

lemma nested_tag:
  assumes "well_nested 0 vs"
  shows "\<exists>tag. application_tag (concat vs) = Inr tag"
proof (cases vs)
  case (Cons x xs)
  with well_nested_tags [OF assms] obtain n c k b where "tag_of x = Some (n, c, k, b)" by auto
  from read_tag_of_0 [OF this, of "concat xs"] Cons show ?thesis by (auto simp: application_tag_def)
qed (simp add: application_tag_def)

section \<open>A write and a read\<close>

text \<open>What a test leaves on for the object \<open>key\<close>: it is commandable, writable, and nothing is planned to fail.\<close>

definition accepts_commands :: "'e simulated_server \<Rightarrow> object_key \<Rightarrow> bool" where
  "accepts_commands s key \<longleftrightarrow> key \<in> commandable_keys s \<and> ss_mode s = Online \<and> map_of (ss_failures s) key = None
     \<and> (case ss_writable s of None \<Rightarrow> True | Some w \<Rightarrow> (fst key, snd key, PROPERTY_PRESENT_VALUE) \<in> w)
     \<and> (fst key, snd key, PROPERTY_PRESENT_VALUE) \<notin> ss_whole_arrays_refused s"

text \<open>A client that can ask: an address the NPDU can carry, a timeout, no negative number of retries.\<close>

definition client_ready :: "route \<Rightarrow> client \<Rightarrow> bool" where
  "client_ready r c \<longleftrightarrow> route_valid r \<and> 0 \<le> cl_retries c \<and> 0 < cl_timeout c"

abbreviation command :: "int \<Rightarrow> int \<Rightarrow> octets \<Rightarrow> int option \<Rightarrow> write_request" where
  "command t i v priority \<equiv>
     \<lparr>wr_object_type = t, wr_instance = i, wr_property_identifier = PROPERTY_PRESENT_VALUE, wr_array_index = None,
      wr_value_octets = v, wr_priority = priority\<rparr>"

lemma acknowledged_command:
  assumes "f_payload f = [0, 5, oct n, oct SERVICE_WRITE_PROPERTY] @ parameters" "f_network_message f = None"
    "0 \<le> n" "n < 256" "parse_write_property_request (f_payload f) = Inr (Some r)"
  shows "acknowledged_write f (Some (oct 32 # rest)) = Some r"
  using confirmed_frame [OF assms(1-4), simplified] assms(5)
  by (simp add: acknowledged_write_def acknowledges_def oct_def)

lemma write_exchange:
  assumes "server_typed s" "commands_served s" "accepts_commands s (t, i)" "client_ready r c"
    "object_range (t, i)" "well_nested 0 vs" "length (concat vs) + length (ro_dadr r) \<le> 2000"
    "\<forall>p \<in> set_option priority. 1 \<le> p \<and> p \<le> 16"
  shows "\<exists>c1 a u. client_write_property (\<lambda>build. exchange e r here build (c, s)) t i PROPERTY_PRESENT_VALUE
        (concat vs) priority None = (Some (c1, 0, Inr a), u)
    \<and> answer_acked a \<and> client_ready r c1 \<and> server_typed u \<and> commands_served u \<and> settings u = settings s
    \<and> abstract_server u = spec_write (abstract_server s) (command t i (concat vs) priority)"
proof -
  let ?n = "(cl_invoke_id c + 1) mod 256"
  let ?r = "command t i (concat vs) priority"
  let ?ans = "[oct 32, oct ?n, oct SERVICE_WRITE_PROPERTY]"
  let ?build = "\<lambda>n. write_property_request n t i PROPERTY_PRESENT_VALUE (concat vs) priority None"
  have n: "0 \<le> ?n" "?n < 256" by simp_all
  have ids: "unsigned32 PROPERTY_PRESENT_VALUE" "\<forall>a \<in> set_option priority. unsigned32 a" "effective_priority ?r \<le> 16"
    using assms(8) by (auto simp: effective_priority_def PRIORITY_DEFAULT_def split: option.splits)
  from write_request_parses [OF n assms(5) ids(1) assms(6) _ ids(2), of None] obtain apdu where
    apdu: "?build ?n = Inr apdu" "parse_write_property_request apdu = Inr (Some ?r)" by auto
  from write_request_octets [OF apdu(1)] obtain ps where
    ps: "apdu = [0, 5, oct ?n, oct SERVICE_WRITE_PROPERTY] @ ps" "length apdu \<le> length (concat vs) + 26" .
  from nested_tag [OF assms(6)] obtain tag where tag: "application_tag (wr_value_octets ?r) = Inr tag" by auto
  have served: "\<exists>u. server_answer e (keep_frame f False s) f = (u, Inr (Some ?ans))
      \<and> (server_typed u \<and> commands_served u \<and> settings u = settings s \<and> abstract_server u = spec_write (abstract_server s) ?r)"
    if f: "f_payload f = apdu" "f_network_message f = None" for f
  proof -
    let ?s = "keep_frame f False s"
    have same: "same_values s ?s" "settings ?s = settings s" by simp_all
    have typed: "server_typed ?s" "commands_served ?s"
      using assms(1,2) server_typed_same [OF same(1)] commands_served_same [OF same(1)] by simp_all
    have acc: "(t, i) \<in> commandable_keys ?s" "ss_mode ?s = Online" "map_of (ss_failures ?s) (t, i) = None"
      "\<forall>w. ss_writable ?s = Some w \<longrightarrow> (t, i, PROPERTY_PRESENT_VALUE) \<in> w"
      using assms(3) by (auto simp: accepts_commands_def keep_frame_def split: option.splits)
    have payload: "f_payload f = [0, 5, oct ?n, oct SERVICE_WRITE_PROPERTY] @ ps" using f(1) ps(1) by simp
    have parses: "parse_write_property_request (f_payload f) = Inr (Some ?r)" using f(1) apdu(2) by simp
    from write_answered [OF typed(1) acc payload f(2) n parses _ _ _ ids(3) tag] obtain u where
      u: "server_answer e ?s f = (u, Inr (Some ?ans))" "settings u = settings ?s" by auto
    have "server_typed u" using typed.answers [OF typed(1), of e f] u(1) by simp
    with answer_refines [OF typed u(1)] u same acknowledged_command [OF payload f(2) n parses]
    show ?thesis by (simp add: spec_step_def abstract_same [OF same(1)])
  qed
  have len: "length apdu + length (ro_dadr r) \<le> 2038" using ps(2) assms(7) by simp
  have ready: "route_valid r" "0 \<le> cl_retries c" "0 < cl_timeout c" using assms(4) by (simp_all add: client_ready_def)
  from exchange_answered [where build_apdu = ?build and s = s and e = e and here = here and ans = ?ans,
      OF apdu(1) ready(1) len ready(2,3) served]
  obtain c1 u g where x: "exchange e r here ?build (c, s) = (Some (c1, 0, Inr \<lparr>an_frame = Some g\<rparr>), u)"
    "server_typed u \<and> commands_served u \<and> settings u = settings s \<and> abstract_server u = spec_write (abstract_server s) ?r"
    "f_payload g = ?ans" "f_network_message g = None" "cl_retries c1 = cl_retries c" "cl_timeout c1 = cl_timeout c"
    using ack_answers(1) [of _ 32 ?n "[oct SERVICE_WRITE_PROPERTY]"] n by auto
  moreover have "answer_acked \<lparr>an_frame = Some g\<rparr>"
    using ack_answers(2) [of g 32 ?n "[oct SERVICE_WRITE_PROPERTY]"] x(3,4) n by (simp add: answer_acked_def)
  ultimately show ?thesis using ready by (simp add: client_write_property_def client_ready_def)
qed

lemma read_exchange:
  assumes "commands_served s" "accepts_commands s (t, i)" "client_ready r c" "object_range (t, i)"
    "spec_value (abstract_server s) (t, i) PROPERTY_PRESENT_VALUE = Some v" "served_octets e v = concat vs"
    "well_nested 0 vs" "length (concat vs) \<le> 2000"
  shows "\<exists>c1 a u. client_read_property (\<lambda>build. exchange e r here build (c, s)) t i PROPERTY_PRESENT_VALUE None
        = (Some (c1, 0, Inr a), u)
    \<and> answer_value_octets a = Inr (Some (concat vs)) \<and> client_ready r c1 \<and> same_values s u \<and> settings u = settings s"
proof -
  let ?n = "(cl_invoke_id c + 1) mod 256"
  let ?p = PROPERTY_PRESENT_VALUE
  let ?build = "\<lambda>n. read_property_request n t i ?p None"
  have n: "0 \<le> ?n" "?n < 256" "unsigned32 ?p" by simp_all
  from read_request_parses [OF n(1,2) assms(4) n(3), of None] obtain apdu where
    apdu: "?build ?n = Inr apdu" "parse_read_property_request apdu True = Inr (Some (t, i, ?p, None))"
    "parse_read_property_request apdu False = Inr (Some (t, i, ?p, None))" by auto
  from read_request_octets [OF apdu(1)] obtain ps where
    ps: "apdu = [0, 5, oct ?n, oct SERVICE_READ_PROPERTY] @ ps" "length apdu \<le> 19" .
  from ack_value [OF n(1,2) assms(4) n(3) assms(7)] obtain ack where
    ack: "read_property_ack ?n t i ?p (concat vs) = Inr ack" "read_property_value ack = Inr (Some (concat vs))" by blast
  from read_ack_octets [OF ack(1)] obtain rest where
    rest: "ack = [oct 0x30, oct ?n] @ oct SERVICE_READ_PROPERTY # rest" "length ack \<le> length (concat vs) + 15" by auto
  have served: "\<exists>u. server_answer e (keep_frame f False s) f = (u, Inr (Some ack))
      \<and> (same_values s u \<and> settings u = settings s)"
    if f: "f_payload f = apdu" "f_network_message f = None" for f
  proof -
    let ?s = "keep_frame f False s"
    have same: "same_values s ?s" "settings ?s = settings s" by simp_all
    have acc: "ss_mode ?s = Online" "map_of (ss_failures ?s) (t, i) = None" "(t, i, ?p) \<notin> ss_whole_arrays_refused ?s"
      using assms(2) by (simp_all add: accepts_commands_def keep_frame_def)
    have v: "server_value e ?s (t, i) ?p = Some (concat vs)"
      using assms(1,5,6) commands_served_same [OF same(1)] abstract_same [OF same(1)] by (simp add: served_value)
    from read_answered [OF acc _ f(2) n(1,2) _ _ v ack(1)] obtain u where
      "server_answer e ?s f = (u, Inr (Some ack))" "same_values ?s u" "settings u = settings ?s"
      using f(1) ps(1) apdu(2,3) by auto
    with same show ?thesis by (simp add: same_values_def)
  qed
  have "length (ro_dadr r) < 256" using assms(3) by (simp add: client_ready_def)
  then have len: "length apdu + length (ro_dadr r) \<le> 2038" "length ack \<le> 2042" using ps(2) rest(2) assms(8) by simp_all
  have ready: "route_valid r" "0 \<le> cl_retries c" "0 < cl_timeout c" using assms(3) by (simp_all add: client_ready_def)
  from exchange_answered [where build_apdu = ?build and s = s and e = e and here = here and ans = ack,
      OF apdu(1) ready(1) len(1) ready(2,3) served]
  obtain c1 u g where x: "exchange e r here ?build (c, s) = (Some (c1, 0, Inr \<lparr>an_frame = Some g\<rparr>), u)"
    "same_values s u \<and> settings u = settings s"
    "f_payload g = ack" "f_network_message g = None" "cl_retries c1 = cl_retries c" "cl_timeout c1 = cl_timeout c"
    using ack_answers(1) [of _ 48 ?n "oct SERVICE_READ_PROPERTY # rest"] n rest(1) len(2) by auto
  moreover have "answer_value_octets \<lparr>an_frame = Some g\<rparr> = Inr (Some (concat vs))"
    using ack_answers(2) [of g 48 ?n "oct SERVICE_READ_PROPERTY # rest"] x(3,4) n rest(1) ack(2) by (simp add: answer_value_octets_def)
  ultimately show ?thesis using ready by (simp add: client_read_property_def client_ready_def)
qed

section \<open>What is commanded is read\<close>

lemma least_command:
  assumes "\<forall>q < p. commands q = None"
  shows "winning_command (commands(p := Some v)) = Some v"
proof -
  have "(LEAST q. (commands(p := Some v)) q \<noteq> None) = p"
    using assms by (intro Least_equality) (auto simp: not_less [symmetric])
  then show ?thesis by (auto simp: winning_command_def)
qed

text \<open>The two requests together, for whatever value the command leaves standing.\<close>

lemma command_then_read:
  assumes "new_server number name vendor objects writable commandable elements = Inr s0" "server_runs s0 s True"
    "accepts_commands s (t, i)" "client_ready r c" "object_range (t, i)"
    "well_nested 0 vs" "length (concat vs) + length (ro_dadr r) \<le> 2000" "\<forall>p \<in> set_option priority. 1 \<le> p \<and> p \<le> 16"
    "spec_value (spec_write (abstract_server s) (command t i (concat vs) priority)) (t, i) PROPERTY_PRESENT_VALUE = Some v"
    "served_octets e' v = concat ws" "well_nested 0 ws" "length (concat ws) \<le> 2000"
  shows "\<exists>c1 a1 s1 c2 a2 s2.
      client_write_property (\<lambda>build. exchange e r here build (c, s)) t i PROPERTY_PRESENT_VALUE
        (concat vs) priority None = (Some (c1, 0, Inr a1), s1)
    \<and> answer_acked a1
    \<and> client_read_property (\<lambda>build. exchange e' r here build (c1, s1)) t i PROPERTY_PRESENT_VALUE None
        = (Some (c2, 0, Inr a2), s2)
    \<and> answer_value_octets a2 = Inr (Some (concat ws))"
proof -
  have "server_typed s" "commands_served s"
    using typed.runs [OF assms(2)] runs_served [OF assms(2)] new_server_typed [OF assms(1)] new_server_served [OF assms(1)]
    by simp_all
  from write_exchange [OF this assms(3-8), of e here] obtain c1 a u where
    w: "client_write_property (\<lambda>build. exchange e r here build (c, s)) t i PROPERTY_PRESENT_VALUE
        (concat vs) priority None = (Some (c1, 0, Inr a), u)" "answer_acked a" "client_ready r c1" "commands_served u"
    "settings u = settings s" "abstract_server u = spec_write (abstract_server s) (command t i (concat vs) priority)"
    by blast
  have "ss_commandable u = ss_commandable s"
    using arg_cong [OF w(6), of cs_commandable] by (simp add: spec_write_def Let_def)
  then have "accepts_commands u (t, i)" using assms(3) w(5) by (simp add: accepts_commands_def settings_def)
  from read_exchange [OF w(4) this w(3) assms(5) assms(9) [folded w(6)] assms(10-12), of here] w(1,2)
  show ?thesis by blast
qed

section \<open>What a running server promises\<close>

text \<open>A server of one analog output whose Present_Value is 50.0, and a frame that writes it.\<close>

definition one_output :: "object_key \<Rightarrow> (int \<Rightarrow> unit served option) option" where
  "one_output = (\<lambda>key. if key = (1, 0)
     then Some (\<lambda>p. if p = PROPERTY_PRESENT_VALUE then Some (Octets [0x44, 0x42, 0x48, 0, 0]) else None) else None)"

definition output_server :: "unit simulated_server result" where
  "output_server = new_server 389001 (lit ''output'') 389 one_output None (Some [(1, 0)]) False"

lemma output_server_starts: "\<exists>s. output_server = Inr s \<and> ss_objects s = one_output \<and> ss_mode s = Online
    \<and> ss_commandable s = Some {(1, 0)} \<and> ss_failures s = [] \<and> ss_writable s = None \<and> ss_whole_arrays_refused s = {}
    \<and> ss_priority_arrays s (1, 0) = Some (replicate 16 None)"
  by (simp add: output_server_def new_server_def Let_def one_output_def object_property_def)

text \<open>
  C23. Whatever datagrams reach a server, whatever a test sets and even when an exception has ended
  its serving thread, its state has the shape the class documents: every commandable object is
  listed with a Present_Value, has a Relinquish_Default and exactly sixteen slots of which none
  holds a NULL, and no other object has slots.
\<close>

theorem server_state_typed:
  assumes "new_server number name vendor objects writable commandable elements = Inr s0" "server_runs s0 s alive"
  shows "server_typed s"
  using typed.runs [OF assms(2)] new_server_typed [OF assms(1)] by simp

lemma server_state_typed_witness:
  "\<exists>s0 s. output_server = Inr s0 \<and> server_runs s0 s False \<and> server_typed s"
proof -
  obtain s0 where s0: "output_server = Inr s0" using output_server_starts by blast
  have "Frame [0x81, 0x0A, 0, 6, 1, 0x20] (lit ''10.0.0.9'', 47808) = Inl StructError"
    by (simp add: Frame_def frame_decode_def new_frame_def Let_def BVLC_FUNCTIONS_WITH_NPDU_def
        decode_address_def slice_def index_def)
  then have "serve_datagram (server_answer ()) s0 ([0x81, 0x0A, 0, 6, 1, 0x20], (lit ''10.0.0.9'', 47808), False)
      = (s0, Inl StructError)" by (simp add: serve_datagram_def)
  from server_runs.receive [OF server_runs.start this] have "server_runs s0 s0 False" by simp
  with server_state_typed [OF s0 [unfolded output_server_def] this] s0 show ?thesis by blast
qed

text \<open>
  C1. The server implements its abstract specification while its serving thread lives. Every frame
  changes the abstract state by exactly the write it asks for and the answer acknowledges, and by
  nothing else: a command fills or, with a NULL, empties its priority; another write replaces the
  value; a NULL for another property is acknowledged without effect. Afterwards every property the
  server serves is the one the specification gives: for a commandable Present_Value the command of
  the numerically least priority and, without any, the Relinquish_Default.
\<close>

theorem server_refines_commands:
  assumes "new_server number name vendor objects writable commandable elements = Inr s0" "server_runs s0 s True"
    "server_answer e s f = (t, Inr answer)"
  shows "abstract_server t = spec_step (abstract_server s) (acknowledged_write f answer) \<and>
    (\<forall>e' key p. server_value e' t key p = map_option (served_octets e') (spec_value (abstract_server t) key p))"
proof -
  have "server_typed s" "commands_served s"
    using typed.runs [OF assms(2)] runs_served [OF assms(2)] new_server_typed [OF assms(1)] new_server_served [OF assms(1)]
    by simp_all
  from answer_refines [OF this assms(3)] show ?thesis by (simp add: served_value)
qed

lemma server_refines_commands_witness:
  "\<exists>s f t. output_server = Inr s \<and> f_payload f = [0, 5, oct 1, oct SERVICE_WRITE_PROPERTY] @ drop 4 (f_payload f)
     \<and> parse_write_property_request (f_payload f) = Inr (Some (command 1 0 [0x44, 0x42, 0x50, 0, 0] (Some 8)))
     \<and> server_answer () s f = (t, Inr (Some [oct 32, oct 1, oct SERVICE_WRITE_PROPERTY]))
     \<and> server_value () t (1, 0) PROPERTY_PRESENT_VALUE = Some [0x44, 0x42, 0x50, 0, 0]"
proof -
  let ?v = "[0x44, 0x42, 0x50, 0, 0] :: octets"
  let ?r = "command 1 0 ?v (Some 8)"
  obtain s where s: "output_server = Inr s" "ss_mode s = Online" "ss_commandable s = Some {(1, 0)}"
    "ss_failures s = []" "ss_writable s = None" "ss_priority_arrays s (1, 0) = Some (replicate 16 None)"
    using output_server_starts by blast
  note new = s(1) [unfolded output_server_def]
  have v: "well_nested 0 [?v]" "application_tag ?v = Inr (Some 4)"
    by (simp_all add: evaluate_tags application_tag_def)
  from write_request_parses [of 1 1 0 PROPERTY_PRESENT_VALUE "[?v]" None "Some 8"] v(1) obtain apdu where
    apdu: "write_property_request 1 1 0 PROPERTY_PRESENT_VALUE ?v (Some 8) None = Inr apdu"
    "parse_write_property_request apdu = Inr (Some ?r)" by auto
  from write_request_octets [OF apdu(1)] obtain ps where ps: "apdu = [0, 5, oct 1, oct SERVICE_WRITE_PROPERTY] @ ps" .
  let ?f = "(new_frame [] (lit ''10.0.0.9'', 47808))\<lparr>f_payload := apdu\<rparr>"
  have f: "f_payload ?f = apdu" "f_network_message ?f = None" by (simp_all add: new_frame_def)
  have payload: "f_payload ?f = [0, 5, oct 1, oct SERVICE_WRITE_PROPERTY] @ ps" using f(1) ps by simp
  have parses: "parse_write_property_request (f_payload ?f) = Inr (Some ?r)" using f(1) apdu(2) by simp
  have typed: "server_typed s" by (rule new_server_typed [OF new])
  from write_answered [OF typed _ s(2) _ _ payload f(2) _ _ parses, where tag = "Some 4" and e = "()"] s v obtain t where
    t: "server_answer () s ?f = (t, Inr (Some [oct 32, oct 1, oct SERVICE_WRITE_PROPERTY]))"
    by (auto simp: effective_priority_def)
  have "acknowledged_write ?f (Some [oct 32, oct 1, oct SERVICE_WRITE_PROPERTY]) = Some ?r"
    by (rule acknowledged_command [OF payload f(2) _ _ parses]) simp_all
  with server_refines_commands [OF new server_runs.start t] have
    a: "abstract_server t = spec_write (abstract_server s) ?r"
    "server_value () t (1, 0) PROPERTY_PRESENT_VALUE
       = map_option (served_octets ()) (spec_value (abstract_server t) (1, 0) PROPERTY_PRESENT_VALUE)"
    by (simp_all add: spec_step_def)
  have "slot_of (ss_priority_arrays s (1, 0)) q = None" for q by (auto simp: s(6) slot_of_def)
  then have "spec_value (abstract_server t) (1, 0) PROPERTY_PRESENT_VALUE = Some (Octets ?v)"
    using s(3) v(2) least_command [of 8 "slot_of (ss_priority_arrays s (1, 0))" ?v]
    by (simp add: a(1) spec_value_def spec_write_def Let_def commands_property_def effective_priority_def null_octets_def)
  with a(2) s(1) f(1) ps t parses show ?thesis by (intro exI [of _ s] exI [of _ ?f] exI [of _ t]) simp
qed

text \<open>The slot a client's command with this priority argument goes to.\<close>

definition command_slot :: "int option \<Rightarrow> nat" where
  "command_slot priority = nat (case priority of None \<Rightarrow> PRIORITY_DEFAULT | Some p \<Rightarrow> p)"

lemma effective_slot:
  "\<forall>p \<in> set_option priority. 1 \<le> p \<and> p \<le> 16 \<Longrightarrow> nat (effective_priority (command t i v priority)) = command_slot priority"
  by (auto simp: effective_priority_def command_slot_def split: option.splits)

lemma commanded_value:
  assumes "accepts_commands s (t, i)" "\<forall>p \<in> set_option priority. 1 \<le> p \<and> p \<le> 16"
  shows "spec_value (spec_write (abstract_server s) (command t i v priority)) (t, i) PROPERTY_PRESENT_VALUE =
    (case winning_command ((slot_of (ss_priority_arrays s (t, i)))
         (command_slot priority := if null_octets v then None else Some v)) of
       Some w \<Rightarrow> Some (Octets w) | None \<Rightarrow> ss_relinquish_defaults s (t, i))"
proof -
  have "commands_property (ss_commandable s) (t, i) PROPERTY_PRESENT_VALUE"
    using assms(1) by (simp add: accepts_commands_def commands_property_keys)
  then show ?thesis
    by (simp add: spec_value_def spec_write_def Let_def effective_slot [OF assms(2)] split: option.split)
qed

text \<open>
  C2. A client that commands an object of a running server at a priority no more urgent command
  overrides, and then reads its Present_Value, gets a SimpleACK for the first request and exactly
  the octets it wrote for the second, whatever value it was that fits the 2048 octets a peer receives of
  a datagram, however many requests the server has served before and whatever route the requests take; no retry
  is printed.
\<close>

theorem written_value_is_read:
  assumes "new_server number name vendor objects writable commandable elements = Inr s0" "server_runs s0 s True"
    "accepts_commands s (t, i)" "client_ready r c" "object_range (t, i)"
    "well_nested 0 vs" "length (concat vs) + length (ro_dadr r) \<le> 2000" "\<not> null_octets (concat vs)"
    "\<forall>p \<in> set_option priority. 1 \<le> p \<and> p \<le> 16"
    "\<forall>q < command_slot priority. slot_of (ss_priority_arrays s (t, i)) q = None"
  shows "\<exists>c1 a1 s1 c2 a2 s2.
      client_write_property (\<lambda>build. exchange e r here build (c, s)) t i PROPERTY_PRESENT_VALUE
        (concat vs) priority None = (Some (c1, 0, Inr a1), s1)
    \<and> answer_acked a1
    \<and> client_read_property (\<lambda>build. exchange e' r here build (c1, s1)) t i PROPERTY_PRESENT_VALUE None
        = (Some (c2, 0, Inr a2), s2)
    \<and> answer_value_octets a2 = Inr (Some (concat vs))"
proof -
  have "spec_value (spec_write (abstract_server s) (command t i (concat vs) priority)) (t, i) PROPERTY_PRESENT_VALUE
      = Some (Octets (concat vs))"
    using assms(8) by (simp add: commanded_value [OF assms(3,9)] least_command [OF assms(10)])
  from command_then_read [OF assms(1-7,9) this _ assms(6)] assms(7) show ?thesis by simp
qed

text \<open>A test's client and the address it asks.\<close>

definition test_client :: client where
  "test_client = new_client 2 3"

definition test_route :: route where
  "test_route = \<lparr>ro_ip = lit ''127.0.0.1'', ro_port = 47808, ro_dnet = None, ro_dadr = []\<rparr>"

lemma test_route_direct [simp]: "ro_dadr test_route = []"
  by (simp add: test_route_def)

lemma test_ready: "client_ready test_route test_client"
  by (simp add: client_ready_def test_route_def test_client_def new_client_def)

lemma output_server_accepts:
  obtains s where "output_server = Inr s" "accepts_commands s (1, 0)"
    "\<And>q. slot_of (ss_priority_arrays s (1, 0)) q = None"
proof -
  obtain s where s: "output_server = Inr s" "ss_mode s = Online" "ss_commandable s = Some {(1, 0)}"
    "ss_failures s = []" "ss_writable s = None" "ss_priority_arrays s (1, 0) = Some (replicate 16 None)"
    "ss_whole_arrays_refused s = {}" using output_server_starts by blast
  have "accepts_commands s (1, 0)" by (simp add: accepts_commands_def s(2-5,7))
  moreover have "slot_of (ss_priority_arrays s (1, 0)) q = None" for q by (auto simp: slot_of_def s(6))
  ultimately show thesis using that s(1) by blast
qed

lemma real_value: "well_nested 0 [[0x44, 0x42, 0x50, 0, 0]]" "\<not> null_octets [0x44, 0x42, 0x50, 0, 0]"
  by (simp_all add: evaluate_tags null_octets_def application_tag_def)

lemma written_value_is_read_witness:
  "\<exists>s c1 a1 s1 c2 a2 s2. output_server = Inr s \<and>
     client_write_property (\<lambda>build. exchange () test_route (lit ''127.0.0.1'', 50000) build (test_client, s)) 1 0
       PROPERTY_PRESENT_VALUE [0x44, 0x42, 0x50, 0, 0] (Some 8) None = (Some (c1, 0, Inr a1), s1)
     \<and> client_read_property (\<lambda>build. exchange () test_route (lit ''127.0.0.1'', 50000) build (c1, s1)) 1 0
       PROPERTY_PRESENT_VALUE None = (Some (c2, 0, Inr a2), s2)
     \<and> answer_value_octets a2 = Inr (Some [0x44, 0x42, 0x50, 0, 0])"
proof -
  obtain s where s: "output_server = Inr s" "accepts_commands s (1, 0)"
    "\<And>q. slot_of (ss_priority_arrays s (1, 0)) q = None" using output_server_accepts by blast
  from written_value_is_read [OF s(1) [unfolded output_server_def] server_runs.start s(2) test_ready _ real_value(1),
      where priority = "Some 8" and e = "()" and e' = "()" and here = "(lit ''127.0.0.1'', 50000)"] real_value(2) s(1,3)
  show ?thesis by fastforce
qed




section \<open>A priority past the array\<close>

text \<open>
  C25. A command at a priority above 16 ends the server. Its value is stored as the Present_Value,
  no slot changes, and the IndexError that follows leaves the serving thread: nothing that arrives
  afterwards is answered.
\<close>

theorem priority_past_array_ends_server:
  assumes "server_typed s" "accepts_commands s (wr_object_type r, wr_instance r)"
    "Frame data source = Inr f" "f_ok f" "f_network_message f = None"
    "f_payload f = [0, 5, oct n, oct SERVICE_WRITE_PROPERTY] @ parameters" "0 \<le> n" "n < 256"
    "parse_write_property_request (f_payload f) = Inr (Some r)" "wr_property_identifier r = PROPERTY_PRESENT_VALUE"
    "application_tag (wr_value_octets r) = Inr tag" "16 < effective_priority r"
  shows "\<exists>u. serve (server_answer e) s ((data, source, False) # arrivals) = (u, [], Some IndexError)
    \<and> server_value e u (wr_object_type r, wr_instance r) PROPERTY_PRESENT_VALUE = Some (wr_value_octets r)
    \<and> ss_priority_arrays u = ss_priority_arrays s"
proof -
  let ?key = "(wr_object_type r, wr_instance r)"
  note f = confirmed_frame [OF assms(6,5,7,8), simplified]
  define k where "k = keep_frame f False s"
  let ?s = "k\<lparr>ss_write_requests := ss_write_requests k @ [r]\<rparr>"
  let ?u = "store_property ?key PROPERTY_PRESENT_VALUE (Octets (wr_value_octets r)) ?s"
  have k: "ss_mode k = Online" "map_of (ss_failures k) ?key = None" "ss_objects k = ss_objects s"
    "ss_commandable k = ss_commandable s" "ss_writable k = ss_writable s" "ss_priority_arrays k = ss_priority_arrays s"
    using assms(2) by (simp_all add: accepts_commands_def k_def keep_frame_def)
  have key: "?key \<in> commandable_keys s"
    "case ss_writable s of None \<Rightarrow> True | Some w \<Rightarrow> (wr_object_type r, wr_instance r, PROPERTY_PRESENT_VALUE) \<in> w"
    using assms(2) by (simp_all add: accepts_commands_def split: option.splits)
  obtain slots d where c: "ss_priority_arrays s ?key = Some slots" "slots_typed slots"
    "object_property (ss_objects s) ?key PROPERTY_PRESENT_VALUE \<noteq> None"
    using server_typedD [OF assms(1) key(1)] by metis
  then obtain properties where o: "ss_objects s ?key = Some properties" "properties PROPERTY_PRESENT_VALUE \<noteq> None"
    by (auto simp: object_property_def split: option.splits)
  have "planned_failure k f = Inr None" using no_failure [of f "wr_object_type r" "wr_instance r" _ r k] f(2) k(2) assms(9) by simp
  then have "server_answer e k f = server_write ?s f (Some r)"
    using f(1,2) k(1) assms(9) by (simp add: server_answer_def server_handle_def Let_def)
  also have "\<dots> = (?u, Inl IndexError)"
  proof -
    have "is_commanded ?s r" using key(1) k(4) assms(10) by (simp add: is_commanded_def split: option.splits)
    moreover have "write_refusal ?s properties r = None"
      using k(1,5) key(2) assms(10) o(2)
      by (auto simp: write_refusal_def Let_def check_write_def split: option.splits)
    moreover have "command_object ?key r is_null ?u = (?u, Inl IndexError)" for is_null
    proof -
      have "length slots \<le> nat (effective_priority r - 1)" using c(2) assms(12) by (simp add: slots_typed_def)
      then show ?thesis using c(1) k(6) by (simp add: command_object_def Let_def)
    qed
    ultimately show ?thesis
      using o(1) k(3) assms(10,11) by (simp add: server_write_def Let_def)
  qed
  finally have a: "server_answer e k f = (?u, Inl IndexError)" .
  have "server_value e ?u ?key PROPERTY_PRESENT_VALUE = Some (wr_value_octets r)"
    using o(1) k(3) by (simp add: server_value_def object_property_store)
  moreover have "ss_priority_arrays ?u = ss_priority_arrays s" using k(6) by simp
  ultimately show ?thesis
    using a assms(3-5) by (simp add: serve_datagram_def Let_def k_def)
qed

lemma priority_past_array_ends_server_witness:
  "\<exists>s apdu d u. output_server = Inr s
     \<and> write_property_request 1 1 0 PROPERTY_PRESENT_VALUE [0x44, 0x42, 0x50, 0, 0] (Some 17) None = Inr apdu
     \<and> request_datagram apdu test_route = Inr d
     \<and> serve (server_answer ()) s [(d, (lit ''127.0.0.1'', 50000), False)] = (u, [], Some IndexError)"
proof -
  let ?v = "[0x44, 0x42, 0x50, 0, 0] :: octets"
  let ?r = "command 1 0 ?v (Some 17)"
  obtain s where s: "output_server = Inr s" "accepts_commands s (1, 0)" using output_server_accepts by blast
  from write_request_parses [of 1 1 0 PROPERTY_PRESENT_VALUE "[?v]" None "Some 17"] real_value(1) obtain apdu where
    apdu: "write_property_request 1 1 0 PROPERTY_PRESENT_VALUE ?v (Some 17) None = Inr apdu"
    "parse_write_property_request apdu = Inr (Some ?r)" by auto
  from write_request_octets [OF apdu(1)] obtain ps where
    ps: "apdu = [0, 5, oct 1, oct SERVICE_WRITE_PROPERTY] @ ps" "length apdu \<le> 31" by auto
  have "route_valid test_route" "length apdu < 60000" using ps(2) by (simp_all add: test_route_def)
  then obtain d f where f: "request_datagram apdu test_route = Inr d" "Frame d (lit ''127.0.0.1'', 50000) = Inr f" "f_ok f"
    "f_network_message f = None" "f_payload f = apdu"
    using request_frame [of test_route apdu "(lit ''127.0.0.1'', 50000)"] by metis
  have payload: "f_payload f = [0, 5, oct 1, oct SERVICE_WRITE_PROPERTY] @ ps" using f(5) ps(1) by simp
  have parses: "parse_write_property_request (f_payload f) = Inr (Some ?r)" using f(5) apdu(2) by simp
  have typed: "server_typed s" by (rule new_server_typed [OF s(1) [unfolded output_server_def]])
  have tag: "application_tag ?v = Inr (Some 4)" by (simp add: evaluate_tags application_tag_def)
  from priority_past_array_ends_server [OF typed _ f(2-4) payload _ _ parses, where e = "()" and tag = "Some 4" and arrivals = "[]"]
    s tag have "\<exists>u. serve (server_answer ()) s [(d, (lit ''127.0.0.1'', 50000), False)] = (u, [], Some IndexError)"
    by (auto simp: effective_priority_def)
  with s(1) apdu(1) f(1) show ?thesis by blast
qed

end
