(* ===== verification/Event_Exchange.thy ===== *)
theory Event_Exchange
  imports Tag_Loops Wire_Workstation Command_Exchange
begin

text \<open>
  An event notification from a simulated peer to a workstation and its acknowledgement back: the
  encoder and the decoder of \<^verbatim>\<open>alarm.py\<close>, and the threads at both ends.
\<close>

section \<open>Fallible pieces\<close>

definition part :: "(octets \<Rightarrow> nat \<Rightarrow> 's \<Rightarrow> 's result) \<Rightarrow> octets result \<Rightarrow> 's \<Rightarrow> 's \<Rightarrow> bool" where
  "part loop m s t \<longleftrightarrow> (\<exists>x. m = Inr x \<and> loop_step loop x s t)"

lemma part_Nil: "part loop (cat []) s s"
  by (simp add: part_def)

lemma part_Cons: "part loop m s t \<Longrightarrow> part loop (cat ms) t u \<Longrightarrow> part loop (cat (m # ms)) s u"
  using loop_step_append by (fastforce simp: part_def)

lemma part_append: "part loop (cat ms) s t \<Longrightarrow> part loop (cat ns) t u \<Longrightarrow> part loop (cat (ms @ ns)) s u"
  using loop_step_append by (fastforce simp: part_def cat_append)

lemma part_number:
  assumes "context_number n" "unsigned32 v" "\<And>b. from_bytes b = v \<Longrightarrow> event_field n b s = Inr t"
  shows "part event_from (context_unsigned n v) s t" "part event_from (context_enumerated n v) s t"
proof -
  obtain x b where "context_unsigned n v = Inr x" "tag_of x = Some (n, True, Kvalue, b)" "from_bytes b = v"
    using context_unsigned_tag [OF assms(1,2)] by blast
  with event_value_step [OF _ assms(3)] show "part event_from (context_unsigned n v) s t" by (auto simp: part_def)
  then show "part event_from (context_enumerated n v) s t" by (simp add: context_enumerated_def)
qed

lemma part_object:
  assumes "context_number n" "object_range (ty, i)" "\<And>b. object_identifier b = Inr (ty, i) \<Longrightarrow> event_field n b s = Inr t"
  shows "part event_from (context_object_id n ty i) s t"
proof -
  obtain x b where "context_object_id n ty i = Inr x" "tag_of x = Some (n, True, Kvalue, b)" "object_identifier b = Inr (ty, i)"
    using context_object_id_tag [OF assms(1,2)] by blast
  with event_value_step [OF _ assms(3)] show ?thesis by (auto simp: part_def)
qed

lemma part_flag:
  "context_number n \<Longrightarrow> event_field n [if v then 1 else 0] s = Inr t \<Longrightarrow> part event_from (context_boolean n v) s t"
  using ctx_boolean.one_tag [of "(n, v)"] event_value_step by (fastforce simp: part_def)

lemma part_text:
  "short_text v \<Longrightarrow> part event_from (context_character_string 7 v) s s"
  using ctx_text.one_tag [of "(7, v)"] event_value_step [of _ 7 _ s s]
  by (fastforce simp: part_def event_field_def)

lemma part_stamp:
  "length date = 4 \<Longrightarrow> length time = 4 \<Longrightarrow>
   part event_from (context_date_time 3 (date, time)) s (s\<lparr>en_time_stamp := Some (date, time)\<rparr>)"
  using event_stamp_step by (simp add: part_def)

text \<open>The event values, a nested structure the decoder steps over.\<close>

lemma status_bits_tag: "\<exists>x. context_bit_string 1 [a, False, False, False] = Inr x \<and> (\<exists>b. tag_of x = Some (1, True, Kvalue, b))"
  by (cases a) (simp_all add: context_bit_string_def application_bit_string_def byte_def oct_def evaluate_tags)

lemma part_values:
  assumes "float32 v" "float32 w"
  shows "part event_from (cat [opening_tag 12, opening_tag 5, context_real 0 v,
     context_bit_string 1 [a, False, False, False], context_real 2 (half 2), context_real 3 w, closing_tag 5, closing_tag 12]) s s"
proof -
  obtain o12 c12 where b12: "opening_tag 12 = Inr o12" "tag_of o12 = Some (12, True, Kopen, [])"
    "closing_tag 12 = Inr c12" "tag_of c12 = Some (12, True, Kclose, [])" using brackets [of 12] by auto
  obtain o5 c5 where b5: "opening_tag 5 = Inr o5" "tag_of o5 = Some (5, True, Kopen, [])"
    "closing_tag 5 = Inr c5" "tag_of c5 = Some (5, True, Kclose, [])" using brackets [of 5] by auto
  have one: "float32 (half 2)" by (rule float32_half [of 2 22]) simp_all
  obtain x0 x2 x3 where r: "context_real 0 v = Inr x0" "\<exists>b. tag_of x0 = Some (0, True, Kvalue, b)"
    "context_real 2 (half 2) = Inr x2" "\<exists>b. tag_of x2 = Some (2, True, Kvalue, b)"
    "context_real 3 w = Inr x3" "\<exists>b. tag_of x3 = Some (3, True, Kvalue, b)"
    using ctx_real.one_tag [of "(0, v)"] ctx_real.one_tag [of "(2, half 2)"] ctx_real.one_tag [of "(3, w)"] assms one
    by auto
  obtain x1 where f: "context_bit_string 1 [a, False, False, False] = Inr x1" "\<exists>b. tag_of x1 = Some (1, True, Kvalue, b)"
    using status_bits_tag by blast
  have "well_nested 0 [o5, x0, x1, x2, x3, c5]" using b5 r f by auto
  from event_skip_step [OF b12(2) _ this b12(4), of s] show ?thesis
    by (simp add: part_def b12 b5 r f)
qed

section \<open>Round trip of an event notification\<close>

text \<open>Arguments the encoder accepts: 32-bit numbers, ten-bit object types, one-octet date and time parts, binary32 values.\<close>

abbreviation octet_value :: "int \<Rightarrow> bool" where
  "octet_value v \<equiv> 0 \<le> v \<and> v < 256"

definition event_valid :: "int \<Rightarrow> int \<times> int \<Rightarrow> int \<Rightarrow> event_args \<Rightarrow> bool" where
  "event_valid initiating_device event_object to_state a \<longleftrightarrow>
     object_range (OBJECT_TYPE_DEVICE, initiating_device) \<and> object_range event_object \<and> unsigned32 to_state
     \<and> (\<forall>v \<in> {ev_from_state a, ev_process_identifier a, ev_notification_class a, ev_priority a, ev_notify_type a}. unsigned32 v)
     \<and> octet_value (ev_invoke_id a) \<and> (\<forall>text \<in> set_option (ev_message_text a). short_text text)
     \<and> (case (ev_date a, ev_time a) of ((year, month, day, weekday), (hour, minute, second)) \<Rightarrow>
          \<forall>v \<in> {year - 1900, month, day, weekday, hour, minute, second}. octet_value v)
     \<and> float32 (ev_exceeding_value a) \<and> float32 (ev_exceeded_limit a)"

definition stamp_of :: "event_args \<Rightarrow> octets \<times> octets" where
  "stamp_of a = (case (ev_date a, ev_time a) of ((year, month, day, weekday), (hour, minute, second)) \<Rightarrow>
     (map oct [year - 1900, month, day, weekday], map oct [hour, minute, second, 0]))"

text \<open>What the decoder reads; an ACK_NOTIFICATION has no ack-required flag and no from-state.\<close>

definition event_sent :: "int \<Rightarrow> int \<times> int \<Rightarrow> int \<Rightarrow> event_args \<Rightarrow> event_notification_data" where
  "event_sent initiating_device event_object to_state a =
     (let ack = (ev_notify_type a = NOTIFY_TYPE_ACK_NOTIFICATION) in
      \<lparr>en_confirmed = ev_confirmed a, en_invoke_id = (if ev_confirmed a then Some (ev_invoke_id a) else None),
       en_process_identifier = Some (ev_process_identifier a),
       en_initiating_device = Some (OBJECT_TYPE_DEVICE, initiating_device), en_event_object = Some event_object,
       en_time_stamp = Some (stamp_of a), en_notification_class = Some (ev_notification_class a),
       en_priority = Some (ev_priority a), en_event_type = Some EVENT_TYPE_OUT_OF_RANGE,
       en_notify_type = Some (ev_notify_type a),
       en_ack_required = (if ack then None else Some (ev_ack_required a)),
       en_from_state = (if ack then None else Some (ev_from_state a)), en_to_state = Some to_state\<rparr>)"

lemma event_stamp_of:
  assumes "event_valid d k to_state a"
  shows "event_stamp a = Inr (stamp_of a)"
  using assms
  by (cases "ev_date a"; cases "ev_time a")
    (auto simp: event_valid_def event_stamp_def stamp_of_def application_date_def application_time_def bytes_of_def byte_def)

lemma event_field_parts:
  "unsigned32 v \<Longrightarrow> part event_from (context_unsigned 0 v) s (s\<lparr>en_process_identifier := Some v\<rparr>)"
  "object_range (ty, i) \<Longrightarrow> part event_from (context_object_id 1 ty i) s (s\<lparr>en_initiating_device := Some (ty, i)\<rparr>)"
  "object_range (ty, i) \<Longrightarrow> part event_from (context_object_id 2 ty i) s (s\<lparr>en_event_object := Some (ty, i)\<rparr>)"
  "unsigned32 v \<Longrightarrow> part event_from (context_unsigned 4 v) s (s\<lparr>en_notification_class := Some v\<rparr>)"
  "unsigned32 v \<Longrightarrow> part event_from (context_unsigned 5 v) s (s\<lparr>en_priority := Some v\<rparr>)"
  "unsigned32 v \<Longrightarrow> part event_from (context_enumerated 6 v) s (s\<lparr>en_event_type := Some v\<rparr>)"
  "unsigned32 v \<Longrightarrow> part event_from (context_enumerated 8 v) s (s\<lparr>en_notify_type := Some v\<rparr>)"
  "part event_from (context_boolean 9 a) s (s\<lparr>en_ack_required := Some a\<rparr>)"
  "unsigned32 v \<Longrightarrow> part event_from (context_enumerated 10 v) s (s\<lparr>en_from_state := Some v\<rparr>)"
  "unsigned32 v \<Longrightarrow> part event_from (context_enumerated 11 v) s (s\<lparr>en_to_state := Some v\<rparr>)"
  by (rule part_number part_object part_flag; simp add: event_field_def from_bytes_def)+

lemma part_optional_text:
  "\<forall>text \<in> set_option v. short_text text \<Longrightarrow>
   part event_from (cat (case v of None \<Rightarrow> [] | Some text \<Rightarrow> [context_character_string 7 text])) s s"
  by (cases v) (auto intro!: part_Nil part_Cons [OF part_text] simp del: cat.simps)

lemma part_same: "part loop m s t \<Longrightarrow> t = u \<Longrightarrow> part loop m s u"
  by simp

lemma event_parts:
  assumes "event_valid d k to_state a"
  shows "part event_from (event_parameters d k to_state a (stamp_of a))
    (new_event (ev_confirmed a) (if ev_confirmed a then Some (ev_invoke_id a) else None)) (event_sent d k to_state a)"
proof -
  obtain date time where st: "stamp_of a = (date, time)" "length date = 4" "length time = 4"
    by (cases "ev_date a"; cases "ev_time a") (simp add: stamp_of_def)
  let ?s = "new_event (ev_confirmed a) (if ev_confirmed a then Some (ev_invoke_id a) else None)"
  note v = assms [unfolded event_valid_def]
  have range: "object_range (OBJECT_TYPE_DEVICE, d)" "object_range (fst k, snd k)" "unsigned32 to_state"
    "unsigned32 (ev_from_state a)" "unsigned32 (ev_process_identifier a)" "unsigned32 (ev_notification_class a)"
    "unsigned32 (ev_priority a)" "unsigned32 (ev_notify_type a)" "unsigned32 EVENT_TYPE_OUT_OF_RANGE"
    "\<forall>text \<in> set_option (ev_message_text a). short_text text"
    "float32 (ev_exceeding_value a)" "float32 (ev_exceeded_limit a)"
    using v by (simp_all del: is_ok_iff)
  note parts = event_field_parts range part_Nil part_stamp st(2,3) part_optional_text part_Cons part_append
  have start: "part event_from (cat ([context_unsigned 0 (ev_process_identifier a), context_object_id 1 OBJECT_TYPE_DEVICE d,
      context_object_id 2 (fst k) (snd k), context_date_time 3 (date, time), context_unsigned 4 (ev_notification_class a),
      context_unsigned 5 (ev_priority a), context_enumerated 6 EVENT_TYPE_OUT_OF_RANGE]
      @ (case ev_message_text a of None \<Rightarrow> [] | Some text \<Rightarrow> [context_character_string 7 text])
      @ [context_enumerated 8 (ev_notify_type a)])) ?s
     (?s\<lparr>en_process_identifier := Some (ev_process_identifier a), en_initiating_device := Some (OBJECT_TYPE_DEVICE, d),
         en_event_object := Some (fst k, snd k), en_time_stamp := Some (date, time),
         en_notification_class := Some (ev_notification_class a), en_priority := Some (ev_priority a),
         en_event_type := Some EVENT_TYPE_OUT_OF_RANGE, en_notify_type := Some (ev_notify_type a)\<rparr>)"
    by (rule parts)+
  show ?thesis
  proof (cases "ev_notify_type a = NOTIFY_TYPE_ACK_NOTIFICATION")
    case True
    have "part event_from (cat (([context_unsigned 0 (ev_process_identifier a), context_object_id 1 OBJECT_TYPE_DEVICE d,
        context_object_id 2 (fst k) (snd k), context_date_time 3 (date, time), context_unsigned 4 (ev_notification_class a),
        context_unsigned 5 (ev_priority a), context_enumerated 6 EVENT_TYPE_OUT_OF_RANGE]
        @ (case ev_message_text a of None \<Rightarrow> [] | Some text \<Rightarrow> [context_character_string 7 text])
        @ [context_enumerated 8 (ev_notify_type a)]) @ [context_enumerated 11 to_state])) ?s (event_sent d k to_state a)"
      by (rule part_append [OF start part_same], (rule parts)+) (simp add: event_sent_def new_event_def st True)
    then show ?thesis using True by (simp add: event_parameters_def st(1) del: cat.simps)
  next
    case False
    have flags: "part event_from (cat [context_boolean 9 (ev_ack_required a), context_enumerated 10 (ev_from_state a),
        context_enumerated 11 to_state]) u
        (u\<lparr>en_ack_required := Some (ev_ack_required a), en_from_state := Some (ev_from_state a), en_to_state := Some to_state\<rparr>)" for u
      by (rule parts)+
    have "part event_from (cat (([context_unsigned 0 (ev_process_identifier a), context_object_id 1 OBJECT_TYPE_DEVICE d,
        context_object_id 2 (fst k) (snd k), context_date_time 3 (date, time), context_unsigned 4 (ev_notification_class a),
        context_unsigned 5 (ev_priority a), context_enumerated 6 EVENT_TYPE_OUT_OF_RANGE]
        @ (case ev_message_text a of None \<Rightarrow> [] | Some text \<Rightarrow> [context_character_string 7 text])
        @ [context_enumerated 8 (ev_notify_type a)])
        @ [context_boolean 9 (ev_ack_required a), context_enumerated 10 (ev_from_state a), context_enumerated 11 to_state]
        @ [opening_tag 12, opening_tag 5, context_real 0 (ev_exceeding_value a),
           context_bit_string 1 [to_state \<noteq> EVENT_STATE_NORMAL, False, False, False], context_real 2 (half 2),
           context_real 3 (ev_exceeded_limit a), closing_tag 5, closing_tag 12])) ?s (event_sent d k to_state a)"
      by (rule part_append [OF start part_same [OF part_append [OF flags part_values]]], (rule range)+)
        (simp add: event_sent_def new_event_def st False)
    then show ?thesis using False by (simp add: event_parameters_def st(1) del: cat.simps)
  qed
qed

text \<open>A frame that carries a notification is recognised and decoded to what was sent.\<close>

lemma notification_decodes:
  assumes "event_valid d k to_state a" "event_notification d k to_state a = Inr apdu"
    "f_payload f = apdu" "f_network_message f = None"
  shows "is_event_notification f = Inr True" "EventNotification f = Inr (event_sent d k to_state a)"
    "ev_confirmed a \<Longrightarrow> frame_invoke_id f = Inr (Some (ev_invoke_id a))"
proof -
  from event_parts [OF assms(1)] obtain x where x: "event_parameters d k to_state a (stamp_of a) = Inr x"
    "loop_step event_from x (new_event (ev_confirmed a) (if ev_confirmed a then Some (ev_invoke_id a) else None))
       (event_sent d k to_state a)" by (auto simp: part_def)
  have whole: "event_from x 0 (new_event (ev_confirmed a) (if ev_confirmed a then Some (ev_invoke_id a) else None))
      = Inr (event_sent d k to_state a)"
    using loop_step_result [OF x(2) event_from_end, of "[]"] by simp
  have n: "0 \<le> ev_invoke_id a" "ev_invoke_id a < 256" using assms(1) by (simp_all add: event_valid_def)
  have "is_event_notification f = Inr True \<and> EventNotification f = Inr (event_sent d k to_state a)
      \<and> (ev_confirmed a \<longrightarrow> frame_invoke_id f = Inr (Some (ev_invoke_id a)))"
  proof (cases "ev_confirmed a")
    case True
    then have "f_payload f = [0, 5, oct (ev_invoke_id a), oct SERVICE_CONFIRMED_EVENT_NOTIFICATION] @ x"
      using assms(2,3) x(1) event_stamp_of [OF assms(1)] n
      by (simp add: event_notification_def confirmed_request_eq)
    with whole True n assms(4) confirmed_frame [OF this assms(4) n] show ?thesis
      by (auto simp: is_event_notification_def is_request_of_def EventNotification_def service_parameters_def
          request_invoke_id_def chain_eq_Inr split: option.splits)
  next
    case False
    then have "f_payload f = [oct 16, oct SERVICE_UNCONFIRMED_EVENT_NOTIFICATION] @ x"
      using assms(2,3) x(1) event_stamp_of [OF assms(1)]
      by (simp add: event_notification_def byte_def)
    with whole False assms(4) show ?thesis
      by (simp add: is_event_notification_def is_request_of_def EventNotification_def service_parameters_def
          pdu_type_def frame_service_def index_def uint_oct)
  qed
  then show "is_event_notification f = Inr True" "EventNotification f = Inr (event_sent d k to_state a)"
    "ev_confirmed a \<Longrightarrow> frame_invoke_id f = Inr (Some (ev_invoke_id a))" by simp_all
qed

lemma send_apdu_frame:
  assumes "send_apdu apdu = Inr datagram"
  obtains f where "Frame datagram source = Inr f" "f_ok f" "f_network_message f = None" "f_payload f = apdu"
    "f_source f = source"
proof -
  have v: "npdu_valid npdu_defaults" by (simp add: npdu_valid_def npdu_defaults_def)
  have b: "bvlc (npdu_octets apdu npdu_defaults) False = Inr datagram"
    using assms by (simp add: send_apdu_def npdu_eq [OF v])
  then have "length (npdu_octets apdu npdu_defaults) < 65532"
    by (auto simp: bvlc_def bvll_def result_simps pack_u_def split: if_splits)
  from frame_of_npdu_octets [OF v this, of False source] b that show thesis
    by (auto simp: expected_frame_def new_frame_def npdu_defaults_def vendor_octets_def)
qed

section \<open>Notification and acknowledgement\<close>

lemma simple_ack_octets: "octet_value n \<Longrightarrow> simple_ack n SERVICE_CONFIRMED_EVENT_NOTIFICATION
    = Inr [oct 32, oct n, oct SERVICE_CONFIRMED_EVENT_NOTIFICATION]"
  by (simp add: simple_ack_def byte_def)

lemma short_apdu_sends: "length apdu < 60000 \<Longrightarrow> \<exists>d. send_apdu apdu = Inr d"
proof -
  have v: "npdu_valid npdu_defaults" by (simp add: npdu_valid_def npdu_defaults_def)
  assume "length apdu < 60000"
  then have "length (npdu_octets apdu npdu_defaults) < 65532"
    by (simp add: npdu_octets_def npdu_defaults_def address_octets_def)
  from frame_of_npdu_octets [OF v this, of False] show ?thesis by (auto simp: send_apdu_def npdu_eq [OF v])
qed

lemma collect_snoc: "collect g (xs @ [x]) = chain (collect g xs) (\<lambda>ys. chain (g x) (\<lambda>y. Inr (ys @ [y])))"
  by (induction xs) (auto simp: chain_def split: sum.splits)

text \<open>A device that is sent an acknowledgement answers nothing and lists it.\<close>

lemma device_keeps_ack:
  assumes "send_apdu [oct 32, oct n, oct service] = Inr ack" "octet_value n" "octet_value service"
  shows "\<exists>p'. serve_datagram plain_answer p (ack, source, False) = (p', Inr None)
    \<and> simple_acks p' service = chain (simple_acks p service) (\<lambda>acks. Inr (acks @ [(Some n, source)]))"
proof -
  obtain g where g: "Frame ack source = Inr g" "f_ok g" "f_network_message g = None"
    "f_payload g = [oct 32, oct n, oct service]" "f_source g = source"
    using send_apdu_frame [OF assms(1)] by metis
  have t: "pdu_type g = Some PDU_SIMPLE_ACK" "frame_service g = Inr (Some service)" "frame_invoke_id g = Inr (Some n)"
    using g(3,4) assms(2,3) by (simp_all add: pdu_type_def frame_service_def frame_invoke_id_def index_def uint_oct)
  let ?p = "keep_frame g False p"
  have "serve_datagram plain_answer p (ack, source, False) = (?p, Inr None)"
    using g t by (simp add: serve_datagram_def plain_answer_def device_answer_def)
  moreover have "simple_acks ?p service = chain (simple_acks p service) (\<lambda>acks. Inr (acks @ [(Some n, source)]))"
    using g(2,5) t by (simp add: simple_acks_def keep_frame_def collect_snoc chain_def split: sum.split)
  ultimately show ?thesis by blast
qed

text \<open>
  C3. An event notification reaches a workstation as it was sent and is acknowledged once. Whatever its
  fields are within their encodings, with or without text, alarm or ACK_NOTIFICATION, the workstation keeps
  exactly one notification with exactly those fields. When it is confirmed and the workstation answers
  notifications, it sends one SimpleACK to the sender, which lists its invoke identifier and the
  workstation's address; otherwise it sends nothing. The serving thread goes on.
\<close>

theorem notification_acknowledged:
  assumes "event_valid d k to_state a" "event_notification d k to_state a = Inr apdu" "send_apdu apdu = Inr datagram"
    "ws_serving w"
  shows "\<exists>w'. ws_serve [(datagram, peer)] w = w' \<and> ws_serving w'
    \<and> ws_notifications w' = ws_notifications w @ [event_sent d k to_state a]
    \<and> (if ev_confirmed a \<and> ws_answer_notifications w
       then \<exists>ack p'. ws_sent w' = ws_sent w @ [(ack, peer)]
         \<and> serve_datagram plain_answer p (ack, here, False) = (p', Inr None)
         \<and> simple_acks p' SERVICE_CONFIRMED_EVENT_NOTIFICATION =
             chain (simple_acks p SERVICE_CONFIRMED_EVENT_NOTIFICATION) (\<lambda>acks. Inr (acks @ [(Some (ev_invoke_id a), here)]))
       else ws_sent w' = ws_sent w)"
proof -
  obtain f where f: "Frame datagram peer = Inr f" "f_ok f" "f_network_message f = None" "f_payload f = apdu"
    using send_apdu_frame [OF assms(3)] by metis
  note n = notification_decodes [OF assms(1,2) f(4,3)]
  have id: "octet_value (ev_invoke_id a)" using assms(1) by (simp add: event_valid_def)
  let ?w = "keep_notification (event_sent d k to_state a) w"
  have c: "en_confirmed (event_sent d k to_state a) = ev_confirmed a" by (simp add: event_sent_def Let_def)
  show ?thesis
  proof (cases "ev_confirmed a \<and> ws_answer_notifications w")
    case True
    let ?apdu = "[oct 32, oct (ev_invoke_id a), oct SERVICE_CONFIRMED_EVENT_NOTIFICATION]"
    obtain ack where ack: "send_apdu ?apdu = Inr ack" using short_apdu_sends [of ?apdu] by auto
    then have "notification_ack (Some (ev_invoke_id a)) = Inr ack"
      using simple_ack_octets [OF id] by (simp add: notification_ack_def send_apdu_def)
    then have "ws_receive (datagram, peer) w = (ws_send ack peer ?w, Inr ())"
      using f n True c by (simp add: ws_receive_def keep_notification_def)
    then have "ws_serve [(datagram, peer)] w = ws_send ack peer ?w" using assms(4) by simp
    with device_keeps_ack [OF ack id, of p here] True assms(4) show ?thesis
      by (auto simp: ws_send_def keep_notification_def)
  next
    case False
    then have "ws_receive (datagram, peer) w = (?w, Inr ())"
      using f n c by (auto simp: ws_receive_def keep_notification_def)
    with False assms(4) show ?thesis by (auto simp: keep_notification_def)
  qed
qed

lemma event_octets_length:
  "context_enumerated n v = Inr x \<Longrightarrow> length x \<le> 5" "context_boolean n a = Inr x \<Longrightarrow> length x \<le> 2"
  "float32 r \<Longrightarrow> context_real n r = Inr x \<Longrightarrow> length x \<le> 5"
  "context_bit_string 1 [a, False, False, False] = Inr x \<Longrightarrow> length x \<le> 3"
  "context_date_time 3 (date, time) = Inr x \<Longrightarrow> length x \<le> length date + length time + 6"
proof -
  show "context_enumerated n v = Inr x \<Longrightarrow> length x \<le> 5"
    by (auto simp: context_enumerated_def dest: tag_octets_length)
  show "context_boolean n a = Inr x \<Longrightarrow> length x \<le> 2"
    by (auto simp: context_boolean_def bytes_of_def result_simps byte_eq_Inr)
  show "length x \<le> 5" if r: "float32 r" "context_real n r = Inr x"
  proof -
    obtain bs where "pack_f r = Inr bs" "length bs = 4" using float32_roundtrip [OF r(1)] by metis
    with r(2) show ?thesis by (auto simp: context_real_def result_simps byte_eq_Inr)
  qed
  show "context_bit_string 1 [a, False, False, False] = Inr x \<Longrightarrow> length x \<le> 3"
    by (cases a) (auto simp: context_bit_string_def application_bit_string_def byte_def)
  show "context_date_time 3 (date, time) = Inr x \<Longrightarrow> length x \<le> length date + length time + 6"
    by (auto simp: context_date_time_def result_simps byte_eq_Inr dest!: tag_octets_length)
qed

lemma event_parameters_length:
  assumes "event_parameters d k to_state a (date, time) = Inr x" "ev_message_text a = None"
    "float32 (ev_exceeding_value a)" "float32 (ev_exceeded_limit a)"
  shows "length x \<le> length date + length time + 100"
proof -
  have one: "float32 (half 2)" by (rule float32_half [of 2 22]) simp_all
  show ?thesis
    using assms(1,2)
    by (auto simp: event_parameters_def result_simps split: if_splits
        dest!: tag_octets_length event_octets_length(1,2,4,5) event_octets_length(3) [OF assms(3)]
          event_octets_length(3) [OF assms(4)] event_octets_length(3) [OF one])
qed

text \<open>An alarm with the default arguments, confirmed.\<close>

definition test_event :: event_args where
  "test_event = event_defaults\<lparr>ev_confirmed := True, ev_invoke_id := 7\<rparr>"

lemma test_event_valid: "event_valid 389001 (0, 1) 3 test_event"
proof -
  have "float32 (half 190)" by (rule float32_half [of 190 16]) simp_all
  moreover have "float32 (half 180)" by (rule float32_half [of 180 16]) simp_all
  ultimately show ?thesis by (simp add: event_valid_def test_event_def event_defaults_def)
qed

lemma notification_acknowledged_witness:
  "\<exists>apdu datagram ack p'. event_notification 389001 (0, 1) 3 test_event = Inr apdu \<and> send_apdu apdu = Inr datagram
    \<and> ws_notifications (ws_serve [(datagram, (lit ''127.0.0.1'', 47808))] (new_workstation True 0 3))
        = [event_sent 389001 (0, 1) 3 test_event]
    \<and> ws_sent (ws_serve [(datagram, (lit ''127.0.0.1'', 47808))] (new_workstation True 0 3))
        = [(ack, (lit ''127.0.0.1'', 47808))]
    \<and> serve_datagram plain_answer (new_device 389001 (lit ''peer'') 389) (ack, (lit ''127.0.0.1'', 50000), False)
        = (p', Inr None)
    \<and> simple_acks p' SERVICE_CONFIRMED_EVENT_NOTIFICATION = Inr [(Some 7, (lit ''127.0.0.1'', 50000))]"
proof -
  note v = test_event_valid
  from event_parts [OF v] obtain x where
    x: "event_parameters 389001 (0, 1) 3 test_event (stamp_of test_event) = Inr x" by (auto simp: part_def)
  have l: "length x \<le> 108"
    using event_parameters_length [of 389001 "(0, 1)" 3 test_event "fst (stamp_of test_event)" "snd (stamp_of test_event)" x]
      v x by (simp add: event_valid_def stamp_of_def test_event_def event_defaults_def)
  have apdu: "event_notification 389001 (0, 1) 3 test_event = Inr ([0, 5, oct 7, oct SERVICE_CONFIRMED_EVENT_NOTIFICATION] @ x)"
    using x event_stamp_of [OF v]
    by (simp add: event_notification_def confirmed_request_eq test_event_def)
  obtain datagram where d: "send_apdu ([0, 5, oct 7, oct SERVICE_CONFIRMED_EVENT_NOTIFICATION] @ x) = Inr datagram"
    using short_apdu_sends [of "[0, 5, oct 7, oct SERVICE_CONFIRMED_EVENT_NOTIFICATION] @ x"] l by auto
  have "ws_serving (new_workstation True 0 3)" by (simp add: new_workstation_def)
  from notification_acknowledged [OF v apdu d this, of "(lit ''127.0.0.1'', 47808)" "new_device 389001 (lit ''peer'') 389"
      "(lit ''127.0.0.1'', 50000)"] apdu d
  show ?thesis
    by (fastforce simp: new_workstation_def test_event_def simple_acks_def new_device_def)
qed

end
