(* ===== verification/Workstation_Laws.thy ===== *)
theory Workstation_Laws
  imports Event_Exchange
begin

text \<open>
  What a request of a \<^verbatim>\<open>Workstation\<close> promises while its serving thread receives whatever it likes, and what
  one truncated response does to every request after it.
\<close>

section \<open>The serving thread only adds\<close>

text \<open>The datagrams the serving thread sends: acknowledgements of notifications.\<close>

definition acknowledgement :: "octets \<Rightarrow> bool" where
  "acknowledgement octets \<longleftrightarrow> (\<exists>i \<in> {0..255}. notification_ack (Some i) = Inr octets)"

abbreviation requests_among :: "(octets \<times> pystr \<times> int) list \<Rightarrow> (octets \<times> pystr \<times> int) list" where
  "requests_among ds \<equiv> filter (\<lambda>d. \<not> acknowledgement (fst d)) ds"

lemma notification_ack_sends: "notification_ack i = Inr octets \<Longrightarrow> acknowledgement octets"
  by (auto simp: acknowledgement_def notification_ack_def simple_ack_def byte_def chain_eq_Inr
      split: option.splits if_splits)

text \<open>The control octet tells the two apart: an acknowledgement expects no reply.\<close>

lemma control_octet:
  assumes "chain (npdu apdu (npdu_defaults\<lparr>na_expecting_reply := reply\<rparr>)) (\<lambda>n. bvlc n False) = Inr octets"
  shows "octets ! 5 = (if reply then 4 else 0)"
  using assms
  by (auto simp: chain_eq_Inr npdu_def npdu_defaults_def npdu_control_def bvlc_def bvll_def pack_u_def byte_def oct_def nth_append
      split: if_splits)

lemma request_is_no_acknowledgement:
  assumes "chain (npdu apdu (npdu_defaults\<lparr>na_expecting_reply := True\<rparr>)) (\<lambda>n. bvlc n False) = Inr octets"
  shows "\<not> acknowledgement octets"
proof
  assume "acknowledgement octets"
  then obtain ack where "chain (npdu ack npdu_defaults) (\<lambda>n. bvlc n False) = Inr octets"
    by (auto simp: acknowledgement_def notification_ack_def chain_eq_Inr)
  moreover have "npdu_defaults\<lparr>na_expecting_reply := False\<rparr> = npdu_defaults" by (simp add: npdu_defaults_def)
  ultimately have "octets ! 5 = 0" using control_octet [of ack False octets] by simp
  with control_octet [OF assms] show False by simp
qed

text \<open>
  The settings stay, what has been received, kept or sent stays in its order, and but for
  acknowledgements the datagram \<open>d\<close> has been sent \<open>n\<close> times and no other.
\<close>

definition ws_grows :: "octets \<times> pystr \<times> int \<Rightarrow> nat \<Rightarrow> workstation \<Rightarrow> workstation \<Rightarrow> bool" where
  "ws_grows d n w v \<longleftrightarrow> ws_retries v = ws_retries w \<and> ws_timeout v = ws_timeout w \<and> ws_invoke_id v = ws_invoke_id w
     \<and> (\<exists>new. ws_notifications v = ws_notifications w @ new)
     \<and> (\<exists>new. ws_sent v = ws_sent w @ new \<and> requests_among new = replicate n d)"

lemma ws_grows_refl [simp]: "ws_grows d 0 w w"
  by (simp add: ws_grows_def)

lemma ws_grows_trans: "ws_grows d m w v \<Longrightarrow> ws_grows d n v u \<Longrightarrow> ws_grows d (m + n) w u"
  unfolding ws_grows_def by (force simp: replicate_add)

lemma ws_grows_updates [simp]:
  "ws_grows d n w (v\<lparr>ws_responses := fs\<rparr>) \<longleftrightarrow> ws_grows d n w v" "ws_grows d n w (v\<lparr>ws_serving := b\<rparr>) \<longleftrightarrow> ws_grows d n w v"
  "ws_grows d n (w\<lparr>ws_responses := fs\<rparr>) v \<longleftrightarrow> ws_grows d n w v"
  by (simp_all add: ws_grows_def)

lemma ws_grows_steps: "ws_grows d 0 w (keep_notification n w)"
  "acknowledgement octets \<Longrightarrow> ws_grows d 0 w (ws_send octets dest (keep_notification n w))"
  "\<not> acknowledgement octets \<Longrightarrow> ws_grows (octets, dest) 1 w (ws_send octets dest w)"
  "ws_responses (keep_notification n w) = ws_responses w" "ws_responses (ws_send octets dest w) = ws_responses w"
  by (simp_all add: ws_grows_def keep_notification_def ws_send_def)

lemma receive_grows:
  "ws_grows r 0 w (fst (ws_receive d w)) \<and> (\<exists>new. ws_responses (fst (ws_receive d w)) = ws_responses w @ new)"
  by (auto simp: ws_receive_def Let_def ws_grows_steps chain_eq_Inr dest: notification_ack_sends
      split: prod.split sum.split bool.split)

lemma serve_grows: "ws_grows r 0 w (ws_serve ds w) \<and> (\<exists>new. ws_responses (ws_serve ds w) = ws_responses w @ new)"
proof (induction ds arbitrary: w)
  case (Cons d ds)
  obtain v x where v: "ws_receive d w = (v, x)" by fastforce
  with receive_grows [of r w d] obtain new where step: "ws_grows r 0 w v" "ws_responses v = ws_responses w @ new" by auto
  with Cons.IH [of v] v ws_grows_trans [OF step(1), of 0] show ?case
    by (cases x) auto
qed simp

section \<open>Looking\<close>

text \<open>A look that ends has only let the thread run, and what it returns is there.\<close>

lemma look_loop_result:
  assumes "look_loop sh look deadline k w = Some (v, r)"
  shows "ws_grows d 0 w v \<and> (\<forall>x. r = Inr (Some x) \<longrightarrow> look v = Inr (Some x))
    \<and> (\<exists>new. ws_responses v = ws_responses w @ new)"
proof -
  let ?Q = "\<lambda>sh look (deadline :: int) (k :: nat) w (y :: workstation \<times> 'a option result).
    ws_grows d 0 w (fst y) \<and> (\<forall>x. snd y = Inr (Some x) \<longrightarrow> look (fst y) = Inr (Some x))
    \<and> (\<exists>new. ws_responses (fst y) = ws_responses w @ new)"
  have "?Q sh look deadline k w (v, r)"
  proof (rule look_loop.raw_induct [where P = ?Q, OF _ assms])
    fix loop sh and look :: "workstation \<Rightarrow> 'a option result" and deadline k w y
    assume IH: "\<And>sh look deadline k w y. loop sh look deadline k w = Some y \<Longrightarrow> ?Q sh look deadline k w y"
      and step: "(let w = ws_serve (sh_arrivals sh k) w in
          case look w of
            Inl e \<Rightarrow> Some (w, Inl e)
          | Inr (Some x) \<Rightarrow> Some (w, Inr (Some x))
          | Inr None \<Rightarrow>
              if deadline - sh_clock sh (Suc k) \<le> 0 then Some (w, Inr None)
              else loop sh look deadline (Suc k) w) = Some y"
    let ?w = "ws_serve (sh_arrivals sh k) w"
    note grows = serve_grows [of d w "sh_arrivals sh k"]
    show "?Q sh look deadline k w y"
    proof (cases "look ?w = Inr None \<and> \<not> deadline - sh_clock sh (Suc k) \<le> 0")
      case True
      with step have "loop sh look deadline (Suc k) ?w = Some y" by (simp add: Let_def)
      from IH [OF this] grows ws_grows_trans [of d 0 w ?w 0 "fst y"] show ?thesis by auto
    next
      case False
      with step grows show ?thesis by (auto simp: Let_def split: sum.splits option.splits if_splits)
    qed
  qed
  then show ?thesis by simp
qed

lemma first_such_Some: "first_such p xs = Inr (Some x) \<Longrightarrow> x \<in> set xs \<and> p x = Inr True"
  by (induction xs) (auto simp: chain_eq_Inr split: if_splits)

section \<open>Requests end\<close>

text \<open>
  Attempts that return, each a step of a counting relation, and find only what satisfies \<open>Q\<close>: the loop makes
  \<open>n\<close> attempts, prints a line at each but the first, gives up only after all and finds nothing before one.
\<close>

lemma attempts_counted:
  assumes "\<And>n s t r. one n s = Some (t, r) \<Longrightarrow> R 1 s t \<and> (\<forall>f. r = Inr (Some f) \<longrightarrow> Q f)"
    and "\<And>s. R (0::nat) s s" "\<And>m n s t u. R m s t \<Longrightarrow> R n t u \<Longrightarrow> R (m + n) s u"
    and "attempts_loop one [k ..< k + m] lines s = Some (t, lines', r)"
  shows "\<exists>n \<le> m. R n s t \<and> lines' = lines + (if k = 0 then n - 1 else n) \<and> (\<forall>f. r = Inr (Some f) \<longrightarrow> Q f)
    \<and> (if r = Inr None then n = m else 0 < n)"
  using assms(4)
proof (induction m arbitrary: k lines s)
  case 0
  then show ?case using assms(2) by auto
next
  case (Suc m)
  define ns where "ns = [Suc k ..< Suc k + m]"
  have "[k ..< k + Suc m] = k # ns" unfolding ns_def by (simp add: upt_rec)
  with Suc.prems have loop: "attempts_loop one (k # ns) lines s = Some (t, lines', r)" by simp
  then obtain u q where u: "one k s = Some (u, q)" by (cases "one k s") (auto simp: Let_def)
  note step = assms(1) [OF u]
  show ?case
  proof (cases "q = Inr None")
    case True
    with loop u have "attempts_loop one ns (if k \<noteq> 0 then Suc lines else lines) u = Some (t, lines', r)"
      by (simp add: Let_def)
    from Suc.IH [OF this [unfolded ns_def]] obtain n where n: "n \<le> m" "R n u t"
      "lines' = (if k \<noteq> 0 then Suc lines else lines) + n" "\<forall>f. r = Inr (Some f) \<longrightarrow> Q f"
      "if r = Inr None then n = m else 0 < n" by auto
    from step assms(3) [of 1 s u n t] n(2) have "R (Suc n) s t" by simp
    with n show ?thesis by (intro exI [of _ "Suc n"]) auto
  next
    case False
    with loop u have "t = u" "r = q" "lines' = (if k \<noteq> 0 then Suc lines else lines)"
      by (auto simp: Let_def split: sum.splits option.splits)
    with step False show ?thesis by (intro exI [of _ 1]) auto
  qed
qed

lemma ws_attempt_result:
  assumes "\<not> acknowledgement octets" "ws_attempt octets dest i seconds shifts n w = Some (v, r)"
  shows "ws_grows (octets, dest) 1 w v \<and> (\<forall>f. r = Inr (Some f) \<longrightarrow> frame_invoke_id f = Inr (Some i))"
proof -
  from assms(2) obtain u where u: "look_loop (shifts n) (\<lambda>w. first_such (response_to i) (ws_responses w))
      (sh_clock (shifts n) 0 + seconds) 0 (ws_send octets dest w) = Some (u, r)"
    and v: "v = (case r of Inr (Some f) \<Rightarrow> u\<lparr>ws_responses := remove1 f (ws_responses u)\<rparr> | _ \<Rightarrow> u)"
    by (fastforce simp: ws_attempt_def split: sum.splits option.splits)
  from v have v: "ws_grows d k w v \<longleftrightarrow> ws_grows d k w u" for d k by (simp split: sum.split option.split)
  from look_loop_result [OF u] have "ws_grows (octets, dest) 0 (ws_send octets dest w) u"
    "\<forall>f. r = Inr (Some f) \<longrightarrow> first_such (response_to i) (ws_responses u) = Inr (Some f)" by simp_all
  with v ws_grows_trans [OF ws_grows_steps(3) [OF assms(1)], where n = 0] show ?thesis
    by (auto simp: response_to_def chain_eq_Inr dest!: first_such_Some)
qed

lemma ws_attempt_returns:
  assumes "\<exists>k > 0. sh_clock (shifts n) 0 + seconds \<le> sh_clock (shifts n) k"
  shows "\<exists>v r. ws_attempt octets dest i seconds shifts n w = Some (v, r)"
proof -
  from assms look_loop_returns [of 0 _ "sh_clock (shifts n) 0 + seconds" "shifts n"
      "\<lambda>w. first_such (response_to i) (ws_responses w)" "ws_send octets dest w"]
  obtain v x where "look_loop (shifts n) (\<lambda>w. first_such (response_to i) (ws_responses w))
      (sh_clock (shifts n) 0 + seconds) 0 (ws_send octets dest w) = Some (v, x)" by blast
  then show ?thesis by (simp add: ws_attempt_def split: sum.split option.split)
qed

text \<open>
  C20. A request of a workstation ends, whatever its thread receives meanwhile: when the clock of every attempt reaches its
  deadline, \<^verbatim>\<open>request\<close> returns. It has advanced the invoke identifier by one modulo 256. But for the
  thread's acknowledgements it has sent exactly \<open>n\<close> copies of the request and nothing else, at most one more than the
  \<open>retries\<close>, and printed \<open>n - 1\<close> lines; it gives up only after all of them, an answer follows a copy sent
  and has the request's own invoke identifier, and a request that cannot be encoded is not sent. No notification kept or
  datagram sent before is lost or moved.
\<close>

theorem workstation_request_terminates:
  assumes "\<forall>n. \<exists>k > 0. sh_clock (shifts n) 0 + (case timeout of None \<Rightarrow> ws_timeout w | Some t \<Rightarrow> t) \<le> sh_clock (shifts n) k"
    and "i = (ws_invoke_id w + 1) mod 256"
    and "request = chain (build_apdu i) (\<lambda>apdu. chain (npdu apdu (npdu_defaults\<lparr>na_expecting_reply := True\<rparr>)) (\<lambda>n. bvlc n False))"
  shows "\<exists>v lines x n new. ws_request build_apdu dest timeout shifts w = Some (v, lines, x)
    \<and> ws_invoke_id v = i \<and> ws_sent v = ws_sent w @ new
    \<and> requests_among new = (case request of Inl _ \<Rightarrow> [] | Inr octets \<Rightarrow> replicate n (octets, dest))
    \<and> n \<le> nat (1 + ws_retries w) \<and> lines = n - 1
    \<and> (x = Inr \<lparr>an_frame = None\<rparr> \<longrightarrow> n = nat (1 + ws_retries w))
    \<and> (\<forall>f. x = Inr \<lparr>an_frame = Some f\<rparr> \<longrightarrow> 0 < n \<and> frame_invoke_id f = Inr (Some i))
    \<and> (\<exists>new. ws_notifications v = ws_notifications w @ new)"
proof -
  let ?seconds = "case timeout of None \<Rightarrow> ws_timeout w | Some t \<Rightarrow> t"
  obtain u q where u: "ws_next_invoke_id w = (u, q)" by fastforce
  have next_id: "ws_invoke_id u = i" "ws_retries u = ws_retries w" "ws_timeout u = ws_timeout w"
    "ws_notifications u = ws_notifications w" "ws_sent u = ws_sent w"
    using u assms(2) by (auto simp: ws_next_invoke_id_def Let_def split: sum.splits)
  show ?thesis
  proof (cases "(\<exists>e. q = Inl e) \<or> (\<exists>e. request = Inl e)")
    case True
    then obtain e where "ws_request build_apdu dest timeout shifts w = Some (u, 0, Inl e)"
      using u next_id assms(3) by (cases q) (auto simp: ws_request_def Let_def)
    with next_id show ?thesis by (intro exI [of _ u] exI [of _ 0] exI [of _ "Inl e"] exI [of _ "[]"]) (simp split: sum.split)
  next
    case False
    then obtain octets where o: "q = Inr ()" "request = Inr octets" by (cases q; cases request) auto
    then have no_ack: "\<not> acknowledgement octets"
      using request_is_no_acknowledgement assms(3) by (auto simp: chain_eq_Inr)
    let ?one = "ws_attempt octets dest i ?seconds shifts"
    have "\<exists>t r. ?one n s = Some (t, r)" for n s using assms(1) by (intro ws_attempt_returns) blast
    from attempts_return [of ?one, OF this] obtain v lines r where
      loop: "attempts_loop ?one [0 ..< 0 + nat (1 + ws_retries w)] 0 u = Some (v, lines, r)" by (metis add_0)
    have "\<exists>n \<le> nat (1 + ws_retries w). ws_grows (octets, dest) n u v \<and> lines = 0 + (if (0::nat) = 0 then n - 1 else n)
        \<and> (\<forall>f. r = Inr (Some f) \<longrightarrow> frame_invoke_id f = Inr (Some i)) \<and> (if r = Inr None then n = nat (1 + ws_retries w) else 0 < n)"
      by (rule attempts_counted [where one = ?one, OF _ _ _ loop]) (rule ws_attempt_result [OF no_ack] ws_grows_refl ws_grows_trans; assumption)+
    then obtain n where l: "n \<le> nat (1 + ws_retries w)" "ws_grows (octets, dest) n u v" "lines = n - 1"
      "\<forall>f. r = Inr (Some f) \<longrightarrow> frame_invoke_id f = Inr (Some i)"
      "if r = Inr None then n = nat (1 + ws_retries w) else 0 < n" by auto
    have "ws_request build_apdu dest timeout shifts w = Some (v, lines, chain r (\<lambda>f. Inr \<lparr>an_frame = f\<rparr>))"
      using u o loop next_id assms(3) by (simp add: ws_request_def Let_def send_with_retries_def cong: option.case_cong)
    moreover have "chain r (\<lambda>f. Inr \<lparr>an_frame = f\<rparr>) = Inr \<lparr>an_frame = z\<rparr> \<longleftrightarrow> r = Inr z" for z
      by (auto simp: chain_eq_Inr)
    moreover from l(2) next_id obtain new where "ws_invoke_id v = i" "ws_sent v = ws_sent w @ new"
      "requests_among new = replicate n (octets, dest)" "\<exists>new. ws_notifications v = ws_notifications w @ new"
      by (auto simp: ws_grows_def)
    ultimately show ?thesis using l(1,3,4,5) o(2)
      by (intro exI [of _ v] exI [of _ lines] exI [of _ "chain r (\<lambda>f. Inr \<lparr>an_frame = f\<rparr>)"] exI [of _ n] exI [of _ new])
        (simp split: if_splits)
  qed
qed

section \<open>A truncated response\<close>

lemma invoke_id_errors: "frame_invoke_id f = Inl e \<Longrightarrow> e = IndexError"
  by (auto simp: frame_invoke_id_def index_def chain_def split: if_splits sum.splits)

lemma collect_fails:
  assumes "\<exists>x \<in> set xs. \<exists>e. g x = Inl e" "\<And>x e. g x = Inl e \<Longrightarrow> e = E"
  shows "collect g xs = Inl E"
  using assms(1)
proof (induction xs)
  case (Cons x xs)
  show ?case
  proof (cases "g x")
    case (Inl e)
    with assms(2) show ?thesis by simp
  next
    case (Inr y)
    with Cons show ?thesis by auto
  qed
qed simp

lemma next_invoke_id_fails:
  assumes "g \<in> set (ws_responses w)" "frame_invoke_id g = Inl IndexError"
  shows "ws_next_invoke_id w = (w\<lparr>ws_invoke_id := (ws_invoke_id w + 1) mod 256\<rparr>, Inl IndexError)"
proof -
  let ?kept = "\<lambda>i f. chain (response_to i f) (\<lambda>b. Inr (if b then [] else [f]))"
  have "collect (?kept i) (ws_responses w) = Inl IndexError" for i
  proof (rule collect_fails)
    show "\<exists>f \<in> set (ws_responses w). \<exists>e. ?kept i f = Inl e" using assms by (intro bexI [of _ g] exI [of _ IndexError]) (simp_all add: response_to_def)
  next
    fix f e
    assume "?kept i f = Inl e"
    then have "frame_invoke_id f = Inl e" by (simp add: response_to_def chain_def split: sum.splits)
    then show "e = IndexError" by (rule invoke_id_errors)
  qed
  then show ?thesis by (simp add: ws_next_invoke_id_def Let_def)
qed

text \<open>
  C21. One truncated response ends all requests of a workstation. A response of a single octet, from anyone, is
  kept by the serving thread, which goes on; whatever arrives afterwards, every later request raises
  IndexError before it sends anything, and the response is still there for the next one.
\<close>

theorem truncated_response_ends_requests:
  assumes "ws_serving w" "Frame data source = Inr g" "f_ok g" "f_network_message g = None" "length (f_payload g) = 1"
    "pdu_type g \<in> Some ` RESPONSE_TYPES" "v = ws_serve ((data, source) # later) w"
  shows "ws_serving (ws_serve [(data, source)] w)
    \<and> (\<exists>u. ws_request build_apdu dest timeout shifts v = Some (u, 0, Inl IndexError)
        \<and> ws_sent u = ws_sent v \<and> g \<in> set (ws_responses u))"
proof -
  have "is_event_notification g = Inr False" using assms(4,6) by (auto simp: is_event_notification_def is_request_of_def)
  then have step: "ws_receive (data, source) w = (w\<lparr>ws_responses := ws_responses w @ [g]\<rparr>, Inr ())"
    using assms(2-4,6) by (simp add: ws_receive_def)
  let ?w = "w\<lparr>ws_responses := ws_responses w @ [g]\<rparr>"
  from step assms(1,7) have v: "v = ws_serve later ?w" by simp
  with serve_grows [of undefined ?w later] have there: "g \<in> set (ws_responses v)" by auto
  have "frame_invoke_id g = Inl IndexError"
    using assms(5,6) by (auto simp: frame_invoke_id_def index_def)
  from next_invoke_id_fails [OF there this] there step assms(1) show ?thesis by (simp add: ws_request_def)
qed

lemma workstation_request_terminates_witness:
  "\<exists>v lines x n. ws_request (\<lambda>n. read_property_request n 8 389001 77 None) (lit ''127.0.0.1'', 47808) None
      (\<lambda>_. \<lparr>sh_clock = int, sh_arrivals = (\<lambda>_. [([0x81, 0x0A, 0, 6, 1, 0x20], lit ''10.0.0.9'', 1)])\<rparr>)
      (new_workstation True 2 3) = Some (v, lines, x) \<and> ws_invoke_id v = 1 \<and> lines = n - 1 \<and> n \<le> 3"
proof -
  let ?shifts = "\<lambda>_ :: nat. \<lparr>sh_clock = int, sh_arrivals = (\<lambda>_. [([0x81, 0x0A, 0, 6, 1, 0x20], lit ''10.0.0.9'', 1)])\<rparr>"
  have "\<forall>n. \<exists>k > 0. sh_clock (?shifts n) 0 + (case None of None \<Rightarrow> ws_timeout (new_workstation True 2 3) | Some t \<Rightarrow> t)
      \<le> sh_clock (?shifts n) k" by (intro allI exI [of _ 3]) (simp add: new_workstation_def)
  from workstation_request_terminates [OF this refl refl, of "\<lambda>n. read_property_request n 8 389001 77 None" "(lit ''127.0.0.1'', 47808)"]
  show ?thesis by (fastforce simp: new_workstation_def)
qed

lemma truncated_response_ends_requests_witness:
  "\<exists>u. ws_request (\<lambda>n. read_property_request n 8 389001 77 None) (lit ''127.0.0.1'', 47808) None
     (\<lambda>_. \<lparr>sh_clock = int, sh_arrivals = (\<lambda>_. [])\<rparr>) (ws_serve [([0x81, 0x0A, 0, 7, 1, 0, 0x20], lit ''10.0.0.9'', 1)] (new_workstation True 2 3))
     = Some (u, 0, Inl IndexError) \<and> ws_sent u = []"
proof -
  let ?d = "[0x81, 0x0A, 0, 7, 1, 0, 0x20] :: octets"
  obtain g where g: "Frame ?d (lit ''10.0.0.9'', 1) = Inr g" "f_ok g" "f_network_message g = None" "f_payload g = [0x20]"
    by (simp add: Frame_def frame_decode_def new_frame_def Let_def BVLC_FUNCTIONS_WITH_NPDU_def index_def slice_def)
  have "pdu_type g \<in> Some ` RESPONSE_TYPES" using g(3,4) by (simp add: pdu_type_def)
  from truncated_response_ends_requests [OF _ g(1-3) _ this refl, where w = "new_workstation True 2 3" and later = "[]"] g(4)
  have "\<exists>u. ws_request (\<lambda>n. read_property_request n 8 389001 77 None) (lit ''127.0.0.1'', 47808) None
     (\<lambda>_. \<lparr>sh_clock = int, sh_arrivals = (\<lambda>_. [])\<rparr>) (ws_serve [(?d, lit ''10.0.0.9'', 1)] (new_workstation True 2 3)) = Some (u, 0, Inl IndexError)
     \<and> ws_sent u = ws_sent (ws_serve [(?d, lit ''10.0.0.9'', 1)] (new_workstation True 2 3))"
    by (simp add: new_workstation_def) blast
  moreover have "ws_sent (ws_serve [(?d, lit ''10.0.0.9'', 1)] (new_workstation True 2 3)) = []"
    using g by (simp add: ws_receive_def is_event_notification_def is_request_of_def pdu_type_def new_workstation_def)
  ultimately show ?thesis by simp
qed

end
