(* ===== verification/Snapshot_Exchange.thy ===== *)
theory Snapshot_Exchange
  imports Tag_Loops Command_Exchange
begin

text \<open>
  ReadPropertyMultiple from end to end: what a client asks for in one request is what the simulated
  server has at that moment, property by property, the missing ones with their error.
\<close>

section \<open>The pieces of an acknowledgement\<close>

abbreviation rpm_loop :: "octets \<Rightarrow> nat \<Rightarrow> rpm_state \<Rightarrow> rpm_state result" where
  "rpm_loop \<equiv> (\<lambda>data. walk_tags data rpm_step)"

definition access_result_of :: "octets option \<Rightarrow> access_result" where
  "access_result_of v = (case v of
     Some octets \<Rightarrow> Access_value octets
   | None \<Rightarrow> Access_error [ERROR_CLASS_PROPERTY, ERROR_CODE_UNKNOWN_PROPERTY])"

text \<open>Values an answer can carry: whole tags, their brackets closed.\<close>

definition carried :: "octets option \<Rightarrow> bool" where
  "carried v = (case v of None \<Rightarrow> True | Some octets \<Rightarrow> \<exists>vs. octets = concat vs \<and> well_nested 0 vs)"

lemma put_result_last:
  assumes "key \<notin> fst ` set R" "(p, a) \<notin> fst ` set items"
  shows "put_result key (p, a) r (R @ [(key, items)]) = R @ [(key, items @ [((p, a), r)])]"
proof -
  have "map_of (R @ [(key, items)]) key = Some items" using assms(1) by (simp add: map_add_def map_of_eq_None_iff [THEN iffD2])
  moreover have "AList.update key v (R @ [(key, items)]) = R @ [(key, v)]" for v
    using assms(1) by (induction R) auto
  ultimately show ?thesis using update_new_key [OF assms(2), of r] by (simp add: put_result_def)
qed

lemma rpm_value_steps:
  assumes "tag_of x = Some (2, True, Kvalue, b)" "from_bytes b = p"
  shows "loop_step rpm_loop x (R, k, q, a) (R, k, Some p, None)"
  using assms by (intro walk_step [OF assms(1)]) simp

lemma unknown_property_octets:
  obtains x y where "application_enumerated ERROR_CLASS_PROPERTY = Inr x" "application_enumerated ERROR_CODE_UNKNOWN_PROPERTY = Inr y"
    "well_nested 0 [x, y]" "length (x @ y) \<le> 10"
    "chain (application_values (x @ y)) (\<lambda>values. Inr (map (\<lambda>(_, v). from_bytes v) (take 2 values)))
       = Inr [ERROR_CLASS_PROPERTY, ERROR_CODE_UNKNOWN_PROPERTY]"
proof -
  have ids: "\<forall>v \<in> set [ERROR_CLASS_PROPERTY, ERROR_CODE_UNKNOWN_PROPERTY]. unsigned32 v" by simp
  obtain xs where xs: "collect application_enumerated [ERROR_CLASS_PROPERTY, ERROR_CODE_UNKNOWN_PROPERTY] = Inr xs"
    "application_values (concat xs) = Inr (map (\<lambda>v. (9, octets_of (unsigned_octets v)))
       [ERROR_CLASS_PROPERTY, ERROR_CODE_UNKNOWN_PROPERTY])"
    using enumerated.values_run [OF ids] by blast
  obtain x y where xy: "application_enumerated ERROR_CLASS_PROPERTY = Inr x"
    "application_enumerated ERROR_CODE_UNKNOWN_PROPERTY = Inr y" "xs = [x, y]" using xs(1) by (auto simp: result_simps)
  have tag: "\<exists>b. tag_of z = Some (9, False, Kvalue, b)" if "application_enumerated v = Inr z" "unsigned32 v" for v z
    using enumerated.one_tag [OF that(2)] that(1) by auto
  have "\<exists>b. tag_of x = Some (9, False, Kvalue, b)" by (rule tag [OF xy(1)]) simp
  moreover have "\<exists>b. tag_of y = Some (9, False, Kvalue, b)" by (rule tag [OF xy(2)]) simp
  ultimately have nested: "well_nested 0 [x, y]" by auto
  have body: "from_bytes (octets_of (unsigned_octets v)) = v" if "unsigned32 v" for v
    using that by (auto intro: unsigned_octets_body [of v])
  have "length x \<le> 5" "length y \<le> 5"
    using xy(1,2) by (auto simp: application_enumerated_def result_simps byte_eq_Inr dest!: unsigned_octets_length)
  then show thesis using that [OF xy(1,2) nested] xs(2) xy(3) body by simp
qed

lemma result_step:
  assumes "unsigned32 p" "carried v" "key \<notin> fst ` set R" "(Some p, None) \<notin> fst ` set items"
  shows "\<exists>x. read_access_result (p, v) = Inr x \<and> length x \<le> 17 + (case v of None \<Rightarrow> 0 | Some octets \<Rightarrow> length octets)
    \<and> loop_step rpm_loop x (R @ [(key, items)], Some key, q, a)
        (R @ [(key, items @ [((Some p, None), access_result_of v)])], Some key, Some p, None)"
proof -
  obtain x b where x: "context_unsigned 2 p = Inr x" "tag_of x = Some (2, True, Kvalue, b)" "from_bytes b = p"
    using context_unsigned_tag [of 2 p] assms(1) by auto
  have lx: "length x \<le> 5" using x(1) by (rule tag_octets_length)
  note put = put_result_last [OF assms(3,4)]
  show ?thesis
  proof (cases v)
    case (Some octets)
    with assms(2) obtain vs where vs: "octets = concat vs" "well_nested 0 vs" by (auto simp: carried_def)
    obtain op cl where br: "opening_tag 4 = Inr op" "tag_of op = Some (4, True, Kopen, [])"
      "closing_tag 4 = Inr cl" "tag_of cl = Some (4, True, Kclose, [])" using brackets [of 4] by auto
    have "length op \<le> 1" "length cl \<le> 1" using br(1,3) by (auto dest: tag_octets_length)
    moreover have "loop_step rpm_loop (op @ concat vs @ cl) (R @ [(key, items)], Some key, Some p, None)
        (R @ [(key, items @ [((Some p, None), Access_value octets)])], Some key, Some p, None)"
      using put vs(1) by (intro walk_inside [OF br(2) vs(2) br(4)]) (simp_all add: Let_def)
    ultimately show ?thesis
      using loop_step_append [OF rpm_value_steps [OF x(2,3)]] Some vs(1) x(1) br(1,3) lx
      by (simp add: read_access_result_def access_result_of_def)
  next
    case None
    obtain op cl where br: "opening_tag 5 = Inr op" "tag_of op = Some (5, True, Kopen, [])"
      "closing_tag 5 = Inr cl" "tag_of cl = Some (5, True, Kclose, [])" using brackets [of 5] by auto
    obtain y z where e: "application_enumerated ERROR_CLASS_PROPERTY = Inr y"
      "application_enumerated ERROR_CODE_UNKNOWN_PROPERTY = Inr z" "well_nested 0 [y, z]" "length (y @ z) \<le> 10"
      "chain (application_values (y @ z)) (\<lambda>values. Inr (map (\<lambda>(_, v). from_bytes v) (take 2 values)))
         = Inr [ERROR_CLASS_PROPERTY, ERROR_CODE_UNKNOWN_PROPERTY]" by (rule unknown_property_octets)
    have "length op \<le> 1" "length cl \<le> 1" using br(1,3) by (auto dest: tag_octets_length)
    moreover have "loop_step rpm_loop (op @ concat [y, z] @ cl) (R @ [(key, items)], Some key, Some p, None)
        (R @ [(key, items @ [((Some p, None), access_result_of None)])], Some key, Some p, None)"
      by (rule walk_inside [OF br(2) e(3) br(4)], simp add: Let_def)
        (use put e(5) in \<open>auto simp: chain_eq_Inr access_result_of_def\<close>)
    ultimately show ?thesis
      using loop_step_append [OF rpm_value_steps [OF x(2,3)]] None x(1) br(1,3) lx e(1,2,4)
      by (simp add: read_access_result_def)
  qed
qed

text \<open>The octets a property and an object take at most, and what the client keeps of them.\<close>

fun value_room :: "int \<times> octets option \<Rightarrow> nat" where
  "value_room (p, v) = 17 + (case v of None \<Rightarrow> 0 | Some octets \<Rightarrow> length octets)"

fun kept_value :: "int \<times> octets option \<Rightarrow> reference \<times> access_result" where
  "kept_value (p, v) = ((Some p, None), access_result_of v)"

abbreviation readable :: "(int \<times> octets option) list \<Rightarrow> bool" where
  "readable ps \<equiv> (\<forall>(p, v) \<in> set ps. unsigned32 p \<and> carried v) \<and> distinct (map fst ps)"

lemma results_step:
  assumes "readable ps" "key \<notin> fst ` set R" "\<forall>p \<in> fst ` set ps. (Some p, None) \<notin> fst ` set items"
  shows "\<exists>x q' a'. cat (map read_access_result ps) = Inr x \<and> length x \<le> (\<Sum>p \<leftarrow> ps. value_room p)
    \<and> loop_step rpm_loop x (R @ [(key, items)], Some key, q, a)
        (R @ [(key, items @ map kept_value ps)], Some key, q', a')"
  using assms
proof (induction ps arbitrary: items q a)
  case Nil
  show ?case by (intro exI [of _ "[]"] exI [of _ q] exI [of _ a]) simp
next
  case (Cons pv ps)
  obtain p v where pv: "pv = (p, v)" by fastforce
  have "unsigned32 p" "carried v" "(Some p, None) \<notin> fst ` set items" using Cons.prems pv by auto
  from result_step [OF this(1,2) Cons.prems(2) this(3), of q a] obtain x where x: "read_access_result (p, v) = Inr x"
    "length x \<le> value_room (p, v)" "loop_step rpm_loop x (R @ [(key, items)], Some key, q, a)
        (R @ [(key, items @ [kept_value (p, v)])], Some key, Some p, None)" by auto
  have "readable ps" "\<forall>q \<in> fst ` set ps. (Some q, None) \<notin> fst ` set (items @ [kept_value (p, v)])"
    using Cons.prems pv by auto
  from Cons.IH [OF this(1) Cons.prems(2) this(2), of "Some p" None] obtain y q' a' where y:
    "cat (map read_access_result ps) = Inr y" "length y \<le> (\<Sum>p \<leftarrow> ps. value_room p)"
    "loop_step rpm_loop y (R @ [(key, items @ [kept_value (p, v)])], Some key, Some p, None)
        (R @ [(key, (items @ [kept_value (p, v)]) @ map kept_value ps)], Some key, q', a')" by blast
  from loop_step_append [OF x(3) y(3)] x(1,2) y(1,2) pv show ?case
    by (intro exI [of _ "x @ y"] exI [of _ q'] exI [of _ a']) simp
qed

definition object_room :: "int \<times> int \<times> (int \<times> octets option) list \<Rightarrow> nat" where
  "object_room r = (case r of (t, i, ps) \<Rightarrow> 7 + (\<Sum>p \<leftarrow> ps. value_room p))"

definition kept_object :: "int \<times> int \<times> (int \<times> octets option) list \<Rightarrow> (int \<times> int) \<times> (reference \<times> access_result) list" where
  "kept_object r = (case r of (t, i, ps) \<Rightarrow> ((t, i), map kept_value ps))"

lemma object_step:
  assumes "object_range (t, i)" "readable ps" "(t, i) \<notin> fst ` set R"
  shows "\<exists>x q' a'. cat ([context_object_id 0 t i, opening_tag 1] @ map read_access_result ps @ [closing_tag 1]) = Inr x
    \<and> length x \<le> object_room (t, i, ps)
    \<and> loop_step rpm_loop x (R, k, q, a) (R @ [kept_object (t, i, ps)], Some (t, i), q', a')"
proof -
  obtain x b where x: "context_object_id 0 t i = Inr x" "tag_of x = Some (0, True, Kvalue, b)"
    "object_identifier b = Inr (t, i)" "length b = 4" using context_object_id_tag [of 0 t i] assms(1) by auto
  obtain op cl where br: "opening_tag 1 = Inr op" "tag_of op = Some (1, True, Kopen, [])"
    "closing_tag 1 = Inr cl" "tag_of cl = Some (1, True, Kclose, [])" using brackets [of 1] by auto
  have l: "length x \<le> 5" "length op \<le> 1" "length cl \<le> 1" using x(1) br(1,3) by (auto dest: tag_octets_length)
  have "set_default (t, i) R = R @ [((t, i), [])]"
    using assms(3) by (simp add: set_default_def map_of_eq_None_iff [THEN iffD2])
  then have 1: "loop_step rpm_loop x (R, k, q, a) (R @ [((t, i), [])], Some (t, i), q, a)"
    by (intro walk_step [OF x(2)]) (simp add: x(3))
  have 2: "loop_step rpm_loop op u u" for u
    by (cases u, rule walk_step [OF br(2)]) simp
  have 3: "loop_step rpm_loop cl u u" for u
    by (cases u, rule walk_step [OF br(4)]) simp
  from results_step [OF assms(2,3), of "[]" q a] obtain y q' a' where y:
    "cat (map read_access_result ps) = Inr y" "length y \<le> (\<Sum>p \<leftarrow> ps. value_room p)"
    "loop_step rpm_loop y (R @ [((t, i), [])], Some (t, i), q, a) (R @ [((t, i), map kept_value ps)], Some (t, i), q', a')"
    by auto
  have "loop_step rpm_loop (x @ op @ y @ cl) (R, k, q, a) (R @ [((t, i), map kept_value ps)], Some (t, i), q', a')"
    by (rule loop_step_append [OF 1 loop_step_append [OF 2 loop_step_append [OF y(3) 3]]])
  with x(1) br(1,3) y(1,2) l show ?thesis
    by (intro exI [of _ "x @ op @ y @ cl"] exI [of _ q'] exI [of _ a'])
      (simp add: cat_append object_room_def kept_object_def)
qed

lemma objects_step:
  assumes "\<forall>(t, i, ps) \<in> set rs. object_range (t, i) \<and> readable ps" "distinct (map (\<lambda>(t, i, ps). (t, i)) rs)"
    "\<forall>(t, i, ps) \<in> set rs. (t, i) \<notin> fst ` set R"
  shows "\<exists>x u. cat (map (\<lambda>(t, i, ps). cat ([context_object_id 0 t i, opening_tag 1] @ map read_access_result ps @ [closing_tag 1])) rs) = Inr x
    \<and> length x \<le> (\<Sum>r \<leftarrow> rs. object_room r) \<and> loop_step rpm_loop x (R, k, q, a) (R @ map kept_object rs, u)"
  using assms
proof (induction rs arbitrary: R k q a)
  case Nil
  show ?case by (intro exI [of _ "[]"] exI [of _ "(k, q, a)"]) simp
next
  case (Cons r rs)
  obtain t i ps where r: "r = (t, i, ps)" by (metis prod_cases3)
  have "object_range (t, i)" "readable ps" "(t, i) \<notin> fst ` set R" using Cons.prems r by auto
  from object_step [OF this, of k q a] obtain x q' a' where
    x: "cat ([context_object_id 0 t i, opening_tag 1] @ map read_access_result ps @ [closing_tag 1]) = Inr x"
    "length x \<le> object_room (t, i, ps)"
    "loop_step rpm_loop x (R, k, q, a) (R @ [kept_object (t, i, ps)], Some (t, i), q', a')" by blast
  have "(t', i') \<notin> fst ` set (R @ [kept_object r])" if "(t', i', ps') \<in> set rs" for t' i' ps'
  proof -
    have "(t', i') \<in> (\<lambda>(t, i, ps). (t, i)) ` set rs" using that by force
    moreover have "(t, i) \<notin> (\<lambda>(t, i, ps). (t, i)) ` set rs" using Cons.prems(2) r by simp
    ultimately have "(t', i') \<noteq> (t, i)" by metis
    then show ?thesis using bspec [OF Cons.prems(3), of "(t', i', ps')"] that r by (simp add: kept_object_def)
  qed
  then have new: "\<forall>(t, i, ps) \<in> set rs. (t, i) \<notin> fst ` set (R @ [kept_object r])" by blast
  have "\<forall>(t, i, ps) \<in> set rs. object_range (t, i) \<and> readable ps" "distinct (map (\<lambda>(t, i, ps). (t, i)) rs)"
    using Cons.prems r by auto
  from Cons.IH [OF this new, of "Some (t, i)" q' a'] r obtain y u where y:
    "cat (map (\<lambda>(t, i, ps). cat ([context_object_id 0 t i, opening_tag 1] @ map read_access_result ps @ [closing_tag 1])) rs) = Inr y"
    "length y \<le> (\<Sum>r \<leftarrow> rs. object_room r)"
    "loop_step rpm_loop y (R @ [kept_object (t, i, ps)], Some (t, i), q', a') ((R @ [kept_object r]) @ map kept_object rs, u)"
    by blast
  from loop_step_append [OF x(3) y(3)] x(1,2) y(1,2) r show ?case
    by (intro exI [of _ "x @ y"] exI [of _ u]) simp
qed

section \<open>One request, one answer\<close>

text \<open>What the server has of the properties asked for, and what a client asks with.\<close>

definition snapshot :: "'e \<Rightarrow> 'e simulated_server \<Rightarrow> (int \<times> int \<times> int list) list \<Rightarrow> (int \<times> int \<times> (int \<times> octets option) list) list" where
  "snapshot e s specs = map (\<lambda>(t, i, ps). (t, i, map (\<lambda>p. (p, server_value e s (t, i) p)) ps)) specs"

definition whole_properties :: "(int \<times> int \<times> int list) list \<Rightarrow> (int \<times> int \<times> (int \<times> int option) list) list" where
  "whole_properties specs = map (\<lambda>(t, i, ps). (t, i, map (\<lambda>p. (p, None)) ps)) specs"

lemma collect_length:
  "collect f xs = Inr ys \<Longrightarrow> (\<And>x y. x \<in> set xs \<Longrightarrow> f x = Inr y \<Longrightarrow> length y \<le> g x) \<Longrightarrow>
   length (concat ys) \<le> (\<Sum>x \<leftarrow> xs. g x)"
proof (induction xs arbitrary: ys)
  case (Cons x xs)
  then obtain z zs where z: "f x = Inr z" "collect f xs = Inr zs" "ys = z # zs" by (auto simp: result_simps)
  have "length z \<le> g x" using Cons.prems(2) z(1) by simp
  moreover have "length (concat zs) \<le> (\<Sum>x \<leftarrow> xs. g x)" using Cons.IH [OF z(2)] Cons.prems(2) by simp
  ultimately show ?case using z(3) by simp
qed (simp add: result_simps)

lemma specification_length:
  assumes "read_access_specification t i refs = Inr x" "\<forall>r \<in> set refs. snd r = None"
  shows "length x \<le> 7 + 5 * length refs"
proof -
  from assms(1) obtain y op ys cl where o: "context_object_id 0 t i = Inr y" "opening_tag 1 = Inr op" "closing_tag 1 = Inr cl"
    "collect property_reference refs = Inr ys" "x = y @ op @ concat ys @ cl"
    by (auto simp: read_access_specification_def cat_append cat_map result_simps)
  have "length z \<le> 5" if q: "q \<in> set refs" "property_reference q = Inr z" for q z
  proof -
    have "snd q = None" using q(1) assms(2) by blast
    then obtain p where "q = (p, None)" by (cases q) simp
    with q(2) show ?thesis by (auto simp: property_reference_def result_simps dest: tag_octets_length)
  qed
  then have "length (concat ys) \<le> (\<Sum>r \<leftarrow> refs. 5)" by (intro collect_length [OF o(4)]) blast
  then have "length (concat ys) \<le> 5 * length refs" by (simp add: sum_list_triv)
  with o(1-3,5) show ?thesis by (auto dest!: tag_octets_length)
qed

text \<open>The request a client sends is the list of specifications it was given.\<close>

lemma multiple_request_octets:
  assumes "\<forall>(t, i, ps) \<in> set specs. object_range (t, i) \<and> (\<forall>p \<in> set ps. unsigned32 p)"
    "distinct (map (\<lambda>(t, i, ps). (t, i)) specs)" "0 \<le> n" "n < 256"
  shows "\<exists>x. read_property_multiple_request n (whole_properties specs)
        = Inr ([0, 5, oct n, oct SERVICE_READ_PROPERTY_MULTIPLE] @ x)
    \<and> read_access_specifications x = Inr (map (\<lambda>(t, i, ps). ((t, i), ps)) specs)
    \<and> length x \<le> (\<Sum>(t, i, ps) \<leftarrow> specs. 7 + 5 * length ps)"
proof -
  let ?specs = "whole_properties specs"
  have range: "\<forall>(t, i, refs) \<in> set ?specs. object_range (t, i) \<and> references_range refs"
  proof (rule ballI)
    fix q assume "q \<in> set ?specs"
    then obtain t i ps where q: "(t, i, ps) \<in> set specs" "q = (t, i, map (\<lambda>p. (p, None)) ps)"
      unfolding whole_properties_def by auto
    have "object_range (t, i)" "\<forall>p \<in> set ps. unsigned32 p" using bspec [OF assms(1) q(1)] by simp_all
    then show "case q of (t, i, refs) \<Rightarrow> object_range (t, i) \<and> references_range refs" using q(2) by simp
  qed
  have "map (\<lambda>(t, i, refs). (t, i)) ?specs = map (\<lambda>(t, i, ps). (t, i)) specs"
    by (auto simp: whole_properties_def)
  then have "distinct (map (\<lambda>(t, i, refs). (t, i)) ?specs)" using assms(2) by metis
  from specifications_roundtrip [OF range this] obtain xs where
    xs: "collect (\<lambda>(t, i, refs). read_access_specification t i refs) ?specs = Inr xs"
    "read_access_specifications (concat xs) = Inr (map (\<lambda>(t, i, refs). ((t, i), map fst refs)) ?specs)" by blast
  have "map (\<lambda>(t, i, refs). ((t, i), map fst refs)) ?specs = map (\<lambda>(t, i, ps). ((t, i), ps)) specs"
    by (auto simp: whole_properties_def comp_def)
  moreover have "length (concat xs) \<le> (\<Sum>(t, i, refs) \<leftarrow> ?specs. 7 + 5 * length refs)"
  proof (rule collect_length [OF xs(1)])
    fix q y assume q: "q \<in> set ?specs" "(case q of (t, i, refs) \<Rightarrow> read_access_specification t i refs) = Inr y"
    then obtain t i ps where r: "q = (t, i, map (\<lambda>p. (p, None)) ps)" by (auto simp: whole_properties_def)
    have "length y \<le> 7 + 5 * length (map (\<lambda>p. (p, None :: int option)) ps)"
      by (rule specification_length [where t = t and i = i]) (use q(2) [unfolded r] in simp_all)
    then show "length y \<le> (case q of (t, i, refs) \<Rightarrow> 7 + 5 * length refs)" using r by simp
  qed
  moreover have "(\<Sum>(t, i, refs) \<leftarrow> ?specs. 7 + 5 * length refs) = (\<Sum>(t, i, ps) \<leftarrow> specs. 7 + 5 * length ps)"
    by (simp add: whole_properties_def comp_def split_def)
  ultimately show ?thesis
    using xs assms(3,4)
    by (intro exI [of _ "concat xs"]) (simp add: read_property_multiple_request_def cat_map confirmed_request_eq)
qed

lemma snapshot_room: "(\<Sum>(t, i, ps) \<leftarrow> specs. 7 + 5 * length ps) \<le> (\<Sum>r \<leftarrow> snapshot e s specs. object_room r)"
proof -
  have "5 * length ps \<le> (\<Sum>p \<leftarrow> map (\<lambda>p. (p, v p)) ps. value_room p)" for ps :: "int list" and v
    by (induction ps) auto
  then show ?thesis by (induction specs) (auto simp: snapshot_def object_room_def intro!: add_mono)
qed

lemma snapshot_readable:
  assumes "\<forall>(t, i, ps) \<in> set specs. object_range (t, i) \<and> distinct ps
     \<and> (\<forall>p \<in> set ps. unsigned32 p \<and> carried (server_value e s (t, i) p))"
  shows "\<forall>(t, i, ps) \<in> set (snapshot e s specs). object_range (t, i) \<and> readable ps"
proof (rule ballI)
  fix q assume "q \<in> set (snapshot e s specs)"
  then obtain t i ps where q: "(t, i, ps) \<in> set specs" "q = (t, i, map (\<lambda>p. (p, server_value e s (t, i) p)) ps)"
    unfolding snapshot_def by auto
  have "object_range (t, i)" "distinct ps" "\<forall>p \<in> set ps. unsigned32 p \<and> carried (server_value e s (t, i) p)"
    using bspec [OF assms q(1)] by simp_all
  then show "case q of (t, i, ps) \<Rightarrow> object_range (t, i) \<and> readable ps" using q(2) by (simp add: comp_def)
qed

lemma multiple_answered:
  assumes "ss_mode s \<noteq> Offline" "f_payload f = [0, 5, oct n, oct SERVICE_READ_PROPERTY_MULTIPLE] @ x"
    "f_network_message f = None" "0 \<le> n" "n < 256"
    "read_access_specifications x = Inr (map (\<lambda>(t, i, ps). ((t, i), ps)) specs)"
    "read_property_multiple_ack n (snapshot e s specs) = Inr ans"
  shows "\<exists>u. server_answer e s f = (u, Inr (Some ans)) \<and> same_values s u \<and> settings u = settings s"
proof -
  note f = confirmed_frame [OF assms(2-5), simplified]
  have "planned_failure s f = Inr None" using f(1,2) by (simp add: planned_failure_def requested_object_def)
  then have "server_answer e s f = server_read_multiple e s f"
    using f(1,2) assms(1) by (simp add: server_answer_def server_handle_def Let_def)
  also have "\<dots> = (log_read SERVICE_READ_PROPERTY_MULTIPLE specs s, Inr (Some ans))"
    using assms(2,6,7) f(3) by (simp add: server_read_multiple_def snapshot_def comp_def split_def)
  finally show ?thesis by simp
qed

lemma multiple_ack_parses:
  assumes "f_payload g = [oct 48, oct n, oct SERVICE_READ_PROPERTY_MULTIPLE] @ y" "f_network_message g = None"
    "0 \<le> n" "n < 256" "loop_step rpm_loop y ([], None, None, None) (results, u)"
  shows "parse_read_property_multiple_ack (Some \<lparr>an_frame = Some g\<rparr>) = Inr (Some results)"
proof -
  have "rpm_loop ([oct 48, oct n, oct SERVICE_READ_PROPERTY_MULTIPLE] @ y)
      (length [oct 48, oct n, oct SERVICE_READ_PROPERTY_MULTIPLE]) ([], None, None, None) = Inr (results, u)"
    by (rule loop_step_result [OF assms(5)]) (rule walk_end)
  then have "walk_tags (f_payload g) rpm_step 3 ([], None, None, None) = Inr (results, u)"
    using assms(1) by (simp add: eval_nat_numeral)
  moreover have "pdu_type g = Some PDU_COMPLEX_ACK"
    using ack_answers(2) [of g 48 n "oct SERVICE_READ_PROPERTY_MULTIPLE # y"] assms(1-4) by simp
  moreover have "frame_service g = Inr (Some SERVICE_READ_PROPERTY_MULTIPLE)"
    using assms(1,2) by (simp add: frame_service_def pdu_type_def index_def uint_oct)
  ultimately show ?thesis
    by (simp add: parse_read_property_multiple_ack_def parse_ack_def complex_ack_def parse_guard_def)
qed




end
