(* ===== verification/Failure_Exchange.thy ===== *)
theory Failure_Exchange
  imports Command_Exchange
begin

text \<open>
  The failures a test plans for an object of the simulated server, and the refusal of writes, seen
  from the client: what it is told, how often it asks, and what the server keeps.
\<close>

section \<open>Requests that name an object\<close>

text \<open>A frame with one of these payloads answers the request of its invoke identifier.\<close>

lemma refusal_answers:
  assumes "f_payload g = [oct b, oct n] @ rest" "b \<in> {0x50, 0x60, 0x71}" "f_network_message g = None"
    "0 \<le> n" "n < 256"
  shows "answers_request n g = Inr True" "pdu_type g = Some (b div 16)"
  using assms
  by (auto simp: answers_request_def pdu_type_def frame_invoke_id_def index_def uint_oct)

lemma refusal_octets:
  assumes "0 \<le> n" "n < 256"
  shows "reject_pdu n 9 = Inr [oct 0x60, oct n, oct 9]" "abort_pdu n 4 True = Inr [oct 0x71, oct n, oct 4]"
  using assms by (simp_all add: reject_pdu_def abort_pdu_def bytes_of_def byte_def)

lemma error_octets:
  assumes "error_pdu n service c d = Inr apdu"
  obtains rest where "apdu = [oct 0x50, oct n] @ rest" "length apdu \<le> 13"
proof -
  from assms obtain x y where "application_enumerated c = Inr x" "application_enumerated d = Inr y"
    "apdu = [oct 0x50, oct n, oct service] @ x @ y" by (auto simp: error_pdu_def result_simps byte_eq_Inr)
  then show thesis
    using that by (auto simp: application_enumerated_def result_simps byte_eq_Inr dest!: unsigned_octets_length)
qed

lemma failure_planned:
  assumes "pdu_type f = Some PDU_CONFIRMED_REQUEST" "requested_object f = Inr (Some key)" "ss_mode s = Online"
  shows "planned_failure s f = Inr (map_of (ss_failures s) key)"
  using assms by (simp add: planned_failure_def)

text \<open>A client nobody answers: it sends as often as it may, and prints one line less.\<close>

lemma silent_attempt:
  assumes "receipts (airs n) 0 = Timed_out" "cl_frames c = []"
  shows "\<exists>d. request_attempt octets r i seconds airs n c = Some (d, Inr None) \<and> cl_frames d = []
    \<and> cl_sent d = cl_sent c @ [(octets, ro_ip r, ro_port r)]"
proof -
  have "wait_for (airs n) (answers_request i) seconds [] = Some ([], Inr None)"
    unfolding wait_for_def using assms(1) by (subst wait_loop.simps) (simp add: receive_def)
  with assms(2) show ?thesis by (simp add: request_attempt_def client_wait_def client_send_def)
qed

lemma silent_attempts:
  assumes "\<And>n c. I c \<Longrightarrow> \<exists>d. one n c = Some (d, Inr None) \<and> I d \<and> cl_sent d = cl_sent c @ [x]" "I c"
  shows "\<exists>d. attempts_loop one [k ..< k + m] lines c = Some (d, lines + (if k = 0 then m - 1 else m), Inr None)
    \<and> cl_sent d = cl_sent c @ replicate m x"
  using assms(2)
proof (induction m arbitrary: k lines c)
  case (Suc m)
  from assms(1) [OF Suc.prems, of k] obtain d where d: "one k c = Some (d, Inr None)" "I d"
    "cl_sent d = cl_sent c @ [x]" by blast
  have "[k ..< k + Suc m] = k # [Suc k ..< Suc k + m]" by (simp add: upt_rec)
  with d Suc.IH [OF d(2), of "Suc k" "if k \<noteq> 0 then Suc lines else lines"] show ?case by (auto simp: Let_def)
qed simp

text \<open>
  What ReadProperty and WriteProperty share for \<^verbatim>\<open>_planned_failure\<close>: the octets of a request \<open>q\<close>
  with \<open>valid q\<close> name the object \<open>key q\<close>, and its parameters take at most \<open>room q\<close> octets.
\<close>

locale object_request =
  fixes build :: "'q \<Rightarrow> int \<Rightarrow> octets result" and valid :: "'q \<Rightarrow> bool" and key :: "'q \<Rightarrow> object_key"
    and room :: "'q \<Rightarrow> nat"
  assumes builds: "valid q \<Longrightarrow> 0 \<le> n \<Longrightarrow> n < 256 \<Longrightarrow>
    \<exists>service parameters. build q n = Inr ([0, 5, oct n, oct service] @ parameters)
      \<and> length parameters \<le> room q \<and> 0 \<le> service \<and> service < 256
      \<and> (\<forall>f. f_payload f = [0, 5, oct n, oct service] @ parameters \<longrightarrow> f_network_message f = None \<longrightarrow>
           requested_object f = Inr (Some (key q)))"
begin

text \<open>The frame of such a request, and the failure planned for its object.\<close>

lemma request_built:
  assumes "valid q" "0 \<le> n" "n < 256"
  obtains apdu where "build q n = Inr apdu" "length apdu \<le> room q + 4"
    "\<And>f. f_payload f = apdu \<Longrightarrow> f_network_message f = None \<Longrightarrow> request_invoke_id f = Inr n"
    "\<And>f. f_payload f = apdu \<Longrightarrow> f_network_message f = None \<Longrightarrow>
       pdu_type f = Some PDU_CONFIRMED_REQUEST \<and> requested_object f = Inr (Some (key q))"
proof -
  from builds [OF assms] obtain service ps where b: "build q n = Inr ([0, 5, oct n, oct service] @ ps)"
    "length ps \<le> room q" "0 \<le> service" "service < 256"
    "\<And>f. f_payload f = [0, 5, oct n, oct service] @ ps \<Longrightarrow> f_network_message f = None \<Longrightarrow>
       requested_object f = Inr (Some (key q))" by blast
  note f = confirmed_frame [OF _ _ assms(2,3) b(3,4), of _ ps, simplified]
  show thesis
  proof (rule that [OF b(1)])
    show "length ([0, 5, oct n, oct service] @ ps) \<le> room q + 4" using b(2) by simp
  qed (use b(5) f in auto)
qed

text \<open>A request that is rejected or aborted.\<close>

lemma failure_exchange:
  assumes "valid q" "client_ready r c" "ss_mode s = Online" "map_of (ss_failures s) (key q) = Some x"
    "x = Fail_reject \<or> x = Fail_abort" "room q + length (ro_dadr r) \<le> 2034"
  shows "\<exists>c1 a u. exchange e r here (build q) (c, s) = (Some (c1, 0, Inr a), u)
    \<and> reject_reason a = (if x = Fail_reject then Some REJECT_REASON_UNRECOGNIZED_SERVICE else None)
    \<and> abort_reason a = (if x = Fail_abort then Some ABORT_REASON_SEGMENTATION_NOT_SUPPORTED else None)
    \<and> answered a \<and> \<not> answer_ok a \<and> answer_error a = Inr None \<and> client_ready r c1
    \<and> same_values s u \<and> ss_write_requests u = ss_write_requests s \<and> ss_read_requests u = ss_read_requests s"
proof -
  let ?n = "(cl_invoke_id c + 1) mod 256"
  have n: "0 \<le> ?n" "?n < 256" by simp_all
  from request_built [OF assms(1) n] obtain apdu where apdu: "build q ?n = Inr apdu" "length apdu \<le> room q + 4"
    "\<And>f. f_payload f = apdu \<Longrightarrow> f_network_message f = None \<Longrightarrow> request_invoke_id f = Inr ?n"
    "\<And>f. f_payload f = apdu \<Longrightarrow> f_network_message f = None \<Longrightarrow>
       pdu_type f = Some PDU_CONFIRMED_REQUEST \<and> requested_object f = Inr (Some (key q))" by metis
  define b :: int where "b = (if x = Fail_reject then 0x60 else 0x71)"
  define reason :: int where "reason = (if x = Fail_reject then 9 else 4)"
  let ?ans = "[oct b, oct ?n, oct reason]"
  have served: "\<exists>u. server_answer e (keep_frame f False s) f = (u, Inr (Some ?ans))
      \<and> (same_values s u \<and> ss_write_requests u = ss_write_requests s \<and> ss_read_requests u = ss_read_requests s)"
    if f: "f_payload f = apdu" "f_network_message f = None" for f
  proof -
    have "planned_failure (keep_frame f False s) f = Inr (Some x)"
      using failure_planned [of f "key q" "keep_frame f False s"] apdu(4) [OF f] assms(3,4) by (simp add: keep_frame_def)
    then have "server_answer e (keep_frame f False s) f = (keep_frame f False s, Inr (Some ?ans))"
      using assms(5) apdu(3) [OF f] refusal_octets [OF n]
      by (elim disjE) (simp_all add: server_answer_def b_def reason_def)
    moreover have "ss_write_requests (keep_frame f False s) = ss_write_requests s"
      "ss_read_requests (keep_frame f False s) = ss_read_requests s" by (simp_all add: keep_frame_def)
    ultimately show ?thesis by simp
  qed
  have ready: "route_valid r" "0 \<le> cl_retries c" "0 < cl_timeout c" using assms(2) by (simp_all add: client_ready_def)
  have b: "b \<in> {0x50, 0x60, 0x71}" by (simp add: b_def)
  have len: "length apdu + length (ro_dadr r) \<le> 2038" using apdu(2) assms(6) by simp
  from exchange_answered [where build_apdu = "build q" and s = s and e = e and here = here and ans = ?ans,
      OF apdu(1) ready(1) len ready(2,3) served] refusal_answers(1) [of _ b ?n "[oct reason]"] b n
  obtain c1 u g where x: "exchange e r here (build q) (c, s) = (Some (c1, 0, Inr \<lparr>an_frame = Some g\<rparr>), u)"
    "same_values s u \<and> ss_write_requests u = ss_write_requests s \<and> ss_read_requests u = ss_read_requests s" "f_payload g = ?ans" "f_network_message g = None"
    "cl_retries c1 = cl_retries c" "cl_timeout c1 = cl_timeout c" by auto
  have kind: "pdu_type g = Some (b div 16)" using refusal_answers(2) [of g b ?n "[oct reason]"] x(3,4) b n by simp
  have "uint (oct reason) = reason" by (rule uint_oct) (simp_all add: reason_def)
  with kind x(3) assms(5) have "reject_reason \<lparr>an_frame = Some g\<rparr> = (if x = Fail_reject then Some 9 else None)"
    "abort_reason \<lparr>an_frame = Some g\<rparr> = (if x = Fail_abort then Some 4 else None)"
    "answered \<lparr>an_frame = Some g\<rparr>" "\<not> answer_ok \<lparr>an_frame = Some g\<rparr>" "answer_error \<lparr>an_frame = Some g\<rparr> = Inr None"
    by (auto simp: reject_reason_def abort_reason_def third_octet_def answered_def answer_ok_def answer_error_def
        b_def reason_def)
  moreover have "client_ready r c1" using ready x(5,6) by (simp add: client_ready_def)
  ultimately show ?thesis using x(1,2) by simp
qed

text \<open>A request that is kept silent about: the client gives up, and the server has seen every attempt.\<close>

lemma silence_exchange:
  assumes "valid q" "client_ready r c" "ss_mode s = Online" "map_of (ss_failures s) (key q) = Some Fail_silent"
    "\<forall>n. receipts (airs n) 0 = Timed_out" "room q < 50000"
  shows "\<exists>c1 d u. client_request (build q) r None airs c = Some (c1, nat (cl_retries c), Inr \<lparr>an_frame = None\<rparr>)
    \<and> cl_sent c1 = cl_sent c @ replicate (nat (1 + cl_retries c)) (d, ro_ip r, ro_port r)
    \<and> serve (server_answer e) s (replicate (nat (1 + cl_retries c)) (d, here, False)) = (u, [], None)
    \<and> ss_silent_requests u = ss_silent_requests s + nat (1 + cl_retries c) \<and> same_values s u"
proof -
  let ?n = "(cl_invoke_id c + 1) mod 256"
  let ?m = "nat (1 + cl_retries c)"
  have n: "0 \<le> ?n" "?n < 256" by simp_all
  from request_built [OF assms(1) n] obtain apdu where apdu: "build q ?n = Inr apdu" "length apdu \<le> room q + 4"
    "\<And>f. f_payload f = apdu \<Longrightarrow> f_network_message f = None \<Longrightarrow>
       pdu_type f = Some PDU_CONFIRMED_REQUEST \<and> requested_object f = Inr (Some (key q))" by metis
  have "route_valid r" using assms(2) by (simp add: client_ready_def)
  moreover have "length apdu < 60000" using apdu(2) assms(6) by simp
  ultimately obtain d f where f: "request_datagram apdu r = Inr d" "Frame d here = Inr f"
    "f_ok f" "f_network_message f = None" "f_payload f = apdu" using request_frame [of r apdu here] by metis
  let ?c = "(next_invoke_id c)\<lparr>cl_frames := []\<rparr>"
  let ?one = "request_attempt d r ?n (seconds_for None c) airs"
  from silent_attempts [where one = ?one and I = "\<lambda>c. cl_frames c = []" and c = ?c and k = 0 and m = ?m and lines = 0
      and x = "(d, ro_ip r, ro_port r)"] silent_attempt assms(5)
  obtain c1 where c1: "attempts_loop ?one [0 ..< ?m] 0 ?c = Some (c1, ?m - 1, Inr None)"
    "cl_sent c1 = cl_sent c @ replicate ?m (d, ro_ip r, ro_port r)" by (auto simp: next_invoke_id_def)
  have client: "client_request (build q) r None airs c = Some (c1, nat (cl_retries c), Inr \<lparr>an_frame = None\<rparr>)"
    using c1(1) apdu(1) f(1) assms(2)
    by (simp add: client_request_def Let_def send_with_retries_def next_invoke_id_def seconds_for_def client_ready_def
        nat_add_distrib)
  have "\<exists>u. serve (server_answer e) s (replicate m (d, here, False)) = (u, [], None)
      \<and> ss_silent_requests u = ss_silent_requests s + m \<and> same_values s u" for m
    using assms(3,4)
  proof (induction m arbitrary: s)
    case (Suc m)
    let ?t = "(keep_frame f False s)\<lparr>ss_silent_requests := ss_silent_requests s + 1\<rparr>"
    have "planned_failure (keep_frame f False s) f = Inr (Some Fail_silent)"
      using failure_planned [of f "key q" "keep_frame f False s"] apdu(3) [OF f(5,4)] Suc.prems by (simp add: keep_frame_def)
    then have "serve_datagram (server_answer e) s (d, here, False) = (?t, Inr None)"
      using f by (simp add: serve_datagram_def Let_def server_answer_def keep_frame_def)
    moreover have "ss_mode ?t = Online" "map_of (ss_failures ?t) (key q) = Some Fail_silent" "same_values s ?t"
      using Suc.prems by (simp_all add: keep_frame_def)
    ultimately show ?case using Suc.IH [of ?t] same_values_trans [of s ?t] by fastforce
  qed simp
  with client c1(2) show ?thesis by blast
qed

end

lemma named_by_read:
  assumes "object_range (t, i)" "unsigned32 p" "0 \<le> n" "n < 256" "\<forall>j \<in> set_option a. unsigned32 j"
  shows "\<exists>service parameters. read_property_request n t i p a = Inr ([0, 5, oct n, oct service] @ parameters)
      \<and> length parameters \<le> 15 \<and> 0 \<le> service \<and> service < 256
      \<and> (\<forall>f. f_payload f = [0, 5, oct n, oct service] @ parameters \<longrightarrow> f_network_message f = None \<longrightarrow>
           requested_object f = Inr (Some (t, i)))"
proof -
  from read_request_parses [OF assms(3,4,1,2,5)] obtain apdu where apdu: "read_property_request n t i p a = Inr apdu"
    "parse_read_property_request apdu False = Inr (Some (t, i, p, None))" by blast
  from read_request_octets [OF apdu(1)] obtain ps where
    ps: "apdu = [0, 5, oct n, oct SERVICE_READ_PROPERTY] @ ps" "length apdu \<le> 19" .
  have "requested_object f = Inr (Some (t, i))"
    if "f_payload f = [0, 5, oct n, oct SERVICE_READ_PROPERTY] @ ps" "f_network_message f = None" for f
    using confirmed_frame [OF that assms(3,4)] that(1) ps(1) apdu(2) by (simp add: requested_object_def)
  with apdu(1) ps show ?thesis by (intro exI [of _ SERVICE_READ_PROPERTY] exI [of _ ps]) auto
qed

lemma named_by_write:
  assumes "object_range (t, i)" "unsigned32 p" "well_nested 0 vs" "0 \<le> n" "n < 256"
    "\<forall>j \<in> set_option a. unsigned32 j" "\<forall>j \<in> set_option priority. unsigned32 j"
  shows "\<exists>service parameters. write_property_request n t i p (concat vs) priority a
        = Inr ([0, 5, oct n, oct service] @ parameters)
      \<and> length parameters \<le> length (concat vs) + 22 \<and> 0 \<le> service \<and> service < 256
      \<and> (\<forall>f. f_payload f = [0, 5, oct n, oct service] @ parameters \<longrightarrow> f_network_message f = None \<longrightarrow>
           requested_object f = Inr (Some (t, i)))"
proof -
  from write_request_parses [OF assms(4,5,1,2,3,6,7)] obtain apdu r where
    apdu: "write_property_request n t i p (concat vs) priority a = Inr apdu"
    "parse_write_property_request apdu = Inr (Some r)" "wr_object_type r = t" "wr_instance r = i" by fastforce
  from write_request_octets [OF apdu(1)] obtain ps where
    ps: "apdu = [0, 5, oct n, oct SERVICE_WRITE_PROPERTY] @ ps" "length apdu \<le> length (concat vs) + 26" .
  have "requested_object f = Inr (Some (t, i))"
    if "f_payload f = [0, 5, oct n, oct SERVICE_WRITE_PROPERTY] @ ps" "f_network_message f = None" for f
    using confirmed_frame [OF that assms(4,5)] that(1) ps(1) apdu(2-4) by (simp add: requested_object_def)
  with apdu(1) ps show ?thesis by (intro exI [of _ SERVICE_WRITE_PROPERTY] exI [of _ ps]) auto
qed

interpretation reading: object_request "\<lambda>(t, i, p, a) n. read_property_request n t i p a"
  "\<lambda>(t, i, p, a). object_range (t, i) \<and> unsigned32 p \<and> (\<forall>j \<in> set_option a. unsigned32 j)" "\<lambda>(t, i, p, a). (t, i)"
  "\<lambda>_. 15"
proof unfold_locales
  fix q :: "int \<times> int \<times> int \<times> int option" and n :: int
  assume v: "case q of (t, i, p, a) \<Rightarrow> object_range (t, i) \<and> unsigned32 p \<and> (\<forall>j \<in> set_option a. unsigned32 j)" and n: "0 \<le> n" "n < 256"
  obtain t i p a where q: "q = (t, i, p, a)" by (cases q)
  show "\<exists>service ps. (case q of (t, i, p, a) \<Rightarrow> \<lambda>n. read_property_request n t i p a) n = Inr ([0, 5, oct n, oct service] @ ps)
      \<and> length ps \<le> 15 \<and> 0 \<le> service \<and> service < 256
      \<and> (\<forall>f. f_payload f = [0, 5, oct n, oct service] @ ps \<longrightarrow> f_network_message f = None \<longrightarrow>
           requested_object f = Inr (Some (case q of (t, i, p, a) \<Rightarrow> (t, i))))"
    using v n unfolding q prod.case by (intro named_by_read) blast+
qed

interpretation writing: object_request "\<lambda>(t, i, p, vs, priority, a) n. write_property_request n t i p (concat vs) priority a"
  "\<lambda>(t, i, p, vs, priority, a). object_range (t, i) \<and> unsigned32 p \<and> well_nested 0 vs
     \<and> (\<forall>j \<in> set_option a. unsigned32 j) \<and> (\<forall>j \<in> set_option priority. unsigned32 j)"
  "\<lambda>(t, i, p, vs, priority, a). (t, i)" "\<lambda>(t, i, p, vs, priority, a). length (concat vs) + 22"
proof unfold_locales
  fix q :: "int \<times> int \<times> int \<times> octets list \<times> int option \<times> int option" and n :: int
  assume v: "case q of (t, i, p, vs, priority, a) \<Rightarrow> object_range (t, i) \<and> unsigned32 p \<and> well_nested 0 vs
     \<and> (\<forall>j \<in> set_option a. unsigned32 j) \<and> (\<forall>j \<in> set_option priority. unsigned32 j)" and n: "0 \<le> n" "n < 256"
  obtain t i p vs priority a where q: "q = (t, i, p, vs, priority, a)" by (cases q)
  show "\<exists>service ps. (case q of (t, i, p, vs, priority, a) \<Rightarrow> \<lambda>n. write_property_request n t i p (concat vs) priority a) n = Inr ([0, 5, oct n, oct service] @ ps)
      \<and> length ps \<le> (case q of (t, i, p, vs, priority, a) \<Rightarrow> length (concat vs) + 22) \<and> 0 \<le> service \<and> service < 256
      \<and> (\<forall>f. f_payload f = [0, 5, oct n, oct service] @ ps \<longrightarrow> f_network_message f = None \<longrightarrow>
           requested_object f = Inr (Some (case q of (t, i, p, vs, priority, a) \<Rightarrow> (t, i))))"
    using v n unfolding q prod.case by (intro named_by_write) blast+
qed

section \<open>What the client is told\<close>

text \<open>
  C5. A failure planned for an object reaches the client that reads or writes it as exactly that
  failure: a Reject with reason 9, unrecognized service, or an Abort with reason 4, segmentation
  not supported, and neither a value, an acknowledgement nor an Error. The server keeps its values, and logs the request neither among the reads nor among
  the writes. The write fits the 2048 octets a peer receives.
\<close>

theorem planned_failure_reaches_client:
  assumes "ss_mode s = Online" "map_of (ss_failures s) (t, i) = Some x" "x = Fail_reject \<or> x = Fail_abort"
    "client_ready r c" "object_range (t, i)" "unsigned32 p" "\<forall>j \<in> set_option a. unsigned32 j"
    "well_nested 0 vs" "length (concat vs) + length (ro_dadr r) \<le> 2000" "\<forall>j \<in> set_option priority. unsigned32 j"
    "ask = (\<lambda>request. client_read_property request t i p a)
      \<or> ask = (\<lambda>request. client_write_property request t i p (concat vs) priority a)"
  shows "\<exists>c1 an u. ask (\<lambda>build. exchange e r here build (c, s)) = (Some (c1, 0, Inr an), u)
    \<and> reject_reason an = (if x = Fail_reject then Some REJECT_REASON_UNRECOGNIZED_SERVICE else None)
    \<and> abort_reason an = (if x = Fail_abort then Some ABORT_REASON_SEGMENTATION_NOT_SUPPORTED else None)
    \<and> answered an \<and> \<not> answer_ok an \<and> answer_error an = Inr None
    \<and> same_values s u \<and> ss_write_requests u = ss_write_requests s \<and> ss_read_requests u = ss_read_requests s"
proof -
  let ?told = "\<lambda>an u. reject_reason an = (if x = Fail_reject then Some REJECT_REASON_UNRECOGNIZED_SERVICE else None)
    \<and> abort_reason an = (if x = Fail_abort then Some ABORT_REASON_SEGMENTATION_NOT_SUPPORTED else None)
    \<and> answered an \<and> \<not> answer_ok an \<and> answer_error an = Inr None
    \<and> same_values s u \<and> ss_write_requests u = ss_write_requests s \<and> ss_read_requests u = ss_read_requests s"
  have dadr: "(15 :: nat) + length (ro_dadr r) \<le> 2034" "length (concat vs) + 22 + length (ro_dadr r) \<le> 2034"
    using assms(4,9) by (auto simp: client_ready_def)
  have "\<exists>c1 an u. client_read_property (\<lambda>build. exchange e r here build (c, s)) t i p a = (Some (c1, 0, Inr an), u)
      \<and> ?told an u"
    using reading.failure_exchange [where q = "(t, i, p, a)", unfolded prod.case,
        OF _ assms(4,1,2,3) dadr(1), of e here] assms(5-7) unfolding client_read_property_def by blast
  moreover have "\<exists>c1 an u. client_write_property (\<lambda>build. exchange e r here build (c, s)) t i p (concat vs) priority a
        = (Some (c1, 0, Inr an), u) \<and> ?told an u"
    using writing.failure_exchange [where q = "(t, i, p, vs, priority, a)", unfolded prod.case,
        OF _ assms(4,1,2,3) dadr(2), of e here] assms(5-10) unfolding client_write_property_def by blast
  ultimately show ?thesis using assms(11) by (elim disjE) (simp_all only: )
qed

lemma planned_failure_reaches_client_witness:
  "\<exists>s c1 an u. output_server = Inr s \<and>
     client_write_property (\<lambda>build. exchange () test_route (lit ''127.0.0.1'', 50000) build
         (test_client, s\<lparr>ss_failures := [((1, 0), Fail_abort)]\<rparr>)) 1 0 PROPERTY_PRESENT_VALUE
       (concat [[0x44, 0x42, 0x50, 0, 0]]) (Some 8) None = (Some (c1, 0, Inr an), u)
     \<and> reject_reason an = None \<and> abort_reason an = Some 4 \<and> answer_error an = Inr None \<and> ss_write_requests u = []"
proof -
  obtain s where s: "output_server = Inr s" "ss_mode s = Online" using output_server_starts by blast
  from s(1) have "ss_write_requests s = []" by (auto simp: output_server_def new_server_def Let_def split: if_splits)
  moreover have "ss_mode (s\<lparr>ss_failures := [((1, 0), Fail_abort)]\<rparr>) = Online"
    "map_of (ss_failures (s\<lparr>ss_failures := [((1, 0), Fail_abort)]\<rparr>)) (1, 0) = Some Fail_abort" using s(2) by simp_all
  from planned_failure_reaches_client [OF this _ test_ready _ _ _ real_value(1), where p = PROPERTY_PRESENT_VALUE
      and a = None and priority = "Some 8" and e = "()" and here = "(lit ''127.0.0.1'', 50000)", OF _ _ _ _ _ _ disjI2 [OF refl]]
  have "\<exists>c1 an u. client_write_property (\<lambda>build. exchange () test_route (lit ''127.0.0.1'', 50000) build
         (test_client, s\<lparr>ss_failures := [((1, 0), Fail_abort)]\<rparr>)) 1 0 PROPERTY_PRESENT_VALUE
       (concat [[0x44, 0x42, 0x50, 0, 0]]) (Some 8) None = (Some (c1, 0, Inr an), u)
     \<and> reject_reason an = None \<and> abort_reason an = Some 4 \<and> answer_error an = Inr None \<and> ss_write_requests u = ss_write_requests s"
    by fastforce
  ultimately show ?thesis using s(1) by fastforce
qed

text \<open>
  C7. An object the server keeps silent about: when nothing arrives in any attempt, the client that reads it
  sends one datagram exactly \<open>1 + retries\<close> times, prints \<open>retries\<close> lines and returns unanswered; the
  serving thread that receives those datagrams sends nothing, counts every one of them and keeps its values.
\<close>

theorem silence_exhausts_retries:
  assumes "ss_mode s = Online" "map_of (ss_failures s) (t, i) = Some Fail_silent" "client_ready r c"
    "object_range (t, i)" "unsigned32 p" "\<forall>j \<in> set_option a. unsigned32 j" "\<forall>n. receipts (airs n) 0 = Timed_out"
  shows "\<exists>c1 d u. client_read_property (\<lambda>build. client_request build r None airs c) t i p a
        = Some (c1, nat (cl_retries c), Inr \<lparr>an_frame = None\<rparr>)
    \<and> cl_sent c1 = cl_sent c @ replicate (nat (1 + cl_retries c)) (d, ro_ip r, ro_port r)
    \<and> serve (server_answer e) s (replicate (nat (1 + cl_retries c)) (d, here, False)) = (u, [], None)
    \<and> ss_silent_requests u = ss_silent_requests s + nat (1 + cl_retries c) \<and> same_values s u"
proof -
  have "(15 :: nat) < 50000" by simp
  from reading.silence_exchange [where q = "(t, i, p, a)", unfolded prod.case, OF _ assms(3,1,2,7) this, of e here] assms(4-6)
  show ?thesis unfolding client_read_property_def by blast
qed

lemma silence_exhausts_retries_witness:
  "\<exists>s c1 d u. output_server = Inr s \<and>
     client_read_property (\<lambda>build. client_request build test_route None
         (\<lambda>_. \<lparr>clock = int, receipts = (\<lambda>_. Timed_out)\<rparr>) (new_client 2 3)) 1 0 PROPERTY_PRESENT_VALUE None
       = Some (c1, 2, Inr \<lparr>an_frame = None\<rparr>)
     \<and> cl_sent c1 = replicate 3 (d, lit ''127.0.0.1'', 47808)
     \<and> serve (server_answer ()) (s\<lparr>ss_failures := [((1, 0), Fail_silent)]\<rparr>)
         (replicate 3 (d, (lit ''127.0.0.1'', 50000), False)) = (u, [], None)
     \<and> ss_silent_requests u = ss_silent_requests s + 3"
proof -
  obtain s where s: "output_server = Inr s" "ss_mode s = Online" using output_server_starts by blast
  have m: "ss_mode (s\<lparr>ss_failures := [((1, 0), Fail_silent)]\<rparr>) = Online"
    "map_of (ss_failures (s\<lparr>ss_failures := [((1, 0), Fail_silent)]\<rparr>)) (1, 0) = Some Fail_silent" using s(2) by simp_all
  have r: "client_ready test_route (new_client 2 3)" by (simp add: client_ready_def test_route_def new_client_def)
  have "\<forall>n. receipts ((\<lambda>_. \<lparr>clock = int, receipts = (\<lambda>_. Timed_out)\<rparr>) n) 0 = Timed_out" by simp
  from silence_exhausts_retries [OF m r _ _ _ this, where p = PROPERTY_PRESENT_VALUE and a = None and e = "()"
      and here = "(lit ''127.0.0.1'', 50000)"] s(1)
  show ?thesis by (auto simp: new_client_def test_route_def)
qed

text \<open>
  C6. A server that refuses writes: whatever a client writes that fits a datagram, it is not acknowledged. It is told
  Error PROPERTY / WRITE_ACCESS_DENIED about an object the server lists and OBJECT / UNKNOWN_OBJECT about any
  other; no value and no priority array changes, and the server logs exactly the request that was made.
\<close>

theorem refused_write_reported:
  assumes "ss_mode s = Refusing" "client_ready r c" "object_range (t, i)" "unsigned32 p"
    "well_nested 0 vs" "length (concat vs) + length (ro_dadr r) \<le> 2000" "\<forall>j \<in> set_option priority. unsigned32 j"
    "\<forall>j \<in> set_option a. unsigned32 j"
  shows "\<exists>c1 an u. client_write_property (\<lambda>build. exchange e r here build (c, s)) t i p (concat vs) priority a
        = (Some (c1, 0, Inr an), u)
    \<and> answer_error an = Inr (Some (if ss_objects s (t, i) = None then (ERROR_CLASS_OBJECT, ERROR_CODE_UNKNOWN_OBJECT)
         else (ERROR_CLASS_PROPERTY, ERROR_CODE_WRITE_ACCESS_DENIED))) \<and> \<not> answer_acked an
    \<and> same_values s u \<and> ss_write_requests u = ss_write_requests s @
        [\<lparr>wr_object_type = t, wr_instance = i, wr_property_identifier = p, wr_array_index = a,
          wr_value_octets = concat vs, wr_priority = priority\<rparr>]"
proof -
  let ?n = "(cl_invoke_id c + 1) mod 256"
  let ?r = "\<lparr>wr_object_type = t, wr_instance = i, wr_property_identifier = p, wr_array_index = a,
    wr_value_octets = concat vs, wr_priority = priority\<rparr>"
  let ?build = "\<lambda>n. write_property_request n t i p (concat vs) priority a"
  have n: "0 \<le> ?n" "?n < 256" by simp_all
  from write_request_parses [OF n assms(3-5,8,7)] obtain apdu where
    apdu: "?build ?n = Inr apdu" "parse_write_property_request apdu = Inr (Some ?r)" by blast
  from write_request_octets [OF apdu(1)] obtain ps where
    ps: "apdu = [0, 5, oct ?n, oct SERVICE_WRITE_PROPERTY] @ ps" "length apdu \<le> length (concat vs) + 26" .
  from nested_tag [OF assms(5)] obtain tag where tag: "application_tag (concat vs) = Inr tag" by blast
  define cl :: int where "cl = (if ss_objects s (t, i) = None then ERROR_CLASS_OBJECT else ERROR_CLASS_PROPERTY)"
  define code :: int where
    "code = (if ss_objects s (t, i) = None then ERROR_CODE_UNKNOWN_OBJECT else ERROR_CODE_WRITE_ACCESS_DENIED)"
  have "unsigned32 cl" "unsigned32 code" by (simp_all add: cl_def code_def)
  with error_pdu_class_and_code [OF n, of SERVICE_WRITE_PROPERTY cl code]
  obtain ans where ans: "error_pdu ?n SERVICE_WRITE_PROPERTY cl code = Inr ans"
    "error_class_and_code ans = Inr (Some (cl, code))" by auto
  from error_octets [OF ans(1)] obtain rest where rest: "ans = [oct 0x50, oct ?n] @ rest" "length ans \<le> 13" .
  have served: "\<exists>u. server_answer e (keep_frame f False s) f = (u, Inr (Some ans))
      \<and> (same_values s u \<and> ss_write_requests u = ss_write_requests s @ [?r])"
    if f: "f_payload f = apdu" "f_network_message f = None" for f
  proof -
    let ?s = "keep_frame f False s"
    let ?t = "?s\<lparr>ss_write_requests := ss_write_requests ?s @ [?r]\<rparr>"
    have k: "ss_mode ?s = Refusing" "ss_objects ?s = ss_objects s" "ss_write_requests ?s = ss_write_requests s"
      using assms(1) by (simp_all add: keep_frame_def)
    have payload: "f_payload f = [0, 5, oct ?n, oct SERVICE_WRITE_PROPERTY] @ ps" using f(1) ps(1) by simp
    note c = confirmed_frame [OF payload f(2) n, simplified]
    have "server_answer e ?s f = server_write ?t f (Some ?r)"
      using c k(1) f(1) apdu(2) by (simp add: server_answer_def server_handle_def planned_failure_def Let_def)
    also have "\<dots> = (?t, Inr (Some ans))"
      using k tag c ans(1)
      by (cases "ss_objects s (t, i)") (simp_all add: server_write_def write_refusal_def Let_def cl_def code_def)
    finally show ?thesis using k(3) by simp
  qed
  have len: "length apdu + length (ro_dadr r) \<le> 2038" "length ans \<le> 2042" using ps(2) rest(2) assms(6) by simp_all
  have ready: "route_valid r" "0 \<le> cl_retries c" "0 < cl_timeout c" using assms(2) by (simp_all add: client_ready_def)
  from exchange_answered [where build_apdu = ?build and s = s and e = e and here = here and ans = ans,
      OF apdu(1) ready(1) len(1) ready(2,3) served] refusal_answers(1) [of _ "0x50" ?n rest] n rest(1) len(2)
  obtain c1 u g where x: "exchange e r here ?build (c, s) = (Some (c1, 0, Inr \<lparr>an_frame = Some g\<rparr>), u)"
    "same_values s u \<and> ss_write_requests u = ss_write_requests s @ [?r]" "f_payload g = ans" "f_network_message g = None"
    by auto
  have "pdu_type g = Some PDU_ERROR" using refusal_answers(2) [of g "0x50" ?n rest] x(3,4) rest(1) n by simp
  with x(3) ans(2) have "answer_error \<lparr>an_frame = Some g\<rparr>
      = Inr (Some (cl, code))" "\<not> answer_acked \<lparr>an_frame = Some g\<rparr>"
    by (simp_all add: answer_error_def answer_acked_def)
  moreover have told: "(if ss_objects s (t, i) = None then (ERROR_CLASS_OBJECT, ERROR_CODE_UNKNOWN_OBJECT)
      else (ERROR_CLASS_PROPERTY, ERROR_CODE_WRITE_ACCESS_DENIED)) = (cl, code)" by (simp add: cl_def code_def)
  ultimately show ?thesis using x(1,2) unfolding client_write_property_def told by blast
qed

lemma refused_write_reported_witness:
  "\<exists>s c1 an u. output_server = Inr s \<and>
     client_write_property (\<lambda>build. exchange () test_route (lit ''127.0.0.1'', 50000) build
         (test_client, s\<lparr>ss_mode := Refusing\<rparr>)) 1 0 PROPERTY_PRESENT_VALUE
       (concat [[0x44, 0x42, 0x50, 0, 0]]) (Some 8) None = (Some (c1, 0, Inr an), u)
     \<and> answer_error an = Inr (Some (2, 40)) \<and> \<not> answer_acked an \<and> same_values s u"
proof -
  obtain s where s: "output_server = Inr s" "ss_objects s = one_output" using output_server_starts by blast
  have m: "ss_mode (s\<lparr>ss_mode := Refusing\<rparr>) = Refusing" "ss_objects (s\<lparr>ss_mode := Refusing\<rparr>) (1, 0) \<noteq> None"
    by (simp_all add: s(2) one_output_def)
  from refused_write_reported [OF m(1) test_ready _ _ real_value(1), where t = 1 and i = 0 and p = PROPERTY_PRESENT_VALUE
      and a = None and priority = "Some 8" and e = "()" and here = "(lit ''127.0.0.1'', 50000)"]
  have "\<exists>c1 an u. client_write_property (\<lambda>build. exchange () test_route (lit ''127.0.0.1'', 50000) build
         (test_client, s\<lparr>ss_mode := Refusing\<rparr>)) 1 0 PROPERTY_PRESENT_VALUE
       (concat [[0x44, 0x42, 0x50, 0, 0]]) (Some 8) None = (Some (c1, 0, Inr an), u)
     \<and> answer_error an = Inr (Some (2, 40)) \<and> \<not> answer_acked an \<and> same_values (s\<lparr>ss_mode := Refusing\<rparr>) u"
    using m(2) by auto
  moreover have "same_values (s\<lparr>ss_mode := Refusing\<rparr>) u = same_values s u" for u by (simp add: same_values_def)
  ultimately show ?thesis using s(1) by blast
qed

section \<open>A server that is gone\<close>

text \<open>The writes that a run of frames asks for, as \<^verbatim>\<open>parse_write_property_request\<close> returns them.\<close>

definition asked_writes :: "frame list \<Rightarrow> write_request set" where
  "asked_writes fs = {r. \<exists>f \<in> set fs. frame_service f = Inr (Some SERVICE_WRITE_PROPERTY)
     \<and> parse_write_property_request (f_payload f) = Inr (Some r)}"

text \<open>Only the log of writes and the count of unanswered requests differ.\<close>

definition offline_step :: "'e simulated_server \<Rightarrow> 'e simulated_server \<Rightarrow> bool" where
  "offline_step s u \<longleftrightarrow> same_values s u \<and> settings u = settings s \<and> ss_read_requests u = ss_read_requests s
     \<and> ss_array_reads u = ss_array_reads s \<and> ss_silent_requests u = ss_silent_requests s
     \<and> ss_requests_while_offline s \<le> ss_requests_while_offline u
     \<and> (\<exists>frames writes. sd_received u = sd_received s @ frames \<and> ss_write_requests u = ss_write_requests s @ writes
          \<and> set writes \<subseteq> asked_writes frames)"

lemma offline_step_refl: "offline_step s s"
  by (auto simp: offline_step_def)

lemma offline_step_trans:
  assumes "offline_step s t" "offline_step t u"
  shows "offline_step s u"
proof -
  from assms(1) obtain fs ws where t: "sd_received t = sd_received s @ fs" "ss_write_requests t = ss_write_requests s @ ws"
    "set ws \<subseteq> asked_writes fs" by (auto simp: offline_step_def)
  from assms(2) obtain gs vs where u: "sd_received u = sd_received t @ gs" "ss_write_requests u = ss_write_requests t @ vs"
    "set vs \<subseteq> asked_writes gs" by (auto simp: offline_step_def)
  have "set (ws @ vs) \<subseteq> asked_writes (fs @ gs)" using t(3) u(3) by (auto simp: asked_writes_def)
  moreover have "sd_received u = sd_received s @ (fs @ gs)" "ss_write_requests u = ss_write_requests s @ (ws @ vs)"
    using t u by simp_all
  ultimately have "\<exists>frames writes. sd_received u = sd_received s @ frames
      \<and> ss_write_requests u = ss_write_requests s @ writes \<and> set writes \<subseteq> asked_writes frames" by blast
  with assms same_values_trans [of s t u] show ?thesis by (simp add: offline_step_def)
qed

lemma offline_answer:
  assumes "ss_mode s = Offline" "server_answer e (keep_frame f b s) f = (u, r)"
  shows "offline_step s u \<and> (\<forall>x. r = Inr x \<longrightarrow> x = None)"
proof -
  let ?s = "keep_frame f b s"
  have same: "same_values s ?s" "settings ?s = settings s" by simp_all
  have k: "ss_mode ?s = Offline" "ss_read_requests ?s = ss_read_requests s"
    "ss_array_reads ?s = ss_array_reads s" "ss_silent_requests ?s = ss_silent_requests s"
    "ss_requests_while_offline ?s = ss_requests_while_offline s" "ss_write_requests ?s = ss_write_requests s"
    "sd_received ?s = sd_received s @ [f]"
    using assms(1) by (simp_all add: keep_frame_def Let_def)
  have kept: "offline_step s ?s" using same k by (auto simp: offline_step_def)
  have "server_answer e ?s f = server_handle e ?s f None" by (simp add: server_answer_def planned_failure_def k(1))
  with assms(2) have h: "server_handle e ?s f None = (u, r)" by simp
  show ?thesis
  proof (cases "pdu_type f = Some PDU_CONFIRMED_REQUEST \<and> frame_service f = Inr (Some SERVICE_WRITE_PROPERTY)")
    case True
    show ?thesis
    proof (cases "parse_write_property_request (f_payload f)")
      case (Inl x)
      with True h kept show ?thesis by (auto simp: server_handle_def)
    next
      case (Inr request)
      let ?t = "case request of None \<Rightarrow> ?s | Some w \<Rightarrow> ?s\<lparr>ss_write_requests := ss_write_requests ?s @ [w]\<rparr>"
      have "r = Inr None" "u = ?t\<lparr>ss_requests_while_offline := ss_requests_while_offline ?t + 1\<rparr>"
        using True Inr h k(1) by (auto simp: server_handle_def Let_def split: option.splits)
      moreover have "offline_step s (?t\<lparr>ss_requests_while_offline := ss_requests_while_offline ?t + 1\<rparr>)"
        using same k True Inr
        by (auto simp: offline_step_def asked_writes_def settings_def split: option.split)
      ultimately show ?thesis by simp
    qed
  next
    case False
    have "offline_step s (?s\<lparr>ss_requests_while_offline := ss_requests_while_offline ?s + 1\<rparr>)"
      using same k by (auto simp: offline_step_def settings_def)
    with False h kept k(1) show ?thesis
      by (cases "if pdu_type f = Some PDU_CONFIRMED_REQUEST then frame_service f else Inr None")
        (auto simp: server_handle_def Let_def split: if_splits)
  qed
qed

text \<open>
  C22. A server that is offline is gone for everybody: whatever datagrams arrive, until an exception ends the thread
  or they stop, it sends nothing, serves nothing and changes no value or priority array, and no count or log but
  two: the confirmed requests it left unanswered, and the writes, each one that a received frame asked for.
\<close>

theorem offline_server_silent:
  assumes "ss_mode s = Offline" "serve (server_answer e) s arrivals = (u, sent, ended)"
  shows "sent = [] \<and> same_values s u \<and> settings u = settings s \<and> ss_read_requests u = ss_read_requests s
    \<and> ss_array_reads u = ss_array_reads s \<and> ss_silent_requests u = ss_silent_requests s
    \<and> (\<exists>frames writes. sd_received u = sd_received s @ frames \<and> ss_write_requests u = ss_write_requests s @ writes
        \<and> set writes \<subseteq> asked_writes frames)"
proof -
  have "sent = [] \<and> offline_step s u"
    using assms
  proof (induction arrivals arbitrary: s u sent)
    case Nil
    then show ?case by (simp add: offline_step_refl)
  next
    case (Cons a arrivals)
    obtain data source b where a: "a = (data, source, b)" by (cases a)
    show ?case
    proof (cases "Frame data source")
      case (Inl x)
      with Cons.prems a show ?thesis by (simp add: serve_datagram_def offline_step_refl)
    next
      case (Inr f)
      obtain t r where t: "serve_datagram (server_answer e) s a = (t, r)" by fastforce
      have one: "offline_step s t \<and> (\<forall>x. r = Inr x \<longrightarrow> x = None)"
      proof (cases "f_ok f \<and> f_network_message f = None")
        case True
        obtain v q where v: "server_answer e (keep_frame f b s) f = (v, q)" by fastforce
        from offline_answer [OF Cons.prems(1) v] have q: "offline_step s v" "\<forall>x. q = Inr x \<longrightarrow> x = None" by simp_all
        have "t = v" "r = chain q (\<lambda>apdu. case apdu of None \<Rightarrow> Inr None
            | Some apdu \<Rightarrow> chain (device_reply f apdu) (\<lambda>sent. Inr (Some sent)))"
          using t a Inr True v by (simp_all add: serve_datagram_def Let_def)
        with q show ?thesis by (cases q) auto
      next
        case False
        have "offline_step s (keep_frame f b s)" by (auto simp: offline_step_def keep_frame_def settings_def Let_def)
        with t a Inr False show ?thesis by (auto simp: serve_datagram_def Let_def)
      qed
      show ?thesis
      proof (cases r)
        case (Inl x)
        with Cons.prems t one show ?thesis by simp
      next
        case (Inr x)
        with one t Cons.prems(2) obtain rest where rest: "serve (server_answer e) t arrivals = (u, rest, ended)" "sent = rest"
          by (auto split: prod.splits)
        have "ss_mode t = Offline" using one Cons.prems(1) by (simp add: offline_step_def settings_def)
        from Cons.IH [OF this rest(1)] rest(2) one show ?thesis using offline_step_trans [of s t u] by simp
      qed
    qed
  qed
  then show ?thesis by (simp add: offline_step_def)
qed

lemma offline_server_silent_witness:
  "\<exists>s u. output_server = Inr s
    \<and> serve (server_answer ()) (s\<lparr>ss_mode := Offline\<rparr>) [([0x81, 0x0A, 0, 8, 1, 0, 0x10, 8], (lit ''10.0.0.9'', 47808), False)]
        = (u, [], None) \<and> same_values s u"
proof -
  obtain s where s: "output_server = Inr s" using output_server_starts by blast
  let ?s = "s\<lparr>ss_mode := Offline\<rparr>"
  let ?a = "([0x81, 0x0A, 0, 8, 1, 0, 0x10, 8], (lit ''10.0.0.9'', 47808), False)"
  obtain u sent ended where u: "serve (server_answer ()) ?s [?a] = (u, sent, ended)" by (metis prod_cases3)
  obtain f where "Frame (fst ?a) (lit ''10.0.0.9'', 47808) = Inr f" "f_ok f" "f_network_message f = None" "f_payload f = [0x10, 8]"
    by (simp add: Frame_def frame_decode_def new_frame_def Let_def BVLC_FUNCTIONS_WITH_NPDU_def index_def slice_def)
  then have "ended = None"
    using u by (auto simp: serve_datagram_def server_answer_def planned_failure_def server_handle_def Let_def pdu_type_def
        keep_frame_def)
  with offline_server_silent [OF _ u] u s show ?thesis by (auto simp: same_values_def)
qed

end
