(* ===== verification/Discovery_Exchange.thy ===== *)
theory Discovery_Exchange
  imports Failure_Exchange
begin

text \<open>
  Who-Is and I-Am between \<^verbatim>\<open>Client.who_is\<close> and the simulated peers: who answers, what the client makes
  of it, and what happens when the instance asked for is not there.
\<close>

section \<open>The octets of a Who-Is\<close>

text \<open>A Who-Is with limits is an unconfirmed request whose two context tags are the limits.\<close>

lemma who_is_parses:
  assumes "unsigned32 low" "unsigned32 high"
  obtains parameters where "who_is (Some low) (Some high) = Inr ([oct 0x10, oct SERVICE_WHO_IS] @ parameters)"
    "who_is_limits parameters = Inr [low, high]" "length parameters \<le> 10"
proof -
  from context_unsigned_tag [of 0 low] assms(1) obtain x b where
    x: "context_unsigned 0 low = Inr x" "tag_of x = Some (0, True, Kvalue, b)" "from_bytes b = low" by auto
  from context_unsigned_tag [of 1 high] assms(2) obtain y d where
    y: "context_unsigned 1 high = Inr y" "tag_of y = Some (1, True, Kvalue, d)" "from_bytes d = high" by auto
  have "who_is (Some low) (Some high) = Inr ([oct 0x10, oct SERVICE_WHO_IS] @ x @ y)"
    using x(1) y(1) by (simp add: who_is_def byte_def)
  moreover have "who_is_limits (x @ y) = Inr [low, high]"
    using x(3) y(3)
    by (simp add: who_is_limits_def for_tags_end for_tags_step [OF x(2), of "[]" y, simplified]
        for_tags_step [OF y(2), of x "[]", simplified])
  moreover have "length (x @ y) \<le> 10" using tag_octets_length(1) [OF x(1)] tag_octets_length(1) [OF y(1)] by simp
  ultimately show thesis using that by blast
qed

lemma unconfirmed_frame:
  assumes "f_payload f = [oct 0x10, oct service] @ parameters" "f_network_message f = None" "0 \<le> service" "service < 256"
  shows "pdu_type f = Some PDU_UNCONFIRMED_REQUEST" "frame_service f = Inr (Some service)"
  using assms by (simp_all add: pdu_type_def frame_service_def index_def uint_oct)

text \<open>A device answers a Who-Is exactly when its instance is inside the limits.\<close>

lemma device_answers_who_is:
  assumes "f_payload f = [oct 0x10, oct SERVICE_WHO_IS] @ parameters" "f_network_message f = None"
    "who_is_limits parameters = Inr [low, high]"
  shows "device_answer d f = (if low \<le> sd_device_instance d \<and> sd_device_instance d \<le> high
    then respond (i_am (sd_device_instance d) (sd_vendor_identifier d) 1476 3) else Inr None)"
  using unconfirmed_frame [OF assms(1,2)] assms(1,3)
  by (auto simp: device_answer_def device_who_is_def)

text \<open>The octets of an I-Am.\<close>

lemma i_am_octets:
  assumes "i_am n vendor max_apdu segmentation = Inr apdu"
  shows "length apdu \<le> 22"
proof -
  from assms obtain x y z w where "application_object_id OBJECT_TYPE_DEVICE n = Inr x" "application_unsigned max_apdu = Inr y"
    "application_enumerated segmentation = Inr z" "application_unsigned vendor = Inr w"
    "apdu = [oct 0x10, oct SERVICE_I_AM] @ x @ y @ z @ w" by (auto simp: i_am_def result_simps byte_eq_Inr)
  then show ?thesis
    by (auto simp: application_object_id_def application_unsigned_def application_enumerated_def object_id_def
        result_simps byte_eq_Inr dest!: unsigned_octets_length be_bytes_length)
qed

section \<open>Peers that can be found\<close>

lemma send_apdu_fun: "send_apdu = (\<lambda>apdu. chain (npdu apdu npdu_defaults) (\<lambda>n. bvlc n False))"
  by (simp add: fun_eq_iff send_apdu_def)

text \<open>One Who-Is of a client reaches a peer, and the reply, if any, is what the client receives in that attempt.\<close>

definition discovery ::
  "('a simulated_device_scheme \<Rightarrow> frame \<Rightarrow> 'a simulated_device_scheme \<times> octets option result)
   \<Rightarrow> pystr \<times> int \<Rightarrow> pystr \<times> int \<Rightarrow> int \<Rightarrow> client \<times> 'a simulated_device_scheme
   \<Rightarrow> (client \<times> nat \<times> frame option result) option \<times> 'a simulated_device_scheme" where
  "discovery answer peer_address client_address n state = (case state of (c, d) \<Rightarrow>
     let ask = (\<lambda>reply. client_who_is n peer_address None None (\<lambda>_. reply_air reply peer_address) c) in
     case chain (who_is (Some n) (Some n)) send_apdu of
       Inl x \<Rightarrow> (ask (Inr None), d)
     | Inr octets \<Rightarrow> (case serve_datagram answer d (received_octets octets, client_address, False) of (t, reply) \<Rightarrow> (ask reply, t)))"

lemma who_is_frame:
  assumes "unsigned32 n"
  obtains octets f parameters where "chain (who_is (Some n) (Some n)) send_apdu = Inr octets" "Frame octets source = Inr f"
    "f_ok f" "f_network_message f = None" "f_snet f = None" "f_source f = source"
    "f_payload f = [oct 0x10, oct SERVICE_WHO_IS] @ parameters" "who_is_limits parameters = Inr [n, n]"
    "length octets \<le> 2048"
proof -
  from who_is_parses [OF assms assms] obtain ps where ps: "who_is (Some n) (Some n) = Inr ([oct 0x10, oct SERVICE_WHO_IS] @ ps)"
    "who_is_limits ps = Inr [n, n]" "length ps \<le> 10" .
  have "length ([oct 0x10, oct SERVICE_WHO_IS] @ ps) < 60000" using ps(3) by simp
  from plain_datagram_frame [OF this, of source] obtain m d f where
    "npdu ([oct 0x10, oct SERVICE_WHO_IS] @ ps) npdu_defaults = Inr m" "bvlc m False = Inr d" "Frame d source = Inr f"
    "f_ok f" "f_network_message f = None" "f_payload f = [oct 0x10, oct SERVICE_WHO_IS] @ ps" "f_source f = source"
    "f_snet f = None" "length d = length ([oct 0x10, oct SERVICE_WHO_IS] @ ps) + 6" by metis
  with that [of d f ps] ps show thesis by (simp add: send_apdu_def)
qed

text \<open>A client to whom nothing comes asks as often as it may.\<close>

lemma silent_who_is:
  assumes "chain (who_is (Some n) (Some n)) send_apdu = Inr octets" "\<forall>k. receipts (airs k) 0 = Timed_out" "0 \<le> cl_retries c"
  shows "\<exists>c1. client_who_is n dest None None airs c = Some (c1, nat (cl_retries c), Inr None)
    \<and> cl_sent c1 = cl_sent c @ replicate (nat (1 + cl_retries c)) (octets, dest)"
proof -
  let ?one = "who_is_attempt n dest (seconds_for None c) airs"
  have "wait_for (airs k) (announces n) seconds [] = Some ([], Inr None)" for k seconds
    unfolding wait_for_def using assms(2) by (subst wait_loop.simps) (simp add: receive_def)
  then have "\<exists>d. ?one k b = Some (d, Inr None) \<and> True \<and> cl_sent d = cl_sent b @ [(octets, dest)]" for k b
    by (simp add: who_is_attempt_def Let_def assms(1) [unfolded send_apdu_fun] client_wait_def client_send_def)
  from silent_attempts [where one = ?one and I = "\<lambda>_. True" and c = c and k = 0 and m = "nat (1 + cl_retries c)" and lines = 0
      and x = "(octets, dest)", OF this] assms(3)
  show ?thesis by (auto simp: client_who_is_def nat_add_distrib)
qed

text \<open>
  The contract of a peer that is there: it hands an unconfirmed request to \<^verbatim>\<open>SimulatedDevice._answer\<close>, and
  receiving changes nothing about that.
\<close>

locale discoverable =
  fixes answer :: "'a simulated_device_scheme \<Rightarrow> frame \<Rightarrow> 'a simulated_device_scheme \<times> octets option result"
    and reachable :: "'a simulated_device_scheme \<Rightarrow> bool"
  assumes asks_device: "reachable d \<Longrightarrow> pdu_type f = Some PDU_UNCONFIRMED_REQUEST \<Longrightarrow> answer d f = (d, device_answer d f)"
    and stays: "reachable d \<Longrightarrow> reachable (keep_frame f b d)"
begin

lemma found:
  assumes "reachable d" "0 \<le> n" "n < 2 ^ 22" "sd_device_instance d = n" "unsigned32 (sd_vendor_identifier d)"
    "0 \<le> cl_retries c" "0 < cl_timeout c"
  shows "\<exists>c1 g f. discovery answer peer_address here n (c, d) = (Some (c1, 0, Inr (Some g)), keep_frame f False d)
    \<and> i_am_device_instance (f_payload g) = Inr (Some n) \<and> f_source g = peer_address"
proof -
  have "unsigned32 n" using assms(2,3) by simp
  from who_is_frame [OF this, of here] obtain octets f ps where f: "chain (who_is (Some n) (Some n)) send_apdu = Inr octets"
    "Frame octets here = Inr f" "f_ok f" "f_network_message f = None" "f_snet f = None" "f_source f = here"
    "f_payload f = [oct 0x10, oct SERVICE_WHO_IS] @ ps" "who_is_limits ps = Inr [n, n]" and "length octets \<le> 2048" .
  then have o: "received_octets octets = octets" by simp
  let ?d = "keep_frame f False d"
  have same: "sd_device_instance ?d = n" "sd_vendor_identifier ?d = sd_vendor_identifier d"
    using assms(4) by (simp_all add: keep_frame_def)
  from i_am_instance [OF assms(2,3,5), of 1476 3] obtain apdu where
    apdu: "i_am n (sd_vendor_identifier d) 1476 3 = Inr apdu" "i_am_device_instance apdu = Inr (Some n)" by auto
  have a: "answer ?d f = (?d, Inr (Some apdu))"
    using asks_device [OF stays [OF assms(1)] unconfirmed_frame(1) [OF f(7,4)]] device_answers_who_is [OF f(7,4,8), of ?d]
      same apdu(1) by simp
  have "length apdu < 60000" using i_am_octets [OF apdu(1)] by simp
  from plain_datagram_frame [OF this, of peer_address] obtain m r g where g: "npdu apdu npdu_defaults = Inr m" "bvlc m False = Inr r"
    "Frame r peer_address = Inr g" "f_ok g" "f_payload g = apdu" "f_source g = peer_address" and "length r = length apdu + 6" by metis
  then have r: "received_octets r = r" using i_am_octets [OF apdu(1)] by simp
  have "serve_datagram answer d (octets, here, False) = (?d, Inr (Some (r, here)))"
    using f(2-6) a g(1,2) by (simp add: serve_datagram_def Let_def device_reply_def reply_npdu_def)
  moreover have "wait_for (reply_air (Inr (Some (r, here))) peer_address) (announces n) (cl_timeout c) [] = Some ([g], Inr (Some g))"
    using g(3-5) apdu(2) assms(7) by (intro wait_receives) (simp_all add: announces_def r)
  then have "\<exists>c1. client_who_is n peer_address None None (\<lambda>_. reply_air (Inr (Some (r, here))) peer_address) c
      = Some (c1, 0, Inr (Some g))"
    using assms(6)
    by (simp add: client_who_is_def upt_rec [of 0] who_is_attempt_def Let_def f(1) [unfolded send_apdu_fun] client_wait_def
        client_send_def seconds_for_def)
  ultimately show ?thesis using f(1) g(5,6) apdu(2) o by (auto simp: discovery_def)
qed

end

interpretation plain_peer: discoverable plain_answer "\<lambda>_. True"
  by unfold_locales (simp_all add: plain_answer_def)

interpretation server_peer: discoverable "server_answer e" "\<lambda>s. ss_mode s \<noteq> Offline" for e
  by unfold_locales
    (auto simp: server_answer_def planned_failure_def server_handle_def Let_def keep_frame_def)

section \<open>Found and not found\<close>

text \<open>A server that is offline, or is another device, receives any number of these Who-Is and says nothing.\<close>

lemma ignored_who_is:
  assumes "Frame octets here = Inr f" "f_ok f" "f_network_message f = None"
    "f_payload f = [oct 0x10, oct SERVICE_WHO_IS] @ ps" "who_is_limits ps = Inr [n, n]"
    "ss_mode s = Offline \<or> sd_device_instance s \<noteq> n"
  shows "\<exists>u. serve (server_answer e) s (replicate m (octets, here, False)) = (u, [], None) \<and> same_values s u"
  using assms(6)
proof (induction m arbitrary: s)
  case (Suc m)
  let ?s = "keep_frame f False s"
  note u = unconfirmed_frame [OF assms(4,3)]
  have same: "same_values s ?s" "ss_mode ?s = Offline \<or> sd_device_instance ?s \<noteq> n" "ss_mode ?s = ss_mode s"
    using Suc.prems by (simp_all add: keep_frame_def)
  have "server_answer e ?s f = (?s, Inr None)"
  proof (cases "ss_mode s = Offline")
    case True
    with u same(3) show ?thesis by (simp add: server_answer_def planned_failure_def server_handle_def Let_def)
  next
    case False
    with same(2,3) server_peer.asks_device [of ?s f e] u device_answers_who_is [OF assms(4,3,5), of ?s]
    show ?thesis by auto
  qed
  then have "serve_datagram (server_answer e) s (octets, here, False) = (?s, Inr None)"
    using assms(1-3) by (simp add: serve_datagram_def Let_def)
  with Suc.IH [OF same(2)] same(1) same_values_trans [of s ?s] show ?case by fastforce
qed simp

text \<open>
  C9. \<^verbatim>\<open>who_is\<close> finds a simulated server that is not offline: one Who-Is for its instance brings an I-Am from
  its address that names exactly that instance. If the server is offline or has another instance, it receives
  every Who-Is the client sends, answers none and keeps its values, and a client to whom nothing comes returns None after
  exactly \<open>1 + retries\<close> of them.
\<close>

theorem who_is_finds_server:
  assumes "0 \<le> n" "n < 2 ^ 22" "unsigned32 (sd_vendor_identifier s)" "0 \<le> cl_retries c" "0 < cl_timeout c"
    "\<forall>k. receipts (airs k) 0 = Timed_out"
  shows "if ss_mode s \<noteq> Offline \<and> sd_device_instance s = n
    then \<exists>c1 g u. discovery (server_answer e) peer_address here n (c, s) = (Some (c1, 0, Inr (Some g)), u)
      \<and> i_am_device_instance (f_payload g) = Inr (Some n) \<and> f_source g = peer_address \<and> same_values s u
    else \<exists>c1 octets u. client_who_is n peer_address None None airs c = Some (c1, nat (cl_retries c), Inr None)
      \<and> cl_sent c1 = cl_sent c @ replicate (nat (1 + cl_retries c)) (octets, peer_address)
      \<and> serve (server_answer e) s (replicate (nat (1 + cl_retries c)) (octets, here, False)) = (u, [], None)
      \<and> same_values s u"
proof (cases "ss_mode s \<noteq> Offline \<and> sd_device_instance s = n")
  case True
  with server_peer.found [of s n c e peer_address here] assms(1-5) show ?thesis by fastforce
next
  case False
  have "unsigned32 n" using assms(1,2) by simp
  from who_is_frame [OF this, of here] obtain octets f ps where f: "chain (who_is (Some n) (Some n)) send_apdu = Inr octets"
    "Frame octets here = Inr f" "f_ok f" "f_network_message f = None"
    "f_payload f = [oct 0x10, oct SERVICE_WHO_IS] @ ps" "who_is_limits ps = Inr [n, n]" by metis
  from silent_who_is [OF f(1) assms(6,4), of peer_address] ignored_who_is [OF f(2-6), of s e] False
  show ?thesis by (auto simp only: if_False)
qed

lemma who_is_finds_server_witness:
  "\<exists>s c1 g u. output_server = Inr s
    \<and> discovery (server_answer ()) (lit ''127.0.0.1'', 47808) (lit ''127.0.0.1'', 50000) 389001 (test_client, s)
        = (Some (c1, 0, Inr (Some g)), u)
    \<and> i_am_device_instance (f_payload g) = Inr (Some 389001)"
proof -
  obtain s where s: "output_server = Inr s" "ss_mode s = Online" using output_server_starts by blast
  then have i: "sd_device_instance s = 389001" "sd_vendor_identifier s = 389"
    by (auto simp: output_server_def new_server_def Let_def split: if_splits)
  have "\<forall>k. receipts ((\<lambda>_. \<lparr>clock = int, receipts = (\<lambda>_. Timed_out)\<rparr>) k) 0 = Timed_out" by simp
  from who_is_finds_server [OF _ _ _ _ _ this, of 389001 s test_client "()" "(lit ''127.0.0.1'', 47808)" "(lit ''127.0.0.1'', 50000)"]
    s i show ?thesis by (auto simp: test_client_def new_client_def)
qed

end
