(* ===== verification/Array_Exchange.thy ===== *)
theory Array_Exchange
  imports Discovery_Exchange
begin

text \<open>
  ReadProperty with an array index: a client reads the length and the elements of an array a simulated
  server holds as one run of application-tagged values.
\<close>

section \<open>The answer to an indexed read\<close>

lemma element_ack_value:
  assumes "0 \<le> n" "n < 256" "object_range (t, i)" "unsigned32 p" "unsigned32 j" "well_nested 0 vs"
  obtains rest where "element_ack n t i p j (concat vs) = Inr ([oct 0x30, oct n] @ oct SERVICE_READ_PROPERTY # rest)"
    "read_property_value ([oct 0x30, oct n] @ oct SERVICE_READ_PROPERTY # rest) = Inr (Some (concat vs))"
    "length rest \<le> length (concat vs) + 17"
proof -
  obtain x b where x: "context_object_id 0 t i = Inr x" "tag_of x = Some (0, True, Kvalue, b)"
    "object_identifier b = Inr (t, i)" "length b = 4" using context_object_id_tag [of 0 t i] assms(3) by auto
  obtain y c where y: "context_unsigned 1 p = Inr y" "tag_of y = Some (1, True, Kvalue, c)"
    "from_bytes c = p" using context_unsigned_tag [of 1 p] assms(4) by auto
  obtain z d where z: "context_unsigned 2 j = Inr z" "tag_of z = Some (2, True, Kvalue, d)"
    "from_bytes d = j" using context_unsigned_tag [of 2 j] assms(5) by auto
  obtain op cl where br: "opening_tag 3 = Inr op" "tag_of op = Some (3, True, Kopen, [])"
    "closing_tag 3 = Inr cl" "tag_of cl = Some (3, True, Kclose, [])"
    using brackets [of 3] by auto
  let ?head = "[oct 0x30, oct n, oct SERVICE_READ_PROPERTY]"
  let ?rest = "x @ y @ z @ op @ concat vs @ cl"
  have "element_ack n t i p j (concat vs) = Inr (?head @ ?rest)"
    using x y z br assms(1,2) by (simp add: element_ack_def bytes_of_def byte_def)
  moreover have "read_property_value_from (?head @ ?rest) (length ?head) = Inr (Some (concat vs))"
    using read_property_value_skip [OF x(2), of ?head "y @ z @ op @ concat vs @ cl"]
      read_property_value_skip [OF y(2), of "?head @ x" "z @ op @ concat vs @ cl"]
      read_property_value_skip [OF z(2), of "?head @ x @ y" "op @ concat vs @ cl"]
      read_property_value_open [OF br(2,4) assms(6), of "?head @ x @ y @ z" "[]"]
    by simp
  moreover have "length ?rest \<le> length (concat vs) + 17"
    using tag_octets_length(2) [OF x(1)] tag_octets_length(1) [OF y(1)] tag_octets_length(1) [OF z(1)]
      tag_octets_length(3) [OF br(1)] tag_octets_length(4) [OF br(3)] by simp
  ultimately show thesis using that [of ?rest] by (simp add: read_property_value_def numeral_3_eq_3)
qed

text \<open>What a server that has the elements \<open>xs\<close> answers to the index \<open>j\<close>.\<close>

definition element_response :: "int \<Rightarrow> int \<Rightarrow> int \<Rightarrow> int \<Rightarrow> int \<Rightarrow> octets list \<Rightarrow> octets result" where
  "element_response n t i p j xs =
     (if j = 0 then chain (application_unsigned (int (length xs))) (element_ack n t i p j)
      else if j \<le> int (length xs) then element_ack n t i p j (xs ! (nat j - 1))
      else error_pdu n SERVICE_READ_PROPERTY ERROR_CLASS_PROPERTY ERROR_CODE_INVALID_ARRAY_INDEX)"

text \<open>What a client makes of it.\<close>

definition element_told :: "int \<Rightarrow> octets list \<Rightarrow> answer \<Rightarrow> bool" where
  "element_told j xs an \<longleftrightarrow>
     (if j = 0 then answer_value an = Inr (PInt (int (length xs)))
      else if j \<le> int (length xs) then answer_value_octets an = Inr (Some (xs ! (nat j - 1)))
      else answer_error an = Inr (Some (ERROR_CLASS_PROPERTY, ERROR_CODE_INVALID_ARRAY_INDEX)))"

lemma complex_ack_value:
  assumes "f_payload g = [oct 0x30, oct n] @ rest" "f_network_message g = None"
    "read_property_value ([oct 0x30, oct n] @ rest) = Inr (Some v)" "0 \<le> n" "n < 256"
  shows "answers_request n g = Inr True" "answer_value_octets \<lparr>an_frame = Some g\<rparr> = Inr (Some v)"
  using assms ack_answers [of g "0x30" n rest] by (simp_all add: answer_value_octets_def)

lemma element_response_told:
  assumes "0 \<le> n" "n < 256" "object_range (t, i)" "unsigned32 p" "unsigned32 j" "int (length xs) < 2 ^ 32"
    "\<forall>x \<in> set xs. well_nested 0 [x]" "\<forall>x \<in> set xs. length x \<le> 2000"
  obtains ans where "element_response n t i p j xs = Inr ans" "length ans \<le> 2042"
    "\<And>g :: frame. f_payload g = ans \<Longrightarrow> f_network_message g = None \<Longrightarrow>
      answers_request n g = Inr True \<and> element_told j xs \<lparr>an_frame = Some g\<rparr>"
proof -
  consider "j = 0" | "0 < j" "j \<le> int (length xs)" | "int (length xs) < j" using assms(5) by fastforce
  then show thesis
  proof cases
    case 1
    have len: "unsigned32 (int (length xs))" using assms(6) by simp
    from unsigned.one_tag [OF len] obtain x b where x: "application_unsigned (int (length xs)) = Inr x"
      "tag_of x = Some (2, False, Kvalue, b)" by blast
    from x(2) have "well_nested 0 [x]" by simp
    from element_ack_value [OF assms(1-5) this] obtain rest where
      r: "element_ack n t i p j x = Inr ([oct 0x30, oct n] @ oct SERVICE_READ_PROPERTY # rest)"
      "read_property_value ([oct 0x30, oct n] @ oct SERVICE_READ_PROPERTY # rest) = Inr (Some x)"
      "length rest \<le> length x + 17" by auto
    have "decode_application x = Inr (PInt (int (length xs)))" using unsigned.decode_first [OF len, of "[]"] x(1) by auto
    moreover have "length x \<le> 5"
      using x(1) by (auto simp: application_unsigned_def result_simps byte_eq_Inr dest!: unsigned_octets_length)
    ultimately show thesis
      using that [of "[oct 0x30, oct n] @ oct SERVICE_READ_PROPERTY # rest"] x(1) r(1,3) 1
        complex_ack_value [OF _ _ r(2) assms(1,2)]
      by (simp add: element_response_def element_told_def answer_value_def)
  next
    case 2
    then have k: "xs ! (nat j - 1) \<in> set xs" by (intro nth_mem) simp
    with assms(7) have "well_nested 0 [xs ! (nat j - 1)]" by blast
    from element_ack_value [OF assms(1-5) this] obtain rest where
      r: "element_ack n t i p j (xs ! (nat j - 1)) = Inr ([oct 0x30, oct n] @ oct SERVICE_READ_PROPERTY # rest)"
      "read_property_value ([oct 0x30, oct n] @ oct SERVICE_READ_PROPERTY # rest) = Inr (Some (xs ! (nat j - 1)))"
      "length rest \<le> length (xs ! (nat j - 1)) + 17" by auto
    have "length (xs ! (nat j - 1)) \<le> 2000" using k assms(8) by blast
    then show thesis
      using that [of "[oct 0x30, oct n] @ oct SERVICE_READ_PROPERTY # rest"] r(1,3) 2
        complex_ack_value [OF _ _ r(2) assms(1,2)]
      by (simp add: element_response_def element_told_def)
  next
    case 3
    from error_pdu_class_and_code [OF assms(1,2), of SERVICE_READ_PROPERTY ERROR_CLASS_PROPERTY ERROR_CODE_INVALID_ARRAY_INDEX]
    obtain ans where ans: "error_pdu n SERVICE_READ_PROPERTY ERROR_CLASS_PROPERTY ERROR_CODE_INVALID_ARRAY_INDEX = Inr ans"
      "error_class_and_code ans = Inr (Some (ERROR_CLASS_PROPERTY, ERROR_CODE_INVALID_ARRAY_INDEX))" by auto
    from error_octets [OF ans(1)] obtain rest where rest: "ans = [oct 0x50, oct n] @ rest" "length ans \<le> 13" .
    show thesis
    proof (rule that [of ans])
      show "element_response n t i p j xs = Inr ans" using 3 ans(1) by (simp add: element_response_def)
      show "length ans \<le> 2042" using rest(2) by simp
      fix g :: frame assume g: "f_payload g = ans" "f_network_message g = None"
      with refusal_answers [of g "0x50" n rest] rest(1) assms(1,2) ans(2) 3
      show "answers_request n g = Inr True \<and> element_told j xs \<lparr>an_frame = Some g\<rparr>"
        by (simp add: element_told_def answer_error_def)
    qed
  qed
qed

text \<open>
  C8. A server that serves array elements is read element by element: index 0 brings the number of elements the served value
  has, index j the j-th of them unchanged, and any greater index Error PROPERTY / INVALID_ARRAY_INDEX. An array
  may be of any size as long as each element, of up to 2000 octets, fits a datagram. The read is
  logged once among the reads and once among the indexed ones, and no value changes.
\<close>

theorem array_element_is_read:
  assumes "ss_mode s = Online" "map_of (ss_failures s) (t, i) = None" "ss_array_elements s" "client_ready r c"
    "object_range (t, i)" "unsigned32 p" "unsigned32 j" "server_value e s (t, i) p = Some (concat xs)"
    "\<forall>x \<in> set xs. well_nested 0 [x]" "\<forall>x \<in> set xs. length x \<le> 2000" "int (length xs) < 2 ^ 32"
  shows "\<exists>c1 an u. client_read_property (\<lambda>build. exchange e r here build (c, s)) t i p (Some j) = (Some (c1, 0, Inr an), u)
    \<and> (if j = 0 then answer_value an = Inr (PInt (int (length xs)))
       else if j \<le> int (length xs) then answer_value_octets an = Inr (Some (xs ! (nat j - 1)))
       else answer_error an = Inr (Some (ERROR_CLASS_PROPERTY, ERROR_CODE_INVALID_ARRAY_INDEX)))
    \<and> same_values s u \<and> ss_array_reads u = ss_array_reads s @ [(t, i, p, j)]
    \<and> ss_read_requests u = ss_read_requests s @ [(SERVICE_READ_PROPERTY, [(t, i, [p])])]"
proof -
  let ?n = "(cl_invoke_id c + 1) mod 256"
  let ?build = "\<lambda>n. read_property_request n t i p (Some j)"
  have n: "0 \<le> ?n" "?n < 256" by simp_all
  have index: "\<forall>a \<in> set_option (Some j). unsigned32 a" using assms(7) by simp
  from read_request_parses [OF n assms(5,6) index] obtain apdu where apdu: "?build ?n = Inr apdu"
    "parse_read_property_request apdu True = Inr (Some (t, i, p, Some j))"
    "parse_read_property_request apdu False = Inr (Some (t, i, p, None))" by blast
  from read_request_octets [OF apdu(1)] obtain ps where
    ps: "apdu = [0, 5, oct ?n, oct SERVICE_READ_PROPERTY] @ ps" "length apdu \<le> 19" .
  from element_response_told [OF n assms(5-7,11,9,10)] obtain ans where
    ans: "element_response ?n t i p j xs = Inr ans" "length ans \<le> 2042"
    "\<And>g :: frame. f_payload g = ans \<Longrightarrow> f_network_message g = None \<Longrightarrow>
      answers_request ?n g = Inr True \<and> element_told j xs \<lparr>an_frame = Some g\<rparr>" by metis
  have elements: "application_elements (concat xs) = Inr xs"
    using assms(9) by (intro application_elements_run) (auto split: option.splits)
  have served: "\<exists>u. server_answer e (keep_frame f False s) f = (u, Inr (Some ans))
      \<and> (same_values s u \<and> ss_array_reads u = ss_array_reads s @ [(t, i, p, j)]
        \<and> ss_read_requests u = ss_read_requests s @ [(SERVICE_READ_PROPERTY, [(t, i, [p])])])"
    if f: "f_payload f = apdu" "f_network_message f = None" for f
  proof -
    let ?s = "keep_frame f False s"
    let ?u = "(log_read SERVICE_READ_PROPERTY [(t, i, [p])] ?s)\<lparr>ss_array_reads := ss_array_reads ?s @ [(t, i, p, j)]\<rparr>"
    have k: "ss_mode ?s = Online" "map_of (ss_failures ?s) (t, i) = None" "ss_array_elements ?s" "ss_objects ?s = ss_objects s"
      "ss_array_reads ?s = ss_array_reads s" "ss_read_requests ?s = ss_read_requests s"
      using assms(1-3) by (simp_all add: keep_frame_def)
    have payload: "f_payload f = [0, 5, oct ?n, oct SERVICE_READ_PROPERTY] @ ps" using f(1) ps(1) by simp
    note q = confirmed_frame [OF payload f(2) n, simplified]
    have v: "server_value e ?s (t, i) p = Some (concat xs)" using assms(8) k(4) by (simp add: server_value_def)
    then have "ss_objects ?s (t, i) \<noteq> None" by (auto simp: server_value_def object_property_def split: option.splits)
    moreover have "planned_failure ?s f = Inr None"
      using no_failure [of f t i p _ ?s] q(2) k(2) f(1) apdu(3) by simp
    ultimately have "server_answer e ?s f = server_read_property e ?s f (t, i, p, Some j) None"
      using q(1,2) k(1) f(1) apdu(2) by (auto simp: server_answer_def server_handle_def Let_def)
    also have "\<dots> = (?u, Inr (Some ans))"
      using v elements k(3) q(3) ans(1)
      by (simp add: server_read_property_def server_read_special_def log_read_def Let_def element_response_def)
    finally show ?thesis using k(5,6) by (simp add: log_read_def)
  qed
  have "length (ro_dadr r) < 256" using assms(4) by (simp add: client_ready_def)
  then have len: "length apdu + length (ro_dadr r) \<le> 2038" using ps(2) by simp
  have ready: "route_valid r" "0 \<le> cl_retries c" "0 < cl_timeout c" using assms(4) by (simp_all add: client_ready_def)
  from exchange_answered [where build_apdu = ?build and s = s and e = e and here = here and ans = ans,
      OF apdu(1) ready(1) len ready(2,3) served ans(2)] ans(3)
  obtain c1 u g where "exchange e r here ?build (c, s) = (Some (c1, 0, Inr \<lparr>an_frame = Some g\<rparr>), u)"
    "same_values s u \<and> ss_array_reads u = ss_array_reads s @ [(t, i, p, j)]
      \<and> ss_read_requests u = ss_read_requests s @ [(SERVICE_READ_PROPERTY, [(t, i, [p])])]"
    "f_payload g = ans" "f_network_message g = None" by blast
  with ans(3) show ?thesis unfolding client_read_property_def element_told_def by blast
qed

text \<open>A served Priority_Array of two elements.\<close>

definition array_object :: "object_key \<Rightarrow> (int \<Rightarrow> unit served option) option" where
  "array_object = (\<lambda>key. if key = (1, 0)
     then Some (\<lambda>p. if p = 87 then Some (Octets [0, 0x21, 5]) else None) else None)"

lemma array_element_is_read_witness:
  "\<exists>s c1 an u. new_server 389001 (lit ''array'') 389 array_object None None True = Inr s \<and>
     client_read_property (\<lambda>build. exchange () test_route (lit ''127.0.0.1'', 50000) build (test_client, s)) 1 0 87 (Some 2)
       = (Some (c1, 0, Inr an), u) \<and> answer_value_octets an = Inr (Some [0x21, 5]) \<and> ss_array_reads u = [(1, 0, 87, 2)]"
proof -
  obtain s where s: "new_server 389001 (lit ''array'') 389 array_object None None True = Inr s" "ss_mode s = Online"
    "ss_failures s = []" "ss_array_elements s" "ss_objects s = array_object" "ss_array_reads s = []"
    by (simp add: new_server_def Let_def)
  have v: "server_value () s (1, 0) 87 = Some (concat [[0], [0x21, 5]])"
    by (simp add: server_value_def object_property_def s(5) array_object_def)
  have m: "map_of (ss_failures s) (1, 0) = None" by (simp add: s(3))
  have w: "\<forall>x \<in> set [[0], [0x21, 5]]. well_nested 0 [x :: octets]" by (simp add: evaluate_tags)
  from array_element_is_read [OF s(2) m s(4) test_ready _ _ _ v w, of 2 "(lit ''127.0.0.1'', 50000)"] s(1,6)
  show ?thesis by fastforce
qed

end
