(* ===== verification/Example_Constants.thy ===== *)
theory Example_Constants
  imports Py_Text Py_Float
begin

text \<open>
  The numbers of \<^verbatim>\<open>common/cas_bacnet_stack_example_constants.py\<close> and the configuration block of
  \<^verbatim>\<open>main.py\<close>, by their source names. Its SERVICE numbers are bit numbers of
  Protocol_Services_Supported, unlike the service choices of \<^verbatim>\<open>wiretest/codec.py\<close>.
\<close>

section \<open>common/cas\_bacnet\_stack\_example\_constants.py\<close>

abbreviation (input) OBJECT_TYPE_ANALOG_INPUT :: int where "OBJECT_TYPE_ANALOG_INPUT \<equiv> 0"
abbreviation (input) OBJECT_TYPE_BINARY_INPUT :: int where "OBJECT_TYPE_BINARY_INPUT \<equiv> 3"
abbreviation (input) OBJECT_TYPE_DEVICE :: int where "OBJECT_TYPE_DEVICE \<equiv> 8"
abbreviation (input) OBJECT_TYPE_MULTI_STATE_INPUT :: int where "OBJECT_TYPE_MULTI_STATE_INPUT \<equiv> 13"
abbreviation (input) OBJECT_TYPE_NETWORK_PORT :: int where "OBJECT_TYPE_NETWORK_PORT \<equiv> 56"
abbreviation (input) PROPERTY_IDENTIFIER_OBJECT_NAME :: int where "PROPERTY_IDENTIFIER_OBJECT_NAME \<equiv> 77"
abbreviation (input) PROPERTY_IDENTIFIER_OBJECT_TYPE :: int where "PROPERTY_IDENTIFIER_OBJECT_TYPE \<equiv> 79"
abbreviation (input) PROPERTY_IDENTIFIER_PRESENT_VALUE :: int where "PROPERTY_IDENTIFIER_PRESENT_VALUE \<equiv> 85"
abbreviation (input) PROPERTY_IDENTIFIER_DESCRIPTION :: int where "PROPERTY_IDENTIFIER_DESCRIPTION \<equiv> 28"
abbreviation (input) PROPERTY_IDENTIFIER_VENDOR_NAME :: int where "PROPERTY_IDENTIFIER_VENDOR_NAME \<equiv> 121"
abbreviation (input) PROPERTY_IDENTIFIER_VENDOR_IDENTIFIER :: int where "PROPERTY_IDENTIFIER_VENDOR_IDENTIFIER \<equiv> 120"
abbreviation (input) PROPERTY_IDENTIFIER_MODEL_NAME :: int where "PROPERTY_IDENTIFIER_MODEL_NAME \<equiv> 70"
abbreviation (input) PROPERTY_IDENTIFIER_FIRMWARE_REVISION :: int where "PROPERTY_IDENTIFIER_FIRMWARE_REVISION \<equiv> 44"
abbreviation (input) PROPERTY_IDENTIFIER_APPLICATION_SOFTWARE_VERSION :: int where "PROPERTY_IDENTIFIER_APPLICATION_SOFTWARE_VERSION \<equiv> 12"
abbreviation (input) PROPERTY_IDENTIFIER_OUT_OF_SERVICE :: int where "PROPERTY_IDENTIFIER_OUT_OF_SERVICE \<equiv> 81"
abbreviation (input) PROPERTY_IDENTIFIER_UNITS :: int where "PROPERTY_IDENTIFIER_UNITS \<equiv> 117"
abbreviation (input) PROPERTY_IDENTIFIER_POLARITY :: int where "PROPERTY_IDENTIFIER_POLARITY \<equiv> 84"
abbreviation (input) PROPERTY_IDENTIFIER_NUMBER_OF_STATES :: int where "PROPERTY_IDENTIFIER_NUMBER_OF_STATES \<equiv> 74"
abbreviation (input) PROPERTY_IDENTIFIER_STATE_TEXT :: int where "PROPERTY_IDENTIFIER_STATE_TEXT \<equiv> 110"
abbreviation (input) PROPERTY_IDENTIFIER_APDU_LENGTH :: int where "PROPERTY_IDENTIFIER_APDU_LENGTH \<equiv> 399"
abbreviation (input) PROPERTY_IDENTIFIER_REFERENCE_PORT :: int where "PROPERTY_IDENTIFIER_REFERENCE_PORT \<equiv> 483"
abbreviation (input) PROPERTY_IDENTIFIER_BACNET_IP_UDP_PORT :: int where "PROPERTY_IDENTIFIER_BACNET_IP_UDP_PORT \<equiv> 412"
abbreviation (input) PROPERTY_IDENTIFIER_BACNET_IP_MODE :: int where "PROPERTY_IDENTIFIER_BACNET_IP_MODE \<equiv> 408"
abbreviation (input) PROPERTY_IDENTIFIER_IP_ADDRESS :: int where "PROPERTY_IDENTIFIER_IP_ADDRESS \<equiv> 400"
abbreviation (input) PROPERTY_IDENTIFIER_IP_SUBNET_MASK :: int where "PROPERTY_IDENTIFIER_IP_SUBNET_MASK \<equiv> 411"
abbreviation (input) PROPERTY_IDENTIFIER_IP_DEFAULT_GATEWAY :: int where "PROPERTY_IDENTIFIER_IP_DEFAULT_GATEWAY \<equiv> 401"
abbreviation (input) ENGINEERING_UNITS_DEGREES_CELSIUS :: int where "ENGINEERING_UNITS_DEGREES_CELSIUS \<equiv> 62"
abbreviation (input) POLARITY_NORMAL :: int where "POLARITY_NORMAL \<equiv> 0"
abbreviation (input) BACNET_IP_MODE_NORMAL :: int where "BACNET_IP_MODE_NORMAL \<equiv> 0"
abbreviation (input) SERVICE_READ_PROPERTY :: int where "SERVICE_READ_PROPERTY \<equiv> 12"
abbreviation (input) SERVICE_WHO_HAS :: int where "SERVICE_WHO_HAS \<equiv> 33"
abbreviation (input) SERVICE_WHO_IS :: int where "SERVICE_WHO_IS \<equiv> 34"
abbreviation (input) SERVICE_I_HAVE :: int where "SERVICE_I_HAVE \<equiv> 27"
abbreviation (input) SERVICE_I_AM :: int where "SERVICE_I_AM \<equiv> 26"
abbreviation (input) NETWORK_PORT_NETWORK_TYPE_IPV4 :: int where "NETWORK_PORT_NETWORK_TYPE_IPV4 \<equiv> 5"
abbreviation (input) NETWORK_PORT_PROTOCOL_LEVEL_BACNET_APPLICATION :: int where "NETWORK_PORT_PROTOCOL_LEVEL_BACNET_APPLICATION \<equiv> 2"
abbreviation (input) NETWORK_PORT_REFERENCE_PORT_NONE :: int where "NETWORK_PORT_REFERENCE_PORT_NONE \<equiv> 4194303"
abbreviation (input) NETWORK_NUMBER_QUALITY_UNKNOWN :: int where "NETWORK_NUMBER_QUALITY_UNKNOWN \<equiv> 0"
abbreviation (input) CHARACTER_STRING_ENCODING_UTF8 :: int where "CHARACTER_STRING_ENCODING_UTF8 \<equiv> 0"
abbreviation (input) ERROR_CODE_INVALID_ARRAY_INDEX :: int where "ERROR_CODE_INVALID_ARRAY_INDEX \<equiv> 42"

section \<open>main.py\<close>

abbreviation (input) VENDOR_IDENTIFIER :: int where "VENDOR_IDENTIFIER \<equiv> 389"
abbreviation (input) ANALOG_INPUT_INSTANCE :: int where "ANALOG_INPUT_INSTANCE \<equiv> 1"
abbreviation (input) BINARY_INPUT_INSTANCE :: int where "BINARY_INPUT_INSTANCE \<equiv> 1"
abbreviation (input) MULTI_STATE_INPUT_INSTANCE :: int where "MULTI_STATE_INPUT_INSTANCE \<equiv> 1"
abbreviation (input) MULTI_STATE_INPUT_NUMBER_OF_STATES :: int where "MULTI_STATE_INPUT_NUMBER_OF_STATES \<equiv> 3"
abbreviation (input) NETWORK_PORT_INSTANCE :: int where "NETWORK_PORT_INSTANCE \<equiv> 1"
abbreviation (input) MAX_APDU_LENGTH :: int where "MAX_APDU_LENGTH \<equiv> 1476"
abbreviation (input) PROPERTY_IDENTIFIER_RELIABILITY :: int where "PROPERTY_IDENTIFIER_RELIABILITY \<equiv> 103"
abbreviation (input) RELIABILITY_NO_FAULT_DETECTED :: int where "RELIABILITY_NO_FAULT_DETECTED \<equiv> 0"
abbreviation (input) RELIABILITY_OPEN_LOOP :: int where "RELIABILITY_OPEN_LOOP \<equiv> 4"
abbreviation (input) BINARY_INPUT_TOGGLE_SECONDS :: int where "BINARY_INPUT_TOGGLE_SECONDS \<equiv> 3"
abbreviation (input) MULTI_STATE_INPUT_STEP_SECONDS :: int where "MULTI_STATE_INPUT_STEP_SECONDS \<equiv> 4"

definition APP_VERSION :: pystr where "APP_VERSION = lit ''1.2.0''"
definition APP_NAME :: pystr where "APP_NAME = lit ''BACnet B-SS (Smart Sensor) Example - Python''"
definition DEVICE_NAME :: pystr where "DEVICE_NAME = lit ''Chipkin Example B-SS''"
definition VENDOR_NAME :: pystr where "VENDOR_NAME = lit ''Chipkin Automation Systems''"
definition MODEL_NAME :: pystr where "MODEL_NAME = lit ''CAS BACnet Stack Example - B-SS''"
definition DEVICE_DESCRIPTION :: pystr where
  "DEVICE_DESCRIPTION =
     lit ''Chipkin CAS BACnet Stack example - B-SS (Smart Sensor) profile. ''
     @ lit ''Demonstrates DS-RP-B: ReadProperty plus Who-Is/I-Am with read-only sensor objects.''"

text \<open>18.0, 26.0, 0.5 and the directions 1.0 and -1.0, as halves.\<close>

definition ANALOG_INPUT_LOWEST :: pyfloat where "ANALOG_INPUT_LOWEST = half 36"
definition ANALOG_INPUT_HIGHEST :: pyfloat where "ANALOG_INPUT_HIGHEST = half 52"
definition ANALOG_INPUT_STEP :: pyfloat where "ANALOG_INPUT_STEP = half 1"
definition direction_up :: pyfloat where "direction_up = Fin False (2 * 2 ^ 1073)"
definition direction_down :: pyfloat where "direction_down = Fin True (2 * 2 ^ 1073)"

text \<open>The float of the literal 1.1: 4953959590107546 / 2 ^ 52.\<close>

definition key_step :: pyfloat where "key_step = Fin False (4953959590107546 * 2 ^ 1022)"

end
