(* ===== verification/Example_Helper.thy ===== *)
theory Example_Helper
  imports Example_Constants Codec_Decode
begin

text \<open>
  \<^verbatim>\<open>common/cas_example_helper.py\<close> and \<^verbatim>\<open>common/simple_udp.py\<close>: the command line, the local address,
  the socket, the transport callbacks and the keys. What the operating system answers (a bind, a
  datagram, a send, the bytes typed) is an input. A function that prints returns its value with
  the lines it printed.
\<close>

section \<open>Numbers and dotted addresses as text\<close>

definition int_text :: "int \<Rightarrow> pystr" where
  "int_text n = (if n < 0 then lit ''-'' @ decimal_text (nat (- n)) else decimal_text (nat n))"

text \<open>
  \<^verbatim>\<open>int(token)\<close> of a token of ASCII digits. CPython refuses more than 4300 of them
  (\<^verbatim>\<open>sys.int_info.default_max_str_digits\<close>), and an empty token, with ValueError.
\<close>

definition int_of_digits :: "pystr \<Rightarrow> int result" where
  "int_of_digits s =
     (if s = [] \<or> \<not> list_all is_ascii_digit s \<or> 4300 < length s then Inl ValueError
      else Inr (decimal_value s))"

text \<open>\<^verbatim>\<open>text.split(sep)\<close>.\<close>

fun split_on :: "nat \<Rightarrow> pystr \<Rightarrow> pystr list" where
  "split_on sep [] = [[]]"
| "split_on sep (c # cs) =
     (if c = sep then [] # split_on sep cs
      else case split_on sep cs of [] \<Rightarrow> [[c]] | p # ps \<Rightarrow> (c # p) # ps)"

definition dot :: nat where "dot = 46"

text \<open>The addresses split here come from the socket library as dotted decimals.\<close>

definition dotted_octets :: "pystr \<Rightarrow> int list result" where
  "dotted_octets address = collect int_of_digits (split_on dot address)"

lemma split_on_nonempty [simp]: "split_on sep s \<noteq> []"
  by (induction s) (auto split: list.splits)

lemma split_on_word: "sep \<notin> set w \<Longrightarrow> split_on sep (w @ sep # s) = w # split_on sep s"
  by (induction w) auto

lemma split_on_last: "sep \<notin> set w \<Longrightarrow> split_on sep w = [w]"
  by (induction w) auto

lemma dot_not_in_decimal: "dot \<notin> set (decimal_text n)"
  using decimal_text_digits [of dot n] by (auto simp: dot_def is_ascii_digit_def)

lemma length_decimal_octet: "n < 256 \<Longrightarrow> length (decimal_text n) \<le> 3"
  by (simp add: decimal_text.simps)

lemma int_of_decimal_octet: "n < 256 \<Longrightarrow> int_of_digits (decimal_text n) = Inr (int n)"
  using length_decimal_octet [of n] decimal_text_digits decimal_text_nonempty [of n]
  by (simp add: int_of_digits_def decimal_value_text list_all_iff)

lemma lit_dot: "lit ''.'' = [dot]"
  by (simp add: lit_def dot_def)

lemma dotted_inet_ntoa:
  "dotted_octets (inet_ntoa a) = Inr [uint (a ! 0), uint (a ! 1), uint (a ! 2), uint (a ! 3)]"
proof -
  have o: "int_of_digits (decimal_text (unat (w :: octet))) = Inr (uint w)" for w
    using int_of_decimal_octet [of "unat w"] unsigned_less [of w, where ?'a = nat] by simp
  show ?thesis
    unfolding dotted_octets_def inet_ntoa_def lit_dot
    by (simp add: split_on_word split_on_last dot_not_in_decimal o)
qed

text \<open>\<^verbatim>\<open>".".join(str(o) for o in octets)\<close>.\<close>

fun join_dots :: "int list \<Rightarrow> pystr" where
  "join_dots [] = []"
| "join_dots [n] = int_text n"
| "join_dots (n # m # ns) = int_text n @ lit ''.'' @ join_dots (m # ns)"

section \<open>Command line\<close>

definition parse_whole_number :: "pystr \<Rightarrow> int option result" where
  "parse_whole_number text =
     (if text = [] \<or> \<not> list_all is_ascii_digit text then Inr None
      else chain (int_of_digits text) (\<lambda>n. Inr (Some n)))"

text \<open>
  \<^verbatim>\<open>for i in range(1, len(argv) - 1)\<close> looks at \<open>argv[i]\<close> and \<open>argv[i + 1]\<close>: each argument after the
  program's name with the one that follows it.
\<close>

fun parse_port_from :: "pystr list \<Rightarrow> int \<Rightarrow> pystr list \<Rightarrow> (int \<times> pystr list) result" where
  "parse_port_from (flag # v # rest) default_port printed =
     (if flag = lit ''--port'' then
        chain (parse_whole_number v) (\<lambda>port.
          (case port of
             Some p \<Rightarrow>
               if 0 < p \<and> p \<le> 65535 then Inr (p, printed)
               else parse_port_from (v # rest) default_port (printed @ [lit ''Warning: ignoring invalid --port \"'' @ v
                      @ lit ''\" (want 1..65535); using '' @ int_text default_port @ lit ''.''])
           | None \<Rightarrow> parse_port_from (v # rest) default_port (printed @ [lit ''Warning: ignoring invalid --port \"'' @ v
                      @ lit ''\" (want 1..65535); using '' @ int_text default_port @ lit ''.''])))
      else parse_port_from (v # rest) default_port printed)"
| "parse_port_from _ default_port printed = Inr (default_port, printed)"

definition parse_port_arg :: "pystr list \<Rightarrow> int \<Rightarrow> (int \<times> pystr list) result" where
  "parse_port_arg argv default_port = parse_port_from (drop 1 argv) default_port []"

fun parse_device_id_from :: "pystr list \<Rightarrow> int \<Rightarrow> pystr list \<Rightarrow> (int \<times> pystr list) result" where
  "parse_device_id_from (flag # v # rest) default_device_id printed =
     (if flag = lit ''--deviceID'' then
        chain (parse_whole_number v) (\<lambda>device_id.
          if device_id \<noteq> None \<and> the device_id < 4194303 then Inr (the device_id, printed)
          else parse_device_id_from (v # rest) default_device_id (printed @
                 [lit ''Warning: ignoring invalid --deviceID \"'' @ v
                  @ lit ''\" (want 0..4194302); using '' @ int_text default_device_id @ lit ''.'']))
      else parse_device_id_from (v # rest) default_device_id printed)"
| "parse_device_id_from _ default_device_id printed = Inr (default_device_id, printed)"

definition parse_device_id_arg :: "pystr list \<Rightarrow> int \<Rightarrow> (int \<times> pystr list) result" where
  "parse_device_id_arg argv default_device_id = parse_device_id_from (drop 1 argv) default_device_id []"

abbreviation (input) MAX_DEVICE_NAME_LENGTH :: nat where "MAX_DEVICE_NAME_LENGTH \<equiv> 255"

definition printable_name :: "pystr \<Rightarrow> bool" where
  "printable_name name =
     (let n = (case utf8_encode name of Inr encoded \<Rightarrow> length encoded | Inl _ \<Rightarrow> 0)
      in 0 < n \<and> n \<le> MAX_DEVICE_NAME_LENGTH \<and> \<not> list_ex (\<lambda>c. c < 0x20 \<or> c = 0x7F) name)"

fun parse_device_name_from :: "pystr list \<Rightarrow> pystr \<Rightarrow> pystr list \<Rightarrow> pystr \<times> pystr list" where
  "parse_device_name_from (flag # name # rest) default_device_name printed =
     (if flag \<noteq> lit ''--deviceName'' then parse_device_name_from (name # rest) default_device_name printed
      else if printable_name name then (name, printed)
      else parse_device_name_from (name # rest) default_device_name (printed @
             [lit ''Warning: ignoring invalid --deviceName (want 1..'' @ decimal_text MAX_DEVICE_NAME_LENGTH
              @ lit '' bytes, no control characters); using \"'' @ default_device_name @ lit ''\".'']))"
| "parse_device_name_from _ default_device_name printed = (default_device_name, printed)"

definition parse_device_name_arg :: "pystr list \<Rightarrow> pystr \<Rightarrow> pystr \<times> pystr list" where
  "parse_device_name_arg argv default_device_name = parse_device_name_from (drop 1 argv) default_device_name []"

lemma parse_whole_number_eq:
  "parse_whole_number s = Inr (Some n) \<longleftrightarrow>
     s \<noteq> [] \<and> list_all is_ascii_digit s \<and> length s \<le> 4300 \<and> n = decimal_value s"
  "parse_whole_number s = Inr None \<longleftrightarrow> s = [] \<or> \<not> list_all is_ascii_digit s"
  by (auto simp: parse_whole_number_def int_of_digits_def)

lemma parse_whole_number_total:
  "length s \<le> 4300 \<Longrightarrow> \<exists>r. parse_whole_number s = Inr r \<and> (\<forall>n. r = Some n \<longrightarrow> 0 \<le> n)"
  by (auto simp: parse_whole_number_def int_of_digits_def list_all_iff decimal_value_nonneg)

lemma parse_port_from_total:
  "\<forall>a \<in> set args. length a \<le> 4300 \<Longrightarrow>
   \<exists>p lines. parse_port_from args default_port printed = Inr (p, lines) \<and> (p = default_port \<or> 0 < p \<and> p \<le> 65535)"
proof (induction args default_port printed rule: parse_port_from.induct)
  case (1 flag v rest default_port printed)
  obtain r where r: "parse_whole_number v = Inr r" using parse_whole_number_total [of v] 1(4) by auto
  with 1 show ?case by (cases r) auto
qed auto

lemma parse_device_id_from_total:
  "\<forall>a \<in> set args. length a \<le> 4300 \<Longrightarrow>
   \<exists>i lines. parse_device_id_from args default_device_id printed = Inr (i, lines)
     \<and> (i = default_device_id \<or> 0 \<le> i \<and> i \<le> 4194302)"
proof (induction args default_device_id printed rule: parse_device_id_from.induct)
  case (1 flag v rest default_device_id printed)
  obtain r where r: "parse_whole_number v = Inr r" "\<forall>n. r = Some n \<longrightarrow> 0 \<le> n"
    using parse_whole_number_total [of v] 1(3) by auto
  with 1 show ?case by (cases r) auto
qed auto

lemma parse_device_name_from_ok:
  "fst (parse_device_name_from args default_device_name printed) = default_device_name
   \<or> printable_name (fst (parse_device_name_from args default_device_name printed))"
  by (induction args default_device_name printed rule: parse_device_name_from.induct) auto

section \<open>Local address\<close>

record LocalIPv4 =
  address :: pystr
  netmask :: pystr
  broadcast :: pystr

text \<open>
  \<open>probe\<close> is what \<^verbatim>\<open>getsockname()\<close> returned, or None when a socket call raised OSError.
  \<^verbatim>\<open>~m & 0xFF\<close> of a mask octet is \<open>255 - m\<close>, written with \<^verbatim>\<open>AND\<close> and \<^verbatim>\<open>NOT\<close> as in the source.
\<close>

definition get_local_ipv4 :: "pystr option \<Rightarrow> LocalIPv4 result" where
  "get_local_ipv4 probe =
     (let addr = (case probe of Some a \<Rightarrow> a | None \<Rightarrow> lit ''127.0.0.1'') in
      if addr = lit ''127.0.0.1''
      then Inr \<lparr>address = lit ''127.0.0.1'', netmask = lit ''255.0.0.0'', broadcast = lit ''127.255.255.255''\<rparr>
      else
        chain (dotted_octets addr) (\<lambda>ip_octets.
        chain (dotted_octets (lit ''255.255.255.0'')) (\<lambda>mask_octets.
        if length ip_octets < 4 \<or> length mask_octets < 4 then Inl IndexError
        else Inr \<lparr>address = addr, netmask = lit ''255.255.255.0'',
          broadcast = join_dots (map (\<lambda>i. ip_octets ! i OR (NOT (mask_octets ! i) AND 0xFF)) [0 ..< 4])\<rparr>)))"

section \<open>The socket\<close>

text \<open>\<^verbatim>\<open>_socket is not None\<close> and the bound port, 0 before \<^verbatim>\<open>setup\<close>.\<close>

record simple_udp =
  has_socket :: bool
  udp_port :: int

definition new_udp :: simple_udp where
  "new_udp = \<lparr>has_socket = False, udp_port = 0\<rparr>"

text \<open>
  \<^verbatim>\<open>SimpleUDP.setup\<close> on the outcome of \<^verbatim>\<open>bind\<close>: the socket is stored first, so a failed bind leaves
  a socket behind; the port only changes when the bind succeeded. The flag says that setup
  returned.
\<close>

definition udp_setup :: "simple_udp \<Rightarrow> int \<Rightarrow> bool \<Rightarrow> simple_udp \<times> bool" where
  "udp_setup udp port bound =
     (let udp = udp\<lparr>has_socket := True\<rparr>
      in if bound then (udp\<lparr>udp_port := port\<rparr>, True) else (udp, False))"

record received_datagram =
  rd_message :: octets
  rd_from_ip :: pystr
  rd_from_port :: int

text \<open>What \<^verbatim>\<open>recvfrom(2048)\<close> did; the operating system has already cut the datagram to 2048 octets.\<close>

datatype recv_outcome =
    Received octets pystr int
  | Would_block
  | Recv_error pystr

definition udp_recv :: "simple_udp \<Rightarrow> recv_outcome \<Rightarrow> received_datagram option \<times> pystr list" where
  "udp_recv udp outcome =
     (if \<not> has_socket udp then (None, [])
      else case outcome of
             Received m ip port \<Rightarrow> (Some \<lparr>rd_message = m, rd_from_ip = ip, rd_from_port = port\<rparr>, [])
           | Would_block \<Rightarrow> (None, [])
           | Recv_error ex \<Rightarrow> (None, [lit ''Error: UDP receive failed: '' @ ex]))"

text \<open>The outcome of \<^verbatim>\<open>sendto\<close>: the number of bytes sent, or the text of an OSError.\<close>

definition udp_send :: "simple_udp \<Rightarrow> pystr \<Rightarrow> int \<Rightarrow> (pystr + int) \<Rightarrow> int \<times> pystr list" where
  "udp_send udp to_ip to_port outcome =
     (if \<not> has_socket udp then (0, [])
      else case outcome of
             Inr sent \<Rightarrow> (sent, [])
           | Inl ex \<Rightarrow> (0, [lit ''Error: UDP send to '' @ to_ip @ lit '':'' @ int_text to_port @ lit '' failed: '' @ ex]))"

definition udp_shutdown :: "simple_udp \<Rightarrow> simple_udp" where
  "udp_shutdown udp = (if has_socket udp then udp\<lparr>has_socket := False\<rparr> else udp)"

definition setup_udp :: "simple_udp \<Rightarrow> int \<Rightarrow> int \<Rightarrow> bool \<Rightarrow> pystr \<Rightarrow> simple_udp \<times> bool \<times> pystr list" where
  "setup_udp udp port network_port_instance bound ex =
     (case udp_setup udp port bound of (udp, ok) \<Rightarrow>
        if ok then (udp, True, [lit ''FYI: Listening for BACnet/IP on UDP port '' @ int_text port
                                @ lit '' (Network Port '' @ int_text network_port_instance @ lit '').''])
        else (udp, False, [lit ''Error: Failed to bind UDP port '' @ int_text port @ lit '' (Network Port ''
                           @ int_text network_port_instance @ lit ''): '' @ ex]))"

section \<open>The transport callbacks\<close>

text \<open>What the receive callback writes for the stack: message, connection string, Network Port.\<close>

record received =
  rx_message :: octets
  rx_connection :: octets
  rx_network_port :: int

text \<open>
  None is the callback's result 0. The connection string is tested before the socket is read, so a
  datagram is only taken when it can be delivered. A store into an octet keeps its low eight bits.
\<close>

definition on_receive ::
  "simple_udp \<Rightarrow> int \<Rightarrow> nat \<Rightarrow> nat \<Rightarrow> recv_outcome \<Rightarrow> (received option \<times> pystr list) result" where
  "on_receive udp network_port_instance max_message_length max_connection_string_length outcome =
     (if max_connection_string_length < 6 then Inr (None, [])
      else case udp_recv udp outcome of
             (None, printed) \<Rightarrow> Inr (None, printed)
           | (Some datagram, printed) \<Rightarrow>
               let n = min (length (rd_message datagram)) max_message_length;
                   line = lit ''RX '' @ decimal_text n @ lit '' bytes from '' @ rd_from_ip datagram @ lit '':''
                     @ int_text (rd_from_port datagram) @ lit '' (Network Port ''
                     @ int_text network_port_instance @ lit '')''
               in chain (dotted_octets (rd_from_ip datagram)) (\<lambda>octets.
                    if length octets < 4 then Inl IndexError
                    else Inr (Some
                      \<lparr>rx_message = take n (rd_message datagram),
                       rx_connection = map (\<lambda>i. oct (octets ! i)) [0 ..< 4]
                         @ [oct (drop_bit 8 (rd_from_port datagram) AND 0xFF), oct (rd_from_port datagram AND 0xFF)],
                       rx_network_port = network_port_instance\<rparr>, printed @ [line])))"

text \<open>
  Where a message goes: None refuses it. \<open>connection\<close> is None for a NULL pointer, else the octets
  of the connection string.
\<close>

definition send_destination ::
  "LocalIPv4 \<Rightarrow> simple_udp \<Rightarrow> octets option \<Rightarrow> nat \<Rightarrow> bool \<Rightarrow> (pystr \<times> int \<times> bool) option" where
  "send_destination local udp connection connection_string_length is_broadcast =
     (if connection = None \<or> connection_string_length = 0
      then Some (broadcast local, udp_port udp, True)
      else if connection_string_length < 6 then None
      else let c = the connection;
               to_ip = join_dots (map (\<lambda>i. uint (c ! i)) [0 ..< 4]);
               to_port = push_bit 8 (uint (c ! 4)) OR uint (c ! 5);
               to_ip = (if is_broadcast \<and> to_port = udp_port udp \<and> to_ip = address local
                        then broadcast local else to_ip)
           in Some (to_ip, to_port, is_broadcast))"

definition on_send ::
  "LocalIPv4 \<Rightarrow> simple_udp \<Rightarrow> int \<Rightarrow> octets option \<Rightarrow> nat \<Rightarrow> int \<Rightarrow> bool \<Rightarrow> (pystr + int) \<Rightarrow> int \<times> pystr list" where
  "on_send local udp network_port_instance connection connection_string_length
       send_network_port_instance is_broadcast outcome =
     (if send_network_port_instance \<noteq> network_port_instance then (0, [])
      else case send_destination local udp connection connection_string_length is_broadcast of
             None \<Rightarrow> (0, [])
           | Some (to_ip, to_port, is_broadcast) \<Rightarrow>
               (case udp_send udp to_ip to_port outcome of (sent, printed) \<Rightarrow>
                  (sent, printed @ [lit ''TX '' @ int_text sent @ lit '' bytes to '' @ to_ip @ lit '':''
                     @ int_text to_port @ (if is_broadcast then lit '' (broadcast)'' else [])
                     @ lit '' (Network Port '' @ int_text send_network_port_instance @ lit '')''])))"

text \<open>The connection string of the start-up I-Am: the subnet broadcast and the port.\<close>

definition i_am_connection_string :: "LocalIPv4 \<Rightarrow> int \<Rightarrow> octets result" where
  "i_am_connection_string local port = chain (dotted_octets (broadcast local)) (\<lambda>octets.
     if length octets < 4 then Inl IndexError
     else Inr (map (\<lambda>i. oct (octets ! i)) [0 ..< 4]
            @ [oct (drop_bit 8 port AND 0xFF), oct (port AND 0xFF)]))"

section \<open>Keys\<close>

datatype KeyCommand = NO_KEY | HELP | QUIT | ARROW_UP | ARROW_DOWN

text \<open>
  \<^verbatim>\<open>_LETTER_KEYS.get(chr(b).lower(), NONE)\<close>: of the characters below 256 only h, H, q and Q have the
  lower-case forms h and q, and the ASCII decoding of the Windows branch agrees on them.
\<close>

definition letter_key :: "octet \<Rightarrow> KeyCommand" where
  "letter_key b =
     (if b = 104 \<or> b = 72 then HELP else if b = 113 \<or> b = 81 then QUIT else NO_KEY)"

text \<open>POSIX: at most three bytes read at once, or None for an error of \<^verbatim>\<open>os.read\<close>.\<close>

definition posix_key :: "octets option \<Rightarrow> KeyCommand" where
  "posix_key typed = (case typed of
       None \<Rightarrow> NO_KEY
     | Some typed \<Rightarrow>
         if typed = [] then NO_KEY
         else if 3 \<le> length typed \<and> typed ! 0 = 27 \<and> typed ! 1 = 91
         then (if typed ! 2 = 65 then ARROW_UP else if typed ! 2 = 66 then ARROW_DOWN else NO_KEY)
         else letter_key (typed ! 0))"

text \<open>
  Windows console: the bytes \<^verbatim>\<open>getch\<close> returns, none when \<^verbatim>\<open>kbhit\<close> is false. A prefix byte is followed
  by a second one.
\<close>

fun windows_key :: "octets \<Rightarrow> KeyCommand" where
  "windows_key [] = NO_KEY"
| "windows_key (c # rest) =
     (if c = 0 \<or> c = 0xE0
      then (case rest of
              second # _ \<Rightarrow> if second = 72 then ARROW_UP else if second = 80 then ARROW_DOWN else NO_KEY
            | [] \<Rightarrow> NO_KEY)
      else letter_key c)"

datatype key_input =
    No_stdin
  | Piped "KeyCommand list"
  | Windows_console octets
  | Posix "octets option"

text \<open>The key, and what is left of the queue the Windows pipe reader fills.\<close>

definition poll_key :: "key_input \<Rightarrow> KeyCommand \<times> key_input" where
  "poll_key input = (case input of
       No_stdin \<Rightarrow> (NO_KEY, No_stdin)
     | Piped keys \<Rightarrow> (case keys of [] \<Rightarrow> (NO_KEY, Piped []) | k # ks \<Rightarrow> (k, Piped ks))
     | Windows_console bytes \<Rightarrow> (windows_key bytes, input)
     | Posix typed \<Rightarrow> (posix_key typed, input))"

section \<open>Addresses out and back\<close>

lemma first_four: "[0 ..< 4] = [0, 1, 2, 3 :: nat]"
  by (simp add: upt_rec numeral_2_eq_2 numeral_3_eq_3)

lemma join_dots_inet_ntoa: "join_dots [uint (a ! 0), uint (a ! 1), uint (a ! 2), uint (a ! 3)] = inet_ntoa a"
  by (simp add: inet_ntoa_def int_text_def not_less)

lemma port_octets:
  assumes "0 \<le> port" "port < 65536"
  shows "push_bit 8 (uint (oct (drop_bit 8 port AND 0xFF))) OR uint (oct (port AND 0xFF)) = port"
proof -
  have m: "x AND 0xFF = x mod 256" for x :: int
    using take_bit_eq_mask [of 8 x] by (simp add: mask_numeral take_bit_eq_mod)
  have d: "drop_bit 8 port = port div 256" by (simp add: drop_bit_eq_div)
  have "uint (oct (drop_bit 8 port AND 0xFF)) = port div 256" "uint (oct (port AND 0xFF)) = port mod 256"
    unfolding m d uint_oct_mod using assms by simp_all
  moreover have "push_bit 8 (port div 256) OR port mod 256 = port div 256 * 2 ^ 8 + port mod 256"
    by (rule or_low_field) simp_all
  ultimately show ?thesis by simp
qed

lemma nth_list_4: "length a = 4 \<Longrightarrow> [a ! 0, a ! 1, a ! 2, a ! 3] = a"
  by (rule nth_equalityI) (auto simp: nth_Cons' less_Suc_eq numeral_eq_Suc)

lemma on_receive_delivers:
  assumes "6 \<le> max_connection" "has_socket udp" "length a = 4" "0 \<le> port" "port < 65536"
  shows "\<exists>rx lines. on_receive udp npi max_message max_connection (Received m (inet_ntoa a) port) = Inr (Some rx, lines)
    \<and> rx_message rx = take max_message m \<and> length (rx_connection rx) = 6 \<and> take 4 (rx_connection rx) = a
    \<and> push_bit 8 (uint (rx_connection rx ! 4)) OR uint (rx_connection rx ! 5) = port
    \<and> rx_network_port rx = npi"
  using assms(1-3) port_octets [OF assms(4,5)] nth_list_4 [OF assms(3)]
  by (simp add: on_receive_def udp_recv_def Let_def dotted_inet_ntoa first_four min_def nth_append)

text \<open>A connection string the receive callback wrote, handed to the send callback, names the sender.\<close>

lemma send_destination_unicast:
  assumes "length c = 6"
  shows "send_destination local udp (Some c) 6 False =
    Some (inet_ntoa (take 4 c), push_bit 8 (uint (c ! 4)) OR uint (c ! 5), False)"
  using assms join_dots_inet_ntoa [of "take 4 c"]
  by (simp add: send_destination_def Let_def first_four)

text \<open>
  C36. The connection string the receive callback writes for a datagram leads the send callback back to
  the sender: same address, same port, no broadcast.
\<close>

theorem reply_reaches_sender:
  assumes "6 \<le> max_connection" "has_socket udp" "length a = 4" "0 \<le> port" "port < 65536"
  shows "\<exists>rx lines. on_receive udp npi max_message max_connection (Received m (inet_ntoa a) port) = Inr (Some rx, lines)
    \<and> send_destination local udp (Some (rx_connection rx)) 6 False = Some (inet_ntoa a, port, False)"
  using on_receive_delivers [OF assms, of npi max_message m] send_destination_unicast [of _ local udp]
  by fastforce

lemma send_destination_refused:
  "0 < n \<Longrightarrow> n < 6 \<Longrightarrow> send_destination local udp (Some c) n b = None"
  by (simp add: send_destination_def)

lemma reply_reaches_sender_witness:
  "\<exists>rx lines. on_receive \<lparr>has_socket = True, udp_port = 47808\<rparr> 1 1497 6
      (Received [0x81, 0x0A, 0, 4] (inet_ntoa [10, 0, 0, 7]) 47809) = Inr (Some rx, lines)
    \<and> send_destination \<lparr>address = lit ''10.0.0.1'', netmask = lit ''255.255.255.0'', broadcast = lit ''10.0.0.255''\<rparr>
        \<lparr>has_socket = True, udp_port = 47808\<rparr> (Some (rx_connection rx)) 6 False = Some (inet_ntoa [10, 0, 0, 7], 47809, False)"
  by (rule reply_reaches_sender) simp_all

text \<open>The guessed /24 network: the broadcast address keeps three octets and sets the last to 255.\<close>

lemma mask_octet: "uint (w :: octet) OR (NOT 255 AND 255) = uint w"
  by simp

lemma host_octet: "uint (w :: octet) OR (NOT 0 AND 255) = 255"
proof -
  have "take_bit 8 (uint w) = uint w" using octet_range [of w] by (simp add: take_bit_int_eq_self)
  then have "bit (uint w) n \<Longrightarrow> n < 8" for n by (metis bit_take_bit_iff)
  then have "uint w OR mask 8 = mask 8"
    by (intro bit_eqI) (auto simp: bit_or_iff bit_mask_iff)
  then show ?thesis by (simp add: mask_numeral)
qed

text \<open>
  \<^verbatim>\<open>get_local_ipv4\<close> on an address other than 127.0.0.1 reports it with the mask 255.255.255.0 and the
  broadcast address that keeps its first three octets.
\<close>

lemma local_broadcast:
  assumes "length a = 4" "inet_ntoa a \<noteq> lit ''127.0.0.1''"
  shows "get_local_ipv4 (Some (inet_ntoa a)) =
    Inr \<lparr>address = inet_ntoa a, netmask = lit ''255.255.255.0'', broadcast = inet_ntoa (take 3 a @ [255])\<rparr>"
proof -
  have n: "lit ''255.255.255.0'' = inet_ntoa [255, 255, 255, 0]"
    by (simp add: inet_ntoa_def lit_def decimal_text.simps)
  have "join_dots [uint (a ! 0), uint (a ! 1), uint (a ! 2), 255] = inet_ntoa (take 3 a @ [255])"
    using join_dots_inet_ntoa [of "take 3 a @ [255]"] assms(1) by (simp add: nth_append)
  then show ?thesis
    using assms(2) mask_octet host_octet
    by (simp add: get_local_ipv4_def n dotted_inet_ntoa first_four)
qed

lemma local_broadcast_witness:
  "get_local_ipv4 (Some (inet_ntoa [192, 168, 1, 20])) =
    Inr \<lparr>address = inet_ntoa [192, 168, 1, 20], netmask = lit ''255.255.255.0'', broadcast = inet_ntoa (take 3 [192, 168, 1, 20] @ [255])\<rparr>"
  by (rule local_broadcast) (simp_all add: inet_ntoa_def lit_def decimal_text.simps)

lemma connection_string_of:
  assumes "length a = 4" "0 \<le> port" "port < 65536" "broadcast local = inet_ntoa a"
  shows "\<exists>c. i_am_connection_string local port = Inr c \<and> length c = 6 \<and> take 4 c = a
    \<and> push_bit 8 (uint (c ! 4)) OR uint (c ! 5) = port"
  using assms(1,4) port_octets [OF assms(2,3)] nth_list_4 [OF assms(1)]
  by (simp add: i_am_connection_string_def dotted_inet_ntoa first_four nth_append)

lemma send_destination_broadcast:
  assumes "length c = 6"
  shows "send_destination local udp (Some c) 6 True =
    (let ip = inet_ntoa (take 4 c); port = push_bit 8 (uint (c ! 4)) OR uint (c ! 5)
     in Some (if port = udp_port udp \<and> ip = address local then broadcast local else ip, port, True))"
  using assms join_dots_inet_ntoa [of "take 4 c"]
  by (auto simp: send_destination_def Let_def first_four)

text \<open>
  Everything that means "this subnet" goes to the subnet's broadcast address on the socket's own port:
  no connection string, the connection string of the start-up I-Am, and a broadcast to the socket's
  own address. A connection string of one to five octets is refused.
\<close>

lemma subnet_broadcasts:
  assumes "address local = inet_ntoa a" "broadcast local = inet_ntoa b" "length a = 4" "length b = 4"
    "0 \<le> udp_port udp" "udp_port udp < 65536" "i_am_connection_string local (udp_port udp) = Inr c"
    "own = a @ drop 4 c" "0 < n" "n < 6"
  shows "send_destination local udp None n flag = Some (broadcast local, udp_port udp, True) \<and>
    send_destination local udp (Some c) 6 True = Some (broadcast local, udp_port udp, True) \<and>
    send_destination local udp (Some own) 6 True = Some (broadcast local, udp_port udp, True) \<and>
    send_destination local udp (Some own) n flag = None"
proof -
  from connection_string_of [OF assms(4-6,2)] assms(7)
  have c: "length c = 6" "take 4 c = b" "push_bit 8 (uint (c ! 4)) OR uint (c ! 5) = udp_port udp" by auto
  moreover have "length own = 6" "take 4 own = a" "own ! 4 = c ! 4" "own ! 5 = c ! 5"
    using c(1) assms(3,8) by (simp_all add: nth_append)
  ultimately show ?thesis
    using assms(1,2) send_destination_refused [OF assms(9,10)]
    by (simp add: send_destination_broadcast Let_def) (simp add: send_destination_def)
qed

lemma subnet_broadcasts_witness:
  "\<exists>c. let local = \<lparr>address = inet_ntoa [10, 0, 0, 1], netmask = lit ''255.255.255.0'', broadcast = inet_ntoa [10, 0, 0, 255]\<rparr>;
       udp = \<lparr>has_socket = True, udp_port = 47808\<rparr>
   in i_am_connection_string local 47808 = Inr c \<and>
    send_destination local udp None 3 True = Some (broadcast local, 47808, True) \<and>
    send_destination local udp (Some c) 6 True = Some (broadcast local, 47808, True) \<and>
    send_destination local udp (Some ([10, 0, 0, 1] @ drop 4 c)) 6 True = Some (broadcast local, 47808, True) \<and>
    send_destination local udp (Some ([10, 0, 0, 1] @ drop 4 c)) 3 True = None"
proof -
  let ?local = "\<lparr>address = inet_ntoa [10, 0, 0, 1], netmask = lit ''255.255.255.0'', broadcast = inet_ntoa [10, 0, 0, 255]\<rparr>"
  let ?udp = "\<lparr>has_socket = True, udp_port = 47808\<rparr>"
  obtain c where c: "i_am_connection_string ?local 47808 = Inr c"
    using connection_string_of [of "[10, 0, 0, 255]" 47808 ?local] by auto
  with subnet_broadcasts [of ?local "[10, 0, 0, 1]" "[10, 0, 0, 255]" ?udp c "[10, 0, 0, 1] @ drop 4 c" 3 True]
  show ?thesis by (auto simp: Let_def)
qed

lemma port_range_from:
  "parse_port_from args default_port printed = Inr (p, lines) \<Longrightarrow> p = default_port \<or> 0 < p \<and> p \<le> 65535"
proof (induction args default_port printed rule: parse_port_from.induct)
  case (1 flag v rest default_port printed)
  show ?case
  proof (cases "flag = lit ''--port''")
    case True
    with 1(4) obtain r where r: "parse_whole_number v = Inr r" by (auto simp: chain_eq_Inr)
    with 1(1) [OF True r] 1(2) [OF True r] 1(4) True show ?thesis by (cases r) (auto split: if_splits)
  next
    case False
    with 1 show ?thesis by simp
  qed
qed auto

lemma device_id_range_from:
  "parse_device_id_from args default_device_id printed = Inr (i, lines) \<Longrightarrow>
   i = default_device_id \<or> 0 \<le> i \<and> i \<le> 4194302"
proof (induction args default_device_id printed rule: parse_device_id_from.induct)
  case (1 flag v rest default_device_id printed)
  show ?case
  proof (cases "flag = lit ''--deviceID''")
    case True
    with 1(3) obtain r where r: "parse_whole_number v = Inr r" by (auto simp: chain_eq_Inr)
    have "0 \<le> n" if "r = Some n" for n
      using r that by (auto simp: parse_whole_number_eq list_all_iff decimal_value_nonneg)
    with 1(1) [OF True r] 1(3) True r show ?thesis by (cases r) (auto split: if_splits)
  next
    case False
    with 1 show ?thesis by simp
  qed
qed auto



text \<open>
  A token of more than 4300 digits is not "invalid" but raises ValueError out of
  \<^verbatim>\<open>parse_port_arg\<close> and \<^verbatim>\<open>parse_device_id_arg\<close>, where any other out-of-range number is refused with a
  warning.
\<close>

lemma long_number_raises:
  assumes "4300 < length digits" "list_all is_ascii_digit digits"
  shows "parse_port_arg [name, lit ''--port'', digits] default_port = Inl ValueError \<and>
    parse_device_id_arg [name, lit ''--deviceID'', digits] default_device_id = Inl ValueError"
  using assms by (auto simp: parse_port_arg_def parse_device_id_arg_def parse_whole_number_def int_of_digits_def)

lemma long_number_raises_witness:
  "parse_port_arg [lit ''main.py'', lit ''--port'', replicate 4301 57] 47808 = Inl ValueError \<and>
    parse_device_id_arg [lit ''main.py'', lit ''--deviceID'', replicate 4301 57] 389001 = Inl ValueError"
  by (rule long_number_raises) (simp_all only: length_replicate list_all_iff set_replicate_conv_if, simp_all add: is_ascii_digit_def)

end
