(* ===== verification/Console_Text.thy ===== *)
theory Console_Text
  imports Example_Helper
begin

text \<open>
  Searching console text, as \<^verbatim>\<open>wiretest/process.py\<close> does: \<^verbatim>\<open>in\<close> and \<^verbatim>\<open>str.find\<close>, and regular expressions
  that are a sequence of literals and of greedy runs of a character class. A match of such an
  expression is the list of the texts its items consume; Python's backtracking tries the longest
  run first.
\<close>

section \<open>Substrings\<close>

fun find_at :: "pystr \<Rightarrow> pystr \<Rightarrow> nat \<Rightarrow> nat option" where
  "find_at pattern [] n = (if pattern = [] then Some n else None)"
| "find_at pattern (c # cs) n =
     (if take (length pattern) (c # cs) = pattern then Some n else find_at pattern cs (Suc n))"

text \<open>\<^verbatim>\<open>s.find(pattern, after)\<close> for \<open>after \<ge> 0\<close>: None is -1.\<close>

definition find_text :: "pystr \<Rightarrow> pystr \<Rightarrow> nat \<Rightarrow> nat option" where
  "find_text s pattern after = (if length s < after then None else find_at pattern (drop after s) after)"

definition contains :: "pystr \<Rightarrow> pystr \<Rightarrow> bool" where
  "contains s pattern \<longleftrightarrow> find_text s pattern 0 \<noteq> None"

lemma take_prefix: "take (length p) s = p \<longleftrightarrow> (\<exists>r. s = p @ r)"
  by (metis append_eq_conv_conj append_take_drop_id)

lemma find_at_None: "find_at p s n = None \<longleftrightarrow> (\<nexists>a b. s = a @ p @ b)"
proof (induction s arbitrary: n)
  case (Cons c cs)
  have "(\<exists>a b. c # cs = a @ p @ b) \<longleftrightarrow> (\<exists>r. c # cs = p @ r) \<or> (\<exists>a b. cs = a @ p @ b)"
    by (metis append_Cons append_Nil list.exhaust list.inject)
  with Cons show ?case by (simp add: take_prefix del: take_Suc_Cons)
qed auto

lemma contains_iff: "contains s p \<longleftrightarrow> (\<exists>a b. s = a @ p @ b)"
  by (simp add: contains_def find_text_def find_at_None)

lemma contains_append: "contains s p \<Longrightarrow> contains (s @ t) p"
  by (metis contains_iff append.assoc)

text \<open>The first occurrence from a position on: what \<^verbatim>\<open>find\<close> returns and what lies before it.\<close>

lemma find_at_Some:
  "find_at p s n = Some m \<Longrightarrow> n \<le> m \<and> m - n + length p \<le> length s \<and> take (length p) (drop (m - n) s) = p"
proof (induction p s n rule: find_at.induct)
  case (2 p c cs n)
  show ?case
  proof (cases "take (length p) (c # cs) = p")
    case True
    then have "length p \<le> length (c # cs)" by (metis length_take min.cobounded1)
    with True 2 show ?thesis by (auto simp del: take_Suc_Cons)
  next
    case False
    with 2 have i: "Suc n \<le> m" "m - Suc n + length p \<le> length cs" "take (length p) (drop (m - Suc n) cs) = p"
      by (auto simp del: take_Suc_Cons)
    then have "m - n = Suc (m - Suc n)" by simp
    with i show ?thesis by simp
  qed
qed (auto split: if_splits)

lemma find_text_Some:
  assumes "find_text s p after = Some m"
  shows "after \<le> m" "m + length p \<le> length s" "take (length p) (drop m s) = p"
proof -
  have f: "find_at p (drop after s) after = Some m" "after \<le> length s"
    using assms by (auto simp: find_text_def split: if_splits)
  from find_at_Some [OF f(1)] f(2) show "after \<le> m" "m + length p \<le> length s" "take (length p) (drop m s) = p"
    by auto
qed

section \<open>Digits\<close>

text \<open>
  \<^verbatim>\<open>\d\<close> in a \<^verbatim>\<open>str\<close> pattern is any Unicode decimal digit (category Nd). They come in runs of ten; these are
  the zeros, as of Unicode 14. \<^verbatim>\<open>int\<close> accepts them and refuses more than 4300.
\<close>

definition DECIMAL_ZEROS :: "nat list" where
  "DECIMAL_ZEROS =
     [0x30, 0x660, 0x6F0, 0x7C0, 0x966, 0x9E6, 0xA66, 0xAE6, 0xB66, 0xBE6, 0xC66, 0xCE6, 0xD66, 0xDE6,
      0xE50, 0xED0, 0xF20, 0x1040, 0x1090, 0x17E0, 0x1810, 0x1946, 0x19D0, 0x1A80, 0x1A90, 0x1B50,
      0x1BB0, 0x1C40, 0x1C50, 0xA620, 0xA8D0, 0xA900, 0xA9D0, 0xA9F0, 0xAA50, 0xABF0, 0xFF10,
      0x104A0, 0x10D30, 0x11066, 0x110F0, 0x11136, 0x111D0, 0x112F0, 0x11450, 0x114D0, 0x11650,
      0x116C0, 0x11730, 0x118E0, 0x11950, 0x11C50, 0x11D50, 0x11DA0, 0x16A60, 0x16AC0, 0x16B50,
      0x1D7CE, 0x1D7D8, 0x1D7E2, 0x1D7EC, 0x1D7F6, 0x1E140, 0x1E2F0, 0x1E950, 0x1FBF0]"

definition is_digit :: "nat \<Rightarrow> bool" where
  "is_digit c \<longleftrightarrow> list_ex (\<lambda>z. z \<le> c \<and> c < z + 10) DECIMAL_ZEROS"

definition digit_value :: "nat \<Rightarrow> int" where
  "digit_value c = (case find (\<lambda>z. z \<le> c \<and> c < z + 10) DECIMAL_ZEROS of None \<Rightarrow> 0 | Some z \<Rightarrow> int (c - z))"

definition int_of_text :: "pystr \<Rightarrow> int result" where
  "int_of_text s = (if s = [] \<or> \<not> list_all is_digit s \<or> 4300 < length s then Inl ValueError
     else Inr (foldl (\<lambda>a c. a * 10 + digit_value c) 0 s))"

lemma ascii_digit: "is_ascii_digit c \<Longrightarrow> is_digit c" "is_ascii_digit c \<Longrightarrow> digit_value c = int c - 48"
  by (simp_all add: is_ascii_digit_def is_digit_def digit_value_def DECIMAL_ZEROS_def)

lemma int_of_ascii:
  assumes "\<forall>c \<in> set s. is_ascii_digit c" "s \<noteq> []" "length s \<le> 4300"
  shows "int_of_text s = Inr (decimal_value s)"
proof -
  have "foldl (\<lambda>a c. a * 10 + digit_value c) n s = foldl (\<lambda>a c. a * 10 + (int c - 48)) n s" for n
    using assms(1) by (induction s arbitrary: n) (auto simp: ascii_digit)
  then show ?thesis
    using assms by (auto simp: int_of_text_def decimal_value_def list_all_iff ascii_digit)
qed

section \<open>Regular expressions\<close>

datatype rx = Literal pystr | Many1 "nat \<Rightarrow> bool" | Many0 "nat \<Rightarrow> bool"

fun first_some :: "'a option list \<Rightarrow> 'a option" where
  "first_some [] = None"
| "first_some (None # xs) = first_some xs"
| "first_some (Some x # xs) = Some x"

definition run_length :: "(nat \<Rightarrow> bool) \<Rightarrow> pystr \<Rightarrow> nat" where
  "run_length c s = length (takeWhile c s)"

text \<open>A match at the head of the text: what each item consumed, and the rest.\<close>

fun match_items :: "rx list \<Rightarrow> pystr \<Rightarrow> (pystr list \<times> pystr) option" where
  "match_items [] s = Some ([], s)"
| "match_items (Literal p # rs) s =
     (if take (length p) s = p then map_option (\<lambda>(xs, r). (p # xs, r)) (match_items rs (drop (length p) s)) else None)"
| "match_items (Many1 c # rs) s =
     first_some (map (\<lambda>n. map_option (\<lambda>(xs, r). (take n s # xs, r)) (match_items rs (drop n s)))
       (rev [1 ..< Suc (run_length c s)]))"
| "match_items (Many0 c # rs) s =
     first_some (map (\<lambda>n. map_option (\<lambda>(xs, r). (take n s # xs, r)) (match_items rs (drop n s)))
       (rev [0 ..< Suc (run_length c s)]))"

text \<open>\<^verbatim>\<open>finditer\<close>: from left to right, matches that do not overlap. No pattern here matches the empty text.\<close>

function find_matches :: "rx list \<Rightarrow> pystr \<Rightarrow> pystr list list" where
  "find_matches rs [] = []"
| "find_matches rs (c # cs) =
     (case match_items rs (c # cs) of
        Some (xs, r) \<Rightarrow> if length r \<le> length cs then xs # find_matches rs r else find_matches rs cs
      | None \<Rightarrow> find_matches rs cs)"
  by pat_completeness auto
termination by (relation "measure (\<lambda>(rs, s). length s)") auto

text \<open>How a match goes on over text that is what an item asks for.\<close>

lemma match_literal:
  "match_items rs s = Some (xs, r) \<Longrightarrow> match_items (Literal p # rs) (p @ s) = Some (p # xs, r)"
  by simp

lemma run_length_exact:
  assumes "\<forall>c \<in> set ds. C c" "s = [] \<or> \<not> C (hd s)"
  shows "run_length C (ds @ s) = length ds"
  using assms by (cases s) (simp_all add: run_length_def takeWhile_append2 takeWhile_eq_all_conv [THEN iffD2])

lemma match_run:
  assumes "match_items rs s = Some (xs, r)" "\<forall>c \<in> set ds. C c" "s = [] \<or> \<not> C (hd s)"
  shows "ds \<noteq> [] \<Longrightarrow> match_items (Many1 C # rs) (ds @ s) = Some (ds # xs, r)"
    "match_items (Many0 C # rs) (ds @ s) = Some (ds # xs, r)"
  using assms(1) run_length_exact [OF assms(2,3)] by (simp_all add: Suc_le_eq)

text \<open>Every match starts with the literal its expression starts with, and consumes what it reports.\<close>

lemma first_some_mem: "first_some xs = Some x \<Longrightarrow> Some x \<in> set xs"
  by (induction xs rule: first_some.induct) auto

lemma first_run:
  assumes "first_some (map (\<lambda>n. map_option (\<lambda>(xs, r). (take n s # xs, r)) (m n)) ns) = Some (xs, r)"
  shows "\<exists>n ys. n \<in> set ns \<and> m n = Some (ys, r) \<and> xs = take n s # ys"
  using first_some_mem [OF assms] by (auto dest!: sym [of "Some (xs, r)"])

lemma match_many1_cases:
  assumes "match_items (Many1 c # rs) s = Some (xs, r)"
  shows "\<exists>n ys. n \<in> set (rev [1 ..< Suc (run_length c s)]) \<and> match_items rs (drop n s) = Some (ys, r) \<and> xs = take n s # ys"
  by (rule first_run [OF assms [unfolded match_items.simps]])

lemma match_many0_cases:
  assumes "match_items (Many0 c # rs) s = Some (xs, r)"
  shows "\<exists>n ys. n \<in> set (rev [0 ..< Suc (run_length c s)]) \<and> match_items rs (drop n s) = Some (ys, r) \<and> xs = take n s # ys"
  by (rule first_run [OF assms [unfolded match_items.simps]])

lemma match_consumes: "match_items rs s = Some (xs, r) \<Longrightarrow> s = concat xs @ r"
proof (induction rs s arbitrary: xs r rule: match_items.induct)
  case (2 p rs s)
  then obtain ys where y: "match_items rs (drop (length p) s) = Some (ys, r)" "xs = p # ys" "take (length p) s = p"
    by (auto split: if_splits)
  from 2(1) [OF y(3,1)] y show ?case using append_take_drop_id [of "length p" s] by simp
next
  case (3 c rs s)
  from match_many1_cases [OF 3(2)] obtain n ys where
    n: "n \<in> set (rev [1 ..< Suc (run_length c s)])" "match_items rs (drop n s) = Some (ys, r)" "xs = take n s # ys" by blast
  from 3(1) [OF n(1,2)] n(3) show ?case using append_take_drop_id [of n s] by simp
next
  case (4 c rs s)
  from match_many0_cases [OF 4(2)] obtain n ys where
    n: "n \<in> set (rev [0 ..< Suc (run_length c s)])" "match_items rs (drop n s) = Some (ys, r)" "xs = take n s # ys" by blast
  from 4(1) [OF n(1,2)] n(3) show ?case using append_take_drop_id [of n s] by simp
qed simp

text \<open>Text in which the literal does not start is skipped.\<close>

lemma find_matches_skip:
  assumes "\<And>i. i < length before \<Longrightarrow> \<nexists>r. drop i (before @ s) = p @ r"
  shows "find_matches (Literal p # rs) (before @ s) = find_matches (Literal p # rs) s"
  using assms
proof (induction before)
  case (Cons c cs)
  have "\<nexists>r. (c # cs) @ s = p @ r" using Cons.prems [of 0] by simp
  then have "take (length p) (c # cs @ s) \<noteq> p" using take_prefix [of p "c # cs @ s"] by auto
  then have "find_matches (Literal p # rs) ((c # cs) @ s) = find_matches (Literal p # rs) (cs @ s)"
    by (simp del: take_Suc_Cons)
  also have "\<dots> = find_matches (Literal p # rs) s" using Cons.prems [of "Suc i" for i] by (intro Cons.IH) fastforce
  finally show ?case .
qed simp

lemma find_matches_first:
  assumes "match_items rs s = Some (xs, r)" "length r < length s"
  shows "find_matches rs s = xs # find_matches rs r"
  using assms by (cases s) simp_all

text \<open>Text in which a literal of the expression does not occur has no match.\<close>

lemma match_literal_inside:
  "match_items rs s = Some (xs, r) \<Longrightarrow> Literal p \<in> set rs \<Longrightarrow> p \<in> set xs"
proof (induction rs s arbitrary: xs r rule: match_items.induct)
  case (3 c rs s)
  from match_many1_cases [OF 3(2)] obtain n ys where
    n: "n \<in> set (rev [1 ..< Suc (run_length c s)])" "match_items rs (drop n s) = Some (ys, r)" "xs = take n s # ys" by blast
  from 3(1) [OF n(1,2)] 3(3) n(3) show ?case by simp
next
  case (4 c rs s)
  from match_many0_cases [OF 4(2)] obtain n ys where
    n: "n \<in> set (rev [0 ..< Suc (run_length c s)])" "match_items rs (drop n s) = Some (ys, r)" "xs = take n s # ys" by blast
  from 4(1) [OF n(1,2)] 4(3) n(3) show ?case by simp
qed (auto split: if_splits)

lemma no_match_without:
  assumes "Literal p \<in> set rs" "c \<in> set p" "c \<notin> set s"
  shows "find_matches rs s = []"
proof -
  have none: "match_items rs t = None" if "set t \<subseteq> set s" for t
  proof (rule ccontr)
    assume "match_items rs t \<noteq> None"
    then obtain xs r where m: "match_items rs t = Some (xs, r)" by fastforce
    from match_literal_inside [OF m assms(1)] match_consumes [OF m] have "set p \<subseteq> set t" by auto
    with assms(2,3) that show False by blast
  qed
  have "find_matches rs t = []" if "set t \<subseteq> set s" for t
    using that by (induction t) (simp_all add: none)
  then show ?thesis by blast
qed

end
