(* ===== verification/Wire_Wait.thy ===== *)
theory Wire_Wait
  imports Codec_Decode
begin

text \<open>
  The waiting and the pass/fail bookkeeping of the wire tests, \<^verbatim>\<open>wiretest/wait.py\<close> and
  \<^verbatim>\<open>wiretest/results.py\<close>.

  The readings of \<^verbatim>\<open>time.monotonic()\<close> are an input, in the order they are taken, as whole numbers of
  clock ticks. What a test's \<^verbatim>\<open>check\<close> or \<^verbatim>\<open>read\<close> does is a function on a state. A loop that waits is
  a \<open>partial_function\<close>: None is a wait that never ends.
\<close>

section \<open>Waiting for a state\<close>

text \<open>\<^verbatim>\<open>time.sleep\<close> raises ValueError for a negative length.\<close>

definition sleep :: "int \<Rightarrow> unit result" where
  "sleep seconds = (if seconds < 0 then Inl ValueError else Inr ())"

partial_function (option) wait_until_loop ::
  "(nat \<Rightarrow> int) \<Rightarrow> ('s \<Rightarrow> 's \<times> 'a result) \<Rightarrow> ('a \<Rightarrow> bool) \<Rightarrow> int \<Rightarrow> int \<Rightarrow> nat \<Rightarrow> 's \<Rightarrow> ('s \<times> 'a result) option" where
  "wait_until_loop monotonic_clock check truthy deadline interval k s =
     (case check s of
        (s, Inl e) \<Rightarrow> Some (s, Inl e)
      | (s, Inr r) \<Rightarrow>
          if truthy r \<or> deadline \<le> monotonic_clock (Suc k) then Some (s, Inr r)
          else case sleep interval of
            Inl e \<Rightarrow> Some (s, Inl e)
          | Inr _ \<Rightarrow> wait_until_loop monotonic_clock check truthy deadline interval (Suc k) s)"

definition wait_until ::
  "(nat \<Rightarrow> int) \<Rightarrow> ('s \<Rightarrow> 's \<times> 'a result) \<Rightarrow> ('a \<Rightarrow> bool) \<Rightarrow> int \<Rightarrow> int \<Rightarrow> 's \<Rightarrow> ('s \<times> 'a result) option" where
  "wait_until monotonic_clock check truthy seconds interval s =
     wait_until_loop monotonic_clock check truthy (monotonic_clock 0 + seconds) interval 0 s"

text \<open>How long \<^verbatim>\<open>sleep_until\<close> sleeps, given the clock reading it takes: None is not at all.\<close>

definition sleep_until :: "int \<Rightarrow> int \<Rightarrow> int \<Rightarrow> int option" where
  "sleep_until start seconds now =
     (let remaining = start + seconds - now in if 0 < remaining then Some remaining else None)"

text \<open>Each round of \<^verbatim>\<open>sample\<close> reads the clock three times: at its head, before the read, and in \<^verbatim>\<open>sleep_until\<close>.\<close>

partial_function (option) sample_loop ::
  "(nat \<Rightarrow> int) \<Rightarrow> ('s \<Rightarrow> 's \<times> 'a result) \<Rightarrow> int \<Rightarrow> int \<Rightarrow> int \<Rightarrow> nat \<Rightarrow> 'a list \<Rightarrow> int option list \<Rightarrow> 's
   \<Rightarrow> ('s \<times> int option list \<times> 'a list result) option" where
  "sample_loop monotonic_clock read start seconds interval k samples slept s =
     (if monotonic_clock k - start < seconds
      then case read s of
             (s, Inl e) \<Rightarrow> Some (s, slept, Inl e)
           | (s, Inr x) \<Rightarrow>
               sample_loop monotonic_clock read start seconds interval (k + 3) (samples @ [x])
                 (slept @ [sleep_until (monotonic_clock (k + 1)) interval (monotonic_clock (k + 2))]) s
      else Some (s, slept, Inr samples))"

definition sample ::
  "(nat \<Rightarrow> int) \<Rightarrow> ('s \<Rightarrow> 's \<times> 'a result) \<Rightarrow> int \<Rightarrow> int \<Rightarrow> 's \<Rightarrow> ('s \<times> int option list \<times> 'a list result) option" where
  "sample monotonic_clock read seconds interval s =
     sample_loop monotonic_clock read (monotonic_clock 0) seconds interval 1 [] [] s"

definition as_float :: "pyval \<Rightarrow> pyfloat option" where
  "as_float v = (case v of PFloat x \<Rightarrow> Some x | _ \<Rightarrow> None)"

definition monotonic :: "pyval list \<Rightarrow> bool \<Rightarrow> bool" where
  "monotonic values rising =
     (if values = [] \<or> \<not> list_all (\<lambda>v. as_float v \<noteq> None) values then False
      else let floats = map (\<lambda>v. the (as_float v)) values; pairs = zip floats (tl floats) in
        if rising then list_all (\<lambda>(earlier, later). float_le earlier later) pairs
        else list_all (\<lambda>(earlier, later). float_le later earlier) pairs)"

text \<open>
  The wait ends once the clock has reached the deadline, after at least one check. Unless an exception
  ended it, its result is truthy or the check before the deadline's reading gave it.
\<close>

lemma wait_until_loop_returns:
  assumes "k < m" "deadline \<le> monotonic_clock m"
  shows "\<exists>t r. wait_until_loop monotonic_clock check truthy deadline interval k s = Some (t, r)"
  using assms
proof (induction "m - k" arbitrary: k s)
  case (Suc n)
  show ?case
  proof (cases "m = Suc k")
    case True
    with Suc.prems show ?thesis
      by (subst wait_until_loop.simps) (simp split: prod.split sum.split)
  next
    case False
    then have "n = m - Suc k" "Suc k < m" using Suc by simp_all
    from Suc.hyps(1) [OF this(1,2) Suc.prems(2)] show ?thesis
      by (subst wait_until_loop.simps) (simp split: prod.split sum.split)
  qed
qed simp

text \<open>A check that never fails and gives something truthy in time is what the wait returns.\<close>

lemma wait_until_loop_notices:
  assumes "\<And>j. k < j \<Longrightarrow> j < k + n \<Longrightarrow> monotonic_clock j < deadline" "0 \<le> interval"
    "\<And>j. j < n \<Longrightarrow> \<exists>r. check ((step ^^ j) s) = ((step ^^ Suc j) s, Inr r) \<and> truthy r = (Suc j = n)"
    "0 < n"
  shows "\<exists>r. wait_until_loop monotonic_clock check truthy deadline interval k s = Some ((step ^^ n) s, Inr r) \<and> truthy r"
  using assms
proof (induction n arbitrary: k s)
  case (Suc n)
  from Suc.prems(3) [of 0] obtain r where r: "check s = (step s, Inr r)" "truthy r = (n = 0)" by auto
  show ?case
  proof (cases "n = 0")
    case True
    with r show ?thesis by (subst wait_until_loop.simps) simp
  next
    case False
    have "\<exists>r'. wait_until_loop monotonic_clock check truthy deadline interval (Suc k) (step s)
        = Some ((step ^^ n) (step s), Inr r') \<and> truthy r'"
    proof (rule Suc.IH)
      show "monotonic_clock j < deadline" if "Suc k < j" "j < Suc k + n" for j
        using Suc.prems(1) [of j] that by simp
      show "\<exists>r. check ((step ^^ j) (step s)) = ((step ^^ Suc j) (step s), Inr r) \<and> truthy r = (Suc j = n)" if "j < n" for j
        using Suc.prems(3) [of "Suc j"] that by (simp add: funpow_swap1)
    qed (use Suc.prems(2) False in simp_all)
    moreover have "\<not> deadline \<le> monotonic_clock (Suc k)" using Suc.prems(1) [of "Suc k"] False by simp
    ultimately show ?thesis
      using r False Suc.prems(2) by (subst wait_until_loop.simps) (simp add: sleep_def funpow_swap1)
  qed
qed simp

text \<open>A sampled value is kept in its place, and sampling ends when its time is up.\<close>

lemma sample_loop_returns:
  assumes "seconds \<le> monotonic_clock (k + 3 * n) - start"
  shows "\<exists>t slept' r. sample_loop monotonic_clock read start seconds interval k samples slept s = Some (t, slept', r)"
  using assms
proof (induction n arbitrary: k samples slept s)
  case 0
  then show ?case by (subst sample_loop.simps) simp
next
  case (Suc n)
  then have "seconds \<le> monotonic_clock ((k + 3) + 3 * n) - start" by (simp add: algebra_simps)
  from Suc.IH [OF this] show ?case
    by (subst sample_loop.simps) (simp split: prod.split sum.split)
qed

text \<open>What \<^verbatim>\<open>monotonic\<close> says of floats.\<close>

lemma monotonic_floats:
  "monotonic (map PFloat xs) True \<longleftrightarrow> xs \<noteq> [] \<and> (\<forall>i. Suc i < length xs \<longrightarrow> float_le (xs ! i) (xs ! Suc i))"
  "monotonic (map PFloat xs) False \<longleftrightarrow> xs \<noteq> [] \<and> (\<forall>i. Suc i < length xs \<longrightarrow> float_le (xs ! Suc i) (xs ! i))"
proof -
  have floats: "list_all (\<lambda>v. as_float v \<noteq> None) (map PFloat xs)" "map (\<lambda>v. the (as_float v)) (map PFloat xs) = xs"
    by (simp_all add: as_float_def list_all_iff comp_def)
  have pairs: "list_all (\<lambda>(a, b). P a b) (zip xs (tl xs)) \<longleftrightarrow> (\<forall>i. Suc i < length xs \<longrightarrow> P (xs ! i) (xs ! Suc i))" for P
    by (auto simp: list_all_length nth_tl)
  show "monotonic (map PFloat xs) True \<longleftrightarrow> xs \<noteq> [] \<and> (\<forall>i. Suc i < length xs \<longrightarrow> float_le (xs ! i) (xs ! Suc i))"
    by (simp only: monotonic_def floats Let_def pairs) simp
  show "monotonic (map PFloat xs) False \<longleftrightarrow> xs \<noteq> [] \<and> (\<forall>i. Suc i < length xs \<longrightarrow> float_le (xs ! Suc i) (xs ! i))"
    using pairs [of "\<lambda>a b. float_le b a"] by (simp only: monotonic_def floats Let_def) simp
qed

section \<open>Results\<close>

text \<open>The module's two lists and what is printed.\<close>

record results =
  RESULTS :: "bool list"
  GAPS :: "pystr list"
  printed_lines :: "pystr list"

definition no_results :: results where
  "no_results = \<lparr>RESULTS = [], GAPS = [], printed_lines = []\<rparr>"

definition say :: "pystr \<Rightarrow> results \<Rightarrow> results" where
  "say line r = r\<lparr>printed_lines := printed_lines r @ [line]\<rparr>"

definition record_check :: "pystr \<Rightarrow> bool \<Rightarrow> pystr \<Rightarrow> results \<Rightarrow> results \<times> bool" where
  "record_check name ok detail r =
     (say (lit ''['' @ (if ok then lit ''PASS'' else lit ''FAIL'') @ lit ''] '' @ name
           @ (if detail \<noteq> [] then lit '' - '' @ detail else []))
        (r\<lparr>RESULTS := RESULTS r @ [ok]\<rparr>), ok)"

definition known_gap :: "pystr \<Rightarrow> bool \<Rightarrow> pystr \<Rightarrow> results \<Rightarrow> results \<times> bool" where
  "known_gap name ok cause r =
     (if ok
      then (say (lit ''[GAP CLOSED] '' @ name @ lit '' - now passes; make it a checked requirement ('' @ cause @ lit '')'') r, ok)
      else (say (lit ''[KNOWN GAP] '' @ name @ lit '' - '' @ cause) (r\<lparr>GAPS := GAPS r @ [name]\<rparr>), ok))"

definition summary :: "results \<Rightarrow> results \<times> int" where
  "summary r =
     (say ([10] @ decimal_text (length (filter id (RESULTS r))) @ lit ''/'' @ decimal_text (length (RESULTS r))
           @ lit '' checks passed''
           @ (if GAPS r \<noteq> [] then lit ''; '' @ decimal_text (length (GAPS r)) @ lit '' known gap(s), see TODO.md'' else [])) r,
      if RESULTS r \<noteq> [] \<and> list_all id (RESULTS r) then 0 else 1)"

text \<open>What a wire test does before its summary: checks and gaps, in any order.\<close>

datatype check = Record pystr bool pystr | Known_gap pystr bool pystr

fun run_check :: "check \<Rightarrow> results \<Rightarrow> results" where
  "run_check (Record name ok detail) r = fst (record_check name ok detail r)"
| "run_check (Known_gap name ok cause) r = fst (known_gap name ok cause r)"

definition outcomes :: "check list \<Rightarrow> bool list" where
  "outcomes checks = concat (map (\<lambda>c. case c of Record _ ok _ \<Rightarrow> [ok] | Known_gap _ _ _ \<Rightarrow> []) checks)"

definition open_gaps :: "check list \<Rightarrow> pystr list" where
  "open_gaps checks = concat (map (\<lambda>c. case c of Record _ _ _ \<Rightarrow> [] | Known_gap name ok _ \<Rightarrow> if ok then [] else [name]) checks)"

lemma run_checks:
  "RESULTS (fold run_check checks r) = RESULTS r @ outcomes checks"
  "GAPS (fold run_check checks r) = GAPS r @ open_gaps checks"
  by (induction checks arbitrary: r)
    (auto simp: outcomes_def open_gaps_def record_check_def known_gap_def say_def split: check.split)

end
