(* ===== verification/Wire_Process.thy ===== *)
theory Wire_Process
  imports Console_Text Wire_Endpoint Wire_Wait
begin

text \<open>
  \<^verbatim>\<open>wiretest/process.py\<close>: starting and stopping an example, waiting for what its console says, and
  counting its I-Am broadcasts. A run of the example is its console and whether it has ended, moment
  by moment; every reading of the log and every \<^verbatim>\<open>poll()\<close> takes the next moment. Clock ticks are
  milliseconds.
\<close>

section \<open>The console of a running program\<close>

type_synonym run = "nat \<Rightarrow> pystr \<times> bool"

abbreviation console_at :: "run \<Rightarrow> nat \<Rightarrow> pystr" where
  "console_at h m \<equiv> fst (h m)"

abbreviation ended :: "run \<Rightarrow> nat \<Rightarrow> bool" where
  "ended h m \<equiv> snd (h m)"

text \<open>A console only grows, and a program that has ended prints nothing more.\<close>

definition runs :: "run \<Rightarrow> bool" where
  "runs h \<longleftrightarrow> (\<forall>m. (\<exists>more. console_at h (Suc m) = console_at h m @ more) \<and> (ended h m \<longrightarrow> h (Suc m) = h m))"

text \<open>Round \<open>k\<close> of \<^verbatim>\<open>wait_for_output\<close> reads the log at moment \<open>3k\<close>, polls at the next, and may read again.\<close>

partial_function (option) output_loop :: "(nat \<Rightarrow> int) \<Rightarrow> run \<Rightarrow> pystr \<Rightarrow> int \<Rightarrow> nat \<Rightarrow> bool option" where
  "output_loop monotonic_clock h words deadline k =
     (if \<not> monotonic_clock (Suc k) < deadline then Some False
      else if contains (console_at h (3 * k)) words then Some True
      else if ended h (3 * k + 1) then Some (contains (console_at h (3 * k + 2)) words)
      else output_loop monotonic_clock h words deadline (Suc k))"

definition wait_for_output :: "(nat \<Rightarrow> int) \<Rightarrow> run \<Rightarrow> pystr \<Rightarrow> int \<Rightarrow> bool option" where
  "wait_for_output monotonic_clock h words seconds =
     output_loop monotonic_clock h words (monotonic_clock 0 + seconds) 0"

partial_function (option) text_loop :: "(nat \<Rightarrow> int) \<Rightarrow> run \<Rightarrow> pystr \<Rightarrow> nat \<Rightarrow> int \<Rightarrow> nat \<Rightarrow> nat option option" where
  "text_loop monotonic_clock h words after deadline k =
     (case find_text (console_at h (3 * k)) words after of
        Some found \<Rightarrow> Some (Some (found + length words))
      | None \<Rightarrow>
          if deadline \<le> monotonic_clock (Suc k) \<or> ended h (3 * k + 1) then Some None
          else text_loop monotonic_clock h words after deadline (Suc k))"

definition wait_for_text :: "(nat \<Rightarrow> int) \<Rightarrow> run \<Rightarrow> pystr \<Rightarrow> int \<Rightarrow> nat \<Rightarrow> nat option option" where
  "wait_for_text monotonic_clock h words seconds after =
     text_loop monotonic_clock h words after (monotonic_clock 0 + seconds) 0"

definition wait_ready :: "(nat \<Rightarrow> int) \<Rightarrow> run \<Rightarrow> int \<Rightarrow> bool option" where
  "wait_ready monotonic_clock h seconds = wait_for_output monotonic_clock h (lit ''ready'') seconds"

section \<open>Starting and stopping\<close>

text \<open>What \<^verbatim>\<open>Popen\<close> is given: the absolute program path with its arguments, and the variables.\<close>

definition program_command :: "(pystr \<Rightarrow> pystr) \<Rightarrow> pystr \<Rightarrow> pystr list \<Rightarrow> pystr list" where
  "program_command resolve exe arguments = resolve exe # arguments"

definition program_variables ::
  "(pystr \<Rightarrow> pystr option) \<Rightarrow> (pystr \<Rightarrow> pystr option) option \<Rightarrow> pystr \<Rightarrow> pystr option" where
  "program_variables os_environ environment =
     (case environment of None \<Rightarrow> os_environ | Some variables \<Rightarrow> os_environ ++ variables)"

definition ascii_encode :: "pystr \<Rightarrow> octets result" where
  "ascii_encode s = (if list_all (\<lambda>c. c < 128) s then Inr (map octn s) else Inl UnicodeEncodeError)"

datatype process_call = Write octets | Flush | Wait_seconds int | Kill | Wait

definition press :: "pystr \<Rightarrow> process_call list result" where
  "press keys = chain (ascii_encode keys) (\<lambda>typed. Inr [Write typed, Flush])"

text \<open>The calls \<^verbatim>\<open>stop\<close> makes on the process: each raises an exception it catches, or not.\<close>

fun calls_until_failure :: "(process_call \<Rightarrow> bool) \<Rightarrow> process_call list \<Rightarrow> process_call list \<times> bool" where
  "calls_until_failure fails [] = ([], True)"
| "calls_until_failure fails (c # cs) =
     (if fails c then ([c], False)
      else case calls_until_failure fails cs of (made, ok) \<Rightarrow> (c # made, ok))"

definition stop :: "bool \<Rightarrow> (process_call \<Rightarrow> bool) \<Rightarrow> process_call list" where
  "stop has_ended fails =
     (if has_ended then []
      else case calls_until_failure fails [Write (map octn (lit ''q'')), Flush, Wait_seconds 5000] of
             (made, ok) \<Rightarrow> if ok then made else made @ [Kill, Wait])"

text \<open>\<^verbatim>\<open>start\<close>: the program is ready, or it is stopped and the test ends with a message.\<close>

definition start_program ::
  "(nat \<Rightarrow> int) \<Rightarrow> run \<Rightarrow> pystr \<Rightarrow> (process_call \<Rightarrow> bool) \<Rightarrow> nat \<Rightarrow> (process_call list \<times> (pystr list \<times> pystr) option) option" where
  "start_program monotonic_clock h label fails m =
     (case wait_ready monotonic_clock h 20000 of
        None \<Rightarrow> None
      | Some True \<Rightarrow> Some ([], None)
      | Some False \<Rightarrow> Some (stop (ended h (Suc m)) fails,
          Some ([console_at h m], label @ lit '' did not reach 'ready' - see its console above'')))"

definition keep_log :: "pystr \<Rightarrow> pystr \<Rightarrow> pystr" where
  "keep_log label log_name = lit ''      ('' @ label @ lit '' console: '' @ log_name @ lit '')''"

text \<open>Where an example's executable is: a path is the list of its parts.\<close>

definition default_exe :: "(pystr list \<Rightarrow> bool) \<Rightarrow> pystr list \<Rightarrow> pystr \<Rightarrow> pystr list" where
  "default_exe file_exists repository name =
     (case find file_exists [repository @ [lit ''build'', name], repository @ [lit ''build'', lit ''Release'', name @ lit ''.exe''],
              repository @ [lit ''build'', name @ lit ''.exe'']] of
        Some candidate \<Rightarrow> candidate
      | None \<Rightarrow> repository @ [lit ''build'', name])"

section \<open>Broadcasts\<close>

definition TX_BROADCAST :: "rx list" where
  "TX_BROADCAST =
     [Literal (lit ''TX ''), Many1 is_digit, Literal (lit '' bytes to ''),
      Many1 is_digit, Literal (lit ''.''), Many1 is_digit, Literal (lit ''.''), Many1 is_digit, Literal (lit ''.''), Many1 is_digit,
      Literal (lit '':''), Many1 is_digit, Literal (lit '' (broadcast)'')]"

text \<open>Group 1 is what items 4 to 10 consumed, group 2 what item 12 did.\<close>

fun broadcast_from :: "pystr list list \<Rightarrow> int \<Rightarrow> pystr option result" where
  "broadcast_from [] port = Inr None"
| "broadcast_from (found # matches) port =
     chain (int_of_text (found ! 11)) (\<lambda>n.
       if n = port then Inr (Some (concat (take 7 (drop 3 found)))) else broadcast_from matches port)"

definition broadcast_address :: "pystr \<Rightarrow> int \<Rightarrow> pystr option result" where
  "broadcast_address output port = broadcast_from (find_matches TX_BROADCAST output) port"

definition console_line :: "int \<Rightarrow> rx list" where
  "console_line port =
     [Literal (lit ''TX ''), Many1 is_digit, Literal (lit '' bytes to ''), Many1 (\<lambda>c. is_digit c \<or> c = 46),
      Literal (lit '':'' @ int_text port @ lit '' (broadcast)''), Many0 (\<lambda>c. c \<noteq> 10), Literal (lit ''I-Am'')]"

text \<open>\<^verbatim>\<open>Endpoint.clear\<close>: what is queued is received, then every frame is forgotten.\<close>

definition endpoint_clear :: "air \<Rightarrow> frame list \<Rightarrow> (frame list \<times> unit result) option" where
  "endpoint_clear a frames =
     map_option (\<lambda>(frames, r). case r of Inl e \<Rightarrow> (frames, Inl e) | Inr _ \<Rightarrow> ([], Inr ())) (collect_frames a 50 frames)"

record i_am_broadcasts =
  ib_device_instance :: int
  ib_port :: int
  ib_listener :: "frame list option"
  ib_console_offset :: nat

text \<open>\<^verbatim>\<open>mark\<close>: counting starts at the end of the console so far, with an empty listener.\<close>

definition mark_broadcasts :: "air \<Rightarrow> pystr \<Rightarrow> i_am_broadcasts \<Rightarrow> (i_am_broadcasts \<times> unit result) option" where
  "mark_broadcasts a output b =
     (let b = b\<lparr>ib_console_offset := length output\<rparr> in
      case ib_listener b of
        None \<Rightarrow> Some (b, Inr ())
      | Some frames \<Rightarrow> map_option (\<lambda>(frames, r). (b\<lparr>ib_listener := Some frames\<rparr>, r)) (endpoint_clear a frames))"

text \<open>The constructor reads the console for the broadcast address and again, by then perhaps longer, in \<^verbatim>\<open>mark\<close>.\<close>

definition new_i_am_broadcasts ::
  "air \<Rightarrow> bool \<Rightarrow> pystr \<Rightarrow> pystr \<Rightarrow> int \<Rightarrow> int \<Rightarrow> i_am_broadcasts result option" where
  "new_i_am_broadcasts a windows output later_output port device_instance =
     (case broadcast_address output port of
        Inl e \<Rightarrow> Some (Inl e)
      | Inr broadcast_ip \<Rightarrow>
          map_option (\<lambda>(b, r). chain r (\<lambda>_. Inr b))
            (mark_broadcasts a later_output
              \<lparr>ib_device_instance = device_instance, ib_port = port,
               ib_listener = (if \<not> windows \<and> broadcast_ip \<noteq> None then Some [] else None), ib_console_offset = 0\<rparr>))"

fun count_frames :: "int \<Rightarrow> frame list \<Rightarrow> nat result" where
  "count_frames device_instance [] = Inr 0"
| "count_frames device_instance (f # fs) =
     chain (i_am_device_instance (f_payload f)) (\<lambda>i. chain (count_frames device_instance fs) (\<lambda>n.
       Inr (if i = Some device_instance then Suc n else n)))"

definition console_count :: "pystr \<Rightarrow> i_am_broadcasts \<Rightarrow> nat" where
  "console_count output b = length (find_matches (console_line (ib_port b)) (drop (ib_console_offset b) output))"

definition counts :: "air \<Rightarrow> pystr \<Rightarrow> i_am_broadcasts \<Rightarrow> (i_am_broadcasts \<times> (nat option \<times> nat) result) option" where
  "counts a output b =
     (case ib_listener b of
        None \<Rightarrow> Some (b, Inr (None, console_count output b))
      | Some frames \<Rightarrow>
          map_option (\<lambda>(frames, r). (b\<lparr>ib_listener := Some frames\<rparr>,
              chain r (\<lambda>_. chain (count_frames (ib_device_instance b) frames) (\<lambda>wire. Inr (Some wire, console_count output b)))))
            (collect_frames a 50 frames))"

text \<open>\<^verbatim>\<open>watch\<close>: mark, wait, count; three readings of the console and two of the network.\<close>

definition watch_broadcasts ::
  "air \<Rightarrow> air \<Rightarrow> pystr \<Rightarrow> pystr \<Rightarrow> int \<Rightarrow> i_am_broadcasts \<Rightarrow> (i_am_broadcasts \<times> (nat option \<times> nat) result) option" where
  "watch_broadcasts a a' output later_output seconds b =
     (case mark_broadcasts a output b of
        None \<Rightarrow> None
      | Some (b, Inl e) \<Rightarrow> Some (b, Inl e)
      | Some (b, Inr _) \<Rightarrow>
          (case sleep seconds of Inl e \<Rightarrow> Some (b, Inl e) | Inr _ \<Rightarrow> counts a' later_output b))"

section \<open>The last words of a program\<close>

lemma runs_later:
  assumes "runs h" "m \<le> n"
  shows "\<exists>tail. console_at h n = console_at h m @ tail" "ended h m \<Longrightarrow> h n = h m"
proof -
  show "\<exists>tail. console_at h n = console_at h m @ tail" using assms(2)
  proof (induction n rule: dec_induct)
    case (step n)
    then show ?case using assms(1) unfolding runs_def by (metis append.assoc)
  qed simp
  show "h n = h m" if "ended h m" using assms(2)
  proof (induction n rule: dec_induct)
    case (step n)
    with that have "ended h n" by simp
    with step assms(1) show ?case unfolding runs_def by metis
  qed simp
qed

lemma output_loop_final:
  assumes "runs h" "ended h m" "\<And>j. 3 * j \<le> m + 4 \<Longrightarrow> monotonic_clock j < deadline" "3 * k \<le> m + 1"
  shows "output_loop monotonic_clock h words deadline k = Some (contains (console_at h m) words)"
  using assms(4)
proof (induction "m - k" arbitrary: k rule: less_induct)
  case less
  have in_time: "monotonic_clock (Suc k) < deadline" using assms(3) less.prems by simp
  have final: "contains (console_at h m) words" if "contains (console_at h j) words" for j
    using runs_later [OF assms(1), of j m] runs_later(2) [OF assms(1), of m j] assms(2) that contains_append
    by (metis nat_le_linear)
  show ?case
  proof (cases "contains (console_at h (3 * k)) words")
    case True
    with in_time final show ?thesis by (subst output_loop.simps) simp
  next
    case False
    note looked = this
    show ?thesis
    proof (cases "ended h (3 * k + 1)")
      case True
      have "h (3 * k + 2) = h m"
        using runs_later(2) [OF assms(1), of "3 * k + 1" "3 * k + 2"] runs_later(2) [OF assms(1), of "3 * k + 1" m]
          runs_later(2) [OF assms(1), of m "3 * k + 2"] True assms(2)
        by (cases "m \<le> 3 * k + 2") simp_all
      with in_time looked True show ?thesis by (subst output_loop.simps) simp
    next
      case False
      have "3 * k + 1 < m"
        using False runs_later(2) [OF assms(1), of m "3 * k + 1"] assms(2) by (metis not_less)
      then have "output_loop monotonic_clock h words deadline (Suc k) = Some (contains (console_at h m) words)"
        by (intro less.hyps) simp_all
      with in_time looked False show ?thesis by (subst output_loop.simps) simp
    qed
  qed
qed

text \<open>
  C30. \<^verbatim>\<open>wait_for_output\<close> does not miss what a program says last, when the time is not up before it looks again: when the
  program has ended at moment \<open>m\<close> and the clock is before the deadline up to the first round that polls at or after that moment,
  it returns whether the final console contains the text. \<^verbatim>\<open>wait_for_text\<close> can miss it even then: when the text
  comes, and the program ends, between its first look at the console and its poll, it returns None.
\<close>

theorem last_output:
  assumes "runs h" "ended h m" "\<forall>j. 3 * j \<le> m + 4 \<longrightarrow> monotonic_clock j < monotonic_clock 0 + seconds"
  shows "wait_for_output monotonic_clock h words seconds = Some (contains (console_at h m) words)
    \<and> (\<not> contains (console_at h 0) words \<and> ended h 1 \<longrightarrow> wait_for_text monotonic_clock h words seconds 0 = Some None)"
proof
  show "wait_for_output monotonic_clock h words seconds = Some (contains (console_at h m) words)"
    using assms(3) unfolding wait_for_output_def by (intro output_loop_final [OF assms(1,2)]) simp_all
  show "\<not> contains (console_at h 0) words \<and> ended h 1 \<longrightarrow> wait_for_text monotonic_clock h words seconds 0 = Some None"
    unfolding wait_for_text_def by (subst text_loop.simps) (simp add: contains_def)
qed

lemma last_output_witness:
  "wait_for_output (\<lambda>k. int k) (\<lambda>m. if m = 0 then ([], False) else (lit ''ready'', True)) (lit ''ready'') 20000 = Some True
    \<and> wait_for_text (\<lambda>k. int k) (\<lambda>m. if m = 0 then ([], False) else (lit ''ready'', True)) (lit ''ready'') 20000 0 = Some None"
  using last_output [of "\<lambda>m. if m = 0 then ([], False) else (lit ''ready'', True)" 1 "\<lambda>k. int k" 20000 "lit ''ready''"]
  by (simp add: runs_def contains_def find_text_def lit_def)

text \<open>
  In the last sleep before the deadline it does miss it: the console is not read again after the loop.
\<close>

lemma late_output_missed:
  assumes "\<not> contains (console_at h 0) words" "\<not> ended h 1" "monotonic_clock 1 < monotonic_clock 0 + seconds"
    "monotonic_clock 0 + seconds \<le> monotonic_clock 2"
  shows "wait_for_output monotonic_clock h words seconds = Some False"
proof -
  let ?deadline = "monotonic_clock 0 + seconds"
  from assms(4) have "output_loop monotonic_clock h words ?deadline 1 = Some False"
    by (subst output_loop.simps) (simp add: numeral_2_eq_2)
  with assms(1-3) show ?thesis
    unfolding wait_for_output_def by (subst output_loop.simps) simp
qed

lemma late_output_missed_witness:
  "\<exists>h. runs h \<and> ended h 2 \<and> contains (console_at h 2) (lit ''ready'')
    \<and> wait_for_output (\<lambda>k. if k < 2 then 0 else 20) h (lit ''ready'') 20 = Some False"
  using late_output_missed [of "\<lambda>m. if m < 2 then ([], False) else (lit ''ready'', True)" "lit ''ready''" "\<lambda>k. if k < 2 then 0 else 20" 20]
  by (intro exI [of _ "\<lambda>m. if m < 2 then ([], False) else (lit ''ready'', True)"])
    (simp add: runs_def contains_def find_text_def lit_def)

section \<open>The line of a broadcast\<close>

lemma decimal_is_digits: "\<forall>c \<in> set (decimal_text n). is_digit c"
  using decimal_text_digits ascii_digit(1) by blast

lemma decimal_text_length: "n < 10 ^ k \<Longrightarrow> 0 < k \<Longrightarrow> length (decimal_text n) \<le> k"
proof (induction k arbitrary: n)
  case (Suc k)
  show ?case
  proof (cases "n < 10")
    case False
    then have "0 < k" using Suc.prems by (cases k) auto
    moreover have "n div 10 < 10 ^ k" using Suc.prems(1) by (simp add: less_mult_imp_div_less mult.commute)
    ultimately show ?thesis using Suc.IH [of "n div 10"] False by (simp add: decimal_text.simps [of n])
  qed (simp add: decimal_text.simps [of n])
qed simp

text \<open>The line \<^verbatim>\<open>on_send\<close> prints for a broadcast, up to what it says of the Network Port.\<close>

definition broadcast_line :: "int \<Rightarrow> octets \<Rightarrow> int \<Rightarrow> pystr" where
  "broadcast_line sent a port = lit ''TX '' @ int_text sent @ lit '' bytes to '' @ inet_ntoa a @ lit '':''
     @ int_text port @ lit '' (broadcast)''"

lemma punctuation: "\<not> is_digit 32" "\<not> is_digit 46" "\<not> is_digit 58"
  by (simp_all add: is_digit_def DECIMAL_ZEROS_def)

lemma match_number:
  assumes "match_items rs s = Some (xs, r)" "s = [] \<or> \<not> is_digit (hd s)"
  shows "match_items (Literal p # Many1 is_digit # rs) (p @ decimal_text n @ s) = Some (p # decimal_text n # xs, r)"
  by (rule match_literal [OF match_run(1) [OF assms(1) decimal_is_digits assms(2) decimal_text_nonempty]])

lemma broadcast_line_matches:
  assumes "0 \<le> sent" "0 \<le> port"
  shows "match_items TX_BROADCAST (broadcast_line sent a port @ rest) = Some
    ([lit ''TX '', int_text sent, lit '' bytes to '', decimal_text (unat (a ! 0)), lit ''.'', decimal_text (unat (a ! 1)),
      lit ''.'', decimal_text (unat (a ! 2)), lit ''.'', decimal_text (unat (a ! 3)), lit '':'', int_text port,
      lit '' (broadcast)''], rest)"
proof -
  have n: "int_text sent = decimal_text (nat sent)" "int_text port = decimal_text (nat port)"
    using assms by (simp_all add: int_text_def)
  have stop: "s = lit '' (broadcast)'' @ t \<or> s = lit '':'' @ t \<or> s = lit ''.'' @ t \<or> s = lit '' bytes to '' @ t
      \<Longrightarrow> s = [] \<or> \<not> is_digit (hd s)" for s t
    using punctuation by (auto simp: lit_def)
  have close: "match_items [Literal (lit '' (broadcast)'')] (lit '' (broadcast)'' @ rest) = Some ([lit '' (broadcast)''], rest)"
    by simp
  show ?thesis
    unfolding TX_BROADCAST_def broadcast_line_def inet_ntoa_def n append.assoc
    by (intro match_number close stop) blast+
qed

text \<open>A console that has not mentioned a transmission yet is skipped.\<close>

lemma no_earlier_line:
  assumes "\<not> contains before (lit ''TX '')"
  shows "find_matches (Literal (lit ''TX '') # rs) (before @ lit ''TX '' @ s) = find_matches (Literal (lit ''TX '') # rs) (lit ''TX '' @ s)"
proof (rule find_matches_skip)
  fix i assume i: "i < length before"
  show "\<nexists>r. drop i (before @ lit ''TX '' @ s) = lit ''TX '' @ r"
  proof
    assume "\<exists>r. drop i (before @ lit ''TX '' @ s) = lit ''TX '' @ r"
    then obtain r where r: "drop i before @ [84, 88, 32] @ s = [84, 88, 32] @ r" using i by (auto simp: lit_def)
    obtain c d where d: "drop i before = c # d" using i by (cases "drop i before") auto
    consider "d = []" | x where "d = [x]" | x y t where "d = x # y # t" by (metis list.exhaust)
    then obtain t where "drop i before = lit ''TX '' @ t" using r d by cases (auto simp: lit_def)
    then have "before = take i before @ lit ''TX '' @ t" by (metis append_take_drop_id)
    with assms show False unfolding contains_iff by blast
  qed
qed

text \<open>No capital A is in the line, so nothing in it says I-Am.\<close>

lemma broadcast_line_letters:
  assumes "0 \<le> sent" "0 \<le> port"
  shows "65 \<notin> set (broadcast_line sent a port @ lit '' (Network Port '' @ int_text n @ lit '')'')"
proof -
  have "65 \<notin> set (decimal_text k)" for k using decimal_text_digits [of 65 k] by (auto simp: is_ascii_digit_def)
  then show ?thesis using assms by (auto simp: broadcast_line_def inet_ntoa_def int_text_def lit_def)
qed

text \<open>
  C29. The tests read back where the example broadcasts to: in a console that mentions no transmission
  before, the line \<^verbatim>\<open>on_send\<close> prints for a broadcast gives \<^verbatim>\<open>broadcast_address\<close> the address the datagram went
  to. But the line does not say what was sent, as the console pattern of \<^verbatim>\<open>IAmBroadcasts\<close> asks for: an I-Am
  heartbeat of this example is never counted in its console.
\<close>

theorem broadcast_line_read:
  assumes "send_destination local udp connection n b = Some (inet_ntoa a, port, True)" "has_socket udp"
    "0 \<le> sent" "0 \<le> port" "port < 65536" "\<not> contains before (lit ''TX '')"
  shows "\<exists>line. on_send local udp network_port connection n network_port b (Inr sent) = (sent, [line])
    \<and> broadcast_address (before @ line @ after) port = Inr (Some (inet_ntoa a))
    \<and> console_count line \<lparr>ib_device_instance = device, ib_port = port, ib_listener = None, ib_console_offset = 0\<rparr> = 0"
proof -
  let ?line = "broadcast_line sent a port @ lit '' (Network Port '' @ int_text network_port @ lit '')''"
  have sends: "on_send local udp network_port connection n network_port b (Inr sent) = (sent, [?line])"
    using assms(1,2) by (simp add: on_send_def udp_send_def broadcast_line_def)
  let ?rest = "lit '' (Network Port '' @ int_text network_port @ lit '')'' @ after"
  let ?found = "[lit ''TX '', int_text sent, lit '' bytes to '', decimal_text (unat (a ! 0)), lit ''.'',
    decimal_text (unat (a ! 1)), lit ''.'', decimal_text (unat (a ! 2)), lit ''.'', decimal_text (unat (a ! 3)), lit '':'',
    int_text port, lit '' (broadcast)'']"
  have m: "match_items TX_BROADCAST (broadcast_line sent a port @ ?rest) = Some (?found, ?rest)"
    by (rule broadcast_line_matches [OF assms(3,4)])
  have "find_matches TX_BROADCAST (before @ ?line @ after) = find_matches TX_BROADCAST (?line @ after)"
    using no_earlier_line [OF assms(6)] by (simp add: TX_BROADCAST_def broadcast_line_def)
  also have "\<dots> = ?found # find_matches TX_BROADCAST ?rest"
    using find_matches_first [OF m] by (simp add: broadcast_line_def lit_def)
  finally have found: "find_matches TX_BROADCAST (before @ ?line @ after) = ?found # find_matches TX_BROADCAST ?rest" .
  have "nat port < 10 ^ 5" using assms(5) by simp
  from decimal_text_length [OF this] have "length (decimal_text (nat port)) \<le> 4300" by simp
  then have "int_of_text (int_text port) = Inr port"
    using int_of_ascii [of "decimal_text (nat port)"] decimal_text_digits decimal_text_nonempty assms(4)
    by (simp add: int_text_def decimal_value_text)
  then have "broadcast_address (before @ ?line @ after) port = Inr (Some (inet_ntoa a))"
    unfolding broadcast_address_def found by (simp add: inet_ntoa_def)
  moreover have "find_matches (console_line port) ?line = []"
    by (rule no_match_without [where p = "lit ''I-Am''" and c = 65])
      (use broadcast_line_letters [OF assms(3,4)] in \<open>auto simp: console_line_def lit_def\<close>)
  ultimately show ?thesis using sends by (simp add: console_count_def)
qed

lemma broadcast_line_read_witness:
  "\<exists>line. on_send \<lparr>address = lit ''10.0.0.1'', netmask = lit ''255.255.255.0'', broadcast = inet_ntoa [10, 0, 0, 255]\<rparr>
        \<lparr>has_socket = True, udp_port = 47808\<rparr> 1 None 0 1 True (Inr 21) = (21, [line])
    \<and> broadcast_address (lit ''ready'' @ line @ [10]) 47808 = Inr (Some (inet_ntoa [10, 0, 0, 255]))
    \<and> console_count line \<lparr>ib_device_instance = 389001, ib_port = 47808, ib_listener = None, ib_console_offset = 0\<rparr> = 0"
  by (rule broadcast_line_read) (simp_all add: send_destination_def contains_def find_text_def lit_def)

end
