(* ===== verification/Wire_Control.thy ===== *)
theory Wire_Control
  imports Wire_Process
begin

text \<open>
  \<^verbatim>\<open>wiretest/control.py\<close>: a test's hands on an example's test-only control channels, a loopback
  datagram socket (\<^verbatim>\<open>SimulationControl\<close>) and a file of commands (\<^verbatim>\<open>CommandFile\<close>).

  The socket is its queue: what is waiting to be received, in order. While a command waits for its
  answer, the outside appends to the queue; what it appends during each attempt is an input.
\<close>

section \<open>The control socket\<close>

text \<open>A receive takes the next entry: a datagram, or the reset Windows reports for an earlier send.\<close>

datatype pending = Late octets | Reset

record control =
  ct_address :: "pystr \<times> int"
  ct_retries :: int
  ct_timeout :: pystr
  ct_queue :: "pending list"
  ct_sent :: "octets list"
  ct_printed :: "pystr list"

text \<open>
  \<^verbatim>\<open>_drain\<close>: receive until nothing is there (BlockingIOError) or a reset, which ends the loop too.
\<close>

fun drained :: "pending list \<Rightarrow> pending list" where
  "drained [] = []"
| "drained (Late d # q) = drained q"
| "drained (Reset # q) = q"

definition drain :: "control \<Rightarrow> control" where
  "drain c = c\<lparr>ct_queue := drained (ct_queue c)\<rparr>"

text \<open>\<^verbatim>\<open>data.decode("ascii", errors="replace")\<close> of at most 512 octets.\<close>

definition ascii_decode :: "octets \<Rightarrow> pystr" where
  "ascii_decode data = map (\<lambda>b. if unat b < 128 then unat b else 0xFFFD) data"

definition retry_line :: "pystr \<Rightarrow> control \<Rightarrow> pystr" where
  "retry_line command c = lit ''[RETRY] simulation control '' @ [39] @ command @ [39] @ lit '' unanswered after '' @ ct_timeout c
     @ lit '' s - sent again''"

text \<open>
  One attempt: the datagram goes out, the outside answers with \<open>arrivals\<close>, and one receive takes the
  head of the queue; an empty queue is the timeout.
\<close>

definition control_attempt :: "octets \<Rightarrow> pending list \<Rightarrow> control \<Rightarrow> control \<times> octets option" where
  "control_attempt octets arrivals c =
     (let c = c\<lparr>ct_sent := ct_sent c @ [octets], ct_queue := ct_queue c @ arrivals\<rparr> in
      case ct_queue c of
        [] \<Rightarrow> (c, None)
      | Reset # q \<Rightarrow> (c\<lparr>ct_queue := q\<rparr>, None)
      | Late data # q \<Rightarrow> (c\<lparr>ct_queue := q\<rparr>, Some (take 512 data)))"

fun ask_from :: "pystr \<Rightarrow> (nat \<Rightarrow> pending list) \<Rightarrow> nat list \<Rightarrow> control \<Rightarrow> control \<times> pystr option result" where
  "ask_from command arrivals [] c = (c, Inr None)"
| "ask_from command arrivals (n # ns) c =
     (let c = (if n \<noteq> 0 then c\<lparr>ct_printed := ct_printed c @ [retry_line command c]\<rparr> else c) in
      case ascii_encode command of
        Inl e \<Rightarrow> (c, Inl e)
      | Inr octets \<Rightarrow>
          (case control_attempt octets (arrivals n) c of
             (c, None) \<Rightarrow> ask_from command arrivals ns c
           | (c, Some data) \<Rightarrow> (c, Inr (Some (ascii_decode data)))))"

definition ask :: "pystr \<Rightarrow> (nat \<Rightarrow> pending list) \<Rightarrow> control \<Rightarrow> control \<times> pystr option result" where
  "ask command arrivals c = ask_from command arrivals [0 ..< nat (1 + ct_retries c)] (drain c)"

text \<open>\<^verbatim>\<open>send\<close>: the answer, or the text of the RuntimeError it raises.\<close>

definition control_send :: "pystr \<Rightarrow> (nat \<Rightarrow> pending list) \<Rightarrow> control \<Rightarrow> control \<times> (pystr + pystr) result" where
  "control_send command arrivals c =
     (case ask command arrivals c of
        (c, Inl e) \<Rightarrow> (c, Inl e)
      | (c, Inr reply) \<Rightarrow>
          (let failure = (\<lambda>words. Inr (Inl (lit ''simulation control '' @ [39] @ command @ [39] @ lit '': '' @ words))) in
           case reply of
             None \<Rightarrow> (c, failure (lit ''no answer''))
           | Some words \<Rightarrow>
               if take 5 words = lit ''error'' then (c, failure words) else (c, Inr (Inr words))))"

section \<open>The command file\<close>

text \<open>Opened for appending: a command that is not ASCII raises and leaves the file as it was.\<close>

definition command_file_send :: "pystr \<Rightarrow> octets \<Rightarrow> octets \<times> unit result" where
  "command_file_send command file =
     (case ascii_encode (command @ [10]) of Inl e \<Rightarrow> (file, Inl e) | Inr octets \<Rightarrow> (file @ octets, Inr ()))"

section \<open>Which answer is taken\<close>

lemma drained_all: "Reset \<notin> set q \<Longrightarrow> drained q = []"
  by (induction q rule: drained.induct) auto

lemma drained_reset: "Reset \<notin> set q \<Longrightarrow> drained (q @ Reset # r) = r"
  by (induction q rule: drained.induct) auto

text \<open>Attempts no datagram arrives in are repeated; a reset counts as none.\<close>

lemma unanswered_attempts:
  assumes "ascii_encode command = Inr x" "ct_queue c = []" "\<forall>i \<in> set ns. arrivals i = [] \<or> arrivals i = [Reset]"
  shows "ask_from command arrivals (ns @ ms) c =
    ask_from command arrivals ms (c\<lparr>ct_queue := [], ct_sent := ct_sent c @ replicate (length ns) x,
      ct_printed := ct_printed c @ replicate (length (filter (\<lambda>n. n \<noteq> 0) ns)) (retry_line command c)\<rparr>)"
  using assms(2,3)
proof (induction ns arbitrary: c)
  case (Cons n ns)
  let ?c = "(if n \<noteq> 0 then c\<lparr>ct_printed := ct_printed c @ [retry_line command c]\<rparr> else c)\<lparr>ct_sent := ct_sent c @ [x], ct_queue := []\<rparr>"
  have q: "ct_queue ?c = []" "retry_line command ?c = retry_line command c"
    using Cons.prems(1) by (simp_all add: retry_line_def)
  have "arrivals n = [] \<or> arrivals n = [Reset]" using Cons.prems(2) by simp
  then have "ask_from command arrivals ((n # ns) @ ms) c = ask_from command arrivals (ns @ ms) ?c"
    using Cons.prems(1) assms(1) by (auto simp: control_attempt_def Let_def)
  also have "\<dots> = ask_from command arrivals ms (?c\<lparr>ct_queue := [], ct_sent := ct_sent ?c @ replicate (length ns) x,
      ct_printed := ct_printed ?c @ replicate (length (filter (\<lambda>n. n \<noteq> 0) ns)) (retry_line command c)\<rparr>)"
    using Cons.IH [OF q(1)] Cons.prems(2) q(2) by simp
  finally show ?case by (auto simp: Let_def)
next
  case Nil
  have "c\<lparr>ct_queue := []\<rparr> = c" using Nil.prems(1) by simp
  then show ?case by simp
qed

text \<open>
  C31. A command is answered by the datagram that answers it: with no reset pending, whatever late
  datagrams are waiting are dropped, the command is sent once more for every attempt that passes
  without a datagram, each with a \<^verbatim>\<open>[RETRY]\<close> line, and the first datagram that then comes is its answer.
  But the draining ends at a reset: a late datagram behind one is taken for the answer.
\<close>

theorem control_answer:
  assumes "ascii_encode command = Inr x" "int n \<le> ct_retries c" "\<forall>i < n. arrivals i = [] \<or> arrivals i = [Reset]"
    "arrivals n = Late data # later"
  shows "(Reset \<notin> set (ct_queue c) \<longrightarrow>
      (\<exists>c'. ask command arrivals c = (c', Inr (Some (ascii_decode (take 512 data))))
        \<and> ct_sent c' = ct_sent c @ replicate (Suc n) x
        \<and> ct_printed c' = ct_printed c @ replicate n (retry_line command c)))
    \<and> (\<forall>q old stale. ct_queue c = q @ Reset # Late old # stale \<and> Reset \<notin> set q \<longrightarrow>
      snd (ask command arrivals c) = Inr (Some (ascii_decode (take 512 old))))"
proof (intro conjI impI allI)
  assume "Reset \<notin> set (ct_queue c)"
  then have empty: "ct_queue (drain c) = []" by (simp add: drain_def drained_all)
  have split: "[0 ..< nat (1 + ct_retries c)] = [0 ..< n] @ n # [Suc n ..< nat (1 + ct_retries c)]"
    using assms(2) upt_add_eq_append [of 0 n "nat (1 + ct_retries c) - n"] by (simp add: upt_conv_Cons)
  have count: "length (filter ((<) 0) [0 ..< n]) = n - 1"
    by (induction n) auto
  from unanswered_attempts [OF assms(1) empty, of "[0 ..< n]" arrivals "n # [Suc n ..< nat (1 + ct_retries c)]"]
  show "\<exists>c'. ask command arrivals c = (c', Inr (Some (ascii_decode (take 512 data))))
        \<and> ct_sent c' = ct_sent c @ replicate (Suc n) x
        \<and> ct_printed c' = ct_printed c @ replicate n (retry_line command c)"
    using assms(1,3,4) empty
    by (simp add: ask_def split count control_attempt_def Let_def)
      (cases n; simp add: drain_def retry_line_def replicate_append_same del: upt_Suc)
next
  fix q old stale
  assume "ct_queue c = q @ Reset # Late old # stale \<and> Reset \<notin> set q"
  then have "drained (ct_queue c) = Late old # stale"
    by (simp add: drained_reset)
  then have "ct_queue (drain c) = Late old # stale" by (simp add: drain_def)
  moreover have "[0 ..< nat (1 + ct_retries c)] = 0 # [1 ..< nat (1 + ct_retries c)]"
    using assms(2) by (simp add: upt_conv_Cons)
  ultimately show "snd (ask command arrivals c) = Inr (Some (ascii_decode (take 512 old)))"
    using assms(1) by (simp add: ask_def control_attempt_def Let_def)
qed

lemma control_answer_witness:
  "\<exists>c'. ask (lit ''state'') (\<lambda>n. if n = 1 then [Late [111, 107]] else [])
      \<lparr>ct_address = (lit ''127.0.0.1'', 47900), ct_retries = 2, ct_timeout = lit ''2.0'', ct_queue = [Late [49]],
       ct_sent = [], ct_printed = []\<rparr> = (c', Inr (Some (lit ''ok'')))
    \<and> ct_sent c' = replicate 2 (map octn (lit ''state''))"
proof -
  let ?c = "\<lparr>ct_address = (lit ''127.0.0.1'', 47900), ct_retries = 2, ct_timeout = lit ''2.0'', ct_queue = [Late [49]],
       ct_sent = [], ct_printed = []\<rparr>"
  have e: "ascii_encode (lit ''state'') = Inr (map octn (lit ''state''))" by (simp add: ascii_encode_def lit_def)
  have d: "ascii_decode (take 512 [111, 107]) = lit ''ok''" by (simp add: ascii_decode_def lit_def)
  have "int 1 \<le> ct_retries ?c" "Reset \<notin> set (ct_queue ?c)" by simp_all
  with control_answer [OF e this(1), of "\<lambda>n. if n = 1 then [Late [111, 107]] else []" "[111, 107]" "[]"]
  show ?thesis unfolding d by (auto simp: numeral_2_eq_2)
qed

end
