(* ===== verification/Sensor.thy ===== *)
theory Sensor
  imports Example_Constants
begin

text \<open>
  Sections 1 and 2 of \<^verbatim>\<open>main.py\<close>: the module's globals as one record, and the simulation that is
  the only code to change the sensor values. The clock readings and whether the fault file can
  be opened are inputs of a tick; what the program prints is appended to \<open>console\<close>.
\<close>

section \<open>State\<close>

record sensor_device =
  g_device_instance :: int
  g_device_name :: pystr
  g_firmware_revision :: pystr
  g_ip_address :: "int list"
  g_ip_subnet_mask :: "int list"
  g_ip_default_gateway :: "int list"
  g_bacnet_ip_udp_port :: int
  g_analog_input_1_value :: pyfloat
  g_binary_input_1_value :: int
  g_multi_state_input_1_value :: int
  g_analog_input_1_reliability :: int
  g_sensor_fault_file :: pystr
  simulation_started :: "pyfloat option"
  simulation_last_second :: int
  analog_input_direction :: pyfloat
  console :: "pystr list"

definition initial_device :: sensor_device where
  "initial_device =
     \<lparr>g_device_instance = 389001, g_device_name = DEVICE_NAME, g_firmware_revision = [],
      g_ip_address = [0, 0, 0, 0], g_ip_subnet_mask = [0, 0, 0, 0], g_ip_default_gateway = [0, 0, 0, 0],
      g_bacnet_ip_udp_port = 47808, g_analog_input_1_value = half 43, g_binary_input_1_value = 0,
      g_multi_state_input_1_value = 1, g_analog_input_1_reliability = RELIABILITY_NO_FAULT_DETECTED,
      g_sensor_fault_file = [], simulation_started = None, simulation_last_second = 0,
      analog_input_direction = direction_up, console = []\<rparr>"

definition print :: "pystr \<Rightarrow> sensor_device \<Rightarrow> sensor_device" where
  "print line d = d\<lparr>console := console d @ [line]\<rparr>"

section \<open>The simulation\<close>

text \<open>\<open>opens path\<close>: whether \<^verbatim>\<open>open(path, "rb")\<close> succeeds.\<close>

definition sensor_wire_broken :: "(pystr \<Rightarrow> bool) \<Rightarrow> sensor_device \<Rightarrow> bool" where
  "sensor_wire_broken opens d =
     (if g_sensor_fault_file d = [] then False else opens (g_sensor_fault_file d))"

definition update_reliability :: "(pystr \<Rightarrow> bool) \<Rightarrow> sensor_device \<Rightarrow> sensor_device" where
  "update_reliability opens d =
     (let reliability = (if sensor_wire_broken opens d then RELIABILITY_OPEN_LOOP
                         else RELIABILITY_NO_FAULT_DETECTED);
          broken = (reliability = RELIABILITY_OPEN_LOOP)
      in if reliability \<noteq> g_analog_input_1_reliability d
         then print (lit ''Simulation: Analog Input 1 (Bronze) sensor wire ''
                     @ lit (if broken then ''broken'' else ''repaired'') @ lit '' - Reliability ''
                     @ lit (if broken then ''OPEN_LOOP'' else ''NO_FAULT_DETECTED''))
                (d\<lparr>g_analog_input_1_reliability := reliability\<rparr>)
         else d)"

definition move_analog_input :: "sensor_device \<Rightarrow> sensor_device" where
  "move_analog_input d =
     (if g_analog_input_1_reliability d = RELIABILITY_NO_FAULT_DETECTED
      then let direction =
                 (if float_le ANALOG_INPUT_HIGHEST (g_analog_input_1_value d) then direction_down
                  else if float_le (g_analog_input_1_value d) ANALOG_INPUT_LOWEST then direction_up
                  else analog_input_direction d)
           in d\<lparr>analog_input_direction := direction,
                g_analog_input_1_value :=
                  float_add (g_analog_input_1_value d) (float_mul direction ANALOG_INPUT_STEP)\<rparr>
      else d)"

definition toggle_binary_input :: "int \<Rightarrow> sensor_device \<Rightarrow> sensor_device" where
  "toggle_binary_input seconds_running d =
     (if seconds_running mod BINARY_INPUT_TOGGLE_SECONDS = 0
      then d\<lparr>g_binary_input_1_value := (if g_binary_input_1_value d \<noteq> 0 then 0 else 1)\<rparr> else d)"

definition step_multi_state_input :: "int \<Rightarrow> sensor_device \<Rightarrow> sensor_device" where
  "step_multi_state_input seconds_running d =
     (if seconds_running mod MULTI_STATE_INPUT_STEP_SECONDS = 0
      then d\<lparr>g_multi_state_input_1_value :=
                g_multi_state_input_1_value d mod MULTI_STATE_INPUT_NUMBER_OF_STATES + 1\<rparr> else d)"

text \<open>The part of a tick that runs once per second, with its \<^verbatim>\<open>_simulation_last_second\<close>.\<close>

definition sensor_second :: "(pystr \<Rightarrow> bool) \<Rightarrow> int \<Rightarrow> sensor_device \<Rightarrow> sensor_device" where
  "sensor_second opens seconds_running d =
     step_multi_state_input seconds_running
       (toggle_binary_input seconds_running
         (move_analog_input (update_reliability opens (d\<lparr>simulation_last_second := seconds_running\<rparr>))))"

text \<open>
  The two readings of \<^verbatim>\<open>time.monotonic()\<close>: \<open>start_clock\<close> only counts on the first tick, which
  records it. \<^verbatim>\<open>int\<close> of the difference is the only operation that could raise.
\<close>

definition sensor_simulation_tick ::
  "pyfloat \<Rightarrow> pyfloat \<Rightarrow> (pystr \<Rightarrow> bool) \<Rightarrow> sensor_device \<Rightarrow> sensor_device result" where
  "sensor_simulation_tick start_clock clock opens d =
     (let d = (if simulation_started d = None then d\<lparr>simulation_started := Some start_clock\<rparr> else d)
      in chain (float_trunc (float_sub clock (the (simulation_started d)))) (\<lambda>seconds_running.
           if seconds_running = simulation_last_second d then Inr d
           else Inr (sensor_second opens seconds_running d)))"

section \<open>What a second preserves\<close>

definition sensor_ok :: "sensor_device \<Rightarrow> bool" where
  "sensor_ok d \<longleftrightarrow>
     g_binary_input_1_value d \<in> {0, 1} \<and>
     1 \<le> g_multi_state_input_1_value d \<and> g_multi_state_input_1_value d \<le> MULTI_STATE_INPUT_NUMBER_OF_STATES \<and>
     g_analog_input_1_reliability d \<in> {RELIABILITY_NO_FAULT_DETECTED, RELIABILITY_OPEN_LOOP} \<and>
     analog_input_direction d \<in> {direction_up, direction_down}"

text \<open>The reading is on the half-degree grid between the two ends of the ramp.\<close>

definition on_ramp :: "sensor_device \<Rightarrow> bool" where
  "on_ramp d \<longleftrightarrow> (\<exists>h. 36 \<le> h \<and> h \<le> 52 \<and> g_analog_input_1_value d = half h)"

lemma initial_device_ok: "sensor_ok initial_device" "on_ramp initial_device"
  by (auto simp: sensor_ok_def on_ramp_def initial_device_def)

lemma step_up: "h + 1 < 2 ^ 53 \<Longrightarrow> float_add (half h) (float_mul direction_up ANALOG_INPUT_STEP) = half (h + 1)"
  unfolding direction_up_def ANALOG_INPUT_STEP_def half_signed_unit
  by (simp only: half_def [of 1, symmetric] half_add)

lemma step_down:
  "1 \<le> h \<Longrightarrow> h < 2 ^ 53 \<Longrightarrow> float_add (half h) (float_mul direction_down ANALOG_INPUT_STEP) = half (h - 1)"
  unfolding direction_down_def ANALOG_INPUT_STEP_def half_signed_unit by (rule half_sub)

lemma directions_differ [simp]: "direction_up \<noteq> direction_down" "direction_down \<noteq> direction_up"
  by (simp_all add: direction_up_def direction_down_def del: power_numeral)

lemma step_multi_fields [simp]:
  "g_device_instance (step_multi_state_input k d) = g_device_instance d"
  "g_device_name (step_multi_state_input k d) = g_device_name d"
  "g_sensor_fault_file (step_multi_state_input k d) = g_sensor_fault_file d"
  "simulation_started (step_multi_state_input k d) = simulation_started d"
  "simulation_last_second (step_multi_state_input k d) = simulation_last_second d"
  "g_binary_input_1_value (step_multi_state_input k d) = g_binary_input_1_value d"
  "g_analog_input_1_reliability (step_multi_state_input k d) = g_analog_input_1_reliability d"
  "g_analog_input_1_value (step_multi_state_input k d) = g_analog_input_1_value d"
  "analog_input_direction (step_multi_state_input k d) = analog_input_direction d"
  "g_firmware_revision (step_multi_state_input k d) = g_firmware_revision d"
  "g_ip_address (step_multi_state_input k d) = g_ip_address d"
  "g_ip_subnet_mask (step_multi_state_input k d) = g_ip_subnet_mask d"
  "g_ip_default_gateway (step_multi_state_input k d) = g_ip_default_gateway d"
  "g_bacnet_ip_udp_port (step_multi_state_input k d) = g_bacnet_ip_udp_port d"
  by (simp_all add: step_multi_state_input_def)

lemma toggle_fields [simp]:
  "g_device_instance (toggle_binary_input k d) = g_device_instance d"
  "g_device_name (toggle_binary_input k d) = g_device_name d"
  "g_sensor_fault_file (toggle_binary_input k d) = g_sensor_fault_file d"
  "simulation_started (toggle_binary_input k d) = simulation_started d"
  "simulation_last_second (toggle_binary_input k d) = simulation_last_second d"
  "g_multi_state_input_1_value (toggle_binary_input k d) = g_multi_state_input_1_value d"
  "g_analog_input_1_reliability (toggle_binary_input k d) = g_analog_input_1_reliability d"
  "g_analog_input_1_value (toggle_binary_input k d) = g_analog_input_1_value d"
  "analog_input_direction (toggle_binary_input k d) = analog_input_direction d"
  "g_firmware_revision (toggle_binary_input k d) = g_firmware_revision d"
  "g_ip_address (toggle_binary_input k d) = g_ip_address d"
  "g_ip_subnet_mask (toggle_binary_input k d) = g_ip_subnet_mask d"
  "g_ip_default_gateway (toggle_binary_input k d) = g_ip_default_gateway d"
  "g_bacnet_ip_udp_port (toggle_binary_input k d) = g_bacnet_ip_udp_port d"
  by (simp_all add: toggle_binary_input_def)

lemma move_fields [simp]:
  "g_device_instance (move_analog_input d) = g_device_instance d"
  "g_device_name (move_analog_input d) = g_device_name d"
  "g_sensor_fault_file (move_analog_input d) = g_sensor_fault_file d"
  "simulation_started (move_analog_input d) = simulation_started d"
  "simulation_last_second (move_analog_input d) = simulation_last_second d"
  "g_binary_input_1_value (move_analog_input d) = g_binary_input_1_value d"
  "g_multi_state_input_1_value (move_analog_input d) = g_multi_state_input_1_value d"
  "g_analog_input_1_reliability (move_analog_input d) = g_analog_input_1_reliability d"
  "g_firmware_revision (move_analog_input d) = g_firmware_revision d"
  "g_ip_address (move_analog_input d) = g_ip_address d"
  "g_ip_subnet_mask (move_analog_input d) = g_ip_subnet_mask d"
  "g_ip_default_gateway (move_analog_input d) = g_ip_default_gateway d"
  "g_bacnet_ip_udp_port (move_analog_input d) = g_bacnet_ip_udp_port d"
  by (simp_all add: move_analog_input_def Let_def)

lemma reliability_fields [simp]:
  "g_device_instance (update_reliability opens d) = g_device_instance d"
  "g_device_name (update_reliability opens d) = g_device_name d"
  "g_sensor_fault_file (update_reliability opens d) = g_sensor_fault_file d"
  "simulation_started (update_reliability opens d) = simulation_started d"
  "simulation_last_second (update_reliability opens d) = simulation_last_second d"
  "g_binary_input_1_value (update_reliability opens d) = g_binary_input_1_value d"
  "g_multi_state_input_1_value (update_reliability opens d) = g_multi_state_input_1_value d"
  "g_analog_input_1_value (update_reliability opens d) = g_analog_input_1_value d"
  "analog_input_direction (update_reliability opens d) = analog_input_direction d"
  "g_firmware_revision (update_reliability opens d) = g_firmware_revision d"
  "g_ip_address (update_reliability opens d) = g_ip_address d"
  "g_ip_subnet_mask (update_reliability opens d) = g_ip_subnet_mask d"
  "g_ip_default_gateway (update_reliability opens d) = g_ip_default_gateway d"
  "g_bacnet_ip_udp_port (update_reliability opens d) = g_bacnet_ip_udp_port d"
  by (simp_all add: update_reliability_def Let_def print_def)

lemma reliability_after: "g_analog_input_1_reliability (update_reliability opens d) =
    (if sensor_wire_broken opens d then RELIABILITY_OPEN_LOOP else RELIABILITY_NO_FAULT_DETECTED)"
  by (simp add: update_reliability_def Let_def print_def)

lemma wire_second [simp]: "sensor_wire_broken opens (d\<lparr>simulation_last_second := k\<rparr>) = sensor_wire_broken opens d"
  by (simp add: sensor_wire_broken_def)

lemma second_fields [simp]:
  "g_device_instance (sensor_second opens k d) = g_device_instance d"
  "g_device_name (sensor_second opens k d) = g_device_name d"
  "g_sensor_fault_file (sensor_second opens k d) = g_sensor_fault_file d"
  "simulation_started (sensor_second opens k d) = simulation_started d"
  "simulation_last_second (sensor_second opens k d) = k"
  "g_binary_input_1_value (sensor_second opens k d) =
     (if k mod 3 = 0 then if g_binary_input_1_value d \<noteq> 0 then 0 else 1 else g_binary_input_1_value d)"
  "g_multi_state_input_1_value (sensor_second opens k d) =
     (if k mod 4 = 0 then g_multi_state_input_1_value d mod 3 + 1 else g_multi_state_input_1_value d)"
  "g_analog_input_1_reliability (sensor_second opens k d) =
     (if sensor_wire_broken opens d then RELIABILITY_OPEN_LOOP else RELIABILITY_NO_FAULT_DETECTED)"
  by (simp_all add: sensor_second_def reliability_after) (simp_all add: toggle_binary_input_def step_multi_state_input_def)

lemma second_reading:
  "g_analog_input_1_value (sensor_second opens k d) =
     (if sensor_wire_broken opens d then g_analog_input_1_value d
      else float_add (g_analog_input_1_value d)
             (float_mul (analog_input_direction (sensor_second opens k d)) ANALOG_INPUT_STEP))"
  "analog_input_direction (sensor_second opens k d) =
     (if sensor_wire_broken opens d then analog_input_direction d
      else if float_le ANALOG_INPUT_HIGHEST (g_analog_input_1_value d) then direction_down
      else if float_le (g_analog_input_1_value d) ANALOG_INPUT_LOWEST then direction_up
      else analog_input_direction d)"
  by (simp_all add: sensor_second_def) (simp_all add: move_analog_input_def reliability_after Let_def)

lemma second_ok: "sensor_ok d \<Longrightarrow> sensor_ok (sensor_second opens k d)"
  unfolding sensor_ok_def second_fields second_reading(2) by auto

lemma second_on_ramp: "sensor_ok d \<Longrightarrow> on_ramp d \<Longrightarrow> on_ramp (sensor_second opens k d)"
proof -
  assume ok: "sensor_ok d" and "on_ramp d"
  then obtain h where h: "36 \<le> h" "h \<le> 52" "g_analog_input_1_value d = half h" by (auto simp: on_ramp_def)
  show ?thesis
  proof (cases "sensor_wire_broken opens d")
    case True
    with h show ?thesis by (auto simp: on_ramp_def second_reading)
  next
    case False
    consider "h = 52" | "h = 36" | "36 < h" "h < 52" using h by linarith
    then show ?thesis
    proof cases
      case 1
      with False h step_down [of 52] show ?thesis
        by (auto simp: on_ramp_def second_reading ANALOG_INPUT_HIGHEST_def)
    next
      case 2
      with False h step_up [of 36] show ?thesis
        by (auto simp: on_ramp_def second_reading ANALOG_INPUT_HIGHEST_def ANALOG_INPUT_LOWEST_def)
    next
      case 3
      from ok have "analog_input_direction d = direction_up \<or> analog_input_direction d = direction_down"
        by (auto simp: sensor_ok_def)
      with False h 3 step_up [of h] step_down [of h] show ?thesis
        by (auto simp: on_ramp_def second_reading ANALOG_INPUT_HIGHEST_def ANALOG_INPUT_LOWEST_def)
    qed
  qed
qed

section \<open>A tick\<close>

lemma tick_cases:
  assumes "sensor_simulation_tick s c opens d = Inr d'"
  obtains (same) "d' = d\<lparr>simulation_started := simulation_started d'\<rparr>"
    | (second) k where "d' = sensor_second opens k (d\<lparr>simulation_started := simulation_started d'\<rparr>)"
        "k \<noteq> simulation_last_second d"
proof -
  define e where "e = (if simulation_started d = None then d\<lparr>simulation_started := Some s\<rparr> else d)"
  have e: "e = d\<lparr>simulation_started := simulation_started e\<rparr>" "simulation_last_second e = simulation_last_second d"
    by (simp_all add: e_def)
  from assms obtain k where "(if k = simulation_last_second e then Inr e else Inr (sensor_second opens k e)) = (Inr d' :: sensor_device result)"
    unfolding sensor_simulation_tick_def Let_def e_def [symmetric] chain_eq_Inr by blast
  then have k: "d' = (if k = simulation_last_second e then e else sensor_second opens k e)"
    by (simp split: if_splits)
  show thesis
  proof (cases "k = simulation_last_second e")
    case True
    with k have "d' = e" by simp
    with same e(1) show thesis by metis
  next
    case False
    with k have "d' = sensor_second opens k e" by simp
    moreover from this have "simulation_started d' = simulation_started e" by simp
    ultimately show thesis using second [of k] e False by metis
  qed
qed

lemma started_irrelevant:
  "sensor_ok (d\<lparr>simulation_started := x\<rparr>) = sensor_ok d"
  "on_ramp (d\<lparr>simulation_started := x\<rparr>) = on_ramp d"
  "sensor_wire_broken opens (d\<lparr>simulation_started := x\<rparr>) = sensor_wire_broken opens d"
  by (simp_all add: sensor_ok_def on_ramp_def sensor_wire_broken_def)

lemma tick_ok: "sensor_simulation_tick s c opens d = Inr d' \<Longrightarrow> sensor_ok d \<Longrightarrow> sensor_ok d'"
  by (erule tick_cases) (metis started_irrelevant(1) second_ok)+

lemma tick_on_ramp:
  "sensor_simulation_tick s c opens d = Inr d' \<Longrightarrow> sensor_ok d \<Longrightarrow> on_ramp d \<Longrightarrow> on_ramp d'"
  by (erule tick_cases) (metis started_irrelevant second_on_ramp)+

section \<open>A healthy sensor, second by second\<close>

fun seconds :: "(pystr \<Rightarrow> bool) \<Rightarrow> nat \<Rightarrow> sensor_device \<Rightarrow> sensor_device" where
  "seconds opens 0 d = d"
| "seconds opens (Suc n) d = sensor_second opens (int (Suc n)) (seconds opens n d)"

text \<open>The reference: a triangle wave in halves of a degree, 21.5 at second 0, with a period of 32 s.\<close>

definition triangle :: "nat \<Rightarrow> nat" where
  "triangle n = (let p = (n + 7) mod 32 in if p \<le> 16 then 36 + p else 68 - p)"

definition climbing :: "nat \<Rightarrow> bool" where
  "climbing n \<longleftrightarrow> 1 \<le> (n + 7) mod 32 \<and> (n + 7) mod 32 \<le> 16"

lemma triangle_step:
  "triangle (Suc n) =
     (if triangle n = 52 then 51 else if triangle n = 36 then 37
      else if climbing n then triangle n + 1 else triangle n - 1)"
  "climbing (Suc n) \<longleftrightarrow> triangle n \<noteq> 52 \<and> (triangle n = 36 \<or> climbing n)"
  "36 \<le> triangle n" "triangle n \<le> 52"
proof -
  define p where "p = (n + 7) mod 32"
  have p: "p < 32" "(Suc n + 7) mod 32 = (if p = 31 then 0 else Suc p)"
    using mod_Suc [of "n + 7" 32] unfolding p_def by simp_all
  show "triangle (Suc n) =
     (if triangle n = 52 then 51 else if triangle n = 36 then 37
      else if climbing n then triangle n + 1 else triangle n - 1)"
    "climbing (Suc n) \<longleftrightarrow> triangle n \<noteq> 52 \<and> (triangle n = 36 \<or> climbing n)"
    "36 \<le> triangle n" "triangle n \<le> 52"
    using p(1) unfolding triangle_def climbing_def p(2) p_def [symmetric] Let_def
    by (auto split: if_splits)
qed

lemma mod_int_Suc: "int (Suc n) mod 3 = 0 \<longleftrightarrow> Suc n mod 3 = 0" "int (Suc n) mod 4 = 0 \<longleftrightarrow> Suc n mod 4 = 0"
  by presburger+

lemma count_step:
  "(if Suc n mod 3 = 0 then if int (n div 3 mod 2) \<noteq> 0 then 0 else 1 else int (n div 3 mod 2)) = int (Suc n div 3 mod 2)"
  "(if Suc n mod 4 = 0 then (int (n div 4 mod 3) + 1) mod 3 + 1 else int (n div 4 mod 3) + 1) = int (Suc n div 4 mod 3) + 1"
proof -
  have "n div 3 mod 2 < 2" "n div 4 mod 3 < 3" by simp_all
  then consider "n div 3 mod 2 = 0" | "n div 3 mod 2 = 1" by linarith
  then show "(if Suc n mod 3 = 0 then if int (n div 3 mod 2) \<noteq> 0 then 0 else 1 else int (n div 3 mod 2)) = int (Suc n div 3 mod 2)"
    by cases (simp_all add: div_Suc mod_Suc)
  from \<open>n div 4 mod 3 < 3\<close> consider "n div 4 mod 3 = 0" | "n div 4 mod 3 = 1" | "n div 4 mod 3 = 2" by linarith
  then show "(if Suc n mod 4 = 0 then (int (n div 4 mod 3) + 1) mod 3 + 1 else int (n div 4 mod 3) + 1) = int (Suc n div 4 mod 3) + 1"
    by cases (simp_all add: div_Suc mod_Suc)
qed

text \<open>A device whose simulation has not stepped yet, whatever its configuration.\<close>

definition unstepped :: "sensor_device \<Rightarrow> bool" where
  "unstepped d \<longleftrightarrow>
     g_analog_input_1_value d = half 43 \<and> analog_input_direction d = direction_up \<and>
     g_binary_input_1_value d = 0 \<and> g_multi_state_input_1_value d = 1 \<and>
     g_analog_input_1_reliability d = RELIABILITY_NO_FAULT_DETECTED"

lemma initial_unstepped: "unstepped initial_device"
  by (simp add: unstepped_def initial_device_def)

lemma seconds_ramp:
  assumes "\<forall>path. \<not> opens path" "unstepped d"
  shows "g_analog_input_1_value (seconds opens n d) = half (triangle n)
    \<and> analog_input_direction (seconds opens n d) = (if climbing n then direction_up else direction_down)"
proof (induction n)
  case 0
  from assms(2) show ?case by (simp add: unstepped_def triangle_def climbing_def)
next
  case (Suc n)
  have healthy: "\<not> sensor_wire_broken opens e" for e by (simp add: sensor_wire_broken_def assms(1))
  have direction: "analog_input_direction (seconds opens (Suc n) d) =
      (if climbing (Suc n) then direction_up else direction_down)"
    using Suc triangle_step [of n]
    by (simp add: second_reading healthy ANALOG_INPUT_HIGHEST_def ANALOG_INPUT_LOWEST_def)
  with Suc triangle_step [of n] step_up [of "triangle n"] step_down [of "triangle n"] show ?case
    by (auto simp: second_reading(1) healthy)
qed

lemma seconds_counters:
  assumes "unstepped d"
  shows "g_binary_input_1_value (seconds opens n d) = int (n div 3 mod 2)
    \<and> g_multi_state_input_1_value (seconds opens n d) = int (n div 4 mod 3) + 1"
proof (induction n)
  case 0
  from assms show ?case by (simp add: unstepped_def)
next
  case (Suc n)
  then show ?case by (simp only: seconds.simps second_fields mod_int_Suc count_step simp_thms)
qed

text \<open>
  C14. With a healthy wire and a tick in every second, the three sensors follow closed forms from the
  first second on: the reading is the triangle wave between 18.0 and 26.0 in steps of 0.5, Binary
  Input 1 has toggled once per three seconds, Multi-State Input 1 has stepped once per four, and
  Reliability is NO_FAULT_DETECTED.
\<close>

theorem simulation_closed_form:
  assumes "\<forall>path. \<not> opens path" "unstepped d" "0 < n"
  shows "g_analog_input_1_value (seconds opens n d) = half (triangle n) \<and>
    g_binary_input_1_value (seconds opens n d) = int (n div 3 mod 2) \<and>
    g_multi_state_input_1_value (seconds opens n d) = int (n div 4 mod 3) + 1 \<and>
    g_analog_input_1_reliability (seconds opens n d) = RELIABILITY_NO_FAULT_DETECTED"
proof -
  obtain m where "n = Suc m" using assms(3) by (cases n) auto
  then have "g_analog_input_1_reliability (seconds opens n d) = RELIABILITY_NO_FAULT_DETECTED"
    by (simp add: sensor_wire_broken_def assms(1))
  with seconds_ramp [OF assms(1,2)] seconds_counters [OF assms(2)] show ?thesis by blast
qed

lemma simulation_closed_form_witness:
  "g_analog_input_1_value (seconds (\<lambda>_. False) 9 initial_device) = half 52 \<and>
   g_binary_input_1_value (seconds (\<lambda>_. False) 9 initial_device) = 1 \<and>
   g_multi_state_input_1_value (seconds (\<lambda>_. False) 9 initial_device) = 3 \<and>
   g_analog_input_1_reliability (seconds (\<lambda>_. False) 9 initial_device) = RELIABILITY_NO_FAULT_DETECTED"
  using simulation_closed_form [of "\<lambda>_. False" initial_device 9] initial_unstepped
  by (simp add: triangle_def)

text \<open>
  C38. A tick that sees a new second sets Reliability from the wire, and with a broken wire leaves the
  reading and the direction of the ramp as they were. A tick in a second already seen changes no
  sensor value.
\<close>

theorem tick_follows_wire:
  assumes "sensor_simulation_tick s c opens d = Inr d'"
  shows "if simulation_last_second d' = simulation_last_second d
    then d' = d\<lparr>simulation_started := simulation_started d'\<rparr>
    else g_analog_input_1_reliability d' =
           (if sensor_wire_broken opens d then RELIABILITY_OPEN_LOOP else RELIABILITY_NO_FAULT_DETECTED)
         \<and> (sensor_wire_broken opens d \<longrightarrow> g_analog_input_1_value d' = g_analog_input_1_value d
              \<and> analog_input_direction d' = analog_input_direction d)"
  using assms
proof (cases rule: tick_cases)
  case same
  then have "simulation_last_second d' = simulation_last_second d" by (metis sensor_device.select_convs(14) sensor_device.surjective sensor_device.update_convs(13))
  with same show ?thesis by simp
next
  case (second k)
  let ?e = "d\<lparr>simulation_started := simulation_started d'\<rparr>"
  have "simulation_last_second d' = k" by (subst second(1)) simp
  moreover have "g_analog_input_1_reliability d' =
      (if sensor_wire_broken opens d then RELIABILITY_OPEN_LOOP else RELIABILITY_NO_FAULT_DETECTED)"
    by (subst second(1)) (simp add: started_irrelevant)
  moreover have "sensor_wire_broken opens d \<Longrightarrow> g_analog_input_1_value d' = g_analog_input_1_value d
      \<and> analog_input_direction d' = analog_input_direction d"
    by (subst (1 2) second(1)) (simp add: second_reading started_irrelevant)
  ultimately show ?thesis using second(2) by simp
qed

text \<open>A tick one second after the first, at clock readings that are halves of a second.\<close>

lemma tick_at:
  assumes "simulation_started d = Some (half g)" "g \<le> h" "h < 2 ^ 53" "int ((h - g) div 2) \<noteq> simulation_last_second d"
  shows "sensor_simulation_tick s (half h) opens d = Inr (sensor_second opens (int ((h - g) div 2)) d)"
  using assms by (simp add: sensor_simulation_tick_def half_difference half_trunc)

lemma tick_follows_wire_witness:
  "\<exists>d'. sensor_simulation_tick (half 0) (half 203) (\<lambda>_. True)
      (initial_device\<lparr>g_sensor_fault_file := lit ''fault'', simulation_started := Some (half 200)\<rparr>) = Inr d'
    \<and> simulation_last_second d' = 1 \<and> g_analog_input_1_reliability d' = RELIABILITY_OPEN_LOOP
    \<and> g_analog_input_1_value d' = half 43"
proof -
  let ?d = "initial_device\<lparr>g_sensor_fault_file := lit ''fault'', simulation_started := Some (half 200)\<rparr>"
  let ?e = "sensor_second (\<lambda>_. True) 1 ?d"
  have t: "sensor_simulation_tick (half 0) (half 203) (\<lambda>_. True) ?d = Inr ?e"
    using tick_at [of ?d 200 203 "half 0" "\<lambda>_. True"] by (simp add: initial_device_def)
  have "simulation_last_second ?e = 1" "simulation_last_second ?d = 0" "sensor_wire_broken (\<lambda>_. True) ?d"
    "g_analog_input_1_value ?d = half 43"
    by (simp_all add: initial_device_def sensor_wire_broken_def lit_def)
  with t tick_follows_wire [OF t] show ?thesis by simp
qed

end
