(* ===== verification/Property_Callbacks.thy ===== *)
theory Property_Callbacks
  imports Sensor
begin

text \<open>
  Section 3 of \<^verbatim>\<open>main.py\<close>: the six callbacks the stack calls when a client reads a property. A
  callback returns True and fills its out-parameter, returns False and leaves the error code
  alone, or returns False and names an error.
\<close>

datatype 'v reply =
    Answer 'v
  | Decline
  | Decline_error int

definition get_property_real :: "sensor_device \<Rightarrow> int \<Rightarrow> int \<Rightarrow> int \<Rightarrow> int \<Rightarrow> pyfloat reply" where
  "get_property_real d device_instance object_type object_instance property_identifier =
     (if device_instance = g_device_instance d \<and> object_type = OBJECT_TYPE_ANALOG_INPUT
         \<and> object_instance = ANALOG_INPUT_INSTANCE \<and> property_identifier = PROPERTY_IDENTIFIER_PRESENT_VALUE
      then Answer (g_analog_input_1_value d) else Decline)"

definition get_property_enumerated :: "sensor_device \<Rightarrow> int \<Rightarrow> int \<Rightarrow> int \<Rightarrow> int \<Rightarrow> int reply" where
  "get_property_enumerated d device_instance object_type object_instance property_identifier =
     (if device_instance \<noteq> g_device_instance d then Decline
      else if object_type = OBJECT_TYPE_BINARY_INPUT \<and> object_instance = BINARY_INPUT_INSTANCE
         \<and> property_identifier = PROPERTY_IDENTIFIER_PRESENT_VALUE
      then Answer (g_binary_input_1_value d)
      else if object_type = OBJECT_TYPE_BINARY_INPUT \<and> object_instance = BINARY_INPUT_INSTANCE
         \<and> property_identifier = PROPERTY_IDENTIFIER_POLARITY
      then Answer POLARITY_NORMAL
      else if object_type = OBJECT_TYPE_ANALOG_INPUT \<and> object_instance = ANALOG_INPUT_INSTANCE
         \<and> property_identifier = PROPERTY_IDENTIFIER_UNITS
      then Answer ENGINEERING_UNITS_DEGREES_CELSIUS
      else if object_type = OBJECT_TYPE_ANALOG_INPUT \<and> object_instance = ANALOG_INPUT_INSTANCE
         \<and> property_identifier = PROPERTY_IDENTIFIER_RELIABILITY
      then Answer (g_analog_input_1_reliability d)
      else if object_type = OBJECT_TYPE_NETWORK_PORT \<and> object_instance = NETWORK_PORT_INSTANCE
         \<and> property_identifier = PROPERTY_IDENTIFIER_BACNET_IP_MODE
      then Answer BACNET_IP_MODE_NORMAL
      else Decline)"

definition get_property_unsigned_integer ::
  "sensor_device \<Rightarrow> int \<Rightarrow> int \<Rightarrow> int \<Rightarrow> int \<Rightarrow> bool \<Rightarrow> int \<Rightarrow> int reply" where
  "get_property_unsigned_integer d device_instance object_type object_instance property_identifier
       use_array_index property_array_index =
     (if device_instance \<noteq> g_device_instance d then Decline
      else if object_type = OBJECT_TYPE_MULTI_STATE_INPUT \<and> object_instance = MULTI_STATE_INPUT_INSTANCE
         \<and> property_identifier = PROPERTY_IDENTIFIER_PRESENT_VALUE
      then Answer (g_multi_state_input_1_value d)
      else if object_type = OBJECT_TYPE_MULTI_STATE_INPUT \<and> object_instance = MULTI_STATE_INPUT_INSTANCE
         \<and> property_identifier = PROPERTY_IDENTIFIER_NUMBER_OF_STATES
      then Answer MULTI_STATE_INPUT_NUMBER_OF_STATES
      else if object_type = OBJECT_TYPE_MULTI_STATE_INPUT \<and> object_instance = MULTI_STATE_INPUT_INSTANCE
         \<and> property_identifier = PROPERTY_IDENTIFIER_STATE_TEXT \<and> use_array_index \<and> property_array_index = 0
      then Answer MULTI_STATE_INPUT_NUMBER_OF_STATES
      else if object_type = OBJECT_TYPE_DEVICE \<and> object_instance = g_device_instance d
         \<and> property_identifier = PROPERTY_IDENTIFIER_VENDOR_IDENTIFIER
      then Answer VENDOR_IDENTIFIER
      else if object_type = OBJECT_TYPE_NETWORK_PORT \<and> object_instance = NETWORK_PORT_INSTANCE
         \<and> property_identifier = PROPERTY_IDENTIFIER_APDU_LENGTH
      then Answer MAX_APDU_LENGTH
      else if object_type = OBJECT_TYPE_NETWORK_PORT \<and> object_instance = NETWORK_PORT_INSTANCE
         \<and> property_identifier = PROPERTY_IDENTIFIER_REFERENCE_PORT
      then Answer NETWORK_PORT_REFERENCE_PORT_NONE
      else if object_type = OBJECT_TYPE_NETWORK_PORT \<and> object_instance = NETWORK_PORT_INSTANCE
         \<and> property_identifier = PROPERTY_IDENTIFIER_BACNET_IP_UDP_PORT
      then Answer (g_bacnet_ip_udp_port d)
      else Decline)"

definition get_property_bool :: "sensor_device \<Rightarrow> int \<Rightarrow> int \<Rightarrow> int \<Rightarrow> int \<Rightarrow> bool reply" where
  "get_property_bool d device_instance object_type object_instance property_identifier =
     (if device_instance \<noteq> g_device_instance d then Decline
      else if property_identifier = PROPERTY_IDENTIFIER_OUT_OF_SERVICE
         \<and> object_type \<in> {OBJECT_TYPE_ANALOG_INPUT, OBJECT_TYPE_BINARY_INPUT,
                            OBJECT_TYPE_MULTI_STATE_INPUT, OBJECT_TYPE_NETWORK_PORT}
      then Answer False
      else Decline)"

text \<open>
  The loop \<^verbatim>\<open>value[i] = source[i]\<close> for \<open>i\<close> in 0..3: IndexError when the source is shorter, and an
  octet keeps the low eight bits of what is stored into it.
\<close>

definition get_property_octet_string ::
  "sensor_device \<Rightarrow> int \<Rightarrow> int \<Rightarrow> int \<Rightarrow> int \<Rightarrow> nat \<Rightarrow> octets reply result" where
  "get_property_octet_string d device_instance object_type object_instance property_identifier
       max_element_count =
     (if device_instance \<noteq> g_device_instance d \<or> object_type \<noteq> OBJECT_TYPE_NETWORK_PORT
         \<or> object_instance \<noteq> NETWORK_PORT_INSTANCE \<or> max_element_count < 4
      then Inr Decline
      else let source =
             (if property_identifier = PROPERTY_IDENTIFIER_IP_ADDRESS then Some (g_ip_address d)
              else if property_identifier = PROPERTY_IDENTIFIER_IP_SUBNET_MASK then Some (g_ip_subnet_mask d)
              else if property_identifier = PROPERTY_IDENTIFIER_IP_DEFAULT_GATEWAY
              then Some (g_ip_default_gateway d)
              else None)
           in case source of
                None \<Rightarrow> Inr Decline
              | Some source \<Rightarrow>
                  if length source < 4 then Inl IndexError
                  else Inr (Answer (map (\<lambda>i. oct (source ! i)) [0 ..< 4])))"

text \<open>The element count is the length of the octets written; the encoding written is always UTF-8 (0).\<close>

definition return_character_string :: "pystr \<Rightarrow> nat \<Rightarrow> octets reply result" where
  "return_character_string text max_element_count = chain (utf8_encode text) (\<lambda>encoded.
     Inr (Answer (if length encoded > max_element_count then take max_element_count encoded else encoded)))"

definition state_text :: "pystr list" where
  "state_text = [lit ''On'', lit ''Off'', lit ''Auto'']"

definition object_name :: "sensor_device \<Rightarrow> int \<Rightarrow> int \<Rightarrow> pystr option" where
  "object_name d object_type object_instance =
     (if object_type = OBJECT_TYPE_DEVICE \<and> object_instance = g_device_instance d then Some (g_device_name d)
      else if object_type = OBJECT_TYPE_ANALOG_INPUT \<and> object_instance = ANALOG_INPUT_INSTANCE
      then Some (lit ''Bronze'')
      else if object_type = OBJECT_TYPE_BINARY_INPUT \<and> object_instance = BINARY_INPUT_INSTANCE
      then Some (lit ''Emerald'')
      else if object_type = OBJECT_TYPE_MULTI_STATE_INPUT \<and> object_instance = MULTI_STATE_INPUT_INSTANCE
      then Some (lit ''Hot Pink'')
      else if object_type = OBJECT_TYPE_NETWORK_PORT \<and> object_instance = NETWORK_PORT_INSTANCE
      then Some (lit ''Vermilion'')
      else None)"

definition device_strings :: "sensor_device \<Rightarrow> (int \<times> pystr) list" where
  "device_strings d =
     [(PROPERTY_IDENTIFIER_DESCRIPTION, DEVICE_DESCRIPTION),
      (PROPERTY_IDENTIFIER_VENDOR_NAME, VENDOR_NAME),
      (PROPERTY_IDENTIFIER_MODEL_NAME, MODEL_NAME),
      (PROPERTY_IDENTIFIER_FIRMWARE_REVISION, g_firmware_revision d),
      (PROPERTY_IDENTIFIER_APPLICATION_SOFTWARE_VERSION, APP_VERSION)]"

definition get_property_character_string ::
  "sensor_device \<Rightarrow> int \<Rightarrow> int \<Rightarrow> int \<Rightarrow> int \<Rightarrow> nat \<Rightarrow> bool \<Rightarrow> int \<Rightarrow> octets reply result" where
  "get_property_character_string d device_instance object_type object_instance property_identifier
       max_element_count use_array_index property_array_index =
     (if device_instance \<noteq> g_device_instance d then Inr Decline
      else if object_type = OBJECT_TYPE_MULTI_STATE_INPUT \<and> object_instance = MULTI_STATE_INPUT_INSTANCE
         \<and> property_identifier = PROPERTY_IDENTIFIER_STATE_TEXT \<and> use_array_index
      then (if 1 \<le> property_array_index \<and> property_array_index \<le> MULTI_STATE_INPUT_NUMBER_OF_STATES
            then return_character_string (state_text ! nat (property_array_index - 1)) max_element_count
            else Inr (Decline_error ERROR_CODE_INVALID_ARRAY_INDEX))
      else if property_identifier = PROPERTY_IDENTIFIER_OBJECT_NAME
         \<and> object_name d object_type object_instance \<noteq> None
      then return_character_string (the (object_name d object_type object_instance)) max_element_count
      else if object_type = OBJECT_TYPE_DEVICE \<and> object_instance = g_device_instance d
      then (case map_of (device_strings d) property_identifier of
              Some text \<Rightarrow> return_character_string text max_element_count
            | None \<Rightarrow> Inr Decline)
      else Inr Decline)"

section \<open>One answer per property\<close>

definition answers :: "'v reply \<Rightarrow> bool" where
  "answers r = (case r of Answer _ \<Rightarrow> True | _ \<Rightarrow> False)"

definition answers_ok :: "'v reply result \<Rightarrow> bool" where
  "answers_ok r = (case r of Inr x \<Rightarrow> answers x | Inl _ \<Rightarrow> False)"

lemma answers_simps [simp]:
  "answers (Answer v)" "\<not> answers Decline" "\<not> answers (Decline_error e)"
  "answers_ok (Inr r) = answers r" "\<not> answers_ok (Inl x)"
  by (simp_all add: answers_def answers_ok_def)

lemmas callback_defs = get_property_real_def get_property_enumerated_def get_property_unsigned_integer_def
  get_property_bool_def get_property_octet_string_def get_property_character_string_def

text \<open>How many of the six callbacks answer a read.\<close>

definition answer_count :: "sensor_device \<Rightarrow> int \<Rightarrow> int \<Rightarrow> int \<Rightarrow> int \<Rightarrow> nat \<Rightarrow> bool \<Rightarrow> int \<Rightarrow> nat" where
  "answer_count d dev t i p max_count use_index idx =
     length (filter id
       [answers (get_property_real d dev t i p), answers (get_property_enumerated d dev t i p),
        answers (get_property_unsigned_integer d dev t i p use_index idx),
        answers (get_property_bool d dev t i p),
        answers_ok (get_property_octet_string d dev t i p max_count),
        answers_ok (get_property_character_string d dev t i p max_count use_index idx)])"

lemma answered_identifiers:
  "answers (get_property_real d dev t i p) \<Longrightarrow> t = 0 \<and> p = 85"
  "answers (get_property_enumerated d dev t i p) \<Longrightarrow>
     (t, p) \<in> {(3, 85), (3, 84), (0, 117), (0, 103), (56, 408)}"
  "answers (get_property_unsigned_integer d dev t i p use_index idx) \<Longrightarrow>
     (t, p) \<in> {(13, 85), (13, 74), (8, 120), (56, 399), (56, 483), (56, 412)} \<or> t = 13 \<and> p = 110 \<and> use_index \<and> idx = 0"
  "answers (get_property_bool d dev t i p) \<Longrightarrow> p = 81"
  "answers_ok (get_property_octet_string d dev t i p max_count) \<Longrightarrow> t = 56 \<and> p \<in> {400, 411, 401}"
  "answers_ok (get_property_character_string d dev t i p max_count use_index idx) \<Longrightarrow>
     p \<in> {77, 28, 121, 70, 44, 12} \<or> t = 13 \<and> p = 110 \<and> use_index \<and> 1 \<le> idx"
  by (auto simp: callback_defs Let_def device_strings_def split: if_splits option.splits)

text \<open>
  No property is served by two callbacks: whatever the device, object, property and array index of
  a read, at most one of the six Get callbacks answers it.
\<close>

lemma at_most_one_answer: "answer_count d dev t i p max_count use_index idx \<le> 1"
proof -
  note ids = answered_identifiers [of d dev t i p]
  show ?thesis
    using ids(1,2,4) ids(3) [of use_index idx] ids(5) [of max_count] ids(6) [of max_count use_index idx]
    by (auto simp: answer_count_def)
qed

text \<open>
  A read for a device instance other than this one is declined by every callback without naming an
  error.
\<close>

lemma other_device_declined:
  assumes "device \<noteq> g_device_instance d"
  shows "get_property_real d device t i p = Decline \<and> get_property_enumerated d device t i p = Decline \<and>
    get_property_unsigned_integer d device t i p use_index idx = Decline \<and>
    get_property_bool d device t i p = Decline \<and>
    get_property_octet_string d device t i p max_count = Inr Decline \<and>
    get_property_character_string d device t i p max_count use_index idx = Inr Decline"
  using assms by (simp add: callback_defs)

lemma other_device_declined_witness:
  "get_property_real initial_device 1 0 1 85 = Decline \<and> get_property_enumerated initial_device 1 0 1 85 = Decline \<and>
    get_property_unsigned_integer initial_device 1 0 1 85 False 0 = Decline \<and>
    get_property_bool initial_device 1 0 1 85 = Decline \<and>
    get_property_octet_string initial_device 1 0 1 85 256 = Inr Decline \<and>
    get_property_character_string initial_device 1 0 1 85 256 False 0 = Inr Decline"
  by (rule other_device_declined) (simp add: initial_device_def)

lemma string_never_errs: "return_character_string s n \<noteq> Inr (Decline_error e)"
  by (auto simp: return_character_string_def result_simps)

text \<open>
  A callback names an error in exactly one case: a read of State_Text of Multi-State Input 1 with an
  array index outside 1..3 that the character-string callback gets, with invalid-array-index (42).
\<close>

lemma only_state_text_errors:
  "(get_property_character_string d device t i p max_count use_index idx = Inr (Decline_error e)
      \<longleftrightarrow> device = g_device_instance d \<and> t = OBJECT_TYPE_MULTI_STATE_INPUT \<and> i = MULTI_STATE_INPUT_INSTANCE \<and>
          p = PROPERTY_IDENTIFIER_STATE_TEXT \<and> use_index \<and> (idx < 1 \<or> 3 < idx) \<and> e = 42)
   \<and> get_property_real d device t i p \<noteq> Decline_error e
   \<and> get_property_enumerated d device t i p \<noteq> Decline_error e
   \<and> get_property_unsigned_integer d device t i p use_index idx \<noteq> Decline_error e
   \<and> get_property_bool d device t i p \<noteq> Decline_error e
   \<and> get_property_octet_string d device t i p max_count \<noteq> Inr (Decline_error e)"
  by (auto simp: callback_defs Let_def string_never_errs device_strings_def split: option.splits)

lemma name_literals: "lit ''Bronze'' \<noteq> lit ''Emerald''" "lit ''Bronze'' \<noteq> lit ''Hot Pink''"
  "lit ''Bronze'' \<noteq> lit ''Vermilion''" "lit ''Emerald'' \<noteq> lit ''Hot Pink''"
  "lit ''Emerald'' \<noteq> lit ''Vermilion''" "lit ''Hot Pink'' \<noteq> lit ''Vermilion''"
  by (simp_all add: lit_def)

text \<open>
  The Object_Names of the five objects differ, unless the configured device name is one of the four
  colour names.
\<close>

lemma object_names_distinct:
  assumes "object_name d t i = Some n" "object_name d t' i' = Some n"
    "g_device_name d \<notin> {lit ''Bronze'', lit ''Emerald'', lit ''Hot Pink'', lit ''Vermilion''}"
  shows "t = t' \<and> i = i'"
  using assms name_literals name_literals [symmetric]
  by (auto simp: object_name_def split: if_splits)

lemma object_names_distinct_witness:
  "object_name initial_device 0 1 = Some (lit ''Bronze'')
   \<and> object_name initial_device 3 1 \<noteq> Some (lit ''Bronze'')"
proof -
  have b: "object_name initial_device 0 1 = Some (lit ''Bronze'')" by (simp add: object_name_def)
  have n: "g_device_name initial_device \<notin> {lit ''Bronze'', lit ''Emerald'', lit ''Hot Pink'', lit ''Vermilion''}"
    by (simp add: initial_device_def DEVICE_NAME_def lit_def)
  from b object_names_distinct [OF b _ n, of 3 1] show ?thesis by auto
qed

end
