(* ===== verification/Example_Main.thy ===== *)
theory Example_Main
  imports Property_Callbacks Example_Helper
begin

text \<open>
  Section 4 of \<^verbatim>\<open>main.py\<close> with the banner and help of \<^verbatim>\<open>common/cas_example_helper.py\<close>: start-up as a
  sequence of calls into the stack, each of which can refuse, and one iteration of the tick loop.
  The stack library is not part of the repository: its answers are inputs.
\<close>

section \<open>Banner and help\<close>

definition COMMON_VERSION :: pystr where "COMMON_VERSION = lit ''1.2.0''"

definition dotted_version :: "int \<times> int \<times> int \<times> int \<Rightarrow> pystr" where
  "dotted_version v = (case v of (major, minor, patch, build) \<Rightarrow>
     int_text major @ lit ''.'' @ int_text minor @ lit ''.'' @ int_text patch @ lit ''.'' @ int_text build)"

text \<open>The version of a bound stack, None while it is not loaded.\<close>

definition print_version :: "(int \<times> int \<times> int \<times> int) option \<Rightarrow> pystr \<Rightarrow> pystr \<Rightarrow> pystr list" where
  "print_version stack_version app_name app_version =
     [app_name @ lit '' v'' @ app_version,
      (case stack_version of
         Some v \<Rightarrow> lit ''CAS BACnet Stack version: '' @ dotted_version v
       | None \<Rightarrow> lit ''CAS BACnet Stack version: not loaded (the library was not found)''),
      lit ''Common helper (common/) version: '' @ COMMON_VERSION]"

definition print_interactive_commands :: "pystr list" where
  "print_interactive_commands =
     [lit ''Commands:'',
      lit ''  h     - show this help (version + commands)'',
      lit ''  q     - quit'',
      lit ''  up    - increase Analog Input 1 by 1.1'',
      lit ''  down  - decrease Analog Input 1 by 1.1'']"

definition print_help :: "(int \<times> int \<times> int \<times> int) option \<Rightarrow> pystr \<Rightarrow> pystr \<Rightarrow> pystr list" where
  "print_help stack_version app_name app_version =
     print_version stack_version app_name app_version @ print_interactive_commands"

definition help_lines :: "bool \<Rightarrow> pystr list" where
  "help_lines show_device_name_cli_option =
     [[], lit ''Usage: python main.py [options]'', [], lit ''Options:'',
      lit ''  --help, -h        Show this help and exit.'',
      lit ''  --version         Show version information and exit.'',
      lit ''  --deviceID <n>    BACnet device instance (0..4194302). Each example in'',
      lit ''                    this series has its own default so several can run on'',
      lit ''                    one subnet at once.'']
     @ (if show_device_name_cli_option then
          [lit ''  --deviceName <text>'',
           lit ''                    The Device object's Object_Name (1..'' @ decimal_text MAX_DEVICE_NAME_LENGTH
             @ lit '' bytes, no'',
           lit ''                    control characters). It must be unique across the BACnet'',
           lit ''                    internetwork, so give every unit its own. Default: this'',
           lit ''                    example's own name.'']
        else [])
     @ [lit ''  --port <n>        BACnet/IP UDP port (1..65535). Default 47808 (0xBAC0).'',
        lit ''                    Use a non-default port to avoid clashing with another'',
        lit ''                    BACnet device already on 47808 on this host.'', []]
     @ print_interactive_commands"

fun help_and_version_from ::
  "(int \<times> int \<times> int \<times> int) option \<Rightarrow> pystr list \<Rightarrow> pystr \<Rightarrow> pystr \<Rightarrow> bool \<Rightarrow> bool \<times> pystr list" where
  "help_and_version_from stack_version [] app_name app_version show = (False, [])"
| "help_and_version_from stack_version (argument # rest) app_name app_version show =
     (if argument \<in> {lit ''--help'', lit ''-h'', lit ''/?''}
      then (True, print_version stack_version app_name app_version @ help_lines show)
      else if argument = lit ''--version'' then (True, print_version stack_version app_name app_version)
      else help_and_version_from stack_version rest app_name app_version show)"

definition handle_help_and_version_args ::
  "(int \<times> int \<times> int \<times> int) option \<Rightarrow> pystr list \<Rightarrow> pystr \<Rightarrow> pystr \<Rightarrow> bool \<Rightarrow> bool \<times> pystr list" where
  "handle_help_and_version_args stack_version argv app_name app_version show =
     help_and_version_from stack_version (drop 1 argv) app_name app_version show"

lemma help_and_version_iff:
  "fst (help_and_version_from v args n a s) \<longleftrightarrow>
     (\<exists>x \<in> set args. x \<in> {lit ''--help'', lit ''-h'', lit ''/?'', lit ''--version''})"
  by (induction args) auto

section \<open>Start-up\<close>

datatype stack_call =
    AddDevice int
  | SetServiceEnabled int int bool
  | AddObject int int int
  | AddNetworkPortObject int int int int int int int
  | SetPropertyEnabled int int int int bool

text \<open>Each step: the calls joined by \<^verbatim>\<open>and\<close>, and what is printed when one of them returns False.\<close>

definition device_setup :: "int \<Rightarrow> (stack_call list \<times> pystr) list" where
  "device_setup device =
     [([AddDevice device], lit ''Error: Failed to add the Device '' @ int_text device @ lit ''.''),
      ([SetServiceEnabled device Example_Constants.SERVICE_READ_PROPERTY True],
       lit ''Error: Failed to enable the ReadProperty service.''),
      ([SetServiceEnabled device Example_Constants.SERVICE_WHO_IS True, SetServiceEnabled device Example_Constants.SERVICE_I_AM True,
        SetServiceEnabled device SERVICE_WHO_HAS True, SetServiceEnabled device SERVICE_I_HAVE True],
       lit ''Error: Failed to enable the discovery services (Who-Is/I-Am, Who-Has/I-Have).''),
      ([AddObject device OBJECT_TYPE_ANALOG_INPUT ANALOG_INPUT_INSTANCE],
       lit ''Error: Failed to add Analog Input '' @ int_text ANALOG_INPUT_INSTANCE @ lit '' (Bronze).''),
      ([AddObject device OBJECT_TYPE_BINARY_INPUT BINARY_INPUT_INSTANCE],
       lit ''Error: Failed to add Binary Input '' @ int_text BINARY_INPUT_INSTANCE @ lit '' (Emerald).''),
      ([AddObject device OBJECT_TYPE_MULTI_STATE_INPUT MULTI_STATE_INPUT_INSTANCE],
       lit ''Error: Failed to add Multi-State Input '' @ int_text MULTI_STATE_INPUT_INSTANCE @ lit '' (Hot Pink).''),
      ([AddNetworkPortObject device NETWORK_PORT_INSTANCE NETWORK_PORT_NETWORK_TYPE_IPV4
          NETWORK_PORT_PROTOCOL_LEVEL_BACNET_APPLICATION 0 NETWORK_NUMBER_QUALITY_UNKNOWN
          NETWORK_PORT_REFERENCE_PORT_NONE],
       lit ''Error: Failed to add Network Port 1 (Vermilion).''),
      ([SetPropertyEnabled device OBJECT_TYPE_DEVICE device PROPERTY_IDENTIFIER_DESCRIPTION True],
       lit ''Error: Failed to enable Description on the Device object.''),
      ([SetPropertyEnabled device OBJECT_TYPE_MULTI_STATE_INPUT MULTI_STATE_INPUT_INSTANCE
          PROPERTY_IDENTIFIER_STATE_TEXT True],
       lit ''Error: Failed to enable State_Text on Multi-State Input 1 (Hot Pink).''),
      ([SetPropertyEnabled device OBJECT_TYPE_ANALOG_INPUT ANALOG_INPUT_INSTANCE
          PROPERTY_IDENTIFIER_RELIABILITY True],
       lit ''Error: Failed to enable Reliability on Analog Input 1 (Bronze).'')]"

text \<open>\<^verbatim>\<open>a and b and c\<close>: the calls made, up to the first that returns False, and whether all returned True.\<close>

fun call_all :: "(stack_call \<Rightarrow> bool) \<Rightarrow> stack_call list \<Rightarrow> stack_call list \<times> bool" where
  "call_all stack [] = ([], True)"
| "call_all stack (c # cs) =
     (if stack c then (case call_all stack cs of (made, ok) \<Rightarrow> (c # made, ok)) else ([c], False))"

text \<open>The calls made, and the error line of the step that failed.\<close>

fun run_setup ::
  "(stack_call \<Rightarrow> bool) \<Rightarrow> (stack_call list \<times> pystr) list \<Rightarrow> stack_call list \<times> pystr option" where
  "run_setup stack [] = ([], None)"
| "run_setup stack ((calls, error) # rest) =
     (case call_all stack calls of (made, ok) \<Rightarrow>
        if ok then (case run_setup stack rest of (further, failed) \<Rightarrow> (made @ further, failed))
        else (made, Some error))"

text \<open>What start-up reads from outside: the stack, the operating system and the environment.\<close>

record environment =
  env_stack_version :: "(int \<times> int \<times> int \<times> int) option"
  env_missing :: "pystr list"
  env_bind :: "pystr + unit"
  env_probe :: "pystr option"
  env_stack :: "stack_call \<Rightarrow> bool"
  env_fault_file :: pystr
  env_i_am_sent :: bool

text \<open>
  \<open>Exited code\<close> after the lines printed, or \<open>Ready\<close> with the socket, the device (its console holds
  the lines) and the calls made. \<open>env_stack_version\<close> is None exactly when the library could not be
  loaded; then \<open>env_missing\<close> is the message for stderr.
\<close>

datatype startup =
    Exited int "pystr list"
  | Ready simple_udp sensor_device "stack_call list"

definition print_all :: "pystr list \<Rightarrow> sensor_device \<Rightarrow> sensor_device" where
  "print_all lines d = d\<lparr>console := console d @ lines\<rparr>"

text \<open>The globals once the command line, the addresses and the environment are read.\<close>

definition ready_device ::
  "environment \<Rightarrow> int \<times> int \<times> int \<times> int \<Rightarrow> int \<Rightarrow> int \<Rightarrow> pystr \<Rightarrow> int list \<Rightarrow> int list \<Rightarrow> pystr list \<Rightarrow> sensor_device" where
  "ready_device env version port device name ip_address ip_subnet_mask lines =
     print_all (lines
         @ (if env_i_am_sent env then [] else [lit ''Warning: the start-up I-Am was not sent.''])
         @ [lit ''FYI: Device '' @ int_text device @ lit '' (\"'' @ name @ lit ''\") ready. Vendor ID ''
            @ int_text VENDOR_IDENTIFIER @ lit ''. Press 'h' for help.''])
       (initial_device\<lparr>g_firmware_revision := dotted_version version,
          g_device_instance := device, g_device_name := name, g_bacnet_ip_udp_port := port,
          g_ip_address := ip_address, g_ip_subnet_mask := ip_subnet_mask,
          g_sensor_fault_file := env_fault_file env\<rparr>)"

text \<open>From the bound socket on: the addresses the Network Port reports, then the calls into the stack.\<close>

definition create_device ::
  "environment \<Rightarrow> int \<times> int \<times> int \<times> int \<Rightarrow> int \<Rightarrow> int \<Rightarrow> pystr \<Rightarrow> simple_udp \<Rightarrow> pystr list \<Rightarrow> startup result" where
  "create_device env version port device name udp lines =
     chain (get_local_ipv4 (env_probe env)) (\<lambda>local.
     chain (dotted_octets (address local)) (\<lambda>ip_address.
     chain (dotted_octets (netmask local)) (\<lambda>ip_subnet_mask.
     case run_setup (env_stack env) (device_setup device) of
       (calls, Some error) \<Rightarrow> Inr (Exited 1 (lines @ [error]))
     | (calls, None) \<Rightarrow>
         Inr (Ready udp (ready_device env version port device name ip_address ip_subnet_mask lines) calls))))"

definition start_device :: "environment \<Rightarrow> pystr list \<Rightarrow> int \<times> int \<times> int \<times> int \<Rightarrow> startup result" where
  "start_device env argv version =
     chain (parse_port_arg argv 47808) (\<lambda>(port, port_lines).
     chain (parse_device_id_arg argv (g_device_instance initial_device)) (\<lambda>(device, id_lines).
     case parse_device_name_arg argv DEVICE_NAME of (name, name_lines) \<Rightarrow>
     let lines = port_lines @ id_lines @ name_lines @ print_version (Some version) APP_NAME APP_VERSION;
         (bound, ex) = (case env_bind env of Inl ex \<Rightarrow> (False, ex) | Inr _ \<Rightarrow> (True, []))
     in case setup_udp new_udp port NETWORK_PORT_INSTANCE bound ex of (udp, ok, udp_lines) \<Rightarrow>
        if \<not> ok then Inr (Exited 1 (lines @ udp_lines))
        else create_device env version port device name udp (lines @ udp_lines)))"

definition main_startup :: "environment \<Rightarrow> pystr list \<Rightarrow> startup result" where
  "main_startup env argv =
     (case handle_help_and_version_args (env_stack_version env) argv APP_NAME APP_VERSION True of
        (handled, helped) \<Rightarrow>
      if handled then Inr (Exited 0 helped)
      else case env_stack_version env of
             None \<Rightarrow> Inr (Exited 1 (env_missing env))
           | Some version \<Rightarrow> start_device env argv version)"

lemma call_all_made: "call_all stack cs = (made, ok) \<Longrightarrow> ok \<Longrightarrow> made = cs \<and> (\<forall>c \<in> set cs. stack c)"
  by (induction cs arbitrary: made ok) (auto split: if_splits prod.splits)

lemma call_all_refused:
  "call_all stack cs = (made, False) \<Longrightarrow> \<exists>before c after. cs = before @ c # after \<and> made = before @ [c] \<and> \<not> stack c"
proof (induction cs arbitrary: made)
  case (Cons c cs)
  show ?case
  proof (cases "stack c")
    case True
    with Cons.prems obtain more' where m: "call_all stack cs = (more', False)" "made = c # more'"
      by (auto split: prod.splits)
    from Cons.IH [OF m(1)] obtain before x after where
      "cs = before @ x # after" "more' = before @ [x]" "\<not> stack x" by blast
    with m(2) show ?thesis by (intro exI [of _ "c # before"] exI [of _ x] exI [of _ after]) simp
  next
    case False
    with Cons.prems show ?thesis by (intro exI [of _ "[]"] exI [of _ c] exI [of _ cs]) simp
  qed
qed simp

lemma run_setup_all:
  "run_setup stack steps = (made, None) \<Longrightarrow>
   made = concat (map fst steps) \<and> (\<forall>c \<in> set made. stack c)"
proof (induction steps arbitrary: made)
  case (Cons step steps)
  obtain calls error where step: "step = (calls, error)" by fastforce
  obtain m ok where m: "call_all stack calls = (m, ok)" by fastforce
  with Cons.prems step have ok: "ok" by (auto split: if_splits)
  from call_all_made [OF m ok] have "m = calls" "\<forall>c \<in> set calls. stack c" by blast+
  moreover obtain rest where "run_setup stack steps = (rest, None)" "made = m @ rest"
    using Cons.prems step m ok by (auto split: prod.splits)
  ultimately show ?case using Cons.IH [of rest] step by auto
qed simp

text \<open>A refused step stops start-up: its refused call is the last one made.\<close>

lemma run_setup_stops:
  "run_setup stack steps = (made, Some error) \<Longrightarrow>
   \<exists>before c. made = before @ [c] \<and> \<not> stack c \<and> (\<exists>after. concat (map fst steps) = made @ after)"
proof (induction steps arbitrary: made)
  case (Cons step steps)
  obtain calls err where step: "step = (calls, err)" by fastforce
  obtain m ok where m: "call_all stack calls = (m, ok)" by fastforce
  show ?case
  proof (cases ok)
    case True
    with m have mc: "m = calls" using call_all_made by blast
    with True Cons.prems step m obtain rest where r: "run_setup stack steps = (rest, Some error)" "made = m @ rest"
      by (auto split: prod.splits)
    from Cons.IH [OF r(1)] obtain before c after where
      "rest = before @ [c]" "\<not> stack c" "concat (map fst steps) = rest @ after" by blast
    with r(2) mc step show ?thesis
      by (intro exI [of _ "m @ before"] exI [of _ c]) simp
  next
    case False
    with Cons.prems step m have "made = m" by simp
    with call_all_refused [of stack calls m] m False step show ?thesis by fastforce
  qed
qed simp

section \<open>The tick loop\<close>

text \<open>\<^verbatim>\<open>f"{value:.1f}"\<close>: tenths, rounded from the exact value, ties to even.\<close>

fun format_1f :: "pyfloat \<Rightarrow> pystr" where
  "format_1f (Fin s n) =
     (let tenths = round_shift (10 * n) 1074
      in (if s then lit ''-'' else []) @ decimal_text (tenths div 10) @ lit ''.'' @ decimal_text (tenths mod 10))"
| "format_1f (Inf s) = (if s then lit ''-inf'' else lit ''inf'')"
| "format_1f NaN = lit ''nan''"

definition nudge :: "pyfloat \<Rightarrow> sensor_device \<Rightarrow> sensor_device" where
  "nudge v d = print (lit ''Analog Input 1 (Bronze) = '' @ format_1f v @ lit '' C'')
     (d\<lparr>g_analog_input_1_value := v\<rparr>)"

text \<open>
  The body of \<^verbatim>\<open>while running[0]\<close> after \<^verbatim>\<open>BACnetStack_Tick()\<close>, which only reads the device through
  the callbacks. \<open>interrupted\<close> says that \<^verbatim>\<open>stop_running\<close> handled a signal during the iteration. The
  result says whether the loop goes on.
\<close>

definition main_iteration ::
  "(int \<times> int \<times> int \<times> int) option \<Rightarrow> pyfloat \<Rightarrow> pyfloat \<Rightarrow> (pystr \<Rightarrow> bool) \<Rightarrow> KeyCommand \<Rightarrow> bool \<Rightarrow> sensor_device \<Rightarrow>
   (sensor_device \<times> bool) result" where
  "main_iteration stack_version start_clock clock opens key interrupted d =
     chain (sensor_simulation_tick start_clock clock opens d) (\<lambda>d.
       Inr (case key of
              HELP \<Rightarrow> (print_all (print_help stack_version APP_NAME APP_VERSION) d, \<not> interrupted)
            | QUIT \<Rightarrow> (d, False)
            | ARROW_UP \<Rightarrow> (nudge (float_add (g_analog_input_1_value d) key_step) d, \<not> interrupted)
            | ARROW_DOWN \<Rightarrow> (nudge (float_sub (g_analog_input_1_value d) key_step) d, \<not> interrupted)
            | NO_KEY \<Rightarrow> (d, \<not> interrupted)))"

text \<open>
  The devices the loop can reach from \<open>d\<close> with keys in \<open>keys\<close>, whatever the clock, the fault file and
  the signals do, and whether it is still running there. An iteration that raises has no successor,
  and neither has one that ended the loop.
\<close>

inductive loop_reaches :: "KeyCommand set \<Rightarrow> sensor_device \<Rightarrow> sensor_device \<Rightarrow> bool \<Rightarrow> bool" for keys d where
  start: "loop_reaches keys d d True"
| iterate: "loop_reaches keys d e True \<Longrightarrow> key \<in> keys \<Longrightarrow>
    main_iteration v s c opens key interrupted e = Inr (e', going) \<Longrightarrow> loop_reaches keys d e' going"

inductive_cases loop_endsE: "loop_reaches keys d e False"

text \<open>What an invariant of the loop has to withstand.\<close>

locale loop_invariant =
  fixes inv :: "sensor_device \<Rightarrow> bool"
    and keys :: "KeyCommand set"
  assumes second: "inv d \<Longrightarrow> inv (sensor_second opens k d)"
    and started: "inv (d\<lparr>simulation_started := x\<rparr>) = inv d"
    and printed: "inv (d\<lparr>console := lines\<rparr>) = inv d"
    and nudged: "ARROW_UP \<in> keys \<or> ARROW_DOWN \<in> keys \<Longrightarrow> inv d \<Longrightarrow> inv (d\<lparr>g_analog_input_1_value := v\<rparr>)"
begin

lemma tick: "sensor_simulation_tick s c opens d = Inr d' \<Longrightarrow> inv d \<Longrightarrow> inv d'"
  by (erule tick_cases) (metis started second)+

lemma iteration:
  "main_iteration v s c opens key interrupted d = Inr (d', going) \<Longrightarrow> key \<in> keys \<Longrightarrow> inv d \<Longrightarrow> inv d'"
  using tick [of s c opens d]
  by (cases key) (auto simp: main_iteration_def chain_eq_Inr print_all_def nudge_def print_def printed nudged)

lemma reached: "loop_reaches keys d e going \<Longrightarrow> inv d \<Longrightarrow> inv e"
  by (induction rule: loop_reaches.induct) (auto dest: iteration)

end

lemma ramp_sensor_fields:
  "sensor_ok (d\<lparr>console := lines\<rparr>) = sensor_ok d" "on_ramp (d\<lparr>console := lines\<rparr>) = on_ramp d"
  "sensor_ok (d\<lparr>g_analog_input_1_value := v\<rparr>) = sensor_ok d"
  by (simp_all add: sensor_ok_def on_ramp_def)

interpretation sensor_values: loop_invariant sensor_ok UNIV
  by unfold_locales (simp_all add: second_ok started_irrelevant ramp_sensor_fields)

interpretation ramp: loop_invariant "\<lambda>d. sensor_ok d \<and> on_ramp d" "{NO_KEY, HELP, QUIT}"
  by unfold_locales (simp_all add: second_ok second_on_ramp started_irrelevant ramp_sensor_fields)

text \<open>The configuration is fixed once the loop runs.\<close>

definition identity :: "sensor_device \<Rightarrow> int \<times> pystr \<times> pystr \<times> int list \<times> int list \<times> int list \<times> int \<times> pystr" where
  "identity d = (g_device_instance d, g_device_name d, g_firmware_revision d, g_ip_address d, g_ip_subnet_mask d,
     g_ip_default_gateway d, g_bacnet_ip_udp_port d, g_sensor_fault_file d)"

lemma second_identity: "identity (sensor_second opens k d) = identity d"
  by (simp add: identity_def sensor_second_def)

interpretation configuration: loop_invariant "\<lambda>d. identity d = i" UNIV
  by (unfold_locales, simp add: second_identity, simp_all add: identity_def)

section \<open>What a client can read\<close>

text \<open>
  C15. From a device with sound sensor values, whatever the clock, the fault file and the keys do, every
  device the loop reaches answers Multi-State Input 1 with a state in 1..3, Binary Input 1 with 0 or
  1, and Reliability with NO_FAULT_DETECTED or OPEN_LOOP.
\<close>

theorem reads_in_range:
  assumes "loop_reaches UNIV d e going" "sensor_ok d" "device = g_device_instance e"
  shows "(\<exists>m. get_property_unsigned_integer e device OBJECT_TYPE_MULTI_STATE_INPUT 1 PROPERTY_IDENTIFIER_PRESENT_VALUE
        False 0 = Answer m \<and> 1 \<le> m \<and> m \<le> MULTI_STATE_INPUT_NUMBER_OF_STATES) \<and>
    (\<exists>b. get_property_enumerated e device OBJECT_TYPE_BINARY_INPUT 1 PROPERTY_IDENTIFIER_PRESENT_VALUE = Answer b
        \<and> (b = 0 \<or> b = 1)) \<and>
    (\<exists>r. get_property_enumerated e device OBJECT_TYPE_ANALOG_INPUT 1 PROPERTY_IDENTIFIER_RELIABILITY = Answer r
        \<and> (r = RELIABILITY_NO_FAULT_DETECTED \<or> r = RELIABILITY_OPEN_LOOP))"
  using sensor_values.reached [OF assms(1,2)] assms(3)
  by (simp add: get_property_unsigned_integer_def get_property_enumerated_def sensor_ok_def)

lemma one_second_in:
  "main_iteration v (half 0) (half 3) opens key False (initial_device\<lparr>simulation_started := Some (half 0)\<rparr>) =
   Inr (let e = sensor_second opens 1 (initial_device\<lparr>simulation_started := Some (half 0)\<rparr>) in
     case key of
       HELP \<Rightarrow> (print_all (print_help v APP_NAME APP_VERSION) e, True)
     | QUIT \<Rightarrow> (e, False)
     | ARROW_UP \<Rightarrow> (nudge (float_add (g_analog_input_1_value e) key_step) e, True)
     | ARROW_DOWN \<Rightarrow> (nudge (float_sub (g_analog_input_1_value e) key_step) e, True)
     | NO_KEY \<Rightarrow> (e, True))"
  using tick_at [of "initial_device\<lparr>simulation_started := Some (half 0)\<rparr>" 0 3 "half 0" opens]
  by (simp add: main_iteration_def initial_device_def Let_def split: KeyCommand.split)

lemma reads_in_range_witness:
  "\<exists>e. loop_reaches UNIV (initial_device\<lparr>simulation_started := Some (half 0)\<rparr>) e True \<and> simulation_last_second e = 1 \<and>
    (\<exists>m. get_property_unsigned_integer e (g_device_instance e) OBJECT_TYPE_MULTI_STATE_INPUT 1
        PROPERTY_IDENTIFIER_PRESENT_VALUE False 0 = Answer m \<and> 1 \<le> m \<and> m \<le> MULTI_STATE_INPUT_NUMBER_OF_STATES)"
proof -
  let ?d = "initial_device\<lparr>simulation_started := Some (half 0)\<rparr>"
  let ?e = "sensor_second (\<lambda>_. False) 1 ?d"
  have "main_iteration None (half 0) (half 3) (\<lambda>_. False) NO_KEY False ?d = Inr (?e, True)"
    unfolding one_second_in by (simp add: Let_def)
  then have r: "loop_reaches UNIV ?d ?e True" by (rule loop_reaches.iterate [OF loop_reaches.start, rotated]) simp
  have "sensor_ok ?d" by (simp add: started_irrelevant initial_device_ok)
  with r reads_in_range [OF r _ refl] show ?thesis by (intro exI [of _ ?e]) (simp add: initial_device_def)
qed

text \<open>
  C37. Without arrow keys the reading stays on the ramp: from a device on it, every device the loop reaches
  answers Analog Input 1 with a multiple of 0.5 between 18.0 and 26.0.
\<close>

theorem reading_on_ramp:
  assumes "loop_reaches {NO_KEY, HELP, QUIT} d e going" "sensor_ok d" "on_ramp d" "device = g_device_instance e"
  shows "\<exists>h. 36 \<le> h \<and> h \<le> 52 \<and>
    get_property_real e device OBJECT_TYPE_ANALOG_INPUT 1 PROPERTY_IDENTIFIER_PRESENT_VALUE = Answer (half h)"
  using ramp.reached [OF assms(1)] assms(2-4) by (auto simp: get_property_real_def on_ramp_def)

lemma reading_on_ramp_witness:
  "\<exists>e. loop_reaches {NO_KEY, HELP, QUIT} (initial_device\<lparr>simulation_started := Some (half 0)\<rparr>) e True
    \<and> simulation_last_second e = 1 \<and> (\<exists>h. 36 \<le> h \<and> h \<le> 52 \<and>
      get_property_real e (g_device_instance e) OBJECT_TYPE_ANALOG_INPUT 1 PROPERTY_IDENTIFIER_PRESENT_VALUE = Answer (half h))"
proof -
  let ?d = "initial_device\<lparr>simulation_started := Some (half 0)\<rparr>"
  let ?e = "sensor_second (\<lambda>_. False) 1 ?d"
  have "main_iteration None (half 0) (half 3) (\<lambda>_. False) NO_KEY False ?d = Inr (?e, True)"
    unfolding one_second_in by (simp add: Let_def)
  then have r: "loop_reaches {NO_KEY, HELP, QUIT} ?d ?e True"
    by (rule loop_reaches.iterate [OF loop_reaches.start, rotated]) simp
  have "sensor_ok ?d" "on_ramp ?d" by (simp_all add: started_irrelevant initial_device_ok)
  with r reading_on_ramp [OF r _ _ refl] show ?thesis by (intro exI [of _ ?e]) (simp add: initial_device_def)
qed

text \<open>
  The loop never changes the configuration: device instance, name, firmware revision, addresses, port
  and the name of the fault file are the same in every device it reaches.
\<close>

lemma configuration_fixed:
  assumes "loop_reaches UNIV d e going"
  shows "identity e = identity d"
  by (rule configuration.reached [OF assms refl])

lemma configuration_fixed_witness:
  "\<exists>e. loop_reaches UNIV (initial_device\<lparr>simulation_started := Some (half 0)\<rparr>) e True \<and> simulation_last_second e = 1
    \<and> identity e = identity (initial_device\<lparr>simulation_started := Some (half 0)\<rparr>)"
proof -
  let ?d = "initial_device\<lparr>simulation_started := Some (half 0)\<rparr>"
  let ?e = "sensor_second (\<lambda>_. False) 1 ?d"
  have "main_iteration None (half 0) (half 3) (\<lambda>_. False) NO_KEY False ?d = Inr (?e, True)"
    unfolding one_second_in by (simp add: Let_def)
  then have r: "loop_reaches UNIV ?d ?e True" by (rule loop_reaches.iterate [OF loop_reaches.start, rotated]) simp
  with configuration_fixed [OF r] show ?thesis by (intro exI [of _ ?e]) simp
qed

text \<open>
  C40. The loop ends only in an iteration that saw the quit key or a signal, and such an iteration always
  ends it.
\<close>

theorem loop_ends_by_quit_or_signal:
  assumes "loop_reaches keys d e False"
    "main_iteration v s c opens key interrupted f = Inr (f', going)" "key = QUIT \<or> interrupted"
  shows "\<not> going \<and> (\<exists>v s c opens key interrupted e0. loop_reaches keys d e0 True \<and> key \<in> keys
    \<and> main_iteration v s c opens key interrupted e0 = Inr (e, False) \<and> (key = QUIT \<or> interrupted))"
proof -
  have "\<not> going" using assms(2,3) by (cases key) (auto simp: main_iteration_def chain_eq_Inr)
  moreover from assms(1) obtain e0 v s c opens key interrupted where i: "loop_reaches keys d e0 True" "key \<in> keys"
    "main_iteration v s c opens key interrupted e0 = Inr (e, False)"
    by (rule loop_endsE)
  moreover from i(3) have "key = QUIT \<or> interrupted" by (cases key) (auto simp: main_iteration_def chain_eq_Inr)
  ultimately show ?thesis by blast
qed

lemma loop_ends_by_quit_or_signal_witness:
  "\<exists>e v s c opens key interrupted e0. loop_reaches {QUIT} (initial_device\<lparr>simulation_started := Some (half 0)\<rparr>) e0 True
    \<and> key \<in> {QUIT} \<and> main_iteration v s c opens key interrupted e0 = Inr (e, False) \<and> (key = QUIT \<or> interrupted)"
proof -
  let ?d = "initial_device\<lparr>simulation_started := Some (half 0)\<rparr>"
  let ?e = "sensor_second (\<lambda>_. False) 1 ?d"
  have q: "main_iteration None (half 0) (half 3) (\<lambda>_. False) QUIT False ?d = Inr (?e, False)"
    unfolding one_second_in by (simp add: Let_def)
  then have r: "loop_reaches {QUIT} ?d ?e False" by (rule loop_reaches.iterate [OF loop_reaches.start, rotated]) simp
  from loop_ends_by_quit_or_signal [OF r q] show ?thesis by blast
qed

section \<open>What start-up leaves\<close>

lemma setup_calls:
  "concat (map fst (device_setup i)) =
     [AddDevice i, SetServiceEnabled i 12 True, SetServiceEnabled i 34 True, SetServiceEnabled i 26 True,
      SetServiceEnabled i 33 True, SetServiceEnabled i 27 True, AddObject i 0 1, AddObject i 3 1, AddObject i 13 1,
      AddNetworkPortObject i 1 5 2 0 0 4194303, SetPropertyEnabled i 8 i 28 True, SetPropertyEnabled i 13 1 110 True,
      SetPropertyEnabled i 0 1 103 True]"
  by (simp add: device_setup_def)

lemma ready_device_facts:
  "g_device_instance (ready_device env v p i n a m l) = i" "g_device_name (ready_device env v p i n a m l) = n"
  "g_bacnet_ip_udp_port (ready_device env v p i n a m l) = p"
  "unstepped (ready_device env v p i n a m l)" "sensor_ok (ready_device env v p i n a m l)"
  "on_ramp (ready_device env v p i n a m l)"
  by (auto simp: ready_device_def print_all_def unstepped_def sensor_ok_def on_ramp_def initial_device_def)

lemma create_device_ready:
  assumes "create_device env v p i n udp lines = Inr (Ready udp' d calls)"
  obtains a m where "udp' = udp" "d = ready_device env v p i n a m lines"
    "run_setup (env_stack env) (device_setup i) = (calls, None)"
proof -
  obtain made failed where r: "run_setup (env_stack env) (device_setup i) = (made, failed)" by fastforce
  show thesis
    using assms that by (cases failed) (auto simp: create_device_def chain_eq_Inr r)
qed

lemma start_device_ready:
  assumes "start_device env argv v = Inr (Ready udp d calls)"
  obtains p l1 i l2 a m lines where "parse_port_arg argv 47808 = Inr (p, l1)"
    "parse_device_id_arg argv 389001 = Inr (i, l2)" "udp = \<lparr>has_socket = True, udp_port = p\<rparr>"
    "d = ready_device env v p i (fst (parse_device_name_arg argv DEVICE_NAME)) a m lines"
    "run_setup (env_stack env) (device_setup i) = (calls, None)"
proof -
  have g: "g_device_instance initial_device = 389001" by (simp add: initial_device_def)
  from assms obtain p l1 i l2 where pi: "parse_port_arg argv 47808 = Inr (p, l1)"
    "parse_device_id_arg argv 389001 = Inr (i, l2)"
    unfolding start_device_def g by (auto simp: chain_eq_Inr)
  obtain n l3 where n: "parse_device_name_arg argv DEVICE_NAME = (n, l3)" by fastforce
  obtain u where b: "env_bind env = Inr u"
    using assms unfolding start_device_def g pi n chain_Inr
    by (cases "env_bind env") (auto simp: setup_udp_def udp_setup_def)
  from assms obtain lines where "create_device env v p i n \<lparr>has_socket = True, udp_port = p\<rparr> lines = Inr (Ready udp d calls)"
    unfolding start_device_def g pi n b chain_Inr by (auto simp: setup_udp_def udp_setup_def new_udp_def)
  then show thesis using create_device_ready that pi n by (metis fst_conv)
qed

text \<open>
  C16. When start-up reaches the tick loop, the socket is bound to a port in 1..65535, the device instance is
  in 0..4194302, the Object_Name is the default or a valid one, every call of the set-up was made once,
  in order and accepted, the only services enabled are ReadProperty, Who-Is, I-Am, Who-Has and I-Have,
  and the simulation has not stepped.
\<close>

theorem startup_ready:
  assumes "main_startup env argv = Inr (Ready udp d calls)"
  shows "has_socket udp \<and> udp_port udp = g_bacnet_ip_udp_port d \<and> 0 < udp_port udp \<and> udp_port udp \<le> 65535 \<and>
    0 \<le> g_device_instance d \<and> g_device_instance d \<le> 4194302 \<and>
    (g_device_name d = DEVICE_NAME \<or> printable_name (g_device_name d)) \<and>
    calls = concat (map fst (device_setup (g_device_instance d))) \<and> (\<forall>c \<in> set calls. env_stack env c) \<and>
    {s. \<exists>i on. SetServiceEnabled i s on \<in> set calls} = {12, 34, 26, 33, 27} \<and>
    unstepped d \<and> sensor_ok d \<and> on_ramp d"
proof -
  from assms obtain v where "start_device env argv v = Inr (Ready udp d calls)"
    by (auto simp: main_startup_def split: prod.splits if_splits option.splits)
  then obtain p l1 i l2 a m lines where r: "parse_port_arg argv 47808 = Inr (p, l1)"
    "parse_device_id_arg argv 389001 = Inr (i, l2)" "udp = \<lparr>has_socket = True, udp_port = p\<rparr>"
    "d = ready_device env v p i (fst (parse_device_name_arg argv DEVICE_NAME)) a m lines"
    "run_setup (env_stack env) (device_setup i) = (calls, None)"
    by (rule start_device_ready)
  have "0 < p \<and> p \<le> 65535" "0 \<le> i \<and> i \<le> 4194302"
    using r(1,2) port_range_from device_id_range_from by (fastforce simp: parse_port_arg_def parse_device_id_arg_def)+
  moreover have "fst (parse_device_name_arg argv DEVICE_NAME) = DEVICE_NAME
      \<or> printable_name (fst (parse_device_name_arg argv DEVICE_NAME))"
    unfolding parse_device_name_arg_def by (rule parse_device_name_from_ok)
  moreover have c: "calls = concat (map fst (device_setup i))" "\<forall>c \<in> set calls. env_stack env c"
    using run_setup_all [OF r(5)] by blast+
  moreover have "{s. \<exists>i on. SetServiceEnabled i s on \<in> set calls} = {12, 34, 26, 33, 27}"
    unfolding c(1) setup_calls by auto
  ultimately show ?thesis unfolding r(3,4) by (simp add: ready_device_facts)
qed

text \<open>The smallest run that gets there: no arguments, no network, a stack that accepts every call.\<close>

definition quiet_environment :: environment where
  "quiet_environment =
     \<lparr>env_stack_version = Some (5, 1, 0, 0), env_missing = [], env_bind = Inr (), env_probe = None,
      env_stack = (\<lambda>_. True), env_fault_file = [], env_i_am_sent = True\<rparr>"

lemma run_setup_accepting: "run_setup (\<lambda>_. True) steps = (concat (map fst steps), None)"
proof (induction steps)
  case (Cons step steps)
  have "call_all (\<lambda>_. True) cs = (cs, True)" for cs by (induction cs) simp_all
  with Cons show ?case by (cases step) simp
qed simp

lemma quiet_addresses:
  "get_local_ipv4 None = Inr \<lparr>address = lit ''127.0.0.1'', netmask = lit ''255.0.0.0'', broadcast = lit ''127.255.255.255''\<rparr>"
  "dotted_octets (lit ''127.0.0.1'') = Inr [127, 0, 0, 1]"
  "dotted_octets (lit ''255.0.0.0'') = Inr [255, 0, 0, 0]"
  by (simp_all add: get_local_ipv4_def dotted_octets_def lit_def dot_def int_of_digits_def is_ascii_digit_def decimal_value_def)

lemma quiet_startup:
  "\<exists>d. main_startup quiet_environment [lit ''main.py''] =
     Inr (Ready \<lparr>has_socket = True, udp_port = 47808\<rparr> d (concat (map fst (device_setup 389001))))"
proof -
  have "g_device_instance initial_device = 389001" by (simp add: initial_device_def)
  then show ?thesis
    by (simp add: main_startup_def quiet_environment_def handle_help_and_version_args_def start_device_def
        parse_port_arg_def parse_device_id_arg_def parse_device_name_arg_def setup_udp_def udp_setup_def new_udp_def
        create_device_def quiet_addresses run_setup_accepting)
qed

lemma startup_ready_witness:
  "\<exists>udp d calls. main_startup quiet_environment [lit ''main.py''] = Inr (Ready udp d calls) \<and>
    has_socket udp \<and> udp_port udp = g_bacnet_ip_udp_port d \<and> calls = concat (map fst (device_setup (g_device_instance d))) \<and>
    (\<forall>c \<in> set calls. env_stack quiet_environment c) \<and> unstepped d"
proof -
  obtain udp d calls where r: "main_startup quiet_environment [lit ''main.py''] = Inr (Ready udp d calls)"
    using quiet_startup by blast
  with startup_ready [OF r] show ?thesis by blast
qed

text \<open>
  When a call into the stack is refused, it is the last call of the set-up: the calls made are the
  planned ones up to and including it.
\<close>

lemma setup_stops_at_refusal:
  assumes "run_setup stack (device_setup device) = (made, Some error)"
  shows "\<exists>before c. made = before @ [c] \<and> \<not> stack c \<and>
    (\<exists>after. concat (map fst (device_setup device)) = made @ after)"
  by (rule run_setup_stops [OF assms])

lemma setup_stops_at_refusal_witness:
  "\<exists>made error. run_setup (\<lambda>c. c \<noteq> SetServiceEnabled 5 26 True) (device_setup 5) = (made, Some error) \<and> length made = 4
    \<and> (\<exists>before c. made = before @ [c] \<and> \<not> c \<noteq> SetServiceEnabled 5 26 True
        \<and> (\<exists>after. concat (map fst (device_setup 5)) = made @ after))"
proof -
  have r: "run_setup (\<lambda>c. c \<noteq> SetServiceEnabled 5 26 True) (device_setup 5) =
      ([AddDevice 5, SetServiceEnabled 5 12 True, SetServiceEnabled 5 34 True, SetServiceEnabled 5 26 True],
       Some (lit ''Error: Failed to enable the discovery services (Who-Is/I-Am, Who-Has/I-Have).''))"
    by (simp add: device_setup_def)
  show ?thesis using setup_stops_at_refusal [OF r] r by force
qed


text \<open>
  A help or version flag anywhere after the program name ends the program with code 0, without the
  socket, the stack or any other argument being looked at.
\<close>

lemma help_exits_first:
  assumes "x \<in> set (drop 1 argv)" "x \<in> {lit ''--help'', lit ''-h'', lit ''/?'', lit ''--version''}"
  shows "\<exists>lines. main_startup env argv = Inr (Exited 0 lines)"
  using help_and_version_iff [of "env_stack_version env" "drop 1 argv" APP_NAME APP_VERSION True] assms
  by (auto simp: main_startup_def handle_help_and_version_args_def split: prod.splits)

lemma help_exits_first_witness:
  "\<exists>lines. main_startup
      \<lparr>env_stack_version = None, env_missing = [], env_bind = Inl [], env_probe = None, env_stack = (\<lambda>_. False),
       env_fault_file = [], env_i_am_sent = False\<rparr> [lit ''main.py'', lit ''--port'', lit ''--version''] = Inr (Exited 0 lines)"
  by (rule help_exits_first [of "lit ''--version''"]) simp_all

section \<open>The configured name, from the command line to the wire\<close>

lemma printable_name_encodes:
  "printable_name n \<Longrightarrow> \<exists>x. utf8_encode n = Inr x \<and> length x \<le> 255"
  by (auto simp: printable_name_def Let_def split: sum.splits)

lemma default_name_printable: "printable_name DEVICE_NAME"
proof -
  have "utf8_encode DEVICE_NAME = Inr (map octn DEVICE_NAME)"
    by (rule utf8_encode_ascii) (simp add: DEVICE_NAME_def lit_def)
  then show ?thesis by (simp add: printable_name_def DEVICE_NAME_def lit_def)
qed

lemma startup_name:
  assumes "main_startup env argv = Inr (Ready udp d calls)"
  shows "g_device_name d = fst (parse_device_name_arg argv DEVICE_NAME)"
proof -
  from assms obtain v where "start_device env argv v = Inr (Ready udp d calls)"
    by (auto simp: main_startup_def split: prod.splits if_splits option.splits)
  then show ?thesis by (rule start_device_ready) (simp only: ready_device_facts)
qed

lemma configured_name_printable: "printable_name (fst (parse_device_name_arg argv DEVICE_NAME))"
  using parse_device_name_from_ok [of "drop 1 argv" DEVICE_NAME "[]"] default_name_printable
  by (auto simp: parse_device_name_arg_def)

text \<open>The arguments name the device at position \<open>k\<close>: the flag, followed by a valid name.\<close>

definition names_device :: "pystr list \<Rightarrow> nat \<Rightarrow> bool" where
  "names_device args k \<longleftrightarrow> Suc k < length args \<and> args ! k = lit ''--deviceName'' \<and> printable_name (args ! Suc k)"

lemma names_device_Cons:
  "names_device (flag # name # rest) 0 \<longleftrightarrow> flag = lit ''--deviceName'' \<and> printable_name name"
  "names_device (arg # args) (Suc k) \<longleftrightarrow> names_device args k"
  by (simp_all add: names_device_def)

lemma names_device_short: "length args < 2 \<Longrightarrow> \<not> names_device args k"
  by (simp add: names_device_def)

lemma parse_device_name_first:
  "fst (parse_device_name_from args default_name printed)
   = (if \<exists>k. names_device args k then args ! Suc (LEAST k. names_device args k) else default_name)"
proof (induction args default_name printed rule: parse_device_name_from.induct)
  case (1 flag name rest default_name printed)
  show ?case
  proof (cases "names_device (flag # name # rest) 0")
    case True
    then have "(LEAST k. names_device (flag # name # rest) k) = 0" by (rule Least_eq_0)
    moreover from True have "\<exists>k. names_device (flag # name # rest) k" by blast
    ultimately show ?thesis using True by (simp add: names_device_Cons(1))
  next
    case False
    have ex: "(\<exists>k. names_device (flag # name # rest) k) \<longleftrightarrow> (\<exists>k. names_device (name # rest) k)"
      using False by (metis names_device_Cons(2) not0_implies_Suc)
    have least: "(LEAST k. names_device (flag # name # rest) k) = Suc (LEAST k. names_device (name # rest) k)"
      if "\<exists>k. names_device (name # rest) k"
    proof -
      from that obtain k where "names_device (flag # name # rest) (Suc k)" unfolding names_device_Cons(2) by blast
      from Least_Suc [of "names_device (flag # name # rest)", OF this False] show ?thesis unfolding names_device_Cons(2) .
    qed
    from False have "flag \<noteq> lit ''--deviceName'' \<or> \<not> printable_name name" by (simp add: names_device_Cons(1))
    then have "fst (parse_device_name_from (flag # name # rest) default_name printed)
        = (if \<exists>k. names_device (name # rest) k then (name # rest) ! Suc (LEAST k. names_device (name # rest) k) else default_name)"
      using 1 by (cases "flag = lit ''--deviceName''") (simp_all only: parse_device_name_from.simps if_True if_False simp_thms)
    with ex least show ?thesis by simp
  qed
qed (simp_all add: names_device_short)

text \<open>
  C18. The Object_Name the command line configures is what a client reads. After start-up and any number
  of iterations of the loop, the Device's Object_Name is answered with octets that decode to the first valid name that
  follows a \<^verbatim>\<open>--deviceName\<close> on the command line, and to the default name when there is none; nothing is cut,
  in any buffer of at least 255 octets.
\<close>

theorem configured_name_served:
  assumes "main_startup env argv = Inr (Ready udp d calls)" "loop_reaches UNIV d e going" "255 \<le> max_count"
  shows "\<exists>x. get_property_character_string e (g_device_instance e) OBJECT_TYPE_DEVICE (g_device_instance e)
      PROPERTY_IDENTIFIER_OBJECT_NAME max_count False 0 = Inr (Answer x)
    \<and> utf8_decode x = (if \<exists>k. names_device (drop 1 argv) k
        then drop 1 argv ! Suc (LEAST k. names_device (drop 1 argv) k) else DEVICE_NAME)"
proof -
  let ?n = "fst (parse_device_name_arg argv DEVICE_NAME)"
  obtain x where x: "utf8_encode ?n = Inr x" "length x \<le> 255"
    using printable_name_encodes [OF configured_name_printable] by blast
  have "g_device_name e = ?n"
    using configuration.reached [OF assms(2) refl] startup_name [OF assms(1)] by (simp add: identity_def)
  with x assms(3) utf8_roundtrip [OF x(1)] show ?thesis
    by (simp add: get_property_character_string_def object_name_def return_character_string_def
        parse_device_name_arg_def parse_device_name_first)
qed

lemma bronze_printable: "printable_name (lit ''Bronze'')"
proof -
  have "utf8_encode (lit ''Bronze'') = Inr (map octn (lit ''Bronze''))"
    by (rule utf8_encode_ascii) (simp add: lit_def)
  then show ?thesis by (simp add: printable_name_def lit_def)
qed

lemma bronze_startup:
  "\<exists>d. main_startup quiet_environment [lit ''main.py'', lit ''--deviceName'', lit ''Bronze''] =
     Inr (Ready \<lparr>has_socket = True, udp_port = 47808\<rparr> d (concat (map fst (device_setup 389001))))"
proof -
  have differ: "lit x = lit y \<longleftrightarrow> x = y" for x y
    unfolding lit_def by (intro inj_eq list.inj_map) (simp add: inj_def)
  have "g_device_instance initial_device = 389001" by (simp add: initial_device_def)
  with bronze_printable show ?thesis
    by (simp add: main_startup_def quiet_environment_def start_device_def handle_help_and_version_args_def
        parse_port_arg_def parse_device_id_arg_def parse_device_name_arg_def setup_udp_def udp_setup_def new_udp_def
        create_device_def quiet_addresses run_setup_accepting differ)
qed

lemma configured_name_served_witness:
  "\<exists>udp d calls x. main_startup quiet_environment [lit ''main.py'', lit ''--deviceName'', lit ''Bronze''] = Inr (Ready udp d calls)
    \<and> get_property_character_string d (g_device_instance d) OBJECT_TYPE_DEVICE (g_device_instance d)
        PROPERTY_IDENTIFIER_OBJECT_NAME 256 False 0 = Inr (Answer x)
    \<and> utf8_decode x = lit ''Bronze''"
proof -
  obtain udp d calls where r: "main_startup quiet_environment [lit ''main.py'', lit ''--deviceName'', lit ''Bronze''] = Inr (Ready udp d calls)"
    using bronze_startup by blast
  have named: "names_device (drop 1 [lit ''main.py'', lit ''--deviceName'', lit ''Bronze'']) 0"
    using bronze_printable by (simp add: names_device_def)
  then have "(LEAST k. names_device (drop 1 [lit ''main.py'', lit ''--deviceName'', lit ''Bronze'']) k) = 0" by (rule Least_eq_0)
  with named configured_name_served [OF r loop_reaches.start, of 256] r show ?thesis by auto
qed

text \<open>
  A command-line name equal to one of the colour names is accepted, and two objects of the device
  then have the same Object_Name.
\<close>

lemma colour_name_accepted:
  "parse_device_name_arg [lit ''main.py'', lit ''--deviceName'', lit ''Bronze''] DEVICE_NAME = (lit ''Bronze'', [])
   \<and> object_name (initial_device\<lparr>g_device_name := lit ''Bronze''\<rparr>) OBJECT_TYPE_DEVICE 389001
     = object_name (initial_device\<lparr>g_device_name := lit ''Bronze''\<rparr>) OBJECT_TYPE_ANALOG_INPUT ANALOG_INPUT_INSTANCE"
  using bronze_printable by (simp add: parse_device_name_arg_def object_name_def initial_device_def)

end
