(* ===== verification/Wire_Constants.thy ===== *)
theory Wire_Constants
  imports Example_Main Wire_Alarm
begin

text \<open>
  The numbers of the standard that the wire tests name and the modelled functions do not use: they are
  there for the tests that build requests and compare answers. Where the example's own constants,
  \<^verbatim>\<open>common/cas_bacnet_stack_example_constants.py\<close>, name the same thing, both have the same number.
\<close>

section \<open>\<^verbatim>\<open>wiretest/codec.py\<close>\<close>

abbreviation (input) BVLC_RESULT_SUCCESSFUL_COMPLETION :: int
  where "BVLC_RESULT_SUCCESSFUL_COMPLETION \<equiv> 0"
abbreviation (input) BVLC_RESULT_WRITE_BDT_NAK :: int where "BVLC_RESULT_WRITE_BDT_NAK \<equiv> 16"
abbreviation (input) BVLC_RESULT_READ_BDT_NAK :: int where "BVLC_RESULT_READ_BDT_NAK \<equiv> 32"
abbreviation (input) BVLC_RESULT_REGISTER_FOREIGN_DEVICE_NAK :: int
  where "BVLC_RESULT_REGISTER_FOREIGN_DEVICE_NAK \<equiv> 48"
abbreviation (input) BVLC_RESULT_READ_FDT_NAK :: int where "BVLC_RESULT_READ_FDT_NAK \<equiv> 64"
abbreviation (input) BVLC_RESULT_DELETE_FDT_ENTRY_NAK :: int
  where "BVLC_RESULT_DELETE_FDT_ENTRY_NAK \<equiv> 80"
abbreviation (input) BVLC_RESULT_DISTRIBUTE_BROADCAST_TO_NETWORK_NAK :: int
  where "BVLC_RESULT_DISTRIBUTE_BROADCAST_TO_NETWORK_NAK \<equiv> 96"
abbreviation (input) GLOBAL_BROADCAST_NETWORK :: int where "GLOBAL_BROADCAST_NETWORK \<equiv> 65535"
abbreviation (input) NL_WHO_IS_ROUTER_TO_NETWORK :: int where "NL_WHO_IS_ROUTER_TO_NETWORK \<equiv> 0"
abbreviation (input) NL_I_AM_ROUTER_TO_NETWORK :: int where "NL_I_AM_ROUTER_TO_NETWORK \<equiv> 1"
abbreviation (input) NL_REJECT_MESSAGE_TO_NETWORK :: int where "NL_REJECT_MESSAGE_TO_NETWORK \<equiv> 3"
abbreviation (input) NL_WHAT_IS_NETWORK_NUMBER :: int where "NL_WHAT_IS_NETWORK_NUMBER \<equiv> 18"
abbreviation (input) NL_NETWORK_NUMBER_IS :: int where "NL_NETWORK_NUMBER_IS \<equiv> 19"
abbreviation (input) SERVICE_ADD_LIST_ELEMENT :: int where "SERVICE_ADD_LIST_ELEMENT \<equiv> 8"
abbreviation (input) SERVICE_REMOVE_LIST_ELEMENT :: int where "SERVICE_REMOVE_LIST_ELEMENT \<equiv> 9"
abbreviation (input) REINITIALIZE_COLDSTART :: int where "REINITIALIZE_COLDSTART \<equiv> 0"
abbreviation (input) REINITIALIZE_WARMSTART :: int where "REINITIALIZE_WARMSTART \<equiv> 1"
abbreviation (input) REINITIALIZE_START_BACKUP :: int where "REINITIALIZE_START_BACKUP \<equiv> 2"
abbreviation (input) REINITIALIZE_END_BACKUP :: int where "REINITIALIZE_END_BACKUP \<equiv> 3"
abbreviation (input) REINITIALIZE_START_RESTORE :: int where "REINITIALIZE_START_RESTORE \<equiv> 4"
abbreviation (input) REINITIALIZE_END_RESTORE :: int where "REINITIALIZE_END_RESTORE \<equiv> 5"
abbreviation (input) REINITIALIZE_ABORT_RESTORE :: int where "REINITIALIZE_ABORT_RESTORE \<equiv> 6"
abbreviation (input) REINITIALIZE_ACTIVATE_CHANGES :: int where "REINITIALIZE_ACTIVATE_CHANGES \<equiv> 7"
abbreviation (input) OBJECT_TYPE_ANALOG_INPUT :: int where "OBJECT_TYPE_ANALOG_INPUT \<equiv> 0"
abbreviation (input) OBJECT_TYPE_ANALOG_OUTPUT :: int where "OBJECT_TYPE_ANALOG_OUTPUT \<equiv> 1"
abbreviation (input) OBJECT_TYPE_ANALOG_VALUE :: int where "OBJECT_TYPE_ANALOG_VALUE \<equiv> 2"
abbreviation (input) OBJECT_TYPE_BINARY_INPUT :: int where "OBJECT_TYPE_BINARY_INPUT \<equiv> 3"
abbreviation (input) OBJECT_TYPE_BINARY_OUTPUT :: int where "OBJECT_TYPE_BINARY_OUTPUT \<equiv> 4"
abbreviation (input) OBJECT_TYPE_BINARY_VALUE :: int where "OBJECT_TYPE_BINARY_VALUE \<equiv> 5"
abbreviation (input) OBJECT_TYPE_CALENDAR :: int where "OBJECT_TYPE_CALENDAR \<equiv> 6"
abbreviation (input) OBJECT_TYPE_GROUP :: int where "OBJECT_TYPE_GROUP \<equiv> 11"
abbreviation (input) OBJECT_TYPE_MULTI_STATE_INPUT :: int where "OBJECT_TYPE_MULTI_STATE_INPUT \<equiv> 13"
abbreviation (input) OBJECT_TYPE_MULTI_STATE_OUTPUT :: int where "OBJECT_TYPE_MULTI_STATE_OUTPUT \<equiv> 14"
abbreviation (input) OBJECT_TYPE_NOTIFICATION_CLASS :: int where "OBJECT_TYPE_NOTIFICATION_CLASS \<equiv> 15"
abbreviation (input) OBJECT_TYPE_SCHEDULE :: int where "OBJECT_TYPE_SCHEDULE \<equiv> 17"
abbreviation (input) OBJECT_TYPE_MULTI_STATE_VALUE :: int where "OBJECT_TYPE_MULTI_STATE_VALUE \<equiv> 19"
abbreviation (input) OBJECT_TYPE_LIFE_SAFETY_POINT :: int where "OBJECT_TYPE_LIFE_SAFETY_POINT \<equiv> 21"
abbreviation (input) OBJECT_TYPE_LIFE_SAFETY_ZONE :: int where "OBJECT_TYPE_LIFE_SAFETY_ZONE \<equiv> 22"
abbreviation (input) OBJECT_TYPE_EVENT_LOG :: int where "OBJECT_TYPE_EVENT_LOG \<equiv> 25"
abbreviation (input) OBJECT_TYPE_LIGHTING_OUTPUT :: int where "OBJECT_TYPE_LIGHTING_OUTPUT \<equiv> 54"
abbreviation (input) OBJECT_TYPE_NETWORK_PORT :: int where "OBJECT_TYPE_NETWORK_PORT \<equiv> 56"
abbreviation (input) OBJECT_TYPE_ELEVATOR_GROUP :: int where "OBJECT_TYPE_ELEVATOR_GROUP \<equiv> 57"
abbreviation (input) OBJECT_TYPE_ESCALATOR :: int where "OBJECT_TYPE_ESCALATOR \<equiv> 58"
abbreviation (input) OBJECT_TYPE_LIFT :: int where "OBJECT_TYPE_LIFT \<equiv> 59"
abbreviation (input) PROPERTY_DESCRIPTION :: int where "PROPERTY_DESCRIPTION \<equiv> 28"
abbreviation (input) PROPERTY_DEVICE_ADDRESS_BINDING :: int
  where "PROPERTY_DEVICE_ADDRESS_BINDING \<equiv> 30"
abbreviation (input) PROPERTY_EVENT_STATE :: int where "PROPERTY_EVENT_STATE \<equiv> 36"
abbreviation (input) PROPERTY_LIST_OF_GROUP_MEMBERS :: int where "PROPERTY_LIST_OF_GROUP_MEMBERS \<equiv> 53"
abbreviation (input) PROPERTY_LIST_OF_OBJECT_PROPERTY_REFERENCES :: int
  where "PROPERTY_LIST_OF_OBJECT_PROPERTY_REFERENCES \<equiv> 54"
abbreviation (input) PROPERTY_NUMBER_OF_APDU_RETRIES :: int
  where "PROPERTY_NUMBER_OF_APDU_RETRIES \<equiv> 73"
abbreviation (input) PROPERTY_OBJECT_LIST :: int where "PROPERTY_OBJECT_LIST \<equiv> 76"
abbreviation (input) PROPERTY_OUT_OF_SERVICE :: int where "PROPERTY_OUT_OF_SERVICE \<equiv> 81"
abbreviation (input) PROPERTY_PRIORITY_ARRAY :: int where "PROPERTY_PRIORITY_ARRAY \<equiv> 87"
abbreviation (input) PROPERTY_RELIABILITY :: int where "PROPERTY_RELIABILITY \<equiv> 103"
abbreviation (input) PROPERTY_RELINQUISH_DEFAULT :: int where "PROPERTY_RELINQUISH_DEFAULT \<equiv> 104"
abbreviation (input) PROPERTY_STATE_TEXT :: int where "PROPERTY_STATE_TEXT \<equiv> 110"
abbreviation (input) PROPERTY_STATUS_FLAGS :: int where "PROPERTY_STATUS_FLAGS \<equiv> 111"
abbreviation (input) PROPERTY_SYSTEM_STATUS :: int where "PROPERTY_SYSTEM_STATUS \<equiv> 112"
abbreviation (input) PROPERTY_UNITS :: int where "PROPERTY_UNITS \<equiv> 117"
abbreviation (input) PROPERTY_LOG_BUFFER :: int where "PROPERTY_LOG_BUFFER \<equiv> 131"
abbreviation (input) PROPERTY_ENABLE :: int where "PROPERTY_ENABLE \<equiv> 133"
abbreviation (input) PROPERTY_RECORD_COUNT :: int where "PROPERTY_RECORD_COUNT \<equiv> 141"
abbreviation (input) PROPERTY_TOTAL_RECORD_COUNT :: int where "PROPERTY_TOTAL_RECORD_COUNT \<equiv> 145"
abbreviation (input) PROPERTY_MODE :: int where "PROPERTY_MODE \<equiv> 160"
abbreviation (input) PROPERTY_OPERATION_EXPECTED :: int where "PROPERTY_OPERATION_EXPECTED \<equiv> 161"
abbreviation (input) PROPERTY_SILENCED :: int where "PROPERTY_SILENCED \<equiv> 163"
abbreviation (input) PROPERTY_TRACKING_VALUE :: int where "PROPERTY_TRACKING_VALUE \<equiv> 164"
abbreviation (input) PROPERTY_ZONE_MEMBERS :: int where "PROPERTY_ZONE_MEMBERS \<equiv> 165"
abbreviation (input) PROPERTY_PROPERTY_LIST :: int where "PROPERTY_PROPERTY_LIST \<equiv> 371"
abbreviation (input) PROPERTY_LIGHTING_COMMAND :: int where "PROPERTY_LIGHTING_COMMAND \<equiv> 380"
abbreviation (input) PROPERTY_NETWORK_NUMBER :: int where "PROPERTY_NETWORK_NUMBER \<equiv> 425"
abbreviation (input) PROPERTY_NETWORK_NUMBER_QUALITY :: int
  where "PROPERTY_NETWORK_NUMBER_QUALITY \<equiv> 426"
abbreviation (input) PROPERTY_CURRENT_COMMAND_PRIORITY :: int
  where "PROPERTY_CURRENT_COMMAND_PRIORITY \<equiv> 431"
abbreviation (input) PROPERTY_ASSIGNED_LANDING_CALLS :: int
  where "PROPERTY_ASSIGNED_LANDING_CALLS \<equiv> 447"
abbreviation (input) PROPERTY_LANDING_CALLS :: int where "PROPERTY_LANDING_CALLS \<equiv> 470"
abbreviation (input) PROPERTY_LANDING_CALL_CONTROL :: int where "PROPERTY_LANDING_CALL_CONTROL \<equiv> 471"
abbreviation (input) ERROR_CLASS_DEVICE :: int where "ERROR_CLASS_DEVICE \<equiv> 0"
abbreviation (input) ERROR_CLASS_RESOURCES :: int where "ERROR_CLASS_RESOURCES \<equiv> 3"
abbreviation (input) ERROR_CLASS_SECURITY :: int where "ERROR_CLASS_SECURITY \<equiv> 4"
abbreviation (input) ERROR_CLASS_SERVICES :: int where "ERROR_CLASS_SERVICES \<equiv> 5"
abbreviation (input) ERROR_CODE_DYNAMIC_CREATION_NOT_SUPPORTED :: int
  where "ERROR_CODE_DYNAMIC_CREATION_NOT_SUPPORTED \<equiv> 4"
abbreviation (input) ERROR_CODE_NO_SPACE_FOR_OBJECT :: int where "ERROR_CODE_NO_SPACE_FOR_OBJECT \<equiv> 18"
abbreviation (input) ERROR_CODE_OBJECT_DELETION_NOT_PERMITTED :: int
  where "ERROR_CODE_OBJECT_DELETION_NOT_PERMITTED \<equiv> 23"
abbreviation (input) ERROR_CODE_OBJECT_IDENTIFIER_ALREADY_EXISTS :: int
  where "ERROR_CODE_OBJECT_IDENTIFIER_ALREADY_EXISTS \<equiv> 24"
abbreviation (input) ERROR_CODE_PASSWORD_FAILURE :: int where "ERROR_CODE_PASSWORD_FAILURE \<equiv> 26"
abbreviation (input) ERROR_CODE_SERVICE_REQUEST_DENIED :: int
  where "ERROR_CODE_SERVICE_REQUEST_DENIED \<equiv> 29"
abbreviation (input) ERROR_CODE_UNSUPPORTED_OBJECT_TYPE :: int
  where "ERROR_CODE_UNSUPPORTED_OBJECT_TYPE \<equiv> 36"
abbreviation (input) ERROR_CODE_VALUE_OUT_OF_RANGE :: int where "ERROR_CODE_VALUE_OUT_OF_RANGE \<equiv> 37"
abbreviation (input) ERROR_CODE_LIST_ELEMENT_NOT_FOUND :: int
  where "ERROR_CODE_LIST_ELEMENT_NOT_FOUND \<equiv> 81"
abbreviation (input) ERROR_CODE_BUSY :: int where "ERROR_CODE_BUSY \<equiv> 82"
abbreviation (input) ERROR_CODE_INVALID_OPERATION_IN_THIS_STATE :: int
  where "ERROR_CODE_INVALID_OPERATION_IN_THIS_STATE \<equiv> 139"
abbreviation (input) RELIABILITY_NO_FAULT_DETECTED :: int where "RELIABILITY_NO_FAULT_DETECTED \<equiv> 0"
abbreviation (input) RELIABILITY_UNRELIABLE_OTHER :: int where "RELIABILITY_UNRELIABLE_OTHER \<equiv> 7"
abbreviation (input) RELIABILITY_MULTI_STATE_FAULT :: int where "RELIABILITY_MULTI_STATE_FAULT \<equiv> 9"
abbreviation (input) RELIABILITY_COMMUNICATION_FAILURE :: int
  where "RELIABILITY_COMMUNICATION_FAILURE \<equiv> 12"
abbreviation (input) DEVICE_STATUS_OPERATIONAL :: int where "DEVICE_STATUS_OPERATIONAL \<equiv> 0"
abbreviation (input) DEVICE_STATUS_BACKUP_IN_PROGRESS :: int
  where "DEVICE_STATUS_BACKUP_IN_PROGRESS \<equiv> 5"
abbreviation (input) STATUS_FLAG_IN_ALARM :: int where "STATUS_FLAG_IN_ALARM \<equiv> 0"
abbreviation (input) STATUS_FLAG_FAULT :: int where "STATUS_FLAG_FAULT \<equiv> 1"
abbreviation (input) STATUS_FLAG_OVERRIDDEN :: int where "STATUS_FLAG_OVERRIDDEN \<equiv> 2"
abbreviation (input) STATUS_FLAG_OUT_OF_SERVICE :: int where "STATUS_FLAG_OUT_OF_SERVICE \<equiv> 3"
abbreviation (input) TAG_OCTET_STRING :: int where "TAG_OCTET_STRING \<equiv> 6"

section \<open>\<^verbatim>\<open>wiretest/alarm.py\<close>\<close>

abbreviation (input) EVENT_STATE_FAULT :: int where "EVENT_STATE_FAULT \<equiv> 1"
abbreviation (input) EVENT_STATE_OFFNORMAL :: int where "EVENT_STATE_OFFNORMAL \<equiv> 2"
abbreviation (input) EVENT_STATE_HIGH_LIMIT :: int where "EVENT_STATE_HIGH_LIMIT \<equiv> 3"
abbreviation (input) EVENT_STATE_LOW_LIMIT :: int where "EVENT_STATE_LOW_LIMIT \<equiv> 4"
abbreviation (input) EVENT_STATE_LIFE_SAFETY_ALARM :: int where "EVENT_STATE_LIFE_SAFETY_ALARM \<equiv> 5"
abbreviation (input) NOTIFY_TYPE_EVENT :: int where "NOTIFY_TYPE_EVENT \<equiv> 1"
abbreviation (input) EVENT_TYPE_CHANGE_OF_STATE :: int where "EVENT_TYPE_CHANGE_OF_STATE \<equiv> 1"
abbreviation (input) EVENT_TYPE_CHANGE_OF_LIFE_SAFETY :: int
  where "EVENT_TYPE_CHANGE_OF_LIFE_SAFETY \<equiv> 8"
abbreviation (input) EVENT_TYPE_CHANGE_OF_RELIABILITY :: int
  where "EVENT_TYPE_CHANGE_OF_RELIABILITY \<equiv> 19"
abbreviation (input) TO_OFFNORMAL :: int where "TO_OFFNORMAL \<equiv> 0"
abbreviation (input) TO_FAULT :: int where "TO_FAULT \<equiv> 1"
abbreviation (input) TO_NORMAL :: int where "TO_NORMAL \<equiv> 2"
abbreviation (input) DCC_ENABLE :: int where "DCC_ENABLE \<equiv> 0"
abbreviation (input) DCC_DISABLE :: int where "DCC_DISABLE \<equiv> 1"
abbreviation (input) DCC_DISABLE_INITIATION :: int where "DCC_DISABLE_INITIATION \<equiv> 2"
abbreviation (input) ERROR_CODE_INVALID_TIMESTAMP :: int where "ERROR_CODE_INVALID_TIMESTAMP \<equiv> 14"
abbreviation (input) PROPERTY_ACKED_TRANSITIONS :: int where "PROPERTY_ACKED_TRANSITIONS \<equiv> 0"
abbreviation (input) PROPERTY_EVENT_TIME_STAMPS :: int where "PROPERTY_EVENT_TIME_STAMPS \<equiv> 130"
abbreviation (input) PROPERTY_LOCAL_DATE :: int where "PROPERTY_LOCAL_DATE \<equiv> 56"
abbreviation (input) PROPERTY_LOCAL_TIME :: int where "PROPERTY_LOCAL_TIME \<equiv> 57"
abbreviation (input) PROPERTY_RECIPIENT_LIST :: int where "PROPERTY_RECIPIENT_LIST \<equiv> 102"

section \<open>\<^verbatim>\<open>wiretest/services.py\<close>\<close>

abbreviation (input) LIFE_SAFETY_OPERATION_NONE :: int where "LIFE_SAFETY_OPERATION_NONE \<equiv> 0"
abbreviation (input) LIFE_SAFETY_OPERATION_SILENCE :: int where "LIFE_SAFETY_OPERATION_SILENCE \<equiv> 1"
abbreviation (input) LIFE_SAFETY_OPERATION_SILENCE_AUDIBLE :: int
  where "LIFE_SAFETY_OPERATION_SILENCE_AUDIBLE \<equiv> 2"
abbreviation (input) LIFE_SAFETY_OPERATION_SILENCE_VISUAL :: int
  where "LIFE_SAFETY_OPERATION_SILENCE_VISUAL \<equiv> 3"
abbreviation (input) LIFE_SAFETY_OPERATION_RESET :: int where "LIFE_SAFETY_OPERATION_RESET \<equiv> 4"
abbreviation (input) LIFE_SAFETY_OPERATION_RESET_ALARM :: int
  where "LIFE_SAFETY_OPERATION_RESET_ALARM \<equiv> 5"
abbreviation (input) LIFE_SAFETY_OPERATION_RESET_FAULT :: int
  where "LIFE_SAFETY_OPERATION_RESET_FAULT \<equiv> 6"
abbreviation (input) LIFE_SAFETY_OPERATION_UNSILENCE :: int where "LIFE_SAFETY_OPERATION_UNSILENCE \<equiv> 7"
abbreviation (input) LIFE_SAFETY_STATE_QUIET :: int where "LIFE_SAFETY_STATE_QUIET \<equiv> 0"
abbreviation (input) LIFE_SAFETY_STATE_ALARM :: int where "LIFE_SAFETY_STATE_ALARM \<equiv> 2"
abbreviation (input) LIFE_SAFETY_STATE_FAULT :: int where "LIFE_SAFETY_STATE_FAULT \<equiv> 3"
abbreviation (input) SILENCED_UNSILENCED :: int where "SILENCED_UNSILENCED \<equiv> 0"
abbreviation (input) SILENCED_AUDIBLE :: int where "SILENCED_AUDIBLE \<equiv> 1"
abbreviation (input) SILENCED_VISIBLE :: int where "SILENCED_VISIBLE \<equiv> 2"
abbreviation (input) SILENCED_ALL :: int where "SILENCED_ALL \<equiv> 3"
abbreviation (input) LIFT_CAR_DIRECTION_UNKNOWN :: int where "LIFT_CAR_DIRECTION_UNKNOWN \<equiv> 0"
abbreviation (input) LIFT_CAR_DIRECTION_NONE :: int where "LIFT_CAR_DIRECTION_NONE \<equiv> 1"
abbreviation (input) LIFT_CAR_DIRECTION_STOPPED :: int where "LIFT_CAR_DIRECTION_STOPPED \<equiv> 2"
abbreviation (input) LIFT_CAR_DIRECTION_UP :: int where "LIFT_CAR_DIRECTION_UP \<equiv> 3"
abbreviation (input) LIFT_CAR_DIRECTION_DOWN :: int where "LIFT_CAR_DIRECTION_DOWN \<equiv> 4"
abbreviation (input) LIFT_CAR_DIRECTION_UP_AND_DOWN :: int where "LIFT_CAR_DIRECTION_UP_AND_DOWN \<equiv> 5"
abbreviation (input) LIGHTING_OPERATION_NONE :: int where "LIGHTING_OPERATION_NONE \<equiv> 0"
abbreviation (input) LIGHTING_OPERATION_FADE_TO :: int where "LIGHTING_OPERATION_FADE_TO \<equiv> 1"
abbreviation (input) LIGHTING_OPERATION_RAMP_TO :: int where "LIGHTING_OPERATION_RAMP_TO \<equiv> 2"
abbreviation (input) LIGHTING_OPERATION_STEP_UP :: int where "LIGHTING_OPERATION_STEP_UP \<equiv> 3"
abbreviation (input) LIGHTING_OPERATION_STEP_DOWN :: int where "LIGHTING_OPERATION_STEP_DOWN \<equiv> 4"
abbreviation (input) LIGHTING_OPERATION_STEP_ON :: int where "LIGHTING_OPERATION_STEP_ON \<equiv> 5"
abbreviation (input) LIGHTING_OPERATION_STEP_OFF :: int where "LIGHTING_OPERATION_STEP_OFF \<equiv> 6"
abbreviation (input) LIGHTING_OPERATION_WARN :: int where "LIGHTING_OPERATION_WARN \<equiv> 7"
abbreviation (input) LIGHTING_OPERATION_WARN_OFF :: int where "LIGHTING_OPERATION_WARN_OFF \<equiv> 8"
abbreviation (input) LIGHTING_OPERATION_WARN_RELINQUISH :: int
  where "LIGHTING_OPERATION_WARN_RELINQUISH \<equiv> 9"
abbreviation (input) LIGHTING_OPERATION_STOP :: int where "LIGHTING_OPERATION_STOP \<equiv> 10"
abbreviation (input) LIGHTING_OPERATION_RESTORE_ON :: int where "LIGHTING_OPERATION_RESTORE_ON \<equiv> 11"
abbreviation (input) LIGHTING_OPERATION_DEFAULT_ON :: int where "LIGHTING_OPERATION_DEFAULT_ON \<equiv> 12"
abbreviation (input) LIGHTING_OPERATION_TOGGLE_RESTORE :: int
  where "LIGHTING_OPERATION_TOGGLE_RESTORE \<equiv> 13"
abbreviation (input) LIGHTING_OPERATION_TOGGLE_DEFAULT :: int
  where "LIGHTING_OPERATION_TOGGLE_DEFAULT \<equiv> 14"
abbreviation (input) LIGHTING_IN_PROGRESS_IDLE :: int where "LIGHTING_IN_PROGRESS_IDLE \<equiv> 0"
abbreviation (input) LIGHTING_IN_PROGRESS_FADE_ACTIVE :: int
  where "LIGHTING_IN_PROGRESS_FADE_ACTIVE \<equiv> 1"
abbreviation (input) LIGHTING_IN_PROGRESS_RAMP_ACTIVE :: int
  where "LIGHTING_IN_PROGRESS_RAMP_ACTIVE \<equiv> 2"

section \<open>The device and its tests speak of the same things\<close>

lemma constants_agree:
  "Example_Constants.ERROR_CODE_INVALID_ARRAY_INDEX = Codec_Numbers.ERROR_CODE_INVALID_ARRAY_INDEX"
  "Example_Constants.OBJECT_TYPE_ANALOG_INPUT = Wire_Constants.OBJECT_TYPE_ANALOG_INPUT"
  "Example_Constants.OBJECT_TYPE_BINARY_INPUT = Wire_Constants.OBJECT_TYPE_BINARY_INPUT"
  "Example_Constants.OBJECT_TYPE_DEVICE = Codec_Numbers.OBJECT_TYPE_DEVICE"
  "Example_Constants.OBJECT_TYPE_MULTI_STATE_INPUT = Wire_Constants.OBJECT_TYPE_MULTI_STATE_INPUT"
  "Example_Constants.OBJECT_TYPE_NETWORK_PORT = Wire_Constants.OBJECT_TYPE_NETWORK_PORT"
  "Example_Constants.PROPERTY_IDENTIFIER_DESCRIPTION = Wire_Constants.PROPERTY_DESCRIPTION"
  "Example_Constants.PROPERTY_IDENTIFIER_OBJECT_NAME = Codec_Numbers.PROPERTY_OBJECT_NAME"
  "Example_Constants.PROPERTY_IDENTIFIER_OUT_OF_SERVICE = Wire_Constants.PROPERTY_OUT_OF_SERVICE"
  "Example_Constants.PROPERTY_IDENTIFIER_PRESENT_VALUE = Codec_Numbers.PROPERTY_PRESENT_VALUE"
  "Example_Constants.PROPERTY_IDENTIFIER_RELIABILITY = Wire_Constants.PROPERTY_RELIABILITY"
  "Example_Constants.PROPERTY_IDENTIFIER_STATE_TEXT = Wire_Constants.PROPERTY_STATE_TEXT"
  "Example_Constants.PROPERTY_IDENTIFIER_UNITS = Wire_Constants.PROPERTY_UNITS"
  "Example_Constants.RELIABILITY_NO_FAULT_DETECTED = Wire_Constants.RELIABILITY_NO_FAULT_DETECTED"
  "Example_Constants.SERVICE_READ_PROPERTY = Codec_Numbers.SERVICE_READ_PROPERTY"
  by simp_all

text \<open>
  The services are numbered differently on purpose: the stack counts the bits of
  Protocol_Services_Supported, an APDU carries the choice of an unconfirmed service.
\<close>

lemma services_differ:
  "Example_Constants.SERVICE_I_AM \<noteq> Codec_Numbers.SERVICE_I_AM" "Example_Constants.SERVICE_WHO_IS \<noteq> Codec_Numbers.SERVICE_WHO_IS"
  "Example_Constants.SERVICE_READ_PROPERTY = Codec_Numbers.SERVICE_READ_PROPERTY"
  by simp_all

end
