(* ===== verification/Wire_Text.thy ===== *)
theory Wire_Text
  imports Wire_Alarm Example_Helper
begin

text \<open>
  Addresses and log lines of the wire tests: \<^verbatim>\<open>mac\<close> and \<^verbatim>\<open>Frame.describe\<close> of \<^verbatim>\<open>wiretest/codec.py\<close>, and
  \<^verbatim>\<open>EventNotification.describe\<close> of \<^verbatim>\<open>wiretest/alarm.py\<close>.
\<close>

section \<open>Addresses\<close>

text \<open>
  \<^verbatim>\<open>socket.inet_aton\<close> as the C library has it: one to four numbers with points between them, in decimal,
  octal or hexadecimal as in C, the last filling the octets that are left; white space ends the text.
\<close>

definition digit_in :: "nat \<Rightarrow> nat \<Rightarrow> nat option" where
  "digit_in base c =
     (let v = (if is_ascii_digit c then Some (c - 48) else if 65 \<le> c \<and> c \<le> 70 then Some (c - 55)
               else if 97 \<le> c \<and> c \<le> 102 then Some (c - 87) else None) in
      case v of None \<Rightarrow> None | Some d \<Rightarrow> if d < base then Some d else None)"

fun c_digits :: "nat \<Rightarrow> nat \<Rightarrow> pystr \<Rightarrow> nat \<times> pystr" where
  "c_digits base acc [] = (acc, [])"
| "c_digits base acc (c # cs) =
     (case digit_in base c of None \<Rightarrow> (acc, c # cs) | Some d \<Rightarrow> c_digits base (acc * base + d) cs)"

definition c_number :: "pystr \<Rightarrow> (nat \<times> pystr) option" where
  "c_number s =
     (if s = [] \<or> \<not> is_ascii_digit (hd s) then None
      else let (v, rest) =
             (if 3 \<le> length s \<and> s ! 0 = 48 \<and> s ! 1 \<in> {88, 120} \<and> digit_in 16 (s ! 2) \<noteq> None then c_digits 16 0 (drop 2 s)
              else if hd s = 48 then c_digits 8 0 s
              else c_digits 10 0 s)
           in if v < 2 ^ 32 then Some (v, rest) else None)"

definition is_c_space :: "nat \<Rightarrow> bool" where
  "is_c_space c \<longleftrightarrow> c = 32 \<or> 9 \<le> c \<and> c \<le> 13"

text \<open>The octets of the numbers before, how many numbers may still follow, and the text.\<close>

fun aton_from :: "octets \<Rightarrow> nat \<Rightarrow> pystr \<Rightarrow> octets option" where
  "aton_from done 0 s =
     (case c_number s of None \<Rightarrow> None
      | Some (v, rest) \<Rightarrow>
          if v < 256 \<and> (rest = [] \<or> is_c_space (hd rest)) then Some (done @ [octn v]) else None)"
| "aton_from done (Suc n) s =
     (case c_number s of None \<Rightarrow> None
      | Some (v, rest) \<Rightarrow>
          if rest \<noteq> [] \<and> hd rest = 46
          then if v < 256 then aton_from (done @ [octn v]) n (tl rest) else None
          else if (rest = [] \<or> is_c_space (hd rest)) \<and> v < 256 ^ Suc (Suc n)
          then Some (done @ be_bytes (Suc (Suc n)) (int v)) else None)"

definition inet_aton :: "pystr \<Rightarrow> octets result" where
  "inet_aton ip = chain (utf8_encode ip) (\<lambda>octets.
     if 0 \<in> set octets then Inl ValueError
     else case aton_from [] 3 (map unat octets) of None \<Rightarrow> Inl OSError | Some a \<Rightarrow> Inr a)"

definition mac :: "pystr \<Rightarrow> int \<Rightarrow> octets result" where
  "mac ip port = cat [inet_aton ip, pack_u 2 port]"

lemma digit_in_ascii: "is_ascii_digit c \<Longrightarrow> digit_in 10 c = Some (c - 48)"
  by (auto simp: digit_in_def is_ascii_digit_def)

lemma c_digits_append:
  "\<forall>c \<in> set ds. is_ascii_digit c \<Longrightarrow> rest = [] \<or> digit_in 10 (hd rest) = None \<Longrightarrow>
   c_digits 10 acc (ds @ rest) = (foldl (\<lambda>a c. a * 10 + (c - 48)) acc ds, rest)"
proof (induction ds arbitrary: acc)
  case Nil
  then show ?case by (cases rest) simp_all
qed (simp add: digit_in_ascii)

lemma decimal_text_value: "foldl (\<lambda>a c. a * 10 + (c - 48)) 0 (decimal_text n) = n"
proof (induction n rule: decimal_text.induct)
  case (1 n)
  then show ?case by (cases "n < 10") (simp_all add: decimal_text.simps [of n])
qed

text \<open>A number written in decimal does not start with 0, unless it is 0.\<close>

lemma decimal_text_head: "0 < n \<Longrightarrow> hd (decimal_text n) \<noteq> 48"
proof (induction n rule: decimal_text.induct)
  case (1 n)
  show ?case
  proof (cases "n < 10")
    case False
    then have "0 < n div 10" by simp
    with 1 False show ?thesis
      using decimal_text_nonempty [of "n div 10"] by (simp add: decimal_text.simps [of n])
  qed (use 1 in \<open>simp add: decimal_text.simps [of n]\<close>)
qed

lemma c_number_decimal:
  assumes "n < 2 ^ 32" "rest = [] \<or> hd rest = 46"
  shows "c_number (decimal_text n @ rest) = Some (n, rest)"
proof -
  have ds: "\<forall>c \<in> set (decimal_text n). is_ascii_digit c" using decimal_text_digits by blast
  have ne: "decimal_text n \<noteq> []" by (rule decimal_text_nonempty)
  then have h: "is_ascii_digit (hd (decimal_text n @ rest))" using ds by (cases "decimal_text n") simp_all
  have stop: "rest = [] \<or> digit_in b (hd rest) = None" for b
    using assms(2) by (auto simp: digit_in_def is_ascii_digit_def)
  show ?thesis
  proof (cases "n = 0")
    case True
    then have "decimal_text n = [48]" by (simp add: decimal_text.simps)
    with stop [of 8] assms(2) show ?thesis
      by (cases rest) (auto simp: c_number_def is_ascii_digit_def digit_in_def True)
  next
    case False
    then have "hd (decimal_text n @ rest) \<noteq> 48" "(decimal_text n @ rest) ! 0 \<noteq> 48"
      using decimal_text_head [of n] ne by (simp_all add: nth_append hd_append hd_conv_nth)
    with h ne assms(1) c_digits_append [OF ds stop, of 0] show ?thesis
      by (simp add: c_number_def decimal_text_value)
  qed
qed

lemma octet_below: "unat (b :: octet) < 256" "unat b < 2 ^ 32"
proof -
  have "unat b < 2 ^ LENGTH(8)" by (rule unsigned_less)
  then show b: "unat b < 256" by simp
  then show "unat b < 2 ^ 32" by (rule order.strict_trans) simp
qed

lemma octn_unat: "octn (unat b) = b"
  by (simp add: octn_def)

lemma aton_point: "aton_from done (Suc n) (decimal_text (unat b) @ lit ''.'' @ s) = aton_from (done @ [b]) n s"
  using c_number_decimal [OF octet_below(2), of "lit ''.'' @ s" b] by (simp add: lit_def octet_below(1) octn_unat)

lemma aton_last: "aton_from done 0 (decimal_text (unat b)) = Some (done @ [b])"
  using c_number_decimal [OF octet_below(2), of "[]" b] by (simp add: octet_below(1) octn_unat)

lemma aton_inet_ntoa:
  assumes "length a = 4"
  shows "aton_from [] 3 (inet_ntoa a) = Some a"
proof -
  have "(3 :: nat) = Suc (Suc (Suc 0))" by simp
  then have "aton_from [] 3 (inet_ntoa a) = Some [a ! 0, a ! 1, a ! 2, a ! 3]"
    by (simp only: inet_ntoa_def aton_point aton_last append.simps)
  then show ?thesis using nth_list_4 [OF assms] by simp
qed

text \<open>An address written as text and read back is the address; \<^verbatim>\<open>mac_text\<close> writes it again.\<close>

lemma mac_of_address:
  assumes "length a = 4" "0 \<le> port" "port < 65536"
  shows "mac (inet_ntoa a) port = Inr (a @ be_bytes 2 port)"
    "mac_text (a @ be_bytes 2 port) = inet_ntoa a @ lit '':'' @ decimal_text (nat port)"
proof -
  have ascii: "c < 128 \<and> c \<noteq> 0" if "c \<in> set (inet_ntoa a)" for c
  proof -
    have "d < 128 \<and> d \<noteq> 0" if "d \<in> set (decimal_text n)" for d n
      using decimal_text_digits [OF that] by (simp add: is_ascii_digit_def)
    then show ?thesis using that by (auto simp: inet_ntoa_def lit_def)
  qed
  then have e: "utf8_encode (inet_ntoa a) = Inr (map octn (inet_ntoa a))" by (intro utf8_encode_ascii) auto
  have u: "map unat (map octn (inet_ntoa a)) = inet_ntoa a"
    using ascii by (simp add: comp_def) (rule map_idI, force simp: unat_octn)
  have "0 \<notin> set (map octn (inet_ntoa a))"
    using ascii u by (metis (no_types, lifting) image_eqI image_set unat_0)
  with e u aton_inet_ntoa [OF assms(1)] assms(2,3) show "mac (inet_ntoa a) port = Inr (a @ be_bytes 2 port)"
    by (simp add: mac_def inet_aton_def pack_u_def)
  show "mac_text (a @ be_bytes 2 port) = inet_ntoa a @ lit '':'' @ decimal_text (nat port)"
    using assms from_be_bytes [of port 2] by (simp add: mac_text_def)
qed

section \<open>Log lines\<close>

definition hex_digit_upper :: "nat \<Rightarrow> nat" where
  "hex_digit_upper d = (if d < 10 then 48 + d else 55 + d)"

text \<open>\<^verbatim>\<open>f"{n:02X}"\<close> of an octet; None cannot be formatted so.\<close>

definition format_02X :: "int option \<Rightarrow> pystr result" where
  "format_02X n = (case n of None \<Rightarrow> Inl TypeError
     | Some v \<Rightarrow> Inr [hex_digit_upper (nat v div 16), hex_digit_upper (nat v mod 16)])"

definition frame_describe :: "frame \<Rightarrow> pystr result" where
  "frame_describe f =
     (let words = lit ''from '' @ fst (f_source f) @ lit '':'' @ int_text (snd (f_source f)) in
      if \<not> f_has_npdu f
      then chain (format_02X (f_bvlc_function f)) (\<lambda>function.
             Inr (words @ lit '' BVLL function=0x'' @ function @ lit '' data='' @ hex_text (f_bvll_data f)))
      else
        let words = words @ (if f_originating_mac f \<noteq> [] then lit '' Forwarded-NPDU originating='' @ mac_text (f_originating_mac f) else []);
            words = words @ (case f_snet f of None \<Rightarrow> [] | Some n \<Rightarrow> lit '' SNET='' @ int_text n @ lit '' SADR='' @ mac_text (f_sadr f));
            words = words @ (case f_dnet f of None \<Rightarrow> [] | Some n \<Rightarrow> lit '' DNET='' @ int_text n) in
        case f_network_message f of
          Some m \<Rightarrow> chain (format_02X (Some m)) (\<lambda>message.
            Inr (words @ lit '' network-message=0x'' @ message @ lit '' data='' @ hex_text (f_payload f)))
        | None \<Rightarrow> Inr (words @ lit '' APDU='' @ hex_text (f_payload f)))"

definition str_int :: "int option \<Rightarrow> pystr" where
  "str_int v = (case v of None \<Rightarrow> lit ''None'' | Some n \<Rightarrow> int_text n)"

definition str_bool :: "bool option \<Rightarrow> pystr" where
  "str_bool v = (case v of None \<Rightarrow> lit ''None'' | Some b \<Rightarrow> if b then lit ''True'' else lit ''False'')"

definition str_pair :: "(int \<times> int) option \<Rightarrow> pystr" where
  "str_pair v = (case v of None \<Rightarrow> lit ''None''
     | Some (t, i) \<Rightarrow> lit ''('' @ int_text t @ lit '', '' @ int_text i @ lit '')'')"

definition event_describe :: "event_notification_data \<Rightarrow> pystr" where
  "event_describe n =
     (if en_confirmed n then lit ''Confirmed'' else lit ''Unconfirmed'') @ lit ''EventNotification object='' @ str_pair (en_event_object n)
     @ lit '' notify-type='' @ str_int (en_notify_type n) @ lit '' from='' @ str_int (en_from_state n)
     @ lit '' to='' @ str_int (en_to_state n) @ lit '' ack-required='' @ str_bool (en_ack_required n)
     @ lit '' class='' @ str_int (en_notification_class n) @ lit '' priority='' @ str_int (en_priority n)
     @ lit '' event-type='' @ str_int (en_event_type n)"

end
