(* ===== verification/Example_Run.thy ===== *)
theory Example_Run
  imports Example_Main
begin

text \<open>
  What stands around start-up and the loop in \<^verbatim>\<open>main.py\<close>: finding and loading the stack library,
  rooting and registering the callbacks, preparing the keyboard and restoring it, and how a run of
  the program ends. What the file system, the loader and the terminal do are inputs.
\<close>

section \<open>Loading the stack\<close>

text \<open>\<^verbatim>\<open>os.path.join\<close> of a folder and a name that does not start with a separator.\<close>

definition join_path :: "pystr \<Rightarrow> pystr \<Rightarrow> pystr \<Rightarrow> pystr" where
  "join_path separator folder name =
     (if folder = [] \<or> drop (length folder - length separator) folder = separator then folder @ name
      else folder @ separator @ name)"

text \<open>Which adapter can be imported: \<^verbatim>\<open>libname\<close> is None where the adapter knows no library for the platform.\<close>

datatype adapter = No_adapter | Adapter "pystr option"

record loading =
  ld_windows :: bool
  ld_repository :: pystr
  ld_adapter :: adapter
  ld_is_file :: "pystr \<Rightarrow> bool"
  ld_binds :: "pystr \<Rightarrow> bool"

definition path_of :: "loading \<Rightarrow> pystr \<Rightarrow> pystr \<Rightarrow> pystr" where
  "path_of l folder name = join_path (if ld_windows l then [92] else [47]) folder name"

definition CAS_BACNET_STACK :: "loading \<Rightarrow> pystr" where
  "CAS_BACNET_STACK l = path_of l (path_of l (ld_repository l) (lit ''submodules'')) (lit ''cas-bacnet-stack'')"

definition ADAPTER_DIRECTORIES :: "loading \<Rightarrow> pystr list" where
  "ADAPTER_DIRECTORIES l = [ld_repository l, path_of l (path_of l (CAS_BACNET_STACK l) (lit ''adapters'')) (lit ''python'')]"

definition LIBRARY_DIRECTORIES :: "loading \<Rightarrow> pystr list" where
  "LIBRARY_DIRECTORIES l = [ld_repository l, path_of l (CAS_BACNET_STACK l) (lit ''bin'')]"

definition FALLBACK_LIBRARY_NAME :: "loading \<Rightarrow> pystr" where
  "FALLBACK_LIBRARY_NAME l =
     (if ld_windows l then lit ''CASBACnetStack_x64_Release.dll'' else lit ''libCASBACnetStack_x64_Release.so'')"

text \<open>None is success; otherwise the missing file and where it was looked for.\<close>

definition load_cas_bacnet_stack :: "loading \<Rightarrow> (pystr \<times> pystr list) option" where
  "load_cas_bacnet_stack l =
     (case ld_adapter l of
        No_adapter \<Rightarrow>
          if \<not> list_ex (\<lambda>d. ld_is_file l (path_of l d (FALLBACK_LIBRARY_NAME l))) (LIBRARY_DIRECTORIES l)
          then Some (FALLBACK_LIBRARY_NAME l, LIBRARY_DIRECTORIES l)
          else Some (lit ''CASBACnetStackAdapterBindings.py'', ADAPTER_DIRECTORIES l)
      | Adapter None \<Rightarrow> Some (FALLBACK_LIBRARY_NAME l, LIBRARY_DIRECTORIES l)
      | Adapter (Some libname) \<Rightarrow>
          (case find (\<lambda>d. ld_is_file l (path_of l d libname)) (LIBRARY_DIRECTORIES l) of
             None \<Rightarrow> Some (libname, LIBRARY_DIRECTORIES l)
           | Some d \<Rightarrow> if ld_binds l (path_of l d libname) then None else Some (libname, LIBRARY_DIRECTORIES l)))"

fun join_text :: "pystr \<Rightarrow> pystr list \<Rightarrow> pystr" where
  "join_text separator [] = []"
| "join_text separator [x] = x"
| "join_text separator (x # y # ys) = x @ separator @ join_text separator (y # ys)"

definition print_missing_stack_library :: "pystr \<Rightarrow> pystr list \<Rightarrow> pystr list" where
  "print_missing_stack_library missing_file searched_directories =
     (let looked_in = join_text ([10] @ replicate 16 32) searched_directories in
      [lit ''ERROR: This example cannot run without the CAS BACnet Stack library.'', [],
       lit ''  Missing file: '' @ missing_file, lit ''  Looked in:    '' @ looked_in, [],
       lit ''The CAS BACnet Stack is a commercially licensed (paid) library from Chipkin.'',
       lit ''It is not included in this release, so the example cannot start without it.'', [],
       lit ''  - To license the CAS BACnet Stack: https://store.chipkin.com/contact-us'',
       lit ''  - Licensed customers: build the library from the cas-bacnet-stack submodule'',
       lit ''    (see README.md) and place '' @ missing_file @ lit '' next to this executable.''])"

text \<open>The environment start-up runs in: the version is what the loaded stack reports.\<close>

definition loaded_environment :: "loading \<Rightarrow> int \<times> int \<times> int \<times> int \<Rightarrow> environment \<Rightarrow> environment" where
  "loaded_environment l version env =
     (case load_cas_bacnet_stack l of
        None \<Rightarrow> env\<lparr>env_stack_version := Some version\<rparr>
      | Some (missing_file, folders) \<Rightarrow>
          env\<lparr>env_stack_version := None, env_missing := print_missing_stack_library missing_file folders\<rparr>)"

section \<open>Callbacks\<close>

datatype callback =
    Receive_message | Send_message | System_time
  | Property_real | Property_enumerated | Property_unsigned_integer | Property_character_string | Property_bool
  | Property_octet_string

text \<open>\<open>Root\<close> appends to \<^verbatim>\<open>_callback_refs\<close>, \<open>Register\<close> hands the callback to the stack.\<close>

datatype binding = Root callback | Register callback

definition register_common_callbacks :: "pystr option \<Rightarrow> (LocalIPv4 \<times> binding list) result" where
  "register_common_callbacks probe = chain (get_local_ipv4 probe) (\<lambda>local.
     Inr (local, [Root Receive_message, Root Send_message, Root System_time,
                  Register Receive_message, Register Send_message, Register System_time]))"

definition property_callbacks :: "callback list" where
  "property_callbacks = [Property_real, Property_enumerated, Property_unsigned_integer, Property_character_string,
     Property_bool, Property_octet_string]"

definition register_property_callbacks :: "binding list" where
  "register_property_callbacks = concat (map (\<lambda>callback. [Root callback, Register callback]) property_callbacks)"

definition on_get_system_time :: "pyfloat \<Rightarrow> int result" where
  "on_get_system_time now = float_trunc now"

text \<open>A callback is rooted before the stack gets it, and each is registered once.\<close>

fun rooted_first :: "callback set \<Rightarrow> binding list \<Rightarrow> bool" where
  "rooted_first roots [] = True"
| "rooted_first roots (Root c # bs) = rooted_first (insert c roots) bs"
| "rooted_first roots (Register c # bs) = (c \<in> roots \<and> rooted_first roots bs)"

lemma callbacks_rooted:
  assumes "register_common_callbacks probe = Inr (local, bs)"
  shows "rooted_first {} (bs @ register_property_callbacks)"
    "distinct (filter (\<lambda>b. case b of Register _ \<Rightarrow> True | Root _ \<Rightarrow> False) (bs @ register_property_callbacks))"
  using assms
  by (auto simp: register_common_callbacks_def register_property_callbacks_def property_callbacks_def result_simps)

section \<open>The keyboard\<close>

record 'a terminal =
  tm_flags :: int
  tm_attributes :: 'a

datatype 'a restore_action = Set_flags int | Set_attributes 'a

text \<open>\<^verbatim>\<open>sys.stdin\<close>: absent, or a descriptor that may be a terminal.\<close>

datatype stdin = Absent | Windows_stdin bool | Posix_stdin bool

record 'a input_setup =
  input_configured :: bool
  restore_actions :: "'a restore_action list"
  piped_keys :: "KeyCommand list option"
  terminal_now :: "'a terminal"

definition unconfigured :: "'a terminal \<Rightarrow> 'a input_setup" where
  "unconfigured t = \<lparr>input_configured = False, restore_actions = [], piped_keys = None, terminal_now = t\<rparr>"

text \<open>\<open>o_nonblock\<close> and \<open>cbreak\<close> are \<^verbatim>\<open>os.O_NONBLOCK\<close> and \<^verbatim>\<open>tty.setcbreak\<close>, which the platform decides.\<close>

definition configure_input :: "stdin \<Rightarrow> int \<Rightarrow> ('a \<Rightarrow> 'a) \<Rightarrow> 'a input_setup \<Rightarrow> 'a input_setup" where
  "configure_input stdin o_nonblock cbreak s =
     (let s = s\<lparr>input_configured := True\<rparr> in
      case stdin of
        Absent \<Rightarrow> s
      | Windows_stdin is_tty \<Rightarrow> if is_tty then s else s\<lparr>piped_keys := Some []\<rparr>
      | Posix_stdin is_tty \<Rightarrow>
          let t = terminal_now s; flags = tm_flags t;
              s = s\<lparr>terminal_now := t\<lparr>tm_flags := flags OR o_nonblock\<rparr>,
                    restore_actions := restore_actions s @ [Set_flags flags]\<rparr> in
          if is_tty
          then let t = terminal_now s; original = tm_attributes t in
               s\<lparr>terminal_now := t\<lparr>tm_attributes := cbreak original\<rparr>,
                 restore_actions := restore_actions s @ [Set_attributes original]\<rparr>
          else s)"

text \<open>What the thread on a redirected Windows stdin puts into the queue, byte by byte until the end of input.\<close>

fun read_piped_keys :: "octets \<Rightarrow> KeyCommand list \<Rightarrow> KeyCommand list" where
  "read_piped_keys [] queue = queue"
| "read_piped_keys (b # bs) queue =
     (let key = letter_key b in read_piped_keys bs (if key \<noteq> NO_KEY then queue @ [key] else queue))"

fun run_action :: "'a restore_action \<Rightarrow> 'a terminal \<Rightarrow> 'a terminal" where
  "run_action (Set_flags flags) t = t\<lparr>tm_flags := flags\<rparr>"
| "run_action (Set_attributes a) t = t\<lparr>tm_attributes := a\<rparr>"

text \<open>
  What an action does: it runs, it raises OSError or ValueError, or something else; \<^verbatim>\<open>termios.error\<close>,
  which \<^verbatim>\<open>termios.tcsetattr\<close> raises, is neither.
\<close>

datatype restore_outcome = Restored | Swallowed | Escapes py_exc

text \<open>\<^verbatim>\<open>while _restore_actions\<close>: the last one first; each is popped before it runs.\<close>

fun restore_from ::
  "('a restore_action \<Rightarrow> restore_outcome) \<Rightarrow> 'a restore_action list \<Rightarrow> 'a terminal
   \<Rightarrow> 'a terminal \<times> 'a restore_action list \<times> unit result" where
  "restore_from outcome [] t = (t, [], Inr ())"
| "restore_from outcome (a # as) t =
     (case outcome a of
        Restored \<Rightarrow> restore_from outcome as (run_action a t)
      | Swallowed \<Rightarrow> restore_from outcome as t
      | Escapes x \<Rightarrow> (t, as, Inl x))"

definition restore_input :: "('a restore_action \<Rightarrow> restore_outcome) \<Rightarrow> 'a input_setup \<Rightarrow> 'a input_setup \<times> unit result" where
  "restore_input outcome s =
     (case restore_from outcome (rev (restore_actions s)) (terminal_now s) of
        (t, left, r) \<Rightarrow> (s\<lparr>terminal_now := t, restore_actions := rev left\<rparr>, r))"

text \<open>
  Whatever was configured, each part of the terminal whose action runs is as it was, when no exception escapes.
\<close>

lemma input_restored:
  assumes "\<forall>a x. outcome a \<noteq> Escapes x" "s = unconfigured t \<or> s = configure_input stdin o_nonblock cbreak (unconfigured t)"
    "restore_input outcome s = (s', r)"
  shows "r = Inr ()" "restore_actions s' = []"
    "outcome (Set_flags (tm_flags t)) = Restored \<longrightarrow> tm_flags (terminal_now s') = tm_flags t"
    "outcome (Set_attributes (tm_attributes t)) = Restored \<longrightarrow> tm_attributes (terminal_now s') = tm_attributes t"
  using assms
  by (auto simp: restore_input_def configure_input_def unconfigured_def Let_def
      split: stdin.splits restore_outcome.splits if_splits)

text \<open>The keys of a pipe come out of \<^verbatim>\<open>poll_key\<close> in the order they were typed.\<close>

lemma read_piped_keys_eq: "read_piped_keys bs queue = queue @ filter (\<lambda>k. k \<noteq> NO_KEY) (map letter_key bs)"
  by (induction bs arbitrary: queue) (simp_all add: Let_def)

lemma poll_piped: "poll_key (Piped (read_piped_keys bs [])) =
  (case filter (\<lambda>k. k \<noteq> NO_KEY) (map letter_key bs) of [] \<Rightarrow> (NO_KEY, Piped []) | k # ks \<Rightarrow> (k, Piped ks))"
  by (simp add: poll_key_def read_piped_keys_eq)

section \<open>How a run ends\<close>

datatype ending = Returns int | Raises py_exc

text \<open>
  The \<^verbatim>\<open>finally\<close> block: the input is restored, then the socket is closed; an exception that escapes the restoring
  replaces how the loop ended and skips the rest.
\<close>

definition leave_loop ::
  "('a restore_action \<Rightarrow> restore_outcome) \<Rightarrow> simple_udp \<Rightarrow> 'a input_setup \<Rightarrow> ending \<Rightarrow> ending \<times> simple_udp \<times> 'a input_setup" where
  "leave_loop outcome udp s ending =
     (case restore_input outcome s of
        (s, Inl x) \<Rightarrow> (Raises x, udp, s)
      | (s, Inr _) \<Rightarrow> (ending, udp_shutdown udp, s))"

text \<open>
  How \<^verbatim>\<open>main\<close> ends, with the socket and the input as the \<^verbatim>\<open>finally\<close> block leaves them where it is reached.
  The first key poll configures the input; a signal before the first iteration, or an iteration that raises, may come
  before it.
\<close>

inductive main_ends ::
  "environment \<Rightarrow> pystr list \<Rightarrow> ('a input_setup \<Rightarrow> 'a input_setup) \<Rightarrow> 'a terminal \<Rightarrow> ('a restore_action \<Rightarrow> restore_outcome)
   \<Rightarrow> ending \<Rightarrow> (simple_udp \<times> 'a input_setup) option \<Rightarrow> bool" for env argv configure t outcome where
  exits: "main_startup env argv = Inr (Exited code lines) \<Longrightarrow> main_ends env argv configure t outcome (Returns code) None"
| fails: "main_startup env argv = Inl x \<Longrightarrow> main_ends env argv configure t outcome (Raises x) None"
| stops_early: "main_startup env argv = Inr (Ready udp d calls) \<Longrightarrow>
    leave_loop outcome udp (unconfigured t) (Returns 0) = (ending, udp', s) \<Longrightarrow>
    main_ends env argv configure t outcome ending (Some (udp', s))"
| stops: "main_startup env argv = Inr (Ready udp d calls) \<Longrightarrow> loop_reaches UNIV d e False \<Longrightarrow>
    leave_loop outcome udp (configure (unconfigured t)) (Returns 0) = (ending, udp', s) \<Longrightarrow>
    main_ends env argv configure t outcome ending (Some (udp', s))"
| breaks: "main_startup env argv = Inr (Ready udp d calls) \<Longrightarrow> loop_reaches UNIV d e True \<Longrightarrow>
    main_iteration v now_s c opens key interrupted e = Inl x \<Longrightarrow> polled \<in> {id, configure} \<Longrightarrow>
    leave_loop outcome udp (polled (unconfigured t)) (Raises x) = (ending, udp', s) \<Longrightarrow>
    main_ends env argv configure t outcome ending (Some (udp', s))"

definition asks_help :: "pystr list \<Rightarrow> bool" where
  "asks_help argv \<longleftrightarrow> (\<exists>x \<in> set (drop 1 argv). x \<in> {lit ''--help'', lit ''-h'', lit ''/?'', lit ''--version''})"

lemma create_device_exit: "create_device env version port device name udp lines = Inr (Exited code out) \<Longrightarrow> code = 1"
proof -
  assume exited: "create_device env version port device name udp lines = Inr (Exited code out)"
  obtain calls r where "run_setup (env_stack env) (device_setup device) = (calls, r)" by fastforce
  then show ?thesis using exited by (cases r) (auto simp: create_device_def result_simps)
qed

lemma start_device_exit:
  assumes "start_device env argv version = Inr (Exited code out)"
  shows "code = 1"
proof -
  from assms obtain port a device b where
    "(case parse_device_name_arg argv DEVICE_NAME of (name, name_lines) \<Rightarrow>
       let lines = a @ b @ name_lines @ print_version (Some version) APP_NAME APP_VERSION;
         (bound, ex) = (case env_bind env of Inl ex \<Rightarrow> (False, ex) | Inr _ \<Rightarrow> (True, []))
       in case setup_udp new_udp port NETWORK_PORT_INSTANCE bound ex of (udp, ok, udp_lines) \<Rightarrow>
        if \<not> ok then Inr (Exited 1 (lines @ udp_lines))
        else create_device env version port device name udp (lines @ udp_lines)) = Inr (Exited code out)"
    by (auto simp: start_device_def result_simps)
  then show ?thesis
    by (auto simp: Let_def split: prod.splits if_splits dest: create_device_exit)
qed

lemma startup_exit_codes:
  assumes "main_startup env argv = Inr (Exited code lines)"
  shows "code = (if asks_help argv then 0 else 1)"
proof -
  have h: "fst (handle_help_and_version_args (env_stack_version env) argv APP_NAME APP_VERSION True) = asks_help argv"
    by (simp add: handle_help_and_version_args_def help_and_version_iff asks_help_def)
  then show ?thesis
    using assms
    by (auto simp: main_startup_def split: prod.splits if_splits option.splits dest: start_device_exit)
qed

lemma startup_help:
  assumes "asks_help argv"
  shows "\<exists>lines. main_startup env argv = Inr (Exited 0 lines)"
proof -
  have h: "fst (handle_help_and_version_args (env_stack_version env) argv APP_NAME APP_VERSION True)"
    using assms by (simp add: handle_help_and_version_args_def help_and_version_iff asks_help_def)
  then show ?thesis by (auto simp: main_startup_def split: prod.split)
qed

lemma startup_unloaded:
  assumes "env_stack_version env = None" "\<not> asks_help argv"
  shows "main_startup env argv = Inr (Exited 1 (env_missing env))"
proof -
  have h: "\<not> fst (handle_help_and_version_args None argv APP_NAME APP_VERSION True)"
    using assms by (simp add: handle_help_and_version_args_def help_and_version_iff asks_help_def)
  then show ?thesis using assms(1) by (auto simp: main_startup_def split: prod.split)
qed

lemma leave_loop_restores:
  assumes "\<forall>a x. outcome a \<noteq> Escapes x" "s = unconfigured t \<or> s = configure_input stdin o_nonblock cbreak (unconfigured t)"
    "leave_loop outcome udp s ending = (ending', udp', s')"
  shows "ending' = ending \<and> \<not> has_socket udp' \<and> restore_actions s' = []
    \<and> (outcome (Set_flags (tm_flags t)) = Restored \<longrightarrow> tm_flags (terminal_now s') = tm_flags t)
    \<and> (outcome (Set_attributes (tm_attributes t)) = Restored \<longrightarrow> tm_attributes (terminal_now s') = tm_attributes t)"
proof -
  obtain s1 r where r: "restore_input outcome s = (s1, r)" by fastforce
  note restored = input_restored [OF assms(1,2) r]
  with r assms(3) have "s' = s1" "ending' = ending" "udp' = udp_shutdown udp" by (simp_all add: leave_loop_def)
  with restored show ?thesis by (simp add: udp_shutdown_def)
qed

text \<open>Any ending after start-up got there through the \<^verbatim>\<open>finally\<close> block.\<close>

lemma main_left:
  assumes "main_ends env argv (configure_input stdin o_nonblock cbreak) t outcome ending (Some (udp', s'))"
  obtains udp d calls s first where "main_startup env argv = Inr (Ready udp d calls)"
    "leave_loop outcome udp s first = (ending, udp', s')" "first = Returns 0 \<or> (\<exists>x. first = Raises x)"
    "s = unconfigured t \<or> s = configure_input stdin o_nonblock cbreak (unconfigured t)"
  using assms by cases fastforce+

text \<open>
  C17. However the program ends: when it returns, it returns 0 exactly when help or the version was asked for or the loop
  was told to stop, and 1 otherwise. Once the loop was entered, even when an iteration raises, the
  socket is closed and the terminal is as it was, unless restoring it fails: a part whose restoring raises OSError or
  ValueError is left, the rest is restored. Without the stack library it prints which file is
  missing and returns 1, unless help or the version was asked for, and never enters the loop.
\<close>

theorem main_returns:
  assumes "main_ends (loaded_environment l version env) argv (configure_input stdin o_nonblock cbreak) t outcome ending after"
  shows "(\<forall>code. ending = Returns code \<longrightarrow> code = (if asks_help argv \<or> after \<noteq> None then 0 else 1))
    \<and> (\<forall>udp s. after = Some (udp, s) \<and> (\<forall>a x. outcome a \<noteq> Escapes x) \<longrightarrow> \<not> has_socket udp \<and> restore_actions s = []
        \<and> (outcome (Set_flags (tm_flags t)) = Restored \<longrightarrow> tm_flags (terminal_now s) = tm_flags t)
        \<and> (outcome (Set_attributes (tm_attributes t)) = Restored \<longrightarrow> tm_attributes (terminal_now s) = tm_attributes t)
        \<and> ((\<forall>a. outcome a = Restored) \<longrightarrow> terminal_now s = t))
    \<and> (\<forall>missing_file folders. load_cas_bacnet_stack l = Some (missing_file, folders) \<and> \<not> asks_help argv \<longrightarrow>
        ending = Returns 1 \<and> after = None \<and> main_startup (loaded_environment l version env) argv
          = Inr (Exited 1 (print_missing_stack_library missing_file folders)))"
proof -
  let ?env = "loaded_environment l version env"
  have missing: "main_startup ?env argv = Inr (Exited 1 (print_missing_stack_library f ds))"
    if "load_cas_bacnet_stack l = Some (f, ds)" "\<not> asks_help argv" for f ds
    using startup_unloaded [of ?env argv] that by (simp add: loaded_environment_def)
  have asked: "\<exists>lines. main_startup ?env argv = Inr (Exited 0 lines)" if "asks_help argv"
    using startup_help [OF that] .
  show ?thesis
  proof (cases after)
    case None
    from assms None have "(\<exists>code lines. main_startup ?env argv = Inr (Exited code lines) \<and> ending = Returns code)
        \<or> (\<exists>x. main_startup ?env argv = Inl x \<and> ending = Raises x)" by cases auto
    with None startup_exit_codes missing show ?thesis by fastforce
  next
    case (Some left)
    obtain udp' s' where left: "left = (udp', s')" by fastforce
    with assms Some obtain udp d calls s first where ready: "main_startup ?env argv = Inr (Ready udp d calls)"
      and leave: "leave_loop outcome udp s first = (ending, udp', s')" "first = Returns 0 \<or> (\<exists>x. first = Raises x)"
        "s = unconfigured t \<or> s = configure_input stdin o_nonblock cbreak (unconfigured t)"
      by (auto elim: main_left)
    from leave(1,2) have "\<forall>code. ending = Returns code \<longrightarrow> code = 0"
      by (auto simp: leave_loop_def split: prod.splits sum.splits)
    with ready leave_loop_restores [OF _ leave(3,1)] missing asked Some left show ?thesis by fastforce
  qed
qed

text \<open>
  When restoring the attributes of a terminal raises anything else, that exception ends the program, the flags stay
  changed and the socket stays open.
\<close>

lemma escaping_restore:
  assumes "outcome (Set_attributes (tm_attributes t)) = Escapes x"
    "leave_loop outcome udp (configure_input (Posix_stdin True) o_nonblock cbreak (unconfigured t)) ending = (ending', udp', s')"
  shows "ending' = Raises x \<and> udp' = udp \<and> tm_flags (terminal_now s') = tm_flags t OR o_nonblock
    \<and> restore_actions s' = [Set_flags (tm_flags t)]"
  using assms by (auto simp: leave_loop_def restore_input_def configure_input_def unconfigured_def Let_def)

lemma escaping_restore_witness:
  "\<exists>udp' s'. leave_loop (\<lambda>a. case a of Set_flags _ \<Rightarrow> Restored | Set_attributes _ \<Rightarrow> Escapes OSError)
      \<lparr>has_socket = True, udp_port = 47808\<rparr>
      (configure_input (Posix_stdin True) 2048 (\<lambda>_. False) (unconfigured \<lparr>tm_flags = 2, tm_attributes = True\<rparr>)) (Returns 0)
    = (Raises OSError, udp', s') \<and> has_socket udp'"
proof -
  obtain ending' udp' s' where l: "leave_loop (\<lambda>a. case a of Set_flags _ \<Rightarrow> Restored | Set_attributes _ \<Rightarrow> Escapes OSError)
      \<lparr>has_socket = True, udp_port = 47808\<rparr>
      (configure_input (Posix_stdin True) 2048 (\<lambda>_. False) (unconfigured \<lparr>tm_flags = 2, tm_attributes = True\<rparr>)) (Returns 0)
    = (ending', udp', s')" by (metis prod_cases3)
  from escaping_restore [OF _ l, of OSError] l show ?thesis by simp
qed

lemma main_returns_witness:
  "\<exists>l env. load_cas_bacnet_stack l = Some (lit ''libCASBACnetStack_x64_Release.so'', LIBRARY_DIRECTORIES l)
    \<and> main_ends (loaded_environment l (6, 0, 0, 0) env) [lit ''main.py''] (configure_input (Posix_stdin True) 2048 (\<lambda>_. False))
        \<lparr>tm_flags = 2, tm_attributes = True\<rparr> (\<lambda>_. Restored) (Returns 1) None
    \<and> main_startup (loaded_environment l (6, 0, 0, 0) env) [lit ''main.py''] = Inr (Exited 1
        (print_missing_stack_library (lit ''libCASBACnetStack_x64_Release.so'') (LIBRARY_DIRECTORIES l)))"
proof -
  let ?l = "\<lparr>ld_windows = False, ld_repository = lit ''/opt/bss'', ld_adapter = No_adapter, ld_is_file = \<lambda>_. False, ld_binds = \<lambda>_. False\<rparr>"
  let ?env = "\<lparr>env_stack_version = None, env_missing = [], env_bind = Inr (), env_probe = None, env_stack = \<lambda>_. True,
    env_fault_file = [], env_i_am_sent = True\<rparr>"
  have load: "load_cas_bacnet_stack ?l = Some (lit ''libCASBACnetStack_x64_Release.so'', LIBRARY_DIRECTORIES ?l)"
    by (simp add: load_cas_bacnet_stack_def FALLBACK_LIBRARY_NAME_def list_ex_iff)
  have no_help: "\<not> asks_help [lit ''main.py'']" by (simp add: asks_help_def)
  from startup_unloaded [OF _ no_help, of "loaded_environment ?l (6, 0, 0, 0) ?env"] load
  have "\<exists>lines. main_startup (loaded_environment ?l (6, 0, 0, 0) ?env) [lit ''main.py''] = Inr (Exited 1 lines)"
    by (simp add: loaded_environment_def)
  then have ends: "main_ends (loaded_environment ?l (6, 0, 0, 0) ?env) [lit ''main.py'']
      (configure_input (Posix_stdin True) 2048 (\<lambda>_. False)) \<lparr>tm_flags = 2, tm_attributes = True\<rparr> (\<lambda>_. Restored) (Returns 1) None"
    by (auto intro: main_ends.exits)
  from main_returns [OF ends] load no_help ends show ?thesis by blast
qed

end
