(* ===== verification/Spec2Isabelle.thy ===== *)
theory Spec2Isabelle
  imports Codec_Errors Workstation_Laws Snapshot_Exchange Array_Exchange Wire_Control Wire_Constants Wire_Text Example_Run
begin

text \<open>
  A verification development for the BACnet B-SS (Smart Sensor) example: the sensor device of
  \<^verbatim>\<open>main.py\<close> with its helpers under \<^verbatim>\<open>common/\<close>, and \<^verbatim>\<open>wiretest/\<close>, the library of clients, simulated peers and
  tools its tests read the device with.

  The program. \<^verbatim>\<open>main.py\<close> keeps its state in module globals. The licensed CAS BACnet Stack, which is
  not part of the repository, calls the Get callbacks when a client reads a property and the two
  transport callbacks to receive and send; a once-a-second simulation changes the sensor values;
  one loop runs both and polls the keyboard. The wire tests build and take apart whole datagrams
  with pure functions over octet strings. On these stand a client with retries, a workstation that
  acknowledges event notifications on a thread of its own, simulated devices and servers that answer
  such clients, and tools that start an example, read its console and wait.

  The theories, in order of import. What all share:
  \<^item> \<^verbatim>\<open>Bacnet_Prelude\<close>: octets, Python exceptions as values of a sum (\<^verbatim>\<open>chain\<close> sequences, \<^verbatim>\<open>cat\<close> is
    \<^verbatim>\<open>+\<close> of octet strings), \<^verbatim>\<open>to_bytes\<close>, \<^verbatim>\<open>from_bytes\<close> and \<^verbatim>\<open>struct\<close> for whole numbers;
  \<^item> \<^verbatim>\<open>Py_Text\<close>: strings as code points, UTF-8 in both directions, decimal tokens;
  \<^item> \<^verbatim>\<open>Py_Float\<close>: IEEE 754 floats as exact multiples of \<open>2 ^ (-1074)\<close> with the rounding of addition
    and multiplication, and \<^verbatim>\<open>struct\<close>'s binary32 and binary64.

  The codec, \<^verbatim>\<open>wiretest/codec.py\<close>:
  \<^item> \<^verbatim>\<open>Codec_Numbers\<close>, \<^verbatim>\<open>Codec_Encode\<close>, \<^verbatim>\<open>Codec_Decode\<close>: function by function and under the names of the
    source (\<^verbatim>\<open>opening\<close>, \<^verbatim>\<open>closing\<close> are \<^verbatim>\<open>opening_tag\<close>, \<^verbatim>\<open>closing_tag\<close>; the methods of \<^verbatim>\<open>Frame\<close> are functions
    of the record \<^verbatim>\<open>frame\<close>). \<^verbatim>\<open>for_tags\<close> is the loop its parsers share;
  \<^item> \<^verbatim>\<open>Codec_Laws\<close>: reading a tag is local, the reference encoding of a tag, runs of tags;
  \<^item> \<^verbatim>\<open>Codec_Roundtrip\<close>: the locales \<^verbatim>\<open>value_codec\<close>, \<^verbatim>\<open>application_codec\<close> and \<^verbatim>\<open>context_codec\<close>, the contract
    of an encoder, with the facts about single values and runs that follow from it; \<^verbatim>\<open>Codec_Values\<close>:
    the encoders of the source as interpretations, and the value round trips;
  \<^item> \<^verbatim>\<open>Codec_Apdu\<close>, \<^verbatim>\<open>Codec_Frame\<close>, \<^verbatim>\<open>Codec_Errors\<close>: round trips of APDUs and datagrams, and what the
    decoders raise on octets no encoder wrote.

  The device, \<^verbatim>\<open>main.py\<close> and \<^verbatim>\<open>common/\<close>:
  \<^item> \<^verbatim>\<open>Example_Constants\<close>, \<^verbatim>\<open>Sensor\<close>, \<^verbatim>\<open>Property_Callbacks\<close>: sections 1 to 3: the record \<^verbatim>\<open>sensor_device\<close> of
    the globals, the simulation and the six Get callbacks;
  \<^item> \<^verbatim>\<open>Example_Helper\<close>: command line, local address, socket, transport callbacks, keys;
  \<^item> \<^verbatim>\<open>Example_Main\<close>: start-up as a sequence of calls into the stack, the loop as the relation
    \<^verbatim>\<open>loop_reaches\<close>, and the locale \<^verbatim>\<open>loop_invariant\<close> for what survives it;
  \<^item> \<^verbatim>\<open>Example_Run\<close>: loading the library, rooting the callbacks, the terminal and how its restoring may fail, the \<^verbatim>\<open>finally\<close>
    block (\<^verbatim>\<open>leave_loop\<close>) and the relation \<^verbatim>\<open>main_ends\<close> of a whole run.

  The tests' library, \<^verbatim>\<open>wiretest/\<close>:
  \<^item> \<^verbatim>\<open>Wire_Peer\<close> (\<^verbatim>\<open>peer.py\<close>): \<^verbatim>\<open>SimulatedDevice\<close> and, as a record extension, \<^verbatim>\<open>SimulatedServer\<close>; a served
    callable is a function of an environment; the serving thread over the datagrams that arrive, and the
    locale \<^verbatim>\<open>peer_invariant\<close> for what it keeps;
  \<^item> \<^verbatim>\<open>Server_Laws\<close>, \<^verbatim>\<open>Server_Refinement\<close>: the locale \<^verbatim>\<open>value_invariant\<close> with its interpretations, the abstract
    specification \<^verbatim>\<open>command_spec\<close> (commands by priority, of which the least wins) and the abstraction
    \<^verbatim>\<open>abstract_server\<close>;
  \<^item> \<^verbatim>\<open>Wire_Endpoint\<close>, \<^verbatim>\<open>Wire_Client\<close>, \<^verbatim>\<open>Wire_Workstation\<close> (\<^verbatim>\<open>endpoint.py\<close>, \<^verbatim>\<open>client.py\<close>, \<^verbatim>\<open>workstation.py\<close>);
  \<^item> \<^verbatim>\<open>Wire_Services\<close>, \<^verbatim>\<open>Wire_Alarm\<close> (\<^verbatim>\<open>services.py\<close>, \<^verbatim>\<open>alarm.py\<close>): request builders and parsers; \<^verbatim>\<open>walk_tags\<close> and
    \<^verbatim>\<open>event_from\<close> are their loops, and \<^verbatim>\<open>Tag_Loops\<close> shows how such a loop acts on octets an encoder wrote;
  \<^item> \<^verbatim>\<open>Wire_Exchange\<close>, \<^verbatim>\<open>Command_Exchange\<close>, \<^verbatim>\<open>Failure_Exchange\<close>, \<^verbatim>\<open>Snapshot_Exchange\<close>, \<^verbatim>\<open>Event_Exchange\<close>:
    a client and a server together, from the call of a client's method to what its parser makes of the answer;
    \<^verbatim>\<open>Discovery_Exchange\<close> (Who-Is) and \<^verbatim>\<open>Array_Exchange\<close> (array indices) go on with them, \<^verbatim>\<open>Workstation_Laws\<close> holds
    what a workstation's requests promise while its thread receives; the locale \<^verbatim>\<open>discoverable\<close> is the contract
    of a peer that a Who-Is finds, and \<^verbatim>\<open>object_request\<close> is what a read and a write share for a planned failure;
  \<^item> \<^verbatim>\<open>Wire_Wait\<close> (\<^verbatim>\<open>wait.py\<close>, \<^verbatim>\<open>results.py\<close>), \<^verbatim>\<open>Console_Text\<close> and \<^verbatim>\<open>Wire_Process\<close> (\<^verbatim>\<open>process.py\<close> and the regular
    expressions it uses), \<^verbatim>\<open>Wire_Control\<close> (\<^verbatim>\<open>control.py\<close>), \<^verbatim>\<open>Wire_Text\<close> (addresses and log lines),
    \<^verbatim>\<open>Wire_Constants\<close> (the numbers only tests use, which agree with the device's).

  How the state corresponds. A module global is a field of \<^verbatim>\<open>sensor_device\<close> with the same name (without
  the leading underscore of the three private ones); an attribute of a wire-test object is a field
  with a prefix for its class (\<^verbatim>\<open>sd_\<close>, \<^verbatim>\<open>ss_\<close>, \<^verbatim>\<open>cl_\<close>, \<^verbatim>\<open>ws_\<close>, \<^verbatim>\<open>ct_\<close>). A callback's result and
  out-parameters are the datatype \<^verbatim>\<open>reply\<close>. What the outside decides is an input: clock readings (whole
  ticks), whether the fault file opens, the outcome of socket calls, typed bytes, what a console shows
  and whether its program has ended, and the stack's answers (\<^verbatim>\<open>env_stack\<close>, a function of the call). No
  law of the stack is assumed. Printed lines and sent datagrams are kept.

  What the properties show. A server implements its specification, and what a client commands, in
  any state a server can reach, it reads back, or the default after relinquishing (C1, C2, C23, C24).
  A client finds a server by Who-Is and reads its arrays element by element (C8 and C9).
  A snapshot of many properties and an event notification arrive as they were sent (C3 and C4). A
  planned failure, a refused write and a silence reach the client as what they are (C5 to C7), and an
  offline server says nothing (C22). The
  parsers invert the encoders, for APDUs, datagrams and values, with the exact domains (C10 to C13, C26 to C28).
  The sensor follows its closed form, stays in its ranges whatever the loop does, and freezes while the
  wire is broken; only a quit or a signal ends the loop (C14, C15, C37, C38, C40). Start-up makes the planned
  calls, and every run ends as it should (C16 and C17). The configured name is what
  clients read (C18); no property is served twice and errors are named in one case only (the lemmas
  \<^verbatim>\<open>at_most_one_answer\<close> and \<^verbatim>\<open>only_state_text_errors\<close>). Requests and waits end
  (C19 and C20), the console and the control channel are read rightly (C29 to C31), the transport callbacks
  and, up to 4300 characters an argument, the command line are right (C36, C39). Where the code fails, a theorem says
  so: C21, C25, C32 to C35, and in part C29 to C31.

  Bounds. No definition uses fuel. A loop of the modelled code either ends, structurally or because
  reading a tag moves forward (\<^verbatim>\<open>read_tag_progress\<close>), or it waits for the outside; then it is a
  \<open>partial_function\<close>, None is a wait that never ends, and it is proved to return once the clock reaches its
  deadline. Python integers are unbounded. Octet positions are natural numbers. Context tag numbers are
  0 to 14, as in all calls of the source; character strings are decoded correctly up to 252 octets, which C35 shows
  to be sharp, and bit strings up to 24 bits. Both ends of an exchange receive at most 2048 octets of a
  datagram (\<^verbatim>\<open>received_octets\<close>); where an exchange carries values, they have at most 2000 octets, which
  leaves room for the headers, or request and answer are required to fit.

  Not modelled: the system calls themselves (opening, closing and selecting sockets, starting threads and
  processes, reading files), \<^verbatim>\<open>Answer.describe\<close> (it prints Python's \<^verbatim>\<open>repr\<close> of floats), an OSError out of a send,
  and the scripts under \<^verbatim>\<open>tests/\<close>, which run the example
  against the licensed stack.
\<close>

section \<open>Properties that span components\<close>

text \<open>
  C12. The sensor reading crosses the wire unchanged: without arrow keys, the Present_Value the loop's device
  answers, encoded as a REAL in a ReadProperty-ACK, is found there by the wire test's
  \<^verbatim>\<open>read_property_value\<close> and decoded to exactly that float.
\<close>

theorem reading_crosses_wire:
  assumes "loop_reaches {NO_KEY, HELP, QUIT} d e going" "sensor_ok d" "on_ramp d"
    "get_property_real e device 0 1 85 = Answer v" "0 \<le> invoke_id" "invoke_id < 256"
  shows "\<exists>octets ack. application_real v = Inr octets \<and> read_property_ack invoke_id 0 1 85 octets = Inr ack
    \<and> read_property_value ack = Inr (Some octets) \<and> decode_application octets = Inr (PFloat v)"
proof -
  from ramp.reached [OF assms(1)] assms(2-4) obtain h where "36 \<le> h" "h \<le> 52" "v = half h"
    by (auto simp: get_property_real_def on_ramp_def split: if_splits)
  then have v: "float32 v" using float32_half [of h 18] by simp
  obtain x where x: "application_real v = Inr x" "tag_of x = Some (4, False, Kvalue, octets_of (pack_f v))"
    using real.one_tag [OF v] by blast
  then have "well_nested 0 [x]" by simp
  with ack_value [OF assms(5,6), of 0 1 85 "[x]"] x real.decode_first [OF v, of "[]"] show ?thesis by auto
qed

lemma reading_crosses_wire_witness:
  "\<exists>octets ack. application_real (half 43) = Inr octets \<and> read_property_ack 9 0 1 85 octets = Inr ack
    \<and> read_property_value ack = Inr (Some octets) \<and> decode_application octets = Inr (PFloat (half 43))"
proof -
  have "get_property_real initial_device 389001 0 1 85 = Answer (half 43)"
    by (simp add: get_property_real_def initial_device_def)
  from reading_crosses_wire [OF loop_reaches.start initial_device_ok this, of 9] show ?thesis by simp
qed

end
